(* ===== verification/SOC_Prelude.thy ===== *)
theory SOC_Prelude
  imports Complex_Main "HOL-Library.Sublist"
begin

text \<open>
  Shared vocabulary of the development: the part of JavaScript that the SOC console
  (\<^verbatim>\<open>src/soc-frontend/src\<close>) uses.

  \<^item> Strings are \<^typ>\<open>string\<close>, so code units are restricted to Latin-1; glyphs outside it
    (icons in labels) are left out of the literals.
  \<^item> Numbers are \<^typ>\<open>nat\<close> or \<^typ>\<open>int\<close> where the code counts and \<^typ>\<open>rat\<close> where it
    compares scores; \<^verbatim>\<open>NaN\<close> is not a value of the model. Where the code rounds a computed
    percentage, the rounding of floating point is the argument \<open>fl\<close>.
  \<^item> \<^verbatim>\<open>undefined\<close> and \<^verbatim>\<open>null\<close> are \<^const>\<open>None\<close>.
  \<^item> What a handler asks of the browser (requests, dialogs, navigation, sockets, timers) is a
    list of \<open>effect\<close> values that it returns next to the new state.
\<close>

section \<open>Collections of facts\<close>

named_theorems js_simps \<open>library equations of the JavaScript operations\<close>
named_theorems hook_defs \<open>definitions of the shared hooks\<close>
named_theorems page_defs \<open>definitions of page handlers\<close>

section \<open>Strings\<close>

text \<open>White space of \<^verbatim>\<open>String.prototype.trim\<close> within Latin-1: TAB to CR, space, NBSP.\<close>

definition is_js_space :: "char \<Rightarrow> bool" where
  "is_js_space c = (let n = of_char c :: nat in (9 \<le> n \<and> n \<le> 13) \<or> n = 32 \<or> n = 160)"

definition js_trim :: "string \<Rightarrow> string" where
  "js_trim s = rev (dropWhile is_js_space (rev (dropWhile is_js_space s)))"

definition js_lower_char :: "char \<Rightarrow> char" where
  "js_lower_char c = (let n = of_char c :: nat in
     if (65 \<le> n \<and> n \<le> 90) \<or> (192 \<le> n \<and> n \<le> 222 \<and> n \<noteq> 215) then char_of (n + 32) else c)"

definition js_lower :: "string \<Rightarrow> string" where
  "js_lower s = map js_lower_char s"

definition js_upper_char :: "char \<Rightarrow> char" where
  "js_upper_char c = (let n = of_char c :: nat in if 97 \<le> n \<and> n \<le> 122 then char_of (n - 32) else c)"

definition js_upper :: "string \<Rightarrow> string" where
  "js_upper s = map js_upper_char s"

text \<open>\<^verbatim>\<open>s.includes(t)\<close> and \<^verbatim>\<open>s.startsWith(t)\<close>.\<close>

fun js_starts_with :: "string \<Rightarrow> string \<Rightarrow> bool" where
  "js_starts_with s [] = True"
| "js_starts_with [] (t # ts) = False"
| "js_starts_with (c # s) (t # ts) = (c = t \<and> js_starts_with s ts)"

fun js_includes :: "string \<Rightarrow> string \<Rightarrow> bool" where
  "js_includes [] t = (t = [])"
| "js_includes (c # s) t = (js_starts_with (c # s) t \<or> js_includes s t)"

text \<open>\<^verbatim>\<open>s.split(c)\<close> for a one-character separator, \<^verbatim>\<open>xs.join(sep)\<close> and
  \<^verbatim>\<open>s.replace(/c/g, d)\<close>.\<close>

fun js_split :: "char \<Rightarrow> string \<Rightarrow> string list" where
  "js_split d [] = [[]]"
| "js_split d (c # s) =
     (if c = d then [] # js_split d s
      else case js_split d s of [] \<Rightarrow> [[c]] | w # ws \<Rightarrow> (c # w) # ws)"

fun js_join :: "string \<Rightarrow> string list \<Rightarrow> string" where
  "js_join sep [] = []"
| "js_join sep [w] = w"
| "js_join sep (w # v # ws) = w @ sep @ js_join sep (v # ws)"

definition js_replace_char :: "char \<Rightarrow> char \<Rightarrow> string \<Rightarrow> string" where
  "js_replace_char a b s = map (\<lambda>c. if c = a then b else c) s"

abbreviation nl :: string where
  "nl \<equiv> [CHR 0x0A]"

text \<open>Decimal rendering of a count in a template literal.\<close>

fun nat_str :: "nat \<Rightarrow> string" where
  "nat_str n = (if n < 10 then [char_of (48 + n)] else nat_str (n div 10) @ [char_of (48 + n mod 10)])"

declare nat_str.simps [simp del]

definition int_str :: "int \<Rightarrow> string" where
  "int_str i = (if i < 0 then ''-'' @ nat_str (nat (- i)) else nat_str (nat i))"

text \<open>\<^verbatim>\<open>parseInt(s)\<close> in base ten; \<^verbatim>\<open>NaN\<close> is \<^const>\<open>None\<close>. The hexadecimal prefix is left out: the fields it is
  applied to are number inputs, which do not produce it.\<close>

definition is_digit :: "char \<Rightarrow> bool" where
  "is_digit c = (let n = of_char c :: nat in 48 \<le> n \<and> n \<le> 57)"

definition digits_value :: "string \<Rightarrow> nat" where
  "digits_value ds = foldl (\<lambda>a c. 10 * a + (of_char c - 48)) 0 ds"

definition js_parse_int :: "string \<Rightarrow> int option" where
  "js_parse_int s =
     (let t = dropWhile is_js_space s;
          u = (if t \<noteq> [] \<and> (hd t = CHR ''-'' \<or> hd t = CHR ''+'') then tl t else t);
          ds = takeWhile is_digit u;
          v = int (digits_value ds)
      in if ds = [] then None else Some (if hd t = CHR ''-'' then - v else v))"

lemma js_trim_Nil [simp]: "js_trim [] = []"
  by (simp add: js_trim_def)

lemma dropWhile_idem [simp]: "dropWhile P (dropWhile P xs) = dropWhile P xs"
  by (induction xs) auto

lemma dropWhile_rev_dropWhile:
  "dropWhile P (rev (dropWhile P (rev (dropWhile P xs)))) = rev (dropWhile P (rev (dropWhile P xs)))"
proof (cases "rev (dropWhile P (rev (dropWhile P xs)))")
  case Nil
  show ?thesis unfolding Nil by simp
next
  case (Cons y ys)
  have "prefix (rev (dropWhile P (rev (dropWhile P xs)))) (dropWhile P xs)"
    by (metis rev_rev_ident suffix_dropWhile suffix_to_prefix)
  then obtain zs where "dropWhile P xs = y # (ys @ zs)"
    unfolding Cons prefix_def by auto
  then have "\<not> P y"
    by (metis dropWhile_eq_Cons_conv)
  then show ?thesis using Cons by simp
qed

lemma js_trim_idem [simp]: "js_trim (js_trim s) = js_trim s"
  unfolding js_trim_def by (simp add: dropWhile_rev_dropWhile)

lemma js_starts_with_prefix [js_simps]: "js_starts_with s t = prefix t s"
  by (induction s t rule: js_starts_with.induct) auto

lemma js_includes_sublist [js_simps]: "js_includes s t = sublist t s"
proof (induction s)
  case Nil
  show ?case by (simp add: sublist_Nil_right)
next
  case (Cons c s)
  then show ?case by (auto simp: js_starts_with_prefix sublist_Cons_right)
qed

lemma js_includes_empty [simp]: "js_includes s []"
  by (simp add: js_includes_sublist)

lemma js_includes_self [simp]: "js_includes s s"
  by (simp add: js_includes_sublist)

lemma js_split_nonempty [simp]: "js_split d s \<noteq> []"
  by (induction s) (auto split: list.splits)

lemma js_join_Cons: "ws \<noteq> [] \<Longrightarrow> js_join sep (w # ws) = w @ sep @ js_join sep ws"
  by (cases ws) auto

lemma js_join_split [simp]: "js_join [d] (js_split d s) = s"
proof (induction s)
  case Nil
  show ?case by simp
next
  case (Cons c s)
  show ?case
  proof (cases "c = d")
    case True
    then show ?thesis using Cons by (simp add: js_join_Cons)
  next
    case False
    obtain w ws where w: "js_split d s = w # ws"
      by (cases "js_split d s") auto
    then show ?thesis using False Cons by (cases ws) auto
  qed
qed

lemma js_split_no_sep: "w \<in> set (js_split d s) \<Longrightarrow> d \<notin> set w"
proof (induction s arbitrary: w)
  case Nil
  then show ?case by simp
next
  case (Cons c s)
  then show ?case by (cases "js_split d s") (auto split: if_splits)
qed

lemma js_split_sep_free: "d \<notin> set s \<Longrightarrow> js_split d s = [s]"
  by (induction s) auto

lemma js_split_append: "d \<notin> set w \<Longrightarrow> js_split d (w @ d # s) = w # js_split d s"
  by (induction w) auto

lemma js_split_join: "ws \<noteq> [] \<Longrightarrow> (\<And>w. w \<in> set ws \<Longrightarrow> d \<notin> set w) \<Longrightarrow> js_split d (js_join [d] ws) = ws"
proof (induction ws)
  case (Cons w ws)
  then show ?case by (cases ws) (simp_all add: js_split_sep_free js_split_append)
qed simp

lemma set_js_join: "set (js_join sep ws) \<subseteq> set sep \<union> \<Union> (set ` set ws)"
  by (induction sep ws rule: js_join.induct) auto

lemma set_js_trim: "set (js_trim s) \<subseteq> set s"
proof
  fix c
  assume "c \<in> set (js_trim s)"
  then have "c \<in> set (rev (dropWhile is_js_space s))" unfolding js_trim_def by (metis set_dropWhileD set_rev)
  then show "c \<in> set s" by (metis set_dropWhileD set_rev)
qed

lemma js_includes_char: "js_includes s [c] \<longleftrightarrow> c \<in> set s"
  by (induction s) auto

lemma js_split_snoc: "js_split d (v @ [d]) = js_split d v @ [[]]"
  by (induction v) (auto split: list.splits)

section \<open>Optional values\<close>

definition or_else :: "'a option \<Rightarrow> 'a \<Rightarrow> 'a" where
  "or_else x d = (case x of Some v \<Rightarrow> v | None \<Rightarrow> d)"

text \<open>\<^verbatim>\<open>a || b\<close> on optional strings: the empty string counts as missing.\<close>

definition str_or :: "string option \<Rightarrow> string \<Rightarrow> string" where
  "str_or x d = (case x of Some v \<Rightarrow> if v = [] then d else v | None \<Rightarrow> d)"

section \<open>Arrays\<close>

text \<open>\<^verbatim>\<open>xs.slice(-n)\<close>, and \<^verbatim>\<open>xs.map(x => p(x) ? f(x) : x)\<close>.\<close>

definition take_last :: "nat \<Rightarrow> 'a list \<Rightarrow> 'a list" where
  "take_last n xs = drop (length xs - n) xs"

definition map_where :: "('a \<Rightarrow> bool) \<Rightarrow> ('a \<Rightarrow> 'a) \<Rightarrow> 'a list \<Rightarrow> 'a list" where
  "map_where p f xs = map (\<lambda>x. if p x then f x else x) xs"

text \<open>\<^verbatim>\<open>xs.sort((a, b) => k(b) - k(a))\<close>: the engine's sort is stable.\<close>

definition sort_desc :: "('a \<Rightarrow> 'k::{linorder,uminus}) \<Rightarrow> 'a list \<Rightarrow> 'a list" where
  "sort_desc k xs = sort_key (\<lambda>x. - k x) xs"

lemma length_take_last [simp]: "length (take_last n xs) = min n (length xs)"
  by (simp add: take_last_def)

lemma take_last_short [simp]: "length xs \<le> n \<Longrightarrow> take_last n xs = xs"
  by (simp add: take_last_def)

lemma take_last_append: "take_last n (take_last n xs @ ys) = take_last n (xs @ ys)"
proof (cases "length xs \<le> n")
  case True
  then show ?thesis by simp
next
  case False
  then show ?thesis by (auto simp: take_last_def min_def drop_append add.commute)
qed

lemma length_map_where [simp]: "length (map_where p f xs) = length xs"
  by (simp add: map_where_def)

lemma map_where_proj [simp]: "(\<And>x. g (f x) = g x) \<Longrightarrow> map g (map_where p f xs) = map g xs"
  by (simp add: map_where_def)

lemma map_where_id: "(\<And>x. x \<in> set xs \<Longrightarrow> p x \<Longrightarrow> f x = x) \<Longrightarrow> map_where p f xs = xs"
  by (induction xs) (auto simp: map_where_def)

lemma nth_map_where: "i < length xs \<Longrightarrow>
    map_where p f xs ! i = (if p (xs ! i) then f (xs ! i) else xs ! i)"
  by (simp add: map_where_def)

lemma set_sort_desc [simp]: "set (sort_desc k xs) = set xs"
  by (simp add: sort_desc_def)

lemma length_sort_desc [simp]: "length (sort_desc k xs) = length xs"
  by (simp add: sort_desc_def)

lemma distinct_map_sort_desc [simp]: "distinct (map g (sort_desc k xs)) = distinct (map g xs)"
  unfolding sort_desc_def distinct_map by (simp add: inj_on_def)

lemma sorted_sort_desc:
  fixes k :: "'a \<Rightarrow> 'k::linordered_idom"
  shows "sorted (map (\<lambda>x. - k x) (sort_desc k xs))"
  by (simp add: sort_desc_def)

lemma sort_desc_hd:
  fixes k :: "'a \<Rightarrow> 'k::linordered_idom"
  assumes "xs \<noteq> []"
  shows "hd (sort_desc k xs) \<in> set xs \<and> (\<forall>x \<in> set xs. k x \<le> k (hd (sort_desc k xs)))"
proof -
  let ?ys = "sort_desc k xs"
  have ne: "?ys \<noteq> []" using assms by (metis length_0_conv length_sort_desc)
  then obtain y ys where y: "?ys = y # ys" by (cases ?ys) auto
  have "\<forall>x \<in> set ?ys. k x \<le> k y"
    using sorted_sort_desc [of k xs] unfolding y by auto
  then have "\<forall>x \<in> set xs. k x \<le> k y" by simp
  moreover have "y \<in> set xs" using y set_sort_desc [of k xs] by auto
  ultimately show ?thesis using y by simp
qed

lemma find_SomeD: "find P xs = Some x \<Longrightarrow> x \<in> set xs \<and> P x"
  by (auto simp: find_Some_iff)

lemma list_ex_key: "list_ex (\<lambda>b. f b = k) xs = (k \<in> f ` set xs)"
  by (induction xs) auto

section \<open>The JavaScript Set\<close>

text \<open>
  A \<^verbatim>\<open>Set\<close> keeps insertion order (\<^verbatim>\<open>Array.from\<close> reads it), so it is a duplicate-free list.
  The contract of a set is the locale \<open>js_set_spec\<close>; the list operations implement it.
\<close>

type_synonym 'a js_set = "'a list"

definition set_has :: "'a \<Rightarrow> 'a js_set \<Rightarrow> bool" where
  "set_has x s = (x \<in> set s)"

definition set_add :: "'a \<Rightarrow> 'a js_set \<Rightarrow> 'a js_set" where
  "set_add x s = (if set_has x s then s else s @ [x])"

definition set_delete :: "'a \<Rightarrow> 'a js_set \<Rightarrow> 'a js_set" where
  "set_delete x s = filter (\<lambda>y. y \<noteq> x) s"

definition set_from :: "'a list \<Rightarrow> 'a js_set" where
  "set_from xs = foldl (\<lambda>s x. set_add x s) [] xs"

locale js_set_spec =
  fixes empty :: "'s"
    and add :: "'a \<Rightarrow> 's \<Rightarrow> 's"
    and remove :: "'a \<Rightarrow> 's \<Rightarrow> 's"
    and has :: "'a \<Rightarrow> 's \<Rightarrow> bool"
    and size_of :: "'s \<Rightarrow> nat"
    and elems :: "'s \<Rightarrow> 'a set"
    and wf :: "'s \<Rightarrow> bool"
  assumes elems_empty: "elems empty = {}"
    and elems_add: "wf s \<Longrightarrow> elems (add x s) = insert x (elems s)"
    and elems_remove: "wf s \<Longrightarrow> elems (remove x s) = elems s - {x}"
    and has_elems: "wf s \<Longrightarrow> has x s = (x \<in> elems s)"
    and size_elems: "wf s \<Longrightarrow> size_of s = card (elems s)"
    and wf_empty: "wf empty"
    and wf_add: "wf s \<Longrightarrow> wf (add x s)"
    and wf_remove: "wf s \<Longrightarrow> wf (remove x s)"
begin

text \<open>The toggle of a check box: every selection of the console is written this way.\<close>

definition toggle :: "'a \<Rightarrow> 's \<Rightarrow> 's" where
  "toggle x s = (if has x s then remove x s else add x s)"

lemma wf_toggle: "wf s \<Longrightarrow> wf (toggle x s)"
  by (simp add: toggle_def wf_add wf_remove)

lemma elems_toggle:
  "wf s \<Longrightarrow> elems (toggle x s) = (if x \<in> elems s then elems s - {x} else insert x (elems s))"
  by (simp add: toggle_def has_elems elems_add elems_remove)

lemma toggle_twice: "wf s \<Longrightarrow> elems (toggle x (toggle x s)) = elems s"
  by (auto simp: elems_toggle wf_toggle)

lemma toggle_other: "wf s \<Longrightarrow> y \<noteq> x \<Longrightarrow> has y (toggle x s) = has y s"
  by (simp add: has_elems wf_toggle elems_toggle)

end

interpretation js_list_set: js_set_spec "[]" set_add set_delete set_has length set distinct
  by unfold_locales
    (auto simp: set_add_def set_delete_def set_has_def distinct_card)

text \<open>The check box handler of every table: \<^verbatim>\<open>if (s.has(id)) s.delete(id); else s.add(id)\<close>.\<close>

definition set_toggle :: "'a \<Rightarrow> 'a js_set \<Rightarrow> 'a js_set" where
  "set_toggle x s = (if set_has x s then set_delete x s else set_add x s)"

lemma set_toggle_is_toggle: "set_toggle = js_list_set.toggle"
  by (intro ext) (simp add: set_toggle_def js_list_set.toggle_def)

lemma set_set_toggle: "distinct s \<Longrightarrow> set (set_toggle x s) = (if x \<in> set s then set s - {x} else insert x (set s))"
  by (simp add: set_toggle_is_toggle js_list_set.elems_toggle)

lemma distinct_set_toggle [simp]: "distinct s \<Longrightarrow> distinct (set_toggle x s)"
  by (simp add: set_toggle_is_toggle js_list_set.wf_toggle)

lemma foldl_set_add:
  "distinct s \<Longrightarrow> distinct (foldl (\<lambda>s x. set_add x s) s xs)
     \<and> set (foldl (\<lambda>s x. set_add x s) s xs) = set s \<union> set xs"
proof (induction xs arbitrary: s)
  case Nil
  then show ?case by simp
next
  case (Cons x xs)
  then show ?case using Cons.IH [of "set_add x s"]
    by (simp add: js_list_set.wf_add js_list_set.elems_add)
qed

lemma distinct_set_from [simp]: "distinct (set_from xs)"
  by (simp add: set_from_def foldl_set_add)

lemma set_set_from [simp]: "set (set_from xs) = set xs"
  by (simp add: set_from_def foldl_set_add)

lemma set_from_distinct: "distinct xs \<Longrightarrow> set_from xs = xs"
proof -
  have "distinct (s @ xs) \<Longrightarrow> foldl (\<lambda>s x. set_add x s) s xs = s @ xs" for s :: "'a list"
    by (induction xs arbitrary: s) (auto simp: set_add_def set_has_def)
  then show "distinct xs \<Longrightarrow> set_from xs = xs" by (simp add: set_from_def)
qed

lemma length_set_from [simp]: "length (set_from xs) = card (set xs)"
  using distinct_card [OF distinct_set_from, of xs] by simp

section \<open>Floating point\<close>

text \<open>The result of one arithmetic operation is the exact value rounded by \<open>fl\<close>. What the development uses of
  IEEE 754 double precision: rounding is monotone and keeps the integers up to \<open>2 ^ 53\<close>.\<close>

definition ieee :: "(rat \<Rightarrow> rat) \<Rightarrow> bool" where
  "ieee fl \<longleftrightarrow> (\<forall>x y. x \<le> y \<longrightarrow> fl x \<le> fl y) \<and> (\<forall>n. \<bar>n\<bar> \<le> 2 ^ 53 \<longrightarrow> fl (of_int n) = of_int n)"

text \<open>\<^verbatim>\<open>Math.round\<close>: halves go up.\<close>

definition js_round :: "rat \<Rightarrow> int" where
  "js_round x = \<lfloor>x + 1 / 2\<rfloor>"

text \<open>\<^verbatim>\<open>(a / b) * 100\<close>.\<close>

definition js_percent :: "(rat \<Rightarrow> rat) \<Rightarrow> nat \<Rightarrow> nat \<Rightarrow> rat" where
  "js_percent fl a b = fl (fl (of_nat a / of_nat b) * 100)"

lemma ieee_exact: "ieee (\<lambda>x. x)"
  by (simp add: ieee_def)

lemma ieee_between:
  assumes "ieee fl" and "of_int m \<le> x" and "x \<le> of_int n" and "\<bar>m\<bar> \<le> 2 ^ 53" and "\<bar>n\<bar> \<le> 2 ^ 53"
  shows "of_int m \<le> fl x" and "fl x \<le> of_int n"
  using assms unfolding ieee_def by metis+

lemma js_round_between: "of_int m \<le> x \<Longrightarrow> x \<le> of_int n \<Longrightarrow> m \<le> js_round x \<and> js_round x \<le> n"
  unfolding js_round_def by linarith

lemma js_percent_bounds:
  assumes "ieee fl" and "a \<le> b"
  shows "0 \<le> js_percent fl a b" and "js_percent fl a b \<le> 100"
proof -
  have q: "0 \<le> (of_nat a / of_nat b :: rat)" "(of_nat a / of_nat b :: rat) \<le> 1"
    using assms(2) by (auto simp: divide_le_eq)
  have "0 \<le> fl (of_nat a / of_nat b)" "fl (of_nat a / of_nat b) \<le> 1"
    using ieee_between [OF assms(1), of 0 _ 1] q by simp_all
  then show "0 \<le> js_percent fl a b" and "js_percent fl a b \<le> 100"
    unfolding js_percent_def using ieee_between [OF assms(1), of 0 _ 100] by simp_all
qed

lemma js_percent_all:
  assumes "ieee fl" and "0 < b"
  shows "js_percent fl b b = 100" and "js_percent fl 0 b = 0"
proof -
  have i: "fl (of_int n) = of_int n" if "\<bar>n\<bar> \<le> 2 ^ 53" for n using assms(1) that unfolding ieee_def by blast
  show "js_percent fl b b = 100" "js_percent fl 0 b = 0"
    using assms(2) i [of 1] i [of 100] i [of 0] by (simp_all add: js_percent_def)
qed

section \<open>JSON values\<close>

datatype json =
    JNull
  | JBool bool
  | JNum rat
  | JStr string
  | JArr "json list"
  | JObj "(string \<times> json) list"

text \<open>Property access \<^verbatim>\<open>v.k\<close>; a missing property is \<^verbatim>\<open>undefined\<close>. Later duplicates win, as in
  \<^verbatim>\<open>JSON.parse\<close>.\<close>

fun json_get :: "string \<Rightarrow> json \<Rightarrow> json option" where
  "json_get k (JObj fs) = map_of (rev fs) k"
| "json_get k _ = None"

fun json_truthy :: "json option \<Rightarrow> bool" where
  "json_truthy None = False"
| "json_truthy (Some JNull) = False"
| "json_truthy (Some (JBool b)) = b"
| "json_truthy (Some (JNum n)) = (n \<noteq> 0)"
| "json_truthy (Some (JStr s)) = (s \<noteq> [])"
| "json_truthy (Some _) = True"

fun json_str :: "json option \<Rightarrow> string option" where
  "json_str (Some (JStr s)) = Some s"
| "json_str _ = None"

section \<open>Requests, responses and effects\<close>

datatype http_method = GET | POST | PATCH | DELETE

text \<open>What \<^verbatim>\<open>axios\<close> rejects with: the response status if there was a response, the fields
  \<^verbatim>\<open>response.data.detail\<close> and \<^verbatim>\<open>response.data.message\<close>, and \<^verbatim>\<open>message\<close>.\<close>

record http_error =
  err_status :: "nat option"
  err_detail :: "string option"
  err_data_message :: "string option"
  err_message :: string

datatype 'a response = Resolved 'a | Rejected http_error

datatype effect =
    Request http_method string json
  | Alert string
  | Navigate string
  | NavigateBack
  | SetHref string
  | OpenSocket string
  | CloseSocket
  | SendSocket string
  | StartTimer nat
  | Clipboard string
  | ConsoleError string
  | LocalSet string string
  | LocalRemove string
  | Download string string

definition requests :: "effect list \<Rightarrow> (http_method \<times> string \<times> json) list" where
  "requests es = List.map_filter (\<lambda>e. case e of Request m u b \<Rightarrow> Some (m, u, b) | _ \<Rightarrow> None) es"

lemma requests_simps [simp]:
  "requests [] = []"
  "requests (Request m u b # es) = (m, u, b) # requests es"
  "requests (Alert t # es) = requests es"
  "requests (Navigate t # es) = requests es"
  "requests (NavigateBack # es) = requests es"
  "requests (SetHref t # es) = requests es"
  "requests (OpenSocket t # es) = requests es"
  "requests (CloseSocket # es) = requests es"
  "requests (SendSocket t # es) = requests es"
  "requests (StartTimer n # es) = requests es"
  "requests (Clipboard t # es) = requests es"
  "requests (ConsoleError t # es) = requests es"
  "requests (LocalSet t u # es) = requests es"
  "requests (LocalRemove t # es) = requests es"
  "requests (Download t u # es) = requests es"
  by (simp_all add: requests_def map_filter_def)

section \<open>Rendered controls\<close>

text \<open>
  The elements a component renders, reduced to what a user reads and operates: class names,
  styles, icons and ARIA attributes are left out. A message stands for the handler of the
  element. \<open>Button l d m\<close> has label \<open>l\<close>, is disabled when \<open>d\<close> and calls \<open>m\<close> on a click.
\<close>

datatype 'm view =
    Text string
  | Button string bool 'm
  | Input string bool "string \<Rightarrow> 'm"
  | Checkbox bool 'm
  | Select string "string list" "string \<Rightarrow> 'm"
  | Clickable 'm "'m view list"
  | Group string "'m view list"

fun clicks :: "'m view \<Rightarrow> 'm list" where
  "clicks (Text t) = []"
| "clicks (Button l d m) = (if d then [] else [m])"
| "clicks (Input v d h) = []"
| "clicks (Checkbox b m) = [m]"
| "clicks (Select v os h) = map h os"
| "clicks (Clickable m vs) = m # concat (map clicks vs)"
| "clicks (Group t vs) = concat (map clicks vs)"

abbreviation render_if :: "bool \<Rightarrow> 'm view \<Rightarrow> 'm view list" where
  "render_if b v \<equiv> (if b then [v] else [])"

text \<open>A component embedded in a page: its messages become messages of the page.\<close>

fun map_view :: "('m \<Rightarrow> 'n) \<Rightarrow> 'm view \<Rightarrow> 'n view" where
  "map_view f (Text t) = Text t"
| "map_view f (Button l d m) = Button l d (f m)"
| "map_view f (Input v d h) = Input v d (\<lambda>t. f (h t))"
| "map_view f (Checkbox b m) = Checkbox b (f m)"
| "map_view f (Select v os h) = Select v os (\<lambda>t. f (h t))"
| "map_view f (Clickable m vs) = Clickable (f m) (map (map_view f) vs)"
| "map_view f (Group t vs) = Group t (map (map_view f) vs)"

lemma clicks_map_view [simp]: "clicks (map_view f v) = map f (clicks v)"
  by (induction v) (simp_all add: map_concat comp_def cong: map_cong)

text \<open>The calls on the canvas context.\<close>

datatype canvas =
    BeginPath
  | Arc rat rat rat
  | FillStyle string
  | Fill
  | StrokeStyle string
  | LineWidth rat
  | LineDash "rat list"
  | Stroke
  | TextAlign string
  | TextBaseline string
  | Font bool rat
  | FillText string rat rat

section \<open>Component machines\<close>

text \<open>
  A component is a state machine: an initial state, the events that may happen in a state
  (a click that the rendering offers, a response, a timer) and the transition. Reachability is
  inductive; the locale \<open>machine_invariant\<close> is the interface through which a component
  exports an invariant.
\<close>

inductive reachable :: "'s \<Rightarrow> ('s \<Rightarrow> 'e \<Rightarrow> bool) \<Rightarrow> ('e \<Rightarrow> 's \<Rightarrow> 's) \<Rightarrow> 's \<Rightarrow> bool"
  for init enabled step where
  reach_init: "reachable init enabled step init"
| reach_step: "reachable init enabled step s \<Longrightarrow> enabled s e \<Longrightarrow> reachable init enabled step (step e s)"

lemma reachable_fold:
  assumes "reachable i en st s" and "en s e"
  shows "reachable i en st (st e s)"
  using assms by (rule reach_step)

locale machine_invariant =
  fixes init :: "'s"
    and enabled :: "'s \<Rightarrow> 'e \<Rightarrow> bool"
    and step :: "'e \<Rightarrow> 's \<Rightarrow> 's"
    and Inv :: "'s \<Rightarrow> bool"
  assumes inv_init: "Inv init"
    and inv_step: "Inv s \<Longrightarrow> enabled s e \<Longrightarrow> Inv (step e s)"
begin

lemma inv_reachable: "reachable init enabled step s \<Longrightarrow> Inv s"
  by (induction rule: reachable.induct) (auto intro: inv_init inv_step)

end

end
