(* ===== verification/SOC_Types.thy ===== *)
theory SOC_Types
  imports SOC_Prelude
begin

text \<open>
  The domain interfaces of \<^verbatim>\<open>types/index.ts\<close> and \<^verbatim>\<open>shared/types/index.ts\<close>, field by field and in
  the order of the source. A field name carries a prefix of its interface, because record fields
  are global. Optional fields and nullable fields are \<^typ>\<open>'a option\<close>; a union of string literals
  that code branches on is a datatype, one that is only displayed is a string.
\<close>

section \<open>Core platform\<close>

record alert =
  al_id :: string
  al_type :: string
  al_severity :: int

datatype risk = READ_ONLY | LOW_IMPACT_WRITE | HIGH_IMPACT_WRITE | DESTRUCTIVE

text \<open>The union lists the risks in ascending order; the order lets a guard be read as a threshold.\<close>

primrec risk_level :: "risk \<Rightarrow> nat" where
  "risk_level READ_ONLY = 0"
| "risk_level LOW_IMPACT_WRITE = 1"
| "risk_level HIGH_IMPACT_WRITE = 2"
| "risk_level DESTRUCTIVE = 3"

lemma risk_level_inj: "risk_level a = risk_level b \<longleftrightarrow> a = b"
  by (cases a; cases b) simp_all

instantiation risk :: linorder
begin

definition less_eq_risk :: "risk \<Rightarrow> risk \<Rightarrow> bool" where
  "less_eq_risk a b = (risk_level a \<le> risk_level b)"

definition less_risk :: "risk \<Rightarrow> risk \<Rightarrow> bool" where
  "less_risk a b = (risk_level a < risk_level b)"

instance
  by standard (auto simp: less_eq_risk_def less_risk_def risk_level_inj)

end

record action_info =
  ai_action :: string
  ai_target :: string
  ai_justification :: string
  ai_risk :: risk

record log_entry =
  le_agent :: string
  le_message :: string
  le_confidence :: rat

datatype node_status = Success | Running | Failed

record graph_node =
  gn_id :: string
  gn_label :: string
  gn_type :: "string option"
  gn_properties :: "string option"
  gn_status :: node_status

record graph_edge =
  ge_source_id :: string
  ge_target_id :: string
  ge_relation :: string

record investigation_data =
  id_nodes :: "graph_node list"
  id_edges :: "graph_edge list"
  id_source_ip :: "string option"
  id_conversation_log :: "log_entry list"
  id_proposed_actions :: "action_info list"

record playbook =
  pb_id :: string
  pb_name :: string
  pb_trigger :: string
  pb_code :: string

record system_metrics =
  sm_alertsScanned :: rat
  sm_eventsIngestGB24h :: rat
  sm_dataIngestTB24h :: rat
  sm_openIncidents :: rat
  sm_preventedEvents :: rat

datatype notification_severity = NInfo | NWarning | NCritical

record notification_item =
  ni_id :: string
  ni_message :: string
  ni_severity :: notification_severity
  ni_timestamp :: string
  ni_read :: bool

record analyst_identity =
  an_email :: string
  an_name :: string
  an_role :: string
  an_avatar_url :: "string option"

datatype connection_status = SConnecting | SLive | SReconnecting | SDisconnected

section \<open>Assets and vulnerabilities\<close>

datatype asset_type = Server | Workstation | Network_device | Cloud_resource
datatype asset_criticality = Tier1 | Tier2 | Tier3 | Untiered

record asset =
  at_id :: string
  at_hostname :: string
  at_ipAddress :: string
  at_type :: asset_type
  at_owner :: string
  at_criticality :: asset_criticality
  at_lastSeen :: string

record network_map_node =
  nm_id :: string
  nm_label :: string
  nm_type :: string
  nm_hasActiveAlert :: bool
  nm_x :: rat
  nm_y :: rat
  nm_subnet :: string

record network_map_edge =
  nm_source :: string
  nm_target :: string

datatype severity4 = Critical | High | Medium | Low
datatype patch_status = Unpatched | In_progress | Patched | Accepted_risk

record vulnerability =
  vu_id :: string
  vu_cveId :: string
  vu_affectedAsset :: string
  vu_affectedAssetId :: string
  vu_cvssScore :: rat
  vu_severity :: severity4
  vu_patchStatus :: patch_status
  vu_discoveredAt :: string
  vu_description :: string

section \<open>Detection\<close>

record detection_rule =
  dr_id :: string
  dr_name :: string
  dr_severity :: severity4
  dr_enabled :: bool
  dr_lastTriggered :: "string option"
  dr_isAutoResponse :: bool
  dr_description :: string

datatype feed_health = FeedHealthy | FeedDegraded | FeedDown

record threat_feed =
  tf_id :: string
  tf_name :: string
  tf_type :: string
  tf_health :: feed_health
  tf_lastSync :: string
  tf_iocVolume7d :: "rat list"
  tf_authFailed :: bool

datatype ioc_verdict = Malicious | Suspicious | Clean | Unknown

record ioc_result =
  ir_ioc :: string
  ir_type :: string
  ir_verdict :: ioc_verdict
  ir_sourceFeed :: string
  ir_confidence :: rat
  ir_lastSeen :: string

section \<open>Endpoints\<close>

datatype agent_health = Healthy | Stale | Outdated | Offline
datatype event_type = Process_exec | File_modification | Registry_change | Network_connection

record managed_host =
  mh_id :: string
  mh_hostname :: string
  mh_os :: string
  mh_agentVersion :: string
  mh_latestVersion :: string
  mh_health :: agent_health
  mh_lastCheckIn :: string

datatype audit_action = AuditIsolated | AuditReleased

record audit_entry =
  au_action :: audit_action
  au_by :: string
  au_at :: string
  au_justification :: string

record endpoint_host =
  eh_id :: string
  eh_hostname :: string
  eh_ipAddress :: string
  eh_isIsolated :: bool
  eh_isolatedAt :: "string option"
  eh_isolatedBy :: "string option"
  eh_auditTrail :: "audit_entry list"

record edr_log_entry =
  el_id :: string
  el_host :: string
  el_eventType :: event_type
  el_timestamp :: string
  el_process :: string
  el_detail :: string
  el_rawJson :: json
  el_isSuspicious :: bool

section \<open>Incidents\<close>

record incident =
  in_id :: string
  in_title :: string
  in_severity :: string
  in_status :: string
  in_createdAt :: string
  in_assignedTo :: string
  in_linkedAlerts :: nat

record closed_incident =
  ci_id :: string
  ci_title :: string
  ci_severity :: string
  ci_closedAt :: string
  ci_resolvedBy :: string
  ci_duration :: string
  ci_postIncidentSummary :: string

section \<open>Dashboards and marketplace\<close>

record kpi_data =
  kp_totalIncidents :: rat
  kp_mttd_minutes :: rat
  kp_mttr_minutes :: rat
  kp_criticalOpenCount :: rat
  kp_resolvedThisMonth :: rat
  kp_riskTrend :: "(string \<times> rat) list"
  kp_topThreats :: "(string \<times> rat) list"

datatype control_status = CtlPassed | CtlFailed | CtlWarning

record compliance_control =
  cc_id :: string
  cc_name :: string
  cc_status :: control_status
  cc_lastChecked :: string
  cc_notes :: "string option"

datatype framework_status = FwCompliant | FwWarning | FwNon_compliant

record compliance_framework =
  cf_id :: string
  cf_framework :: string
  cf_score :: rat
  cf_status :: framework_status
  cf_controls :: "compliance_control list"

datatype listing_status = Installed | Not_installed | Update_available

record marketplace_listing =
  ml_id :: string
  ml_name :: string
  ml_publisher :: string
  ml_category :: string
  ml_status :: listing_status
  ml_requiresElevated :: bool
  ml_tags :: "string list"
  ml_description :: string

section \<open>Users\<close>

record threat_intel_result =
  ti_source_ip :: string
  ti_alienvault_otx :: json
  ti_abuse_ch :: json
  ti_misp_correlation :: "bool option"
  ti_overall_risk_score :: "rat option"

record user =
  us_id :: string
  us_email :: string
  us_name :: string
  us_role :: string

record role =
  ro_name :: string
  ro_permissions :: "string list"

section \<open>JSON of requests\<close>

fun risk_str :: "risk \<Rightarrow> string" where
  "risk_str READ_ONLY = ''READ_ONLY''"
| "risk_str LOW_IMPACT_WRITE = ''LOW_IMPACT_WRITE''"
| "risk_str HIGH_IMPACT_WRITE = ''HIGH_IMPACT_WRITE''"
| "risk_str DESTRUCTIVE = ''DESTRUCTIVE''"

definition action_json :: "action_info \<Rightarrow> json" where
  "action_json a = JObj
     [(''action'', JStr (ai_action a)), (''target'', JStr (ai_target a)),
      (''justification'', JStr (ai_justification a)), (''risk'', JStr (risk_str (ai_risk a)))]"

lemma risk_str_inj: "risk_str r = risk_str r' \<Longrightarrow> r = r'"
  by (cases r; cases r') simp_all

lemma action_json_inj [simp]: "action_json a = action_json b \<longleftrightarrow> a = b"
  by (cases a; cases b) (auto simp: action_json_def dest: risk_str_inj)

end
