(* ===== verification/Shared_Hooks.thy ===== *)
theory Shared_Hooks
  imports SOC_Prelude
begin

text \<open>
  The hooks every page is built on (\<^verbatim>\<open>shared/hooks\<close>, \<^verbatim>\<open>hooks\<close>):

  \<^item> \<^verbatim>\<open>useAsyncState\<close> and \<^verbatim>\<open>useSystemMetrics\<close>: loaders with data, a loading flag and an error;
  \<^item> \<^verbatim>\<open>usePolling\<close>: a request that re-arms a timer until it is unmounted;
  \<^item> \<^verbatim>\<open>useWebSocketStream\<close>: a socket that reconnects with exponential backoff;
  \<^item> \<^verbatim>\<open>useInvestigationStream\<close>: a socket that fills a ring buffer of 1000 log lines.

  An asynchronous function is split at its \<^verbatim>\<open>await\<close>: \<open>..._start\<close> is the part before it and
  \<open>..._settle\<close> what runs when the promise settles. Any interleaving of such steps is a history.
  The contracts the pages rely on are the locales \<open>async_loader\<close> and \<open>bounded_log\<close>.
\<close>

section \<open>useAsyncState\<close>

record 'a async_state =
  as_data :: "'a option"
  as_loading :: bool
  as_error :: "string option"

definition useAsyncState :: "'a async_state" where
  "useAsyncState = \<lparr>as_data = None, as_loading = True, as_error = None\<rparr>"

definition execute_start :: "'a async_state \<Rightarrow> 'a async_state" where
  "execute_start s = s\<lparr>as_loading := True, as_error := None\<rparr>"

definition error_or :: "string \<Rightarrow> string \<Rightarrow> string" where
  "error_or m d = (if m = [] then d else m)"

definition execute_settle :: "'a response \<Rightarrow> 'a async_state \<Rightarrow> 'a async_state" where
  "execute_settle r s =
     (case r of
        Resolved x \<Rightarrow> s\<lparr>as_data := Some x\<rparr>
      | Rejected e \<Rightarrow> s\<lparr>as_error := Some (error_or (err_message e) ''An error occurred'')\<rparr>)\<lparr>as_loading := False\<rparr>"

definition setData :: "'a \<Rightarrow> 'a async_state \<Rightarrow> 'a async_state" where
  "setData x s = s\<lparr>as_data := Some x\<rparr>"

datatype 'a async_event = ExecStart | ExecSettle "'a response"

primrec async_step :: "'a async_event \<Rightarrow> 'a async_state \<Rightarrow> 'a async_state" where
  "async_step ExecStart s = execute_start s"
| "async_step (ExecSettle r) s = execute_settle r s"

text \<open>The number of calls of \<^verbatim>\<open>execute\<close> whose promise has not settled after a history.\<close>

primrec in_flight :: "'a async_event list \<Rightarrow> int" where
  "in_flight [] = 0"
| "in_flight (e # es) = in_flight es + (case e of ExecStart \<Rightarrow> 1 | ExecSettle r \<Rightarrow> - 1)"

section \<open>useSystemMetrics\<close>

record 'a metrics_state =
  ms_metrics :: "'a option"
  ms_loading :: bool
  ms_error :: "string option"

definition useSystemMetrics :: "'a metrics_state" where
  "useSystemMetrics = \<lparr>ms_metrics = None, ms_loading = True, ms_error = None\<rparr>"

definition fetchMetrics_start :: "'a metrics_state \<Rightarrow> 'a metrics_state \<times> effect list" where
  "fetchMetrics_start s = (s\<lparr>ms_error := None\<rparr>, [Request GET ''/metrics/overview'' JNull])"

definition fetchMetrics_settle :: "'a response \<Rightarrow> 'a metrics_state \<Rightarrow> 'a metrics_state" where
  "fetchMetrics_settle r s =
     (case r of
        Resolved m \<Rightarrow> s\<lparr>ms_metrics := Some m\<rparr>
      | Rejected e \<Rightarrow> s\<lparr>ms_error := Some ''Failed to load system metrics.''\<rparr>)\<lparr>ms_loading := False\<rparr>"

section \<open>usePolling\<close>

text \<open>
  One run of the effect of \<^verbatim>\<open>usePolling\<close>. \<open>po_inflight\<close>: a call of \<^verbatim>\<open>poll\<close> waits for its
  response; \<open>po_timer\<close>: the delay of the pending \<^verbatim>\<open>setTimeout(poll, \<dots>)\<close>; \<open>po_aborted\<close>: the
  clean-up has run, \<open>po_data\<close> and \<open>po_errors\<close> collect what the callbacks were given and
  \<open>po_polls\<close> counts the requests.
\<close>

record 'a poll_state =
  po_inflight :: bool
  po_timer :: "nat option"
  po_aborted :: bool
  po_data :: "'a list"
  po_errors :: "http_error list"
  po_polls :: nat

datatype 'a poll_event = PollOk 'a | PollCanceled | PollError http_error | PollTimer | PollUnmount

definition poll_start :: "'a poll_state \<Rightarrow> 'a poll_state" where
  "poll_start s = s\<lparr>po_inflight := True, po_timer := None, po_polls := Suc (po_polls s)\<rparr>"

definition usePolling :: "'a poll_state" where
  "usePolling = poll_start
     \<lparr>po_inflight = False, po_timer = None, po_aborted = False, po_data = [], po_errors = [], po_polls = 0\<rparr>"

primrec poll_step :: "nat \<Rightarrow> 'a poll_event \<Rightarrow> 'a poll_state \<Rightarrow> 'a poll_state" where
  "poll_step ms (PollOk d) s =
     s\<lparr>po_inflight := False, po_data := po_data s @ [d], po_timer := Some ms\<rparr>"
| "poll_step ms PollCanceled s = s\<lparr>po_inflight := False\<rparr>"
| "poll_step ms (PollError e) s =
     s\<lparr>po_inflight := False, po_errors := po_errors s @ [e], po_timer := Some ms\<rparr>"
| "poll_step ms PollTimer s = poll_start s"
| "poll_step ms PollUnmount s = s\<lparr>po_aborted := True, po_timer := None\<rparr>"

text \<open>When an event can happen. The HTTP client rejects an aborted request with
  \<^verbatim>\<open>CanceledError\<close>, and only an aborted one.\<close>

primrec poll_enabled :: "'a poll_state \<Rightarrow> 'a poll_event \<Rightarrow> bool" where
  "poll_enabled s (PollOk d) = (po_inflight s \<and> \<not> po_aborted s)"
| "poll_enabled s PollCanceled = (po_inflight s \<and> po_aborted s)"
| "poll_enabled s (PollError e) = (po_inflight s \<and> \<not> po_aborted s)"
| "poll_enabled s PollTimer = (po_timer s \<noteq> None)"
| "poll_enabled s PollUnmount = (\<not> po_aborted s)"

definition poll_inv :: "'a poll_state \<Rightarrow> bool" where
  "poll_inv s = (if po_aborted s then po_timer s = None else po_inflight s = (po_timer s = None))"

section \<open>useWebSocketStream\<close>

datatype ready_state = CONNECTING | OPEN | CLOSING

text \<open>\<open>wss_socket\<close> is the socket that has not fired \<^verbatim>\<open>onclose\<close> yet, \<open>wss_timer\<close> the delay of the
  pending reconnection and \<open>wss_opened\<close> counts the sockets created.\<close>

record ws_stream =
  wss_connected :: bool
  wss_retry :: nat
  wss_socket :: "ready_state option"
  wss_timer :: "nat option"
  wss_mounted :: bool
  wss_opened :: nat

datatype ws_event = WsOpen | WsMessage string | WsClose | WsTimer | WsUnmount

definition ws_connect :: "ws_stream \<Rightarrow> ws_stream" where
  "ws_connect s = s\<lparr>wss_socket := Some CONNECTING, wss_timer := None, wss_opened := Suc (wss_opened s)\<rparr>"

definition ws_backoff :: "nat \<Rightarrow> nat" where
  "ws_backoff retry = min (1000 * 2 ^ retry) 30000"

definition ws_onopen :: "ws_stream \<Rightarrow> ws_stream" where
  "ws_onopen s = s\<lparr>wss_socket := Some OPEN, wss_connected := True, wss_retry := 0\<rparr>"

definition ws_onclose :: "ws_stream \<Rightarrow> ws_stream" where
  "ws_onclose s = s\<lparr>wss_socket := None, wss_connected := False,
     wss_retry := wss_retry s + 1, wss_timer := Some (ws_backoff (wss_retry s))\<rparr>"

definition ws_cleanup :: "ws_stream \<Rightarrow> ws_stream" where
  "ws_cleanup s = s\<lparr>wss_timer := None, wss_mounted := False,
     wss_socket := map_option (\<lambda>_. CLOSING) (wss_socket s)\<rparr>"

definition useWebSocketStream :: ws_stream where
  "useWebSocketStream = ws_connect
     \<lparr>wss_connected = False, wss_retry = 0, wss_socket = None, wss_timer = None, wss_mounted = True, wss_opened = 0\<rparr>"

primrec ws_step :: "ws_event \<Rightarrow> ws_stream \<Rightarrow> ws_stream" where
  "ws_step WsOpen s = ws_onopen s"
| "ws_step (WsMessage d) s = s"
| "ws_step WsClose s = ws_onclose s"
| "ws_step WsTimer s = ws_connect s"
| "ws_step WsUnmount s = ws_cleanup s"

text \<open>The browser opens a connecting socket, delivers messages on an open one, and fires
  \<^verbatim>\<open>onclose\<close> once for every socket.\<close>

primrec ws_enabled :: "ws_stream \<Rightarrow> ws_event \<Rightarrow> bool" where
  "ws_enabled s WsOpen = (wss_socket s = Some CONNECTING)"
| "ws_enabled s (WsMessage d) = (wss_socket s = Some OPEN)"
| "ws_enabled s WsClose = (wss_socket s \<noteq> None)"
| "ws_enabled s WsTimer = (wss_timer s \<noteq> None)"
| "ws_enabled s WsUnmount = wss_mounted s"

text \<open>
  \<^verbatim>\<open>ws.onmessage\<close>. The page's callback gets the parsed document, or the raw text when
  \<^verbatim>\<open>JSON.parse\<close> throws. The callback runs inside the \<^verbatim>\<open>try\<close>, so it is called again
  with the raw text when it throws itself; its second component says that it threw.
\<close>

datatype message = Parsed json | Raw string

definition ws_onmessage ::
  "(string \<Rightarrow> json option) \<Rightarrow> (message \<Rightarrow> 's \<Rightarrow> 's \<times> bool) \<Rightarrow> string \<Rightarrow> 's \<Rightarrow> 's" where
  "ws_onmessage json_parse onMessage d s =
     (case json_parse d of
        None \<Rightarrow> fst (onMessage (Raw d) s)
      | Some j \<Rightarrow>
          (let (s', threw) = onMessage (Parsed j) s
           in if threw then fst (onMessage (Raw d) s') else s'))"

definition ws_inv :: "ws_stream \<Rightarrow> bool" where
  "ws_inv s = (((wss_socket s = None) = (wss_timer s \<noteq> None) \<or> \<not> wss_mounted s)
     \<and> (wss_socket s \<noteq> None \<longrightarrow> wss_timer s = None)
     \<and> (\<forall>d. wss_timer s = Some d \<longrightarrow> 1000 \<le> d \<and> d \<le> 30000 \<and> d = ws_backoff (wss_retry s - 1) \<and> 0 < wss_retry s)
     \<and> (wss_connected s \<longrightarrow> wss_socket s = Some OPEN \<or> \<not> wss_mounted s)
     \<and> 0 < wss_opened s)"

section \<open>useInvestigationStream\<close>

record inv_stream =
  is_logs :: "string list"
  is_connected :: bool
  is_socket :: "ready_state option"

definition useInvestigationStream :: inv_stream where
  "useInvestigationStream = \<lparr>is_logs = [], is_connected = False, is_socket = None\<rparr>"

definition stream_url :: "bool \<Rightarrow> string \<Rightarrow> string \<Rightarrow> string" where
  "stream_url https host i =
     (if https then ''wss:'' else ''ws:'') @ ''//'' @ host @ ''/api/investigations/'' @ i @ ''/stream''"

text \<open>The effect runs when \<^verbatim>\<open>investigationId\<close> changes; it does nothing for \<^verbatim>\<open>null\<close> or \<^verbatim>\<open>''\<close>.\<close>

definition stream_effect :: "bool \<Rightarrow> string \<Rightarrow> string option \<Rightarrow> inv_stream \<Rightarrow> inv_stream \<times> effect list" where
  "stream_effect https host oid s =
     (case oid of
        None \<Rightarrow> (s, [])
      | Some i \<Rightarrow> if i = [] then (s, [])
          else (s\<lparr>is_socket := Some CONNECTING\<rparr>, [OpenSocket (stream_url https host i)]))"

definition stream_onopen :: "inv_stream \<Rightarrow> inv_stream" where
  "stream_onopen s = s\<lparr>is_socket := Some OPEN, is_connected := True\<rparr>"

definition push_log :: "'a \<Rightarrow> 'a list \<Rightarrow> 'a list" where
  "push_log x prev = (let updated = prev @ [x] in
     if 1000 < length updated then drop (length updated - 1000) updated else updated)"

definition stream_onmessage :: "string \<Rightarrow> inv_stream \<Rightarrow> inv_stream" where
  "stream_onmessage d s = s\<lparr>is_logs := push_log d (is_logs s)\<rparr>"

definition stream_onerror :: "inv_stream \<Rightarrow> inv_stream" where
  "stream_onerror s = s\<lparr>is_connected := False\<rparr>"

definition stream_onclose :: "inv_stream \<Rightarrow> inv_stream" where
  "stream_onclose s = s\<lparr>is_socket := None, is_connected := False\<rparr>"

definition stream_cleanup :: "inv_stream \<Rightarrow> inv_stream \<times> effect list" where
  "stream_cleanup s =
     (if is_socket s = Some OPEN then (s\<lparr>is_socket := Some CLOSING\<rparr>, [CloseSocket]) else (s, []))"

lemmas shared_hook_defs [hook_defs] = useAsyncState_def execute_start_def execute_settle_def setData_def
  useSystemMetrics_def fetchMetrics_start_def fetchMetrics_settle_def
  usePolling_def poll_start_def
  ws_connect_def ws_onopen_def ws_onclose_def ws_cleanup_def useWebSocketStream_def
  useInvestigationStream_def stream_effect_def stream_onopen_def stream_onmessage_def
  stream_onerror_def stream_onclose_def stream_cleanup_def

section \<open>Interfaces\<close>

text \<open>
  What a page relies on in a loader: a settled load is visible as data or as an error, the
  loading flag falls, and a failure keeps the data of the last success.
\<close>

locale async_loader =
  fixes start :: "'s \<Rightarrow> 's"
    and settle :: "'a response \<Rightarrow> 's \<Rightarrow> 's"
    and data_of :: "'s \<Rightarrow> 'a option"
    and loading_of :: "'s \<Rightarrow> bool"
    and error_of :: "'s \<Rightarrow> string option"
  assumes start_clears: "error_of (start s) = None"
    and start_data: "data_of (start s) = data_of s"
    and settle_loading: "\<not> loading_of (settle r s)"
    and settle_ok: "data_of (settle (Resolved x) s) = Some x \<and> error_of (settle (Resolved x) s) = error_of s"
    and settle_fail: "data_of (settle (Rejected e) s) = data_of s \<and> error_of (settle (Rejected e) s) \<noteq> None"
begin

definition load :: "'a response \<Rightarrow> 's \<Rightarrow> 's" where
  "load r s = settle r (start s)"

lemma load_outcome:
  "\<not> loading_of (load r s)
   \<and> (case r of Resolved x \<Rightarrow> data_of (load r s) = Some x \<and> error_of (load r s) = None
        | Rejected e \<Rightarrow> data_of (load r s) = data_of s \<and> error_of (load r s) \<noteq> None)"
  by (cases r) (simp_all add: load_def settle_loading settle_ok settle_fail start_clears start_data)

lemma loads_data:
  "data_of (fold load rs s)
     = fold (\<lambda>r d. case r of Resolved x \<Rightarrow> Some x | Rejected e \<Rightarrow> d) rs (data_of s)"
proof (induction rs arbitrary: s)
  case Nil
  show ?case by simp
next
  case (Cons r rs)
  have "data_of (load r s) = (case r of Resolved x \<Rightarrow> Some x | Rejected e \<Rightarrow> data_of s)"
    using load_outcome [of r s] by (cases r) auto
  then show ?case by (simp add: Cons)
qed

end

interpretation async_hook: async_loader execute_start execute_settle as_data as_loading as_error
  by unfold_locales (simp_all add: hook_defs)

interpretation metrics_hook: async_loader "\<lambda>s. fst (fetchMetrics_start s)" fetchMetrics_settle
    ms_metrics ms_loading ms_error
  by unfold_locales (simp_all add: hook_defs)

text \<open>
  A list of records with a key that is filled by a stream and emptied by acknowledgements. What its readers rely on: a
  record is accepted when its key is new, and removing a key removes exactly its record. The list then implements a
  finite map from keys to records.
\<close>

locale keyed_queue =
  fixes key :: "'a \<Rightarrow> 'k"
    and ok :: "'a \<Rightarrow> bool"
    and add :: "'a \<Rightarrow> 'a list \<Rightarrow> 'a list"
    and remove :: "'k \<Rightarrow> 'a list \<Rightarrow> 'a list"
  assumes set_add: "set (add x xs) = (if ok x \<and> key x \<notin> key ` set xs then insert x (set xs) else set xs)"
    and distinct_add: "distinct (map key xs) \<Longrightarrow> distinct (map key (add x xs))"
    and set_remove: "set (remove k xs) = {x \<in> set xs. key x \<noteq> k}"
    and distinct_remove: "distinct (map key xs) \<Longrightarrow> distinct (map key (remove k xs))"
begin

definition as_map :: "'a list \<Rightarrow> 'k \<rightharpoonup> 'a" where
  "as_map xs = map_of (map (\<lambda>x. (key x, x)) xs)"

lemma as_map_Some: "distinct (map key xs) \<Longrightarrow> as_map xs k = Some x \<longleftrightarrow> x \<in> set xs \<and> key x = k"
  unfolding as_map_def by (subst map_of_eq_Some_iff) (auto simp: comp_def)

lemma as_map_None: "as_map xs k = None \<longleftrightarrow> k \<notin> key ` set xs"
  unfolding as_map_def by (auto simp: map_of_eq_None_iff image_image)

lemma map_eqI: "(\<And>k x. m k = Some x \<longleftrightarrow> n k = Some x) \<Longrightarrow> m = n"
  by (rule ext) (metis option.exhaust)

lemma as_map_add:
  assumes "distinct (map key xs)"
  shows "as_map (add x xs) = (if ok x \<and> as_map xs (key x) = None then (as_map xs)(key x \<mapsto> x) else as_map xs)"
proof (rule map_eqI)
  fix k y
  show "as_map (add x xs) k = Some y \<longleftrightarrow>
      (if ok x \<and> as_map xs (key x) = None then (as_map xs)(key x \<mapsto> x) else as_map xs) k = Some y"
    using as_map_Some [OF distinct_add [OF assms], of x k y] as_map_Some [OF assms, of k y] as_map_None [of xs "key x"]
    by (auto simp: set_add image_iff)
qed

lemma as_map_remove:
  assumes "distinct (map key xs)"
  shows "as_map (remove k xs) = (as_map xs)(k := None)"
proof (rule map_eqI)
  fix j y
  show "as_map (remove k xs) j = Some y \<longleftrightarrow> ((as_map xs)(k := None)) j = Some y"
    using as_map_Some [OF distinct_remove [OF assms], of k j y] as_map_Some [OF assms, of j y] by (auto simp: set_remove)
qed

end

text \<open>
  A log that keeps its newest \<open>cap\<close> entries. \<open>newest\<close> reads it newest first, whichever end
  the code adds at; the batched form gives the one that adds a single entry.
\<close>

locale bounded_log =
  fixes cap :: nat
    and newest :: "'s \<Rightarrow> 'a list"
    and push :: "'a \<Rightarrow> 's \<Rightarrow> 's"
  assumes newest_push: "newest (push x s) = take cap (x # newest s)"
begin

lemma newest_pushes: "length (newest s) \<le> cap \<Longrightarrow> newest (fold push xs s) = take cap (rev xs @ newest s)"
proof (induction xs arbitrary: s)
  case Nil
  then show ?case by simp
next
  case (Cons x xs)
  have "length (newest (push x s)) \<le> cap" by (simp add: newest_push)
  then have "newest (fold push xs (push x s)) = take cap (rev xs @ take cap (x # newest s))"
    using Cons.IH by (simp add: newest_push)
  also have "\<dots> = take cap (rev xs @ x # newest s)" by (simp add: min_def)
  finally show ?case by simp
qed

lemma bounded_pushes: "length (newest s) \<le> cap \<Longrightarrow> length (newest (fold push xs s)) \<le> cap"
  by (simp add: newest_pushes)

end

locale bounded_batch_log =
  fixes cap :: nat
    and newest :: "'s \<Rightarrow> 'a list"
    and push_all :: "'a list \<Rightarrow> 's \<Rightarrow> 's"
  assumes newest_push_all: "newest (push_all xs s) = take cap (rev xs @ newest s)"
begin

lemma newest_batches:
  "length (newest s) \<le> cap \<Longrightarrow> newest (fold push_all xss s) = take cap (rev (concat xss) @ newest s)"
proof (induction xss arbitrary: s)
  case Nil
  then show ?case by simp
next
  case (Cons xs xss)
  have "length (newest (push_all xs s)) \<le> cap" by (simp add: newest_push_all)
  then show ?case using Cons.IH by (simp add: newest_push_all min_def)
qed

end

sublocale bounded_batch_log \<subseteq> single: bounded_log cap newest "\<lambda>x. push_all [x]"
  by unfold_locales (simp add: newest_push_all)

lemma push_log_take_last: "push_log x prev = take_last 1000 (prev @ [x])"
  by (simp add: push_log_def take_last_def Let_def)

lemma rev_take_last: "rev (take_last n xs) = take n (rev xs)"
  by (cases "n \<le> length xs") (simp_all add: take_last_def rev_drop)

interpretation ring_buffer: bounded_log 1000 rev push_log
  by unfold_locales (simp add: push_log_take_last rev_take_last)

section \<open>Histories of a loader\<close>

text \<open>What a history says about the state, read off the history alone: the last successful
  response, the last failure since the last call, and whether the last event was a call.\<close>

definition last_resolved :: "'a async_event list \<Rightarrow> 'a option" where
  "last_resolved es = fold (\<lambda>e d. case e of ExecSettle (Resolved x) \<Rightarrow> Some x | _ \<Rightarrow> d) es None"

definition current_error :: "'a async_event list \<Rightarrow> string option" where
  "current_error es =
     fold (\<lambda>e d. case e of ExecStart \<Rightarrow> None
        | ExecSettle (Rejected x) \<Rightarrow> Some (error_or (err_message x) ''An error occurred'')
        | ExecSettle (Resolved x) \<Rightarrow> d) es None"

lemma async_run_snoc:
  "fold async_step es useAsyncState =
     \<lparr>as_data = last_resolved es, as_loading = (es = [] \<or> last es = ExecStart), as_error = current_error es\<rparr>"
proof (induction es rule: rev_induct)
  case Nil
  show ?case by (simp add: useAsyncState_def last_resolved_def current_error_def)
next
  case (snoc e es)
  then show ?case
    by (simp add: last_resolved_def current_error_def execute_start_def execute_settle_def
        split: async_event.splits response.splits)
qed

lemma in_flight_append [simp]: "in_flight (es @ fs) = in_flight es + in_flight fs"
  by (induction es) auto

lemma error_or_nonempty [simp]: "d \<noteq> [] \<Longrightarrow> error_or m d \<noteq> []"
  by (simp add: error_or_def)

section \<open>Invariants of the polling and socket machines\<close>

interpretation poll_machine: machine_invariant usePolling poll_enabled "poll_step ms"
    "\<lambda>s. poll_inv s \<and> (\<not> po_aborted s \<longrightarrow>
        po_polls s = length (po_data s) + length (po_errors s) + of_bool (po_inflight s))"
proof (unfold_locales, goal_cases)
  case 1
  show ?case by (simp add: poll_inv_def hook_defs)
next
  case (2 s e)
  then show ?case by (cases e) (auto simp: poll_inv_def poll_start_def split: if_splits)
qed

lemma poll_after_unmount:
  assumes "reachable s0 poll_enabled (poll_step ms) s" and "po_aborted s0" and "po_timer s0 = None"
  shows "po_aborted s \<and> po_timer s = None \<and> po_data s = po_data s0 \<and> po_errors s = po_errors s0
    \<and> po_polls s = po_polls s0"
  using assms
proof (induction rule: reachable.induct)
  case reach_init
  then show ?case by simp
next
  case (reach_step s e)
  then show ?case by (cases e) auto
qed

lemma ws_backoff_ge: "1000 \<le> ws_backoff n"
  by (simp add: ws_backoff_def)

lemma ws_backoff_le: "ws_backoff n \<le> 30000"
  by (simp add: ws_backoff_def)

lemma ws_backoff_saturates: "5 \<le> n \<Longrightarrow> ws_backoff n = 30000"
proof -
  assume "5 \<le> n"
  then have "(2::nat) ^ 5 \<le> 2 ^ n" by (intro power_increasing) auto
  then show ?thesis by (simp add: ws_backoff_def)
qed

interpretation ws_machine: machine_invariant useWebSocketStream ws_enabled ws_step ws_inv
proof (unfold_locales, goal_cases)
  case 1
  show ?case by (simp add: ws_inv_def hook_defs)
next
  case (2 s e)
  then show ?case
    by (cases e) (auto simp: ws_inv_def hook_defs ws_backoff_ge ws_backoff_le)
qed

section \<open>Properties\<close>


text \<open>Overlapping loads are not ordered: when the answer to an older call arrives last it replaces
  the newer one, and the loading flag is already down while a call is still in flight.\<close>

theorem async_state_race:
  "as_data (fold async_step
      [ExecStart, ExecStart, ExecSettle (Resolved newer), ExecSettle (Resolved older)] useAsyncState) = Some older
   \<and> in_flight [ExecStart, ExecStart, ExecSettle (Resolved newer)] = 1
   \<and> \<not> as_loading (fold async_step [ExecStart, ExecStart, ExecSettle (Resolved newer)] useAsyncState)"
  by (simp add: hook_defs)

text \<open>C15. While it is mounted, \<^verbatim>\<open>usePolling\<close> has either a request in flight or a timer running, never
  both and never neither, and each finished request was delivered to exactly one callback.\<close>

theorem polling_never_stalls:
  assumes "reachable usePolling poll_enabled (poll_step ms) s" and "\<not> po_aborted s"
  shows "po_inflight s = (po_timer s = None)
    \<and> po_polls s = length (po_data s) + length (po_errors s) + of_bool (po_inflight s)"
  using poll_machine.inv_reachable [OF assms(1)] assms(2) by (auto simp: poll_inv_def)

theorem polling_never_stalls_witness:
  "po_timer (poll_step 5000 (PollOk (7::nat)) usePolling) \<noteq> None"
proof -
  have r: "reachable usePolling poll_enabled (poll_step 5000) (poll_step 5000 (PollOk (7::nat)) usePolling)"
    by (rule reach_step [OF reach_init]) (simp add: hook_defs)
  show ?thesis using polling_never_stalls [OF r] by (simp add: hook_defs)
qed

text \<open>C35. After the clean-up of \<^verbatim>\<open>usePolling\<close> nothing happens any more: whatever the pending promise
  does, no further request is sent and no callback is called.\<close>

theorem polling_stops_on_unmount:
  assumes "reachable usePolling poll_enabled (poll_step ms) s" and "poll_enabled s PollUnmount"
    and "reachable (poll_step ms PollUnmount s) poll_enabled (poll_step ms) t"
  shows "po_data t = po_data s \<and> po_errors t = po_errors s \<and> po_polls t = po_polls s \<and> po_timer t = None"
  using poll_after_unmount [OF assms(3)] by simp

theorem polling_stops_on_unmount_witness:
  "po_polls (poll_step 5000 PollCanceled (poll_step 5000 PollUnmount (usePolling :: nat poll_state))) = 1"
proof -
  let ?s = "usePolling :: nat poll_state"
  have r: "reachable (poll_step 5000 PollUnmount ?s) poll_enabled (poll_step 5000)
      (poll_step 5000 PollCanceled (poll_step 5000 PollUnmount ?s))"
    by (rule reach_step [OF reach_init]) (simp add: hook_defs)
  have e: "poll_enabled ?s PollUnmount" by (simp add: hook_defs)
  have "po_polls (poll_step 5000 PollCanceled (poll_step 5000 PollUnmount ?s)) = po_polls ?s"
    using polling_stops_on_unmount [OF reach_init e r] by blast
  then show ?thesis by (simp add: hook_defs)
qed

text \<open>C16. A mounted \<^verbatim>\<open>useWebSocketStream\<close> always has either a socket or a pending reconnection, and the
  delay of a reconnection is between one and thirty seconds, doubling with each failed attempt
  until it reaches the bound at the sixth.\<close>

theorem socket_reconnects:
  assumes "reachable useWebSocketStream ws_enabled ws_step s" and "wss_mounted s"
  shows "(wss_socket s = None) = (wss_timer s \<noteq> None)
    \<and> (\<forall>d. wss_timer s = Some d \<longrightarrow> 1000 \<le> d \<and> d \<le> 30000
        \<and> d = (if wss_retry s \<le> 5 then 1000 * 2 ^ (wss_retry s - 1) else 30000))"
proof -
  have inv: "ws_inv s" using ws_machine.inv_reachable [OF assms(1)] .
  have "ws_backoff (n - 1) = (if n \<le> 5 then 1000 * 2 ^ (n - 1) else 30000)" for n
  proof (cases "n \<le> 5")
    case True
    then have "n - 1 \<le> 4" by simp
    then have "(2::nat) ^ (n - 1) \<le> 2 ^ 4" by (intro power_increasing) auto
    then show ?thesis using True by (simp add: ws_backoff_def)
  next
    case False
    then show ?thesis by (simp add: ws_backoff_saturates)
  qed
  then show ?thesis using inv assms(2) by (auto simp: ws_inv_def)
qed

theorem socket_reconnects_witness:
  "wss_timer (ws_step WsClose useWebSocketStream) = Some 1000"
proof -
  have r: "reachable useWebSocketStream ws_enabled ws_step (ws_step WsClose useWebSocketStream)"
    by (rule reach_step [OF reach_init]) (simp add: hook_defs)
  show ?thesis using socket_reconnects [OF r] by (auto simp: hook_defs)
qed

text \<open>The clean-up of \<^verbatim>\<open>useWebSocketStream\<close> does not end the stream: it clears the timer and closes
  the socket, and the \<^verbatim>\<open>onclose\<close> event of that socket arms a new timer, whose callback opens
  another socket although the component is gone.\<close>

theorem socket_reconnects_after_unmount:
  assumes "reachable useWebSocketStream ws_enabled ws_step s" and "wss_mounted s" and "wss_socket s \<noteq> None"
  shows "let t = fold ws_step [WsUnmount, WsClose, WsTimer] s in
    reachable useWebSocketStream ws_enabled ws_step t \<and> \<not> wss_mounted t
    \<and> wss_socket t = Some CONNECTING \<and> wss_opened t = wss_opened s + 1"
proof -
  let ?u = "ws_step WsUnmount s" let ?c = "ws_step WsClose ?u" let ?t = "ws_step WsTimer ?c"
  have u: "reachable useWebSocketStream ws_enabled ws_step ?u"
    by (rule reach_step [OF assms(1)]) (simp add: assms(2))
  have c: "reachable useWebSocketStream ws_enabled ws_step ?c"
    by (rule reach_step [OF u]) (use assms(3) in \<open>simp add: ws_cleanup_def\<close>)
  have "reachable useWebSocketStream ws_enabled ws_step ?t"
    by (rule reach_step [OF c]) (simp add: ws_onclose_def)
  moreover have "\<not> wss_mounted ?t \<and> wss_socket ?t = Some CONNECTING \<and> wss_opened ?t = wss_opened s + 1"
    by (simp add: hook_defs)
  ultimately show ?thesis by (simp add: Let_def)
qed

theorem socket_reconnects_after_unmount_witness:
  "wss_opened (fold ws_step [WsUnmount, WsClose, WsTimer] useWebSocketStream) = 2"
proof -
  have "wss_mounted useWebSocketStream" and "wss_socket useWebSocketStream \<noteq> None"
    and "wss_opened useWebSocketStream = 1"
    by (simp_all add: hook_defs)
  then show ?thesis using socket_reconnects_after_unmount [OF reach_init] by (simp add: Let_def)
qed

text \<open>C17. After any sequence of messages the log of \<^verbatim>\<open>useInvestigationStream\<close> holds exactly the last
  thousand of them, in the order of arrival.\<close>

theorem ring_buffer_keeps_last:
  "is_logs (fold stream_onmessage ms useInvestigationStream) = take_last 1000 ms"
proof -
  have logs: "is_logs (fold stream_onmessage ms s) = fold push_log ms (is_logs s)" for s
    by (induction ms arbitrary: s) (simp_all add: stream_onmessage_def)
  have "rev (fold push_log ms []) = take 1000 (rev ms)"
    using ring_buffer.newest_pushes [of "[]" ms] by simp
  then have "rev (fold push_log ms []) = rev (take_last 1000 ms)"
    by (simp add: rev_take_last)
  then show ?thesis by (simp add: logs useInvestigationStream_def)
qed

text \<open>The clean-up of \<^verbatim>\<open>useInvestigationStream\<close> closes the socket exactly when it is open: a view that
  is left while the socket is still connecting keeps that socket.\<close>

theorem stream_cleanup_closes_open_only:
  "(snd (stream_cleanup s) = [CloseSocket] \<longleftrightarrow> is_socket s = Some OPEN)
   \<and> snd (stream_cleanup (fst (stream_effect https host (Some (c # i)) s))) = []"
  by (simp add: hook_defs)

end
