(* ===== verification/Command_Center.thy ===== *)
theory Command_Center
  imports SOC_Types Shared_Hooks
begin

text \<open>
  The landing page and the pages of one investigation: \<^verbatim>\<open>CommandCenter.tsx\<close> with its alert list, agent
  feed (\<^verbatim>\<open>AgentTriageFeed.tsx\<close>) and resilience card (\<^verbatim>\<open>AgentResilienceStatus.tsx\<close>), and
  \<^verbatim>\<open>InvestigationDashboard.tsx\<close>. Times are milliseconds since the epoch.
\<close>

section \<open>Agent events\<close>

record agent_event =
  ae_correlationId :: string
  ae_investigationId :: "string option"
  ae_timestamp :: string
  ae_node :: string
  ae_status :: string
  ae_provider :: "string option"
  ae_fallbackTriggered :: bool
  ae_fallbackReason :: "string option"
  ae_latencyMs :: "nat option"
  ae_summary :: "string option"

section \<open>CommandCenter\<close>

text \<open>An event is stored with the time of its arrival, \<^verbatim>\<open>_receivedAt\<close>.\<close>

record command_center =
  cc_metrics :: "system_metrics option"
  cc_metricsError :: bool
  cc_alerts :: "alert list"
  cc_agentEvents :: "(agent_event \<times> int) list"

definition CommandCenter :: command_center where
  "CommandCenter = \<lparr>cc_metrics = None, cc_metricsError = False, cc_alerts = [], cc_agentEvents = []\<rparr>"

text \<open>The initial request; \<^const>\<open>None\<close> is an answer that is not an array.\<close>

definition initial_alerts_settle :: "alert list option response \<Rightarrow> command_center \<Rightarrow> command_center \<times> effect list" where
  "initial_alerts_settle r s =
     (case r of
        Resolved (Some xs) \<Rightarrow> (s\<lparr>cc_alerts := xs\<rparr>, [])
      | Resolved None \<Rightarrow> (s, [])
      | Rejected e \<Rightarrow> (s, [ConsoleError ''Failed to load initial alerts'']))"

definition metrics_onData :: "system_metrics \<Rightarrow> command_center \<Rightarrow> command_center" where
  "metrics_onData d s = s\<lparr>cc_metrics := Some d, cc_metricsError := False\<rparr>"

definition metrics_onError :: "command_center \<Rightarrow> command_center" where
  "metrics_onError s = s\<lparr>cc_metricsError := True\<rparr>"

text \<open>A message of the alerts socket: \<^const>\<open>None\<close> is a falsy message or one without an \<^verbatim>\<open>id\<close>.\<close>

definition alert_onMessage :: "alert option \<Rightarrow> alert list \<Rightarrow> alert list" where
  "alert_onMessage m prev =
     (case m of
        None \<Rightarrow> prev
      | Some a \<Rightarrow>
          if al_id a = [] then prev
          else if list_ex (\<lambda>b. al_id b = al_id a) prev then prev
          else sort_desc al_severity (a # prev))"

definition agent_onMessage :: "int \<Rightarrow> agent_event \<Rightarrow> command_center \<Rightarrow> command_center" where
  "agent_onMessage now e s = s\<lparr>cc_agentEvents := cc_agentEvents s @ [(e, now)]\<rparr>"

definition STALENESS_WINDOW_MS :: int where
  "STALENESS_WINDOW_MS = 10 * 60 * 1000"

record agent_health_view =
  ah_isDegraded :: bool
  ah_fallbackRuleTriggered :: bool
  ah_activeProvider :: "string option"

definition latestFallbackEvent :: "(agent_event \<times> int) list \<Rightarrow> (agent_event \<times> int) option" where
  "latestFallbackEvent es = find (\<lambda>(e, t). ae_fallbackTriggered e) (rev es)"

definition fallback_view :: "int \<Rightarrow> (agent_event \<times> int) list \<Rightarrow> agent_health_view" where
  "fallback_view now es =
     (let base = \<lparr>ah_isDegraded = False, ah_fallbackRuleTriggered = False, ah_activeProvider = Some ''openai/gpt-4o''\<rparr> in
      case latestFallbackEvent es of
        None \<Rightarrow> base
      | Some (e, receivedAt) \<Rightarrow>
          if now - receivedAt > STALENESS_WINDOW_MS then base
          else let ruleset = (ae_provider e = Some ''static_ruleset'') in
            \<lparr>ah_isDegraded = (\<not> ruleset), ah_fallbackRuleTriggered = ruleset,
             ah_activeProvider = (if ruleset then Some ''Static Ruleset'' else ae_provider e)\<rparr>)"

definition handleAcknowledge_start :: "string \<Rightarrow> effect list" where
  "handleAcknowledge_start i = [Request PATCH (''/alerts/'' @ i @ ''/acknowledge'') JNull]"

definition handleAcknowledge_settle :: "string \<Rightarrow> 'a response \<Rightarrow> alert list \<Rightarrow> alert list \<times> effect list" where
  "handleAcknowledge_settle i r prev =
     (case r of
        Resolved x \<Rightarrow> (filter (\<lambda>a. al_id a \<noteq> i) prev, [])
      | Rejected e \<Rightarrow> (prev, [ConsoleError ''Failed to acknowledge alert'']))"

definition handleAssignToMe_start :: "string \<Rightarrow> effect list" where
  "handleAssignToMe_start i = [Request PATCH (''/alerts/'' @ i @ ''/assign'') JNull]"

definition handleAssignToMe_settle :: "string \<Rightarrow> 'a response \<Rightarrow> effect list" where
  "handleAssignToMe_settle i r =
     (case r of
        Resolved x \<Rightarrow> [Alert (''Alert '' @ i @ '' assigned to you.'')]
      | Rejected e \<Rightarrow> [ConsoleError ''Failed to assign alert''])"

definition isCritical :: "alert \<Rightarrow> bool" where
  "isCritical a = (al_severity a \<le> 2)"

datatype cc_msg = CcOpen string | CcAcknowledge string | CcAssign string

definition SystemHealthBar_view :: "bool \<Rightarrow> bool \<Rightarrow> bool \<Rightarrow> string option \<Rightarrow> cc_msg view" where
  "SystemHealthBar_view agentConnected alertsConnected metricsError provider = Group ''System Health:''
     [Text (if agentConnected then ''Agent Stream up'' else ''Agent Stream down''),
      Text (if alertsConnected then ''Alerts Stream up'' else ''Alerts Stream down''),
      Text (if metricsError then ''Metrics Polling down'' else ''Metrics Polling up''),
      Text (''Engine:'' @ or_else provider '''')]"

definition alert_row :: "alert \<Rightarrow> cc_msg view" where
  "alert_row a = Clickable (CcOpen (''/investigations/'' @ al_id a))
     [Text (js_replace_char (CHR ''_'') (CHR '' '') (al_type a)), Text (al_id a),
      Button ''ACKNOWLEDGE'' False (CcAcknowledge (al_id a)), Button ''ASSIGN'' False (CcAssign (al_id a)),
      Text ''INVESTIGATE'']"

text \<open>The four figures show the value, \<^verbatim>\<open>ERR\<close> or \<^verbatim>\<open>...\<close>; the value itself is not rendered.\<close>

definition kpi_text :: "command_center \<Rightarrow> string" where
  "kpi_text s = (case cc_metrics s of Some m \<Rightarrow> ''value'' | None \<Rightarrow> if cc_metricsError s then ''ERR'' else ''...'')"

definition CommandCenter_view :: "bool \<Rightarrow> bool \<Rightarrow> int \<Rightarrow> command_center \<Rightarrow> cc_msg view list" where
  "CommandCenter_view agentConnected alertsConnected now s =
     [SystemHealthBar_view agentConnected alertsConnected (cc_metricsError s)
        (ah_activeProvider (fallback_view now (cc_agentEvents s))),
      Text ''Good Evening, Analyst'',
      Text (''Events Ingestion '' @ kpi_text s), Text (''Data Ingestion '' @ kpi_text s),
      Text (''Open Incidents '' @ kpi_text s), Text (''Prevented Events '' @ kpi_text s),
      Text ''Active High-Priority Alerts'']
     @ render_if (\<not> alertsConnected) (Text ''Live alerts feed disconnected - showing last known data.'')
     @ (if cc_alerts s = [] then [Text ''No active alerts.''] else map alert_row (cc_alerts s))
     @ [Text ''Agent Triage Feed'']
     @ render_if (\<not> agentConnected) (Text ''Live agent feed disconnected.'')"

section \<open>AgentTriageFeed\<close>

record triage_feed =
  tg_isPaused :: bool
  tg_filterNode :: string
  tg_filterCorrelation :: string
  tg_displayed :: "agent_event list"

definition AgentTriageFeed :: triage_feed where
  "AgentTriageFeed = \<lparr>tg_isPaused = False, tg_filterNode = '''', tg_filterCorrelation = '''', tg_displayed = []\<rparr>"

text \<open>The effect on \<^verbatim>\<open>[events, isPaused]\<close>.\<close>

definition feed_effect :: "agent_event list \<Rightarrow> triage_feed \<Rightarrow> triage_feed" where
  "feed_effect events s = (if \<not> tg_isPaused s then s\<lparr>tg_displayed := events\<rparr> else s)"

definition feed_toggle :: "agent_event list \<Rightarrow> triage_feed \<Rightarrow> triage_feed" where
  "feed_toggle events s = feed_effect events (s\<lparr>tg_isPaused := \<not> tg_isPaused s\<rparr>)"

definition feed_filtered :: "triage_feed \<Rightarrow> agent_event list" where
  "feed_filtered s = filter (\<lambda>e.
     (if tg_filterNode s \<noteq> [] then js_includes (js_lower (ae_node e)) (js_lower (tg_filterNode s)) else True)
     \<and> (if tg_filterCorrelation s \<noteq> [] then js_includes (ae_correlationId e) (tg_filterCorrelation s) else True))
     (tg_displayed s)"

datatype feed_msg = FeedNode string | FeedCorrelation string | FeedPause | FeedOpen string

definition feed_row :: "agent_event \<Rightarrow> feed_msg view" where
  "feed_row e = Group ''''
     ([Text (ae_node e), Text (ae_status e)]
      @ (case ae_latencyMs e of Some n \<Rightarrow> if n = 0 then [] else [Text (''('' @ nat_str n @ ''ms)'')] | None \<Rightarrow> [])
      @ (let t = str_or (ae_summary e) '''' in render_if (t \<noteq> '''') (Text (''> '' @ t)))
      @ render_if (ae_fallbackTriggered e)
          (Text (''Fallback: '' @ or_else (ae_fallbackReason e) ''''
             @ (let p = str_or (ae_provider e) '''' in if p = '''' then '''' else '' -> Routed to '' @ p)))
      @ [Text (''ID: '' @ ae_correlationId e)]
      @ (let i = str_or (ae_investigationId e) '''' in
         render_if (i \<noteq> '''') (Button (''View '' @ i) False (FeedOpen (''/investigations/'' @ i)))))"

definition AgentTriageFeed_view :: "triage_feed \<Rightarrow> feed_msg view list" where
  "AgentTriageFeed_view s =
     [Text ''Live Agent Triage Feed'', Input (tg_filterNode s) False FeedNode,
      Input (tg_filterCorrelation s) False FeedCorrelation,
      Button (if tg_isPaused s then ''Resume'' else ''Pause'') False FeedPause]
     @ map feed_row (feed_filtered s)
     @ render_if (feed_filtered s = []) (Text ''No events found.'')"

section \<open>AgentResilienceStatus\<close>

definition resilience_effect :: "bool \<Rightarrow> bool \<Rightarrow> bool \<Rightarrow> bool" where
  "resilience_effect before triggered acknowledged =
     (if before \<noteq> triggered \<and> triggered then False else acknowledged)"

definition totalTriageEvents :: "agent_event list \<Rightarrow> nat" where
  "totalTriageEvents es = length (filter (\<lambda>e. ae_node e = ''LLMTriage'' \<and> ae_status e = ''completed'') es)"

definition fallbackCount :: "agent_event list \<Rightarrow> nat" where
  "fallbackCount es = length (filter ae_fallbackTriggered es)"

text \<open>The percentage before \<^verbatim>\<open>toFixed(1)\<close>.\<close>

definition uptime :: "(rat \<Rightarrow> rat) \<Rightarrow> agent_event list \<Rightarrow> rat" where
  "uptime fl es = (if totalTriageEvents es = 0 then 100
     else max 0 (fl (100 - js_percent fl (fallbackCount es) (totalTriageEvents es))))"

datatype resilience_msg = AcknowledgeRisk

definition AgentResilienceStatus_view ::
  "(rat \<Rightarrow> rat) \<Rightarrow> (rat \<Rightarrow> string) \<Rightarrow> string \<Rightarrow> bool \<Rightarrow> bool \<Rightarrow> string \<Rightarrow> agent_event list \<Rightarrow> bool \<Rightarrow> resilience_msg view list" where
  "AgentResilienceStatus_view fl toFixed1 activeProvider isDegraded fallbackRuleTriggered connectionStatus events acknowledged =
     (if connectionStatus \<noteq> ''connected'' then
        [Text ''Agent Telemetry Connection Lost'',
         Text (if connectionStatus = ''reconnecting'' then ''Reconnecting to stream...'' else ''Offline. AI telemetry unavailable.'')]
      else if fallbackRuleTriggered \<and> \<not> acknowledged then
        [Text ''AI Triage Fully Degraded'', Text ''All LLM paths failed. Static deterministic ruleset is active.'',
         Button ''Acknowledge Risk'' False AcknowledgeRisk]
      else
        [Text (''Active Provider: '' @ activeProvider),
         Text (if isDegraded then ''Primary provider failed. Operating on fallback.''
               else ''LLM Triage is operating nominally.''),
         Text (''Uptime: '' @ (if totalTriageEvents events = 0 then ''100'' else toFixed1 (uptime fl events)) @ ''%''), Text (''Fallbacks: '' @ nat_str (fallbackCount events))])"

section \<open>InvestigationDashboard\<close>

record dashboard =
  db_logs :: "log_entry list"
  db_actions :: "action_info list"
  db_investigation :: "investigation_data async_state"

definition InvestigationDashboard :: dashboard where
  "InvestigationDashboard = \<lparr>db_logs = [], db_actions = [], db_investigation = useAsyncState\<rparr>"

definition dashboard_load_start :: "string \<Rightarrow> dashboard \<Rightarrow> dashboard \<times> effect list" where
  "dashboard_load_start i s =
     (if i = [] then (s, [])
      else (s\<lparr>db_investigation := execute_start (db_investigation s)\<rparr>, [Request GET (''/investigations/'' @ i) JNull]))"

definition dashboard_load_settle :: "investigation_data response \<Rightarrow> dashboard \<Rightarrow> dashboard" where
  "dashboard_load_settle r s =
     (case r of
        Resolved d \<Rightarrow> s\<lparr>db_logs := id_conversation_log d, db_actions := id_proposed_actions d\<rparr>
      | Rejected e \<Rightarrow> s)\<lparr>db_investigation := execute_settle r (db_investigation s)\<rparr>"

definition dashboard_onMessage :: "log_entry \<Rightarrow> dashboard \<Rightarrow> dashboard" where
  "dashboard_onMessage l s = s\<lparr>db_logs := db_logs s @ [l]\<rparr>"

definition dashboard_approve_start :: "string \<Rightarrow> action_info \<Rightarrow> effect list" where
  "dashboard_approve_start i a = [Request POST (''/investigations/'' @ i @ ''/actions'') (action_json a)]"

definition dashboard_approve_settle :: "action_info \<Rightarrow> 'a response \<Rightarrow> dashboard \<Rightarrow> dashboard \<times> effect list" where
  "dashboard_approve_settle a r s =
     (case r of
        Resolved x \<Rightarrow>
          (s\<lparr>db_actions := filter (\<lambda>b. ai_action b \<noteq> ai_action a) (db_actions s)\<rparr>,
           [Alert (''Action '' @ [CHR 0x27] @ ai_action a @ [CHR 0x27] @ '' approved successfully.'')])
      | Rejected e \<Rightarrow> (s, [ConsoleError (err_message e), Alert ''Failed to execute action.'']))"

definition isHighRisk :: "action_info \<Rightarrow> bool" where
  "isHighRisk a = (js_includes (risk_str (ai_risk a)) ''HIGH'' \<or> js_includes (risk_str (ai_risk a)) ''DESTRUCTIVE'')"

datatype dashboard_msg = DbHome | DbApprove action_info | DbRetry

definition dashboard_log_view :: "log_entry \<Rightarrow> dashboard_msg view" where
  "dashboard_log_view l = Group (if le_confidence l < 70 then ''low confidence'' else '''')
     [Text (le_agent l), Text (le_message l)]"

definition dashboard_action_view :: "action_info \<Rightarrow> dashboard_msg view" where
  "dashboard_action_view a = Group (if isHighRisk a then ''high risk'' else '''')
     [Text (ai_action a), Text (js_replace_char (CHR ''_'') (CHR '' '') (risk_str (ai_risk a))),
      Text (''Target: '' @ ai_target a), Text (ai_justification a), Button ''Approve Action'' False (DbApprove a)]"

definition InvestigationDashboard_view :: "string \<Rightarrow> dashboard \<Rightarrow> dashboard_msg view list" where
  "InvestigationDashboard_view i s =
     (let st = db_investigation s in
      if as_loading st then [Text ''loading'']
      else if as_error st \<noteq> None \<and> as_data st = None then
        [Text (the (as_error st)), Button ''Retry Request'' False DbRetry]
      else [Clickable DbHome [Text ''Command Center''], Text (''Investigation ('' @ i @ '')'')]
        @ (case as_data st of
             None \<Rightarrow> []
           | Some d \<Rightarrow>
               [Text ''Immutable Agent Log''] @ map dashboard_log_view (db_logs s)
               @ [Text ''Proposed Actions''] @ map dashboard_action_view (db_actions s)
               @ render_if (db_actions s = []) (Text ''No pending actions recommended by agents.'')))"

section \<open>The alert list as a machine\<close>

datatype alert_event = AlertMessage "alert option" | Acknowledged string

primrec alert_step :: "alert_event \<Rightarrow> alert list \<Rightarrow> alert list" where
  "alert_step (AlertMessage m) xs = alert_onMessage m xs"
| "alert_step (Acknowledged i) xs = fst (handleAcknowledge_settle i (Resolved ()) xs)"

definition by_severity :: "alert list \<Rightarrow> bool" where
  "by_severity xs = sorted (map (\<lambda>a. - al_severity a) xs)"

lemma by_severity_sort [simp]: "by_severity (sort_desc al_severity xs)"
  by (simp add: by_severity_def sort_desc_def)

lemma by_severity_filter [simp]: "by_severity xs \<Longrightarrow> by_severity (filter P xs)"
  by (simp add: by_severity_def sorted_filter)

lemma alert_step_distinct: "distinct (map al_id xs) \<Longrightarrow> distinct (map al_id (alert_step e xs))"
  by (cases e)
    (auto simp: alert_onMessage_def handleAcknowledge_settle_def distinct_map_filter list_ex_iff split: option.split)

lemma alert_step_sorted: "by_severity xs \<Longrightarrow> by_severity (alert_step e xs)"
  by (cases e) (auto simp: alert_onMessage_def handleAcknowledge_settle_def split: option.split)

lemma alert_run_distinct: "distinct (map al_id xs) \<Longrightarrow> distinct (map al_id (fold alert_step es xs))"
  by (induction es arbitrary: xs) (simp_all add: alert_step_distinct)

lemma alert_run_sorted: "by_severity xs \<Longrightarrow> by_severity (fold alert_step es xs)"
  by (induction es arbitrary: xs) (simp_all add: alert_step_sorted)

text \<open>The identifiers shown after a history, read off the history.\<close>

definition shown_ids :: "alert_event list \<Rightarrow> string set \<Rightarrow> string set" where
  "shown_ids es I = fold (\<lambda>e I. case e of
       AlertMessage (Some a) \<Rightarrow> if al_id a = [] then I else insert (al_id a) I
     | AlertMessage None \<Rightarrow> I
     | Acknowledged i \<Rightarrow> I - {i}) es I"

lemma alert_step_ids:
  "al_id ` set (alert_step e xs) = (case e of
       AlertMessage (Some a) \<Rightarrow> if al_id a = [] then al_id ` set xs else insert (al_id a) (al_id ` set xs)
     | AlertMessage None \<Rightarrow> al_id ` set xs
     | Acknowledged i \<Rightarrow> al_id ` set xs - {i})"
  by (auto simp: alert_onMessage_def handleAcknowledge_settle_def list_ex_key
      split: alert_event.split option.split)

lemma alert_run_ids: "al_id ` set (fold alert_step es xs) = shown_ids es (al_id ` set xs)"
  by (induction es arbitrary: xs) (simp_all add: shown_ids_def alert_step_ids)

interpretation alert_queue:
  keyed_queue al_id "\<lambda>a. al_id a \<noteq> []" "\<lambda>a. alert_onMessage (Some a)" "\<lambda>i xs. fst (handleAcknowledge_settle i (Resolved ()) xs)"
  by unfold_locales
    (auto simp: alert_onMessage_def handleAcknowledge_settle_def list_ex_key list_ex_iff distinct_map_filter)

text \<open>The abstract alert store: a map from identifiers to alerts.\<close>

definition alert_map :: "alert list \<Rightarrow> string \<rightharpoonup> alert" where
  "alert_map xs = map_of (map (\<lambda>a. (al_id a, a)) xs)"

fun alert_map_step :: "alert_event \<Rightarrow> (string \<rightharpoonup> alert) \<Rightarrow> (string \<rightharpoonup> alert)" where
  "alert_map_step (AlertMessage None) m = m"
| "alert_map_step (AlertMessage (Some a)) m = (if al_id a \<noteq> [] \<and> m (al_id a) = None then m(al_id a \<mapsto> a) else m)"
| "alert_map_step (Acknowledged i) m = m(i := None)"

lemma alert_map_is_as_map: "alert_map = alert_queue.as_map"
  by (simp add: fun_eq_iff alert_map_def alert_queue.as_map_def)

lemma alert_step_refines:
  assumes "distinct (map al_id xs)"
  shows "alert_map (alert_step e xs) = alert_map_step e (alert_map xs)"
proof (cases "(e, alert_map xs)" rule: alert_map_step.cases)
  case (1 m)
  then show ?thesis by (simp add: alert_onMessage_def)
next
  case (2 a m)
  then show ?thesis using alert_queue.as_map_add [OF assms, of a] by (simp add: alert_map_is_as_map)
next
  case (3 i m)
  then show ?thesis using alert_queue.as_map_remove [OF assms, of i] by (simp add: alert_map_is_as_map)
qed

section \<open>Properties\<close>

text \<open>C12. Through any sequence of socket messages and acknowledgements, starting from a list without
  duplicates, the alert list of the command centre has no duplicates, stays sorted by falling severity
  number once it is, and shows exactly the alerts that arrived and were not acknowledged afterwards.\<close>

theorem alert_feed_correct:
  assumes "distinct (map al_id xs)"
  shows "distinct (map al_id (fold alert_step es xs))
    \<and> (by_severity xs \<longrightarrow> by_severity (fold alert_step es xs))
    \<and> al_id ` set (fold alert_step es xs) = shown_ids es (al_id ` set xs)"
  using alert_run_distinct [OF assms] alert_run_sorted alert_run_ids by blast

theorem alert_feed_correct_witness:
  "distinct (map al_id (fold alert_step
     [AlertMessage (Some \<lparr>al_id = ''a'', al_type = ''x'', al_severity = 3\<rparr>),
      AlertMessage (Some \<lparr>al_id = ''a'', al_type = ''y'', al_severity = 1\<rparr>)] []))"
proof -
  have "distinct (map al_id [])" by simp
  then show ?thesis by (rule alert_feed_correct [THEN conjunct1])
qed

text \<open>C11. The alert list implements a map from identifiers to alerts: for any sequence of socket messages and
  acknowledgements, the list, read as a map, is what the same sequence does to the map, where a message is accepted only
  for a new identifier and an acknowledgement deletes its entry.\<close>

theorem alert_feed_refines_map:
  assumes "distinct (map al_id xs)"
  shows "alert_map (fold alert_step es xs) = fold alert_map_step es (alert_map xs)"
  using assms
proof (induction es arbitrary: xs)
  case Nil
  then show ?case by simp
next
  case (Cons e es)
  then show ?case using alert_step_distinct [OF Cons.prems] alert_step_refines [OF Cons.prems] by simp
qed

theorem alert_feed_refines_map_witness:
  "alert_map (fold alert_step [AlertMessage (Some \<lparr>al_id = ''a'', al_type = ''x'', al_severity = 3\<rparr>), Acknowledged ''a''] []) = Map.empty"
proof -
  have "distinct (map al_id [])" by simp
  from alert_feed_refines_map [OF this, of "[AlertMessage (Some \<lparr>al_id = ''a'', al_type = ''x'', al_severity = 3\<rparr>), Acknowledged ''a'']"]
  show ?thesis by (simp add: alert_map_def)
qed

text \<open>The page calls an alert critical when its severity number is at most 2, and sorts by falling number:
  after an alert has been accepted, no critical alert stands above one that is not critical.\<close>

theorem critical_alerts_sorted_last:
  assumes "al_id a \<noteq> []" and "al_id a \<notin> al_id ` set xs"
    and "i < j" and "j < length (alert_onMessage (Some a) xs)"
    and "isCritical (alert_onMessage (Some a) xs ! i)"
  shows "isCritical (alert_onMessage (Some a) xs ! j)"
proof -
  have eq: "alert_onMessage (Some a) xs = sort_desc al_severity (a # xs)"
    using assms(1,2) by (simp add: alert_onMessage_def list_ex_key)
  let ?ys = "sort_desc al_severity (a # xs)"
  have "map (\<lambda>a. - al_severity a) ?ys ! i \<le> map (\<lambda>a. - al_severity a) ?ys ! j"
    using by_severity_sort [of "a # xs"] assms(3,4) unfolding eq by_severity_def
    by (intro sorted_nth_mono) auto
  then show ?thesis using assms(3-5) unfolding eq isCritical_def by simp
qed

theorem critical_alerts_sorted_last_witness:
  "alert_onMessage (Some \<lparr>al_id = ''b'', al_type = ''noise'', al_severity = 4\<rparr>)
      [\<lparr>al_id = ''c'', al_type = ''low'', al_severity = 2\<rparr>, \<lparr>al_id = ''a'', al_type = ''breach'', al_severity = 1\<rparr>] =
     [\<lparr>al_id = ''b'', al_type = ''noise'', al_severity = 4\<rparr>, \<lparr>al_id = ''c'', al_type = ''low'', al_severity = 2\<rparr>,
      \<lparr>al_id = ''a'', al_type = ''breach'', al_severity = 1\<rparr>]
   \<and> isCritical \<lparr>al_id = ''a'', al_type = ''breach'', al_severity = 1\<rparr>"
proof -
  let ?b = "\<lparr>al_id = ''b'', al_type = ''noise'', al_severity = 4\<rparr>"
  let ?xs = "[\<lparr>al_id = ''c'', al_type = ''low'', al_severity = 2\<rparr>, \<lparr>al_id = ''a'', al_type = ''breach'', al_severity = 1\<rparr>]"
  have eq: "alert_onMessage (Some ?b) ?xs = ?b # ?xs"
    by (simp add: alert_onMessage_def sort_desc_def)
  have c: "isCritical ((?b # ?xs) ! 1)" by (simp add: isCritical_def)
  have "isCritical ((?b # ?xs) ! 2)"
    using critical_alerts_sorted_last [of ?b ?xs 1 2] c unfolding eq by simp
  then show ?thesis using eq by simp
qed

text \<open>Approving a proposed action removes every proposed action with the same name, whatever its target:
  an action on another host disappears from the page although nothing was sent for it.\<close>

theorem approval_drops_same_name:
  assumes "b \<in> set (db_actions s)" and "b \<noteq> a" and "ai_action b = ai_action a"
  shows "b \<notin> set (db_actions (fst (dashboard_approve_settle a (Resolved x) s)))
     \<and> (\<forall>r \<in> set (requests (dashboard_approve_start i a)). snd (snd r) \<noteq> action_json b)
     \<and> requests (snd (dashboard_approve_settle a (Resolved x) s)) = []"
  using assms by (simp add: dashboard_approve_settle_def dashboard_approve_start_def)

theorem approval_drops_same_name_witness:
  "let a = \<lparr>ai_action = ''isolate'', ai_target = ''h1'', ai_justification = '''', ai_risk = DESTRUCTIVE\<rparr>;
       b = \<lparr>ai_action = ''isolate'', ai_target = ''h2'', ai_justification = '''', ai_risk = DESTRUCTIVE\<rparr>
   in b \<notin> set (db_actions (fst (dashboard_approve_settle a (Resolved ())
        (InvestigationDashboard\<lparr>db_actions := [a, b]\<rparr>))))"
  unfolding Let_def
  by (rule approval_drops_same_name [THEN conjunct1]) simp_all

end
