(* ===== verification/Investigation_Graph.thy ===== *)
theory Investigation_Graph
  imports SOC_Types
begin

text \<open>
  The graph of one investigation (\<^verbatim>\<open>features/investigations/ui/InvestigationGraph.tsx\<close>): node updates
  of a socket are queued and applied every 250 ms once the snapshot has been loaded; drawing commands,
  link colours, the two views and the size of the canvas. A product that JavaScript rounds is computed
  by the argument \<open>fmul\<close>.
\<close>

section \<open>State\<close>

record ig_node =
  ig_id :: string
  ig_label :: "string option"
  ig_type :: "string option"
  ig_properties :: "string option"
  ig_status :: string
  ig_isGateway :: bool
  ig_isSuspicious :: bool
  ig_category :: "string option"
  ig_ip :: "string option"

record ig_edge =
  ie_source_id :: "string option"
  ie_target_id :: "string option"
  ie_source :: "string option"
  ie_target :: "string option"
  ie_relation :: string
  ie_action :: "string option"
  ie_width :: "rat option"

record node_update =
  nu_type :: string
  nu_node_id :: string
  nu_agent_name :: "string option"
  nu_label :: "string option"
  nu_status :: string

datatype view_mode = Topology | Stepper

record graph_state =
  gs_nodes :: "ig_node list"
  gs_edges :: "ig_edge list"
  gs_viewMode :: view_mode
  gs_selected :: "ig_node option"
  gs_pending :: "node_update list"
  gs_snapshotLoaded :: bool

definition InvestigationGraph :: graph_state where
  "InvestigationGraph = \<lparr>gs_nodes = [], gs_edges = [], gs_viewMode = Topology, gs_selected = None,
     gs_pending = [], gs_snapshotLoaded = False\<rparr>"

section \<open>Canvas size\<close>

definition updateDims :: "(rat \<Rightarrow> rat \<Rightarrow> rat) \<Rightarrow> int \<Rightarrow> rat \<Rightarrow> int \<times> int" where
  "updateDims fmul innerWidth rectWidth =
     (let padding = (if innerWidth < 640 then 32 else 48);
          contentWidth = max 260 \<lfloor>rectWidth - padding\<rfloor>;
          targetHeight = (if innerWidth < 640
            then max 300 (min 380 \<lfloor>fmul (of_int contentWidth) (3 / 4)\<rfloor>)
            else max 380 (min 500 \<lfloor>fmul (of_int contentWidth) (11 / 20)\<rfloor>))
      in (contentWidth, targetHeight))"

section \<open>Stream and snapshot\<close>

text \<open>\<^verbatim>\<open>ws.onmessage\<close>; \<^const>\<open>None\<close> is text that does not parse.\<close>

definition graph_onmessage :: "node_update option \<Rightarrow> graph_state \<Rightarrow> graph_state \<times> effect list" where
  "graph_onmessage m s =
     (case m of
        None \<Rightarrow> (s, [ConsoleError ''Stream parse error''])
      | Some u \<Rightarrow> if nu_type u \<noteq> ''node_execution'' then (s, []) else (s\<lparr>gs_pending := gs_pending s @ [u]\<rparr>, []))"

definition new_node :: "node_update \<Rightarrow> ig_node" where
  "new_node u = \<lparr>ig_id = nu_node_id u,
     ig_label = (if str_or (nu_agent_name u) '''' \<noteq> '''' then nu_agent_name u else nu_label u),
     ig_type = None, ig_properties = None, ig_status = nu_status u, ig_isGateway = False,
     ig_isSuspicious = False, ig_category = None, ig_ip = None\<rparr>"

text \<open>One step of \<^verbatim>\<open>batch.forEach\<close>: the first node with the identifier gets the status, else a node is
  appended.\<close>

fun apply_update :: "node_update \<Rightarrow> ig_node list \<Rightarrow> ig_node list" where
  "apply_update u [] = [new_node u]"
| "apply_update u (n # ns) =
     (if ig_id n = nu_node_id u then n\<lparr>ig_status := nu_status u\<rparr> # ns else n # apply_update u ns)"

definition render_tick :: "graph_state \<Rightarrow> graph_state" where
  "render_tick s =
     (if \<not> gs_snapshotLoaded s \<or> gs_pending s = [] then s
      else s\<lparr>gs_pending := [], gs_nodes := fold apply_update (gs_pending s) (gs_nodes s)\<rparr>)"

definition baseline_nodes :: "ig_node list" where
  "baseline_nodes =
     [\<lparr>ig_id = ''router-gw'', ig_label = Some ''WiFi 6 Router Gateway (192.168.1.1)'', ig_type = Some ''RouterHost'',
        ig_properties = Some (''Gateway: 192.168.1.1'' @ nl @ ''Radio: 802.11ax'' @ nl @ ''Role: Default Router''), ig_status = ''success'',
        ig_isGateway = True, ig_isSuspicious = False, ig_category = None, ig_ip = None\<rparr>,
      \<lparr>ig_id = ''client-192.168.1.105'', ig_label = Some ''Station: 192.168.1.105'', ig_type = Some ''ClientHost'',
        ig_properties = Some (''IP: 192.168.1.105'' @ nl @ ''MAC: 34:2e:b7:aa:bb:cc'' @ nl @ ''Role: Station''), ig_status = ''failed'',
        ig_isGateway = False, ig_isSuspicious = True, ig_category = None, ig_ip = Some ''192.168.1.105''\<rparr>,
      \<lparr>ig_id = ''domain-c2-malicious.org'', ig_label = Some ''c2-malicious.org'', ig_type = Some ''ExternalDomain'',
        ig_properties = Some (''Domain: c2-malicious.org'' @ nl @ ''Category: Known C2'' @ nl @ ''Action: DROP''), ig_status = ''failed'',
        ig_isGateway = False, ig_isSuspicious = True, ig_category = Some ''known_c2'', ig_ip = None\<rparr>]"

definition baseline_edge :: "string \<Rightarrow> string \<Rightarrow> string \<Rightarrow> string \<Rightarrow> rat \<Rightarrow> ig_edge" where
  "baseline_edge a b r act w = \<lparr>ie_source_id = Some a, ie_target_id = Some b, ie_source = None, ie_target = None,
     ie_relation = r, ie_action = Some act, ie_width = Some w\<rparr>"

definition baseline_edges :: "ig_edge list" where
  "baseline_edges =
     [baseline_edge ''client-192.168.1.105'' ''router-gw'' ''ROUTED_THROUGH'' ''ALLOW'' (5 / 2),
      baseline_edge ''router-gw'' ''domain-c2-malicious.org'' ''WAN_EGRESS'' ''DROP'' (7 / 2),
      baseline_edge ''client-192.168.1.105'' ''domain-c2-malicious.org'' ''VISITED_SITE'' ''OBSERVED'' (3 / 2)]"

text \<open>The three places where a snapshot may carry its arrays; an array is truthy even when it is empty.\<close>

record snapshot =
  sn_nodes :: "ig_node list option"
  sn_edges :: "ig_edge list option"
  sn_data_nodes :: "ig_node list option"
  sn_data_edges :: "ig_edge list option"
  sn_layout_nodes :: "ig_node list option"
  sn_layout_edges :: "ig_edge list option"

definition first_array :: "'a list option list \<Rightarrow> 'a list" where
  "first_array os = (case find (\<lambda>x. x \<noteq> None) os of Some (Some xs) \<Rightarrow> xs | _ \<Rightarrow> [])"

definition snapshot_settle :: "snapshot response \<Rightarrow> graph_state \<Rightarrow> graph_state \<times> effect list" where
  "snapshot_settle r s =
     (case r of
        Resolved d \<Rightarrow>
          (let ns = first_array [sn_nodes d, sn_data_nodes d, sn_layout_nodes d];
               es = first_array [sn_edges d, sn_data_edges d, sn_layout_edges d]
           in (s\<lparr>gs_nodes := (if ns = [] then baseline_nodes else ns),
                gs_edges := (if ns = [] then baseline_edges else es),
                gs_snapshotLoaded := True\<rparr>, []))
      | Rejected e \<Rightarrow> (s\<lparr>gs_snapshotLoaded := True\<rparr>, [ConsoleError ''Snapshot error:'']))"

text \<open>A new \<^verbatim>\<open>sessionId\<close>: the clean-up closes the socket and the timer, the effect opens a socket and sends
  the request; the references \<^verbatim>\<open>pendingUpdates\<close> and \<^verbatim>\<open>isSnapshotLoaded\<close> and the nodes stay.\<close>

definition graph_session :: "string \<Rightarrow> string \<Rightarrow> graph_state \<Rightarrow> graph_state \<times> effect list" where
  "graph_session base i s =
     (s, [CloseSocket, OpenSocket (base @ ''/api/investigations/'' @ i @ ''/stream''),
          Request GET (''/api/investigations/'' @ i @ ''/graph'') JNull])"

datatype graph_event = GraphMessage "node_update option" | GraphTick | GraphSnapshot "snapshot response"

primrec graph_step :: "graph_event \<Rightarrow> graph_state \<Rightarrow> graph_state" where
  "graph_step (GraphMessage m) s = fst (graph_onmessage m s)"
| "graph_step GraphTick s = render_tick s"
| "graph_step (GraphSnapshot r) s = fst (snapshot_settle r s)"

section \<open>Drawing\<close>

definition graph_drawNode :: "ig_node \<Rightarrow> rat \<Rightarrow> rat \<Rightarrow> rat \<Rightarrow> canvas list" where
  "graph_drawNode n x y globalScale =
     (let isGateway = (ig_isGateway n \<or> ig_type n = Some ''RouterHost'');
          isThreat = (ig_isSuspicious n \<or> ig_status n = ''failed'');
          radius = (if isGateway then 14 else if ig_type n = Some ''ClientHost'' then 10 else 8)
      in (if isGateway then [BeginPath, Arc x y (radius + 5), FillStyle ''rgba(99, 102, 241, 0.25)'', Fill]
          else if isThreat then [BeginPath, Arc x y (radius + 4), FillStyle ''rgba(239, 68, 68, 0.35)'', Fill]
          else [])
         @ [BeginPath, Arc x y radius,
            FillStyle
              (if isGateway then ''#6366f1''
               else if ig_type n = Some ''ClientHost'' then (if isThreat then ''#f43f5e'' else ''#06b6d4'')
               else if ig_type n = Some ''ExternalDomain'' then
                 (if ig_category n = Some ''known_c2'' \<or> isThreat then ''#ef4444''
                  else if ig_category n = Some ''banking'' then ''#f59e0b''
                  else if ig_category n = Some ''login'' then ''#a855f7'' else ''#3b82f6'')
               else ''#64748b''),
            Fill, LineWidth (2 / globalScale), StrokeStyle ''#ffffff'', Stroke,
            Font False (max 10 (12 / globalScale)), TextAlign ''center'', TextBaseline ''top'',
            FillStyle (if isGateway then ''#c7d2fe'' else if isThreat then ''#fecaca'' else ''#e2e8f0''),
            FillText (str_or (ig_label n) (ig_id n)) x (y + radius + 4)])"

definition graph_getLinkColor :: "ig_edge \<Rightarrow> string" where
  "graph_getLinkColor e =
     (let act = or_else (ie_action e) '''' in
      if act = ''DROP'' then ''#ef4444'' else if act = ''ALLOW'' then ''#10b981''
      else if act = ''NAT'' then ''#3b82f6'' else if ie_relation e = ''VISITED_SITE'' then ''#6366f1'' else ''#64748b'')"

definition str_first :: "string option \<Rightarrow> string option \<Rightarrow> string option" where
  "str_first a b = (case a of Some v \<Rightarrow> if v = [] then b else a | None \<Rightarrow> b)"

definition formattedGraphData :: "graph_state \<Rightarrow> ig_node list \<times> ig_edge list" where
  "formattedGraphData s = (gs_nodes s,
     map (\<lambda>e. e\<lparr>ie_source := str_first (ie_source_id e) (ie_source e),
               ie_target := str_first (ie_target_id e) (ie_target e)\<rparr>) (gs_edges s))"

datatype graph_msg = GmMode view_mode | GmDeselect

definition graph_header :: "graph_msg view list" where
  "graph_header = [Text ''WiFi Router & Investigation Graph'', Button ''Topology Graph'' False (GmMode Topology),
     Button ''Provenance Stepper'' False (GmMode Stepper), Text ''LIVE STREAM'']"

definition selected_card :: "ig_node \<Rightarrow> graph_msg view list" where
  "selected_card n =
     [Text (str_or (ig_label n) (ig_id n)), Button ''close'' False GmDeselect,
      Text (''Type: '' @ str_or (ig_type n) ''Entity'')]
     @ (let c = str_or (ig_category n) '''' in render_if (c \<noteq> '''') (Text (''Category: '' @ c)))
     @ (let i = str_or (ig_ip n) '''' in render_if (i \<noteq> '''') (Text (''IP: '' @ i)))
     @ (let p = str_or (ig_properties n) '''' in render_if (p \<noteq> '''') (Text p))"

definition stepper_row :: "graph_state \<Rightarrow> nat \<Rightarrow> ig_node \<Rightarrow> graph_msg view list" where
  "stepper_row s index n =
     (let nodeEdges = filter (\<lambda>e. ie_source_id e = Some (ig_id n)) (gs_edges s) in
      [Text (nat_str (index + 1)), Text (str_or (ig_label n) (ig_id n)),
       Text (if ig_status n = [] then ''DETECTED'' else js_upper (ig_status n))]
      @ (let t = str_or (ig_type n) '''' in render_if (t \<noteq> '''') (Text (''['' @ t @ '']'')))
      @ (let p = str_or (ig_properties n) '''' in render_if (p \<noteq> '''') (Text p))
      @ (if nodeEdges = [] then [] else Text ''Provenance Edges:''
           # concat (map (\<lambda>e. [Text (ie_relation e),
               Text (or_else (str_first (ie_target_id e) (ie_target e)) '''')]) nodeEdges)))"

definition InvestigationGraph_view :: "graph_state \<Rightarrow> graph_msg view list" where
  "InvestigationGraph_view s = graph_header
     @ (case gs_viewMode s of
          Topology \<Rightarrow> [Text ''WiFi 6 Gateway'', Text ''Client Station'', Text ''DROP / Threat'', Text ''Allowed Flow'']
            @ (case gs_selected s of Some n \<Rightarrow> selected_card n | None \<Rightarrow> [])
        | Stepper \<Rightarrow> concat (map (\<lambda>(i, n). stepper_row s i n) (enumerate 0 (gs_nodes s))))"

section \<open>Lemmas\<close>

text \<open>The updates a history delivers, in order.\<close>

definition updates_of :: "graph_event list \<Rightarrow> node_update list" where
  "updates_of es = concat (map (\<lambda>e. case e of
     GraphMessage (Some u) \<Rightarrow> if nu_type u = ''node_execution'' then [u] else [] | _ \<Rightarrow> []) es)"

definition no_snapshot :: "graph_event list \<Rightarrow> bool" where
  "no_snapshot es = list_all (\<lambda>e. case e of GraphSnapshot r \<Rightarrow> False | _ \<Rightarrow> True) es"

lemma updates_of_Cons: "updates_of (e # es) = updates_of [e] @ updates_of es"
  by (simp add: updates_of_def)

lemma render_tick_flush:
  "fold apply_update (gs_pending (render_tick s)) (gs_nodes (render_tick s)) = fold apply_update (gs_pending s) (gs_nodes s)"
  by (simp add: render_tick_def)

lemma step_before_snapshot:
  assumes "\<not> gs_snapshotLoaded s" and "no_snapshot [e]"
  shows "graph_step e s = s\<lparr>gs_pending := gs_pending s @ updates_of [e]\<rparr>"
  using assms by (cases e) (auto simp: graph_onmessage_def render_tick_def updates_of_def no_snapshot_def split: option.split)

lemma run_before_snapshot:
  "\<not> gs_snapshotLoaded s \<Longrightarrow> no_snapshot es \<Longrightarrow>
     fold graph_step es s = s\<lparr>gs_pending := gs_pending s @ updates_of es\<rparr>"
proof (induction es arbitrary: s)
  case Nil
  then show ?case by (simp add: updates_of_def)
next
  case (Cons e es)
  have e: "no_snapshot [e]" and es: "no_snapshot es" using Cons.prems(2) by (simp_all add: no_snapshot_def)
  have "fold graph_step (e # es) s = fold graph_step es (s\<lparr>gs_pending := gs_pending s @ updates_of [e]\<rparr>)"
    using step_before_snapshot [OF Cons.prems(1) e] by simp
  also have "\<dots> = s\<lparr>gs_pending := gs_pending s @ updates_of [e] @ updates_of es\<rparr>"
    using Cons.IH [OF _ es, of "s\<lparr>gs_pending := gs_pending s @ updates_of [e]\<rparr>"] Cons.prems(1) by simp
  finally show ?case by (subst updates_of_Cons)
qed

lemma step_after_snapshot:
  assumes "gs_snapshotLoaded s" and "no_snapshot [e]"
  shows "gs_snapshotLoaded (graph_step e s) \<and>
    fold apply_update (gs_pending (graph_step e s)) (gs_nodes (graph_step e s))
      = fold apply_update (updates_of [e]) (fold apply_update (gs_pending s) (gs_nodes s))"
  using assms
  by (cases e) (auto simp: graph_onmessage_def render_tick_flush render_tick_def updates_of_def no_snapshot_def
      split: option.split)

lemma run_after_snapshot:
  "gs_snapshotLoaded s \<Longrightarrow> no_snapshot es \<Longrightarrow>
     gs_snapshotLoaded (fold graph_step es s) \<and>
     fold apply_update (gs_pending (fold graph_step es s)) (gs_nodes (fold graph_step es s))
       = fold apply_update (updates_of es) (fold apply_update (gs_pending s) (gs_nodes s))"
proof (induction es arbitrary: s)
  case Nil
  then show ?case by (simp add: updates_of_def)
next
  case (Cons e es)
  have e: "no_snapshot [e]" and es: "no_snapshot es" using Cons.prems(2) by (simp_all add: no_snapshot_def)
  note step = step_after_snapshot [OF Cons.prems(1) e]
  have "fold apply_update (updates_of (e # es)) ns = fold apply_update (updates_of es) (fold apply_update (updates_of [e]) ns)" for ns
    by (subst updates_of_Cons) simp
  then show ?case using Cons.IH [of "graph_step e s"] step es by simp
qed

lemma apply_update_ids:
  "ig_id ` set (apply_update u ns) = insert (nu_node_id u) (ig_id ` set ns)
   \<and> (distinct (map ig_id ns) \<longrightarrow> distinct (map ig_id (apply_update u ns)))"
  by (induction ns) (auto simp: new_node_def)

section \<open>Properties\<close>

text \<open>C13. No update of the stream is lost around the snapshot of the first session: whatever the order of
  messages, ticks and the snapshot, after the next tick the nodes are the snapshot's (the baseline when it
  has none) with every update applied in the order of arrival, those that came before the snapshot
  included.\<close>

theorem graph_updates_not_lost:
  assumes "no_snapshot es" and "no_snapshot fs"
  shows "gs_nodes (fold graph_step (es @ [GraphSnapshot (Resolved d)] @ fs @ [GraphTick]) InvestigationGraph) =
     fold apply_update (updates_of es @ updates_of fs)
       (let ns = first_array [sn_nodes d, sn_data_nodes d, sn_layout_nodes d] in if ns = [] then baseline_nodes else ns)"
proof -
  let ?ns = "let ns = first_array [sn_nodes d, sn_data_nodes d, sn_layout_nodes d] in if ns = [] then baseline_nodes else ns"
  define s where "s = graph_step (GraphSnapshot (Resolved d)) (fold graph_step es InvestigationGraph)"
  have es: "fold graph_step es InvestigationGraph = InvestigationGraph\<lparr>gs_pending := updates_of es\<rparr>"
    using run_before_snapshot [OF _ assms(1), of InvestigationGraph] by (simp add: InvestigationGraph_def)
  have s: "gs_snapshotLoaded s" "gs_nodes s = ?ns" "gs_pending s = updates_of es"
    unfolding s_def es by (simp_all add: snapshot_settle_def Let_def)
  let ?t = "fold graph_step fs s"
  have t: "gs_snapshotLoaded ?t"
    "fold apply_update (gs_pending ?t) (gs_nodes ?t) = fold apply_update (updates_of es @ updates_of fs) ?ns"
    using run_after_snapshot [OF s(1) assms(2)] s(2,3) by simp_all
  have "gs_nodes (render_tick ?t) = fold apply_update (gs_pending ?t) (gs_nodes ?t)"
    using t(1) by (simp add: render_tick_def)
  then show ?thesis using t(2) by (simp add: s_def)
qed

definition example_update :: node_update where
  "example_update = \<lparr>nu_type = ''node_execution'', nu_node_id = ''router-gw'', nu_agent_name = None,
     nu_label = None, nu_status = ''running''\<rparr>"

definition empty_snapshot :: snapshot where
  "empty_snapshot = \<lparr>sn_nodes = Some [], sn_edges = None, sn_data_nodes = None, sn_data_edges = None,
     sn_layout_nodes = None, sn_layout_edges = None\<rparr>"

theorem graph_updates_not_lost_witness:
  "gs_nodes (fold graph_step ([GraphMessage (Some example_update), GraphTick]
      @ [GraphSnapshot (Resolved empty_snapshot)] @ [] @ [GraphTick]) InvestigationGraph)
   = apply_update example_update baseline_nodes"
proof -
  have "no_snapshot [GraphMessage (Some example_update), GraphTick]" and "no_snapshot []"
    by (simp_all add: no_snapshot_def)
  then show ?thesis
    using graph_updates_not_lost [of "[GraphMessage (Some example_update), GraphTick]" "[]" empty_snapshot]
    by (simp add: updates_of_def example_update_def empty_snapshot_def first_array_def)
qed

text \<open>After a switch to another session the guard of the queue is already open: an update of the new
  session that is flushed before its snapshot arrives is applied to the old nodes and then overwritten by
  the snapshot.\<close>

theorem graph_update_lost_after_switch:
  assumes "gs_snapshotLoaded s" and "first_array [sn_nodes d, sn_data_nodes d, sn_layout_nodes d] = ns" and "ns \<noteq> []"
  shows "gs_nodes (fold graph_step [GraphMessage (Some u), GraphTick, GraphSnapshot (Resolved d), GraphTick]
      (fst (graph_session base i (s\<lparr>gs_pending := []\<rparr>)))) = ns"
  using assms
  by (simp add: graph_session_def graph_onmessage_def snapshot_settle_def render_tick_def Let_def)

theorem graph_update_lost_after_switch_witness:
  "gs_nodes (fold graph_step [GraphMessage (Some example_update), GraphTick,
        GraphSnapshot (Resolved (empty_snapshot\<lparr>sn_nodes := Some baseline_nodes\<rparr>)), GraphTick]
      (fst (graph_session ''wss://soc'' ''inv-2'' (InvestigationGraph\<lparr>gs_snapshotLoaded := True, gs_pending := []\<rparr>))))
   = baseline_nodes"
  by (rule graph_update_lost_after_switch) (simp_all add: empty_snapshot_def first_array_def baseline_nodes_def)
end
