(* ===== verification/Agent_Streams.thy ===== *)
theory Agent_Streams
  imports Command_Center
begin

text \<open>
  Components that hold a socket of their own: the chat widgets of \<^verbatim>\<open>features/investigations\<close> and
  \<^verbatim>\<open>features/agent-ops\<close>, the agent trace and the node resilience card of \<^verbatim>\<open>features/agent-ops\<close>, the second
  copy of \<^verbatim>\<open>useInvestigationStream\<close>, and the threat intelligence panel.

  Sockets are numbered in the order of their creation; a socket is open until it is closed, closing until
  its \<^verbatim>\<open>onclose\<close> event has fired.
\<close>

section \<open>Sockets\<close>

record sockets =
  so_next :: nat
  so_open :: "nat list"
  so_closing :: "nat list"
  so_ref :: "nat option"

definition no_sockets :: sockets where
  "no_sockets = \<lparr>so_next = 0, so_open = [], so_closing = [], so_ref = None\<rparr>"

definition so_new :: "sockets \<Rightarrow> sockets" where
  "so_new s = s\<lparr>so_next := Suc (so_next s), so_open := so_open s @ [so_next s], so_ref := Some (so_next s)\<rparr>"

text \<open>\<^verbatim>\<open>close()\<close> on a socket that is not open any more does nothing.\<close>

definition so_close :: "nat \<Rightarrow> sockets \<Rightarrow> sockets" where
  "so_close i s = (if i \<in> set (so_open s)
     then s\<lparr>so_open := filter (\<lambda>j. j \<noteq> i) (so_open s), so_closing := so_closing s @ [i]\<rparr> else s)"

definition so_close_ref :: "sockets \<Rightarrow> sockets" where
  "so_close_ref s = (case so_ref s of Some i \<Rightarrow> so_close i s | None \<Rightarrow> s)"

text \<open>The socket disappears, whether the page closed it or the network did.\<close>

definition so_gone :: "nat \<Rightarrow> sockets \<Rightarrow> sockets" where
  "so_gone i s = s\<lparr>so_open := filter (\<lambda>j. j \<noteq> i) (so_open s), so_closing := filter (\<lambda>j. j \<noteq> i) (so_closing s)\<rparr>"

section \<open>AgentChatWidget of the investigations\<close>

datatype chat_role = User | Agent | System

record chat_message =
  cm_role :: chat_role
  cm_text :: string
  cm_provider :: "string option"

record chat_data =
  cd_error :: "string option"
  cd_chunk :: string
  cd_provider :: "string option"
  cd_done :: bool

record chat =
  ch_isOpen :: bool
  ch_isMinimized :: bool
  ch_input :: string
  ch_messages :: "chat_message list"
  ch_isTyping :: bool
  ch_sockets :: sockets

definition AgentChatWidget :: "string \<Rightarrow> chat" where
  "AgentChatWidget defaultInput = \<lparr>ch_isOpen = False, ch_isMinimized = False, ch_input = defaultInput,
     ch_messages = [], ch_isTyping = False, ch_sockets = no_sockets\<rparr>"

definition chat_cleanup :: "bool \<Rightarrow> sockets \<Rightarrow> sockets" where
  "chat_cleanup captured so = (if \<not> captured \<and> so_ref so \<noteq> None then (so_close_ref so)\<lparr>so_ref := None\<rparr> else so)"

definition chat_effect :: "bool \<Rightarrow> sockets \<Rightarrow> sockets" where
  "chat_effect isOpen so = (if isOpen \<and> so_ref so = None then so_new so else so)"

text \<open>A change of \<^verbatim>\<open>isOpen\<close>: the clean-up of the effect that ran for the old value, then the effect.\<close>

definition chat_setOpen :: "bool \<Rightarrow> chat \<Rightarrow> chat" where
  "chat_setOpen b s = (if b = ch_isOpen s then s
     else s\<lparr>ch_isOpen := b, ch_sockets := chat_effect b (chat_cleanup (ch_isOpen s) (ch_sockets s))\<rparr>)"

definition chat_unmount :: "chat \<Rightarrow> chat" where
  "chat_unmount s = s\<lparr>ch_sockets := chat_cleanup (ch_isOpen s) (ch_sockets s)\<rparr>"

definition chat_onclose :: "nat \<Rightarrow> chat \<Rightarrow> chat" where
  "chat_onclose i s = s\<lparr>ch_sockets := (so_gone i (ch_sockets s))\<lparr>so_ref := None\<rparr>\<rparr>"

definition chat_onmessage :: "chat_data \<Rightarrow> chat \<Rightarrow> chat" where
  "chat_onmessage d s =
     (let err = str_or (cd_error d) '''' in
      if err \<noteq> '''' then
        s\<lparr>ch_messages := ch_messages s @ [\<lparr>cm_role = Agent, cm_text = ''Error: '' @ err, cm_provider = None\<rparr>],
          ch_isTyping := False\<rparr>
      else
        let prev = ch_messages s;
            msgs = (if prev = [] \<or> cm_role (last prev) = User
                    then prev @ [\<lparr>cm_role = Agent, cm_text = cd_chunk d, cm_provider = cd_provider d\<rparr>]
                    else butlast prev @ [(last prev)\<lparr>cm_text := cm_text (last prev) @ cd_chunk d,
                           cm_provider := (if str_or (cd_provider d) '''' \<noteq> '''' then cd_provider d
                                           else cm_provider (last prev))\<rparr>])
        in s\<lparr>ch_messages := msgs, ch_isTyping := (if cd_done d then False else ch_isTyping s)\<rparr>)"

definition chat_handleSubmit :: "chat \<Rightarrow> chat \<times> effect list" where
  "chat_handleSubmit s =
     (if js_trim (ch_input s) = [] \<or> so_ref (ch_sockets s) = None then (s, [])
      else (s\<lparr>ch_messages := ch_messages s @ [\<lparr>cm_role = User, cm_text = ch_input s, cm_provider = None\<rparr>],
              ch_input := '''', ch_isTyping := True\<rparr>, [SendSocket (ch_input s)]))"

datatype chat_msg = ChatOpen | ChatClose | ChatMinimize | ChatRestore | ChatInput string | ChatSubmit

definition AgentChatWidget_view :: "chat \<Rightarrow> chat_msg view list" where
  "AgentChatWidget_view s =
     (if \<not> ch_isOpen s then [Button ''Open AI Assistant'' False ChatOpen]
      else if ch_isMinimized s then
        [Clickable ChatRestore [Text (''AI Assistant ('' @ nat_str (length (ch_messages s)) @ '')''),
           Button ''Close'' False ChatClose]]
      else [Text ''AI Assistant'', Text ''Read-only Context - Cannot Isolate Hosts'',
            Button ''Minimize'' False ChatMinimize, Button ''Close'' False ChatClose]
        @ render_if (ch_messages s = []) (Text ''Ask me to summarize alerts, explain risks, or correlate events.'')
        @ concat (map (\<lambda>m. Text (cm_text m) #
            (let p = str_or (cm_provider m) '''' in
             render_if (cm_role m = Agent \<and> p \<noteq> '''') (Text (''Generated via '' @ p)))) (ch_messages s))
        @ [Input (ch_input s) False ChatInput, Button ''Send message'' (js_trim (ch_input s) = []) ChatSubmit])"

section \<open>AgentChatWidget of agent-ops\<close>

record ops_chat =
  oc_isOpen :: bool
  oc_input :: string
  oc_messages :: "(chat_role \<times> string) list"
  oc_isTyping :: bool
  oc_sockets :: sockets

definition ops_AgentChatWidget :: ops_chat where
  "ops_AgentChatWidget = \<lparr>oc_isOpen = False, oc_input = '''',
     oc_messages = [(System, ''Agent connected. Note: This channel is READ-ONLY. The agent cannot isolate hosts, disable rules, or execute playbooks.'')],
     oc_isTyping = False, oc_sockets = no_sockets\<rparr>"

definition ops_chat_setOpen :: "bool \<Rightarrow> ops_chat \<Rightarrow> ops_chat" where
  "ops_chat_setOpen b s = (if b = oc_isOpen s then s
     else s\<lparr>oc_isOpen := b, oc_sockets := (if b then so_new (oc_sockets s) else so_close_ref (oc_sockets s))\<rparr>)"

datatype ops_chat_data = OpsError string | OpsTyping | OpsChunk string | OpsDone | OpsOther

definition ops_chat_onmessage :: "ops_chat_data \<Rightarrow> ops_chat \<Rightarrow> ops_chat" where
  "ops_chat_onmessage d s =
     (case d of
        OpsError m \<Rightarrow> s\<lparr>oc_messages := oc_messages s @ [(System, m)], oc_isTyping := False\<rparr>
      | OpsTyping \<Rightarrow> s\<lparr>oc_isTyping := True,
          oc_messages := (if oc_messages s \<noteq> [] \<and> last (oc_messages s) = (Agent, '''') then oc_messages s
                          else oc_messages s @ [(Agent, '''')])\<rparr>
      | OpsChunk c \<Rightarrow> s\<lparr>oc_isTyping := False,
          oc_messages := (if oc_messages s \<noteq> [] \<and> fst (last (oc_messages s)) = Agent
                          then butlast (oc_messages s) @ [(Agent, snd (last (oc_messages s)) @ c)] else oc_messages s)\<rparr>
      | OpsDone \<Rightarrow> s\<lparr>oc_isTyping := False\<rparr>
      | OpsOther \<Rightarrow> s)"

definition ops_chat_handleSend :: "ops_chat \<Rightarrow> ops_chat \<times> effect list" where
  "ops_chat_handleSend s =
     (if js_trim (oc_input s) = [] \<or> so_ref (oc_sockets s) = None then (s, [])
      else (s\<lparr>oc_messages := oc_messages s @ [(User, oc_input s)], oc_input := ''''\<rparr>, [SendSocket (oc_input s)]))"

definition ops_AgentChatWidget_view :: "ops_chat \<Rightarrow> chat_msg view list" where
  "ops_AgentChatWidget_view s =
     (if oc_isOpen s then
        [Text ''AI Assistant'', Text ''Read-Only Contextual Queries'', Button ''x'' False ChatClose]
        @ map (\<lambda>(r, t). Text t) (oc_messages s)
        @ render_if (oc_isTyping s) (Text ''Thinking...'')
        @ [Input (oc_input s) False ChatInput, Button ''Send'' False ChatSubmit]
      else [Button ''Open AI Assistant'' False ChatOpen])"

section \<open>AgentTriageFeed of agent-ops\<close>

text \<open>\<open>ot_timers\<close> counts the pending \<^verbatim>\<open>setTimeout(connect, 3000)\<close>, \<open>ot_toggles\<close> the clicks on Pause.\<close>

record ops_feed =
  ot_events :: "agent_event list"
  ot_isPaused :: bool
  ot_filterNode :: string
  ot_queue :: "agent_event list"
  ot_sockets :: sockets
  ot_timers :: nat
  ot_toggles :: nat

definition ops_AgentTriageFeed :: ops_feed where
  "ops_AgentTriageFeed = \<lparr>ot_events = [], ot_isPaused = False, ot_filterNode = ''All'', ot_queue = [],
     ot_sockets = so_new no_sockets, ot_timers = 0, ot_toggles = 0\<rparr>"

datatype ops_feed_data = History "agent_event list" | Live agent_event | OtherData

definition ops_feed_onmessage :: "ops_feed_data \<Rightarrow> ops_feed \<Rightarrow> ops_feed" where
  "ops_feed_onmessage d s = (case d of
       History es \<Rightarrow> s\<lparr>ot_events := es\<rparr>
     | Live e \<Rightarrow> s\<lparr>ot_queue := ot_queue s @ [e]\<rparr>
     | OtherData \<Rightarrow> s)"

definition ops_feed_onclose :: "nat \<Rightarrow> ops_feed \<Rightarrow> ops_feed" where
  "ops_feed_onclose i s = s\<lparr>ot_sockets := so_gone i (ot_sockets s), ot_timers := Suc (ot_timers s)\<rparr>"

definition ops_feed_reconnect :: "ops_feed \<Rightarrow> ops_feed" where
  "ops_feed_reconnect s = s\<lparr>ot_timers := ot_timers s - 1, ot_sockets := so_new (ot_sockets s)\<rparr>"

definition push_events :: "agent_event list \<Rightarrow> agent_event list \<Rightarrow> agent_event list" where
  "push_events queue prev = take_last 500 (prev @ queue)"

definition ops_feed_tick :: "ops_feed \<Rightarrow> ops_feed" where
  "ops_feed_tick s = (if \<not> ot_isPaused s \<and> 0 < length (ot_queue s)
     then s\<lparr>ot_events := push_events (ot_queue s) (ot_events s), ot_queue := []\<rparr> else s)"

text \<open>The Pause button changes \<^verbatim>\<open>isPaused\<close>, on which the effect depends: clean-up, then \<^verbatim>\<open>connect()\<close>.\<close>

definition ops_feed_toggle :: "ops_feed \<Rightarrow> ops_feed" where
  "ops_feed_toggle s = s\<lparr>ot_isPaused := \<not> ot_isPaused s,
     ot_sockets := so_new (so_close_ref (ot_sockets s)), ot_toggles := Suc (ot_toggles s)\<rparr>"

definition ops_filteredEvents :: "ops_feed \<Rightarrow> agent_event list" where
  "ops_filteredEvents s = filter (\<lambda>e. ot_filterNode s = ''All'' \<or> ae_node e = ot_filterNode s) (ot_events s)"

datatype ops_feed_event = OtMessage ops_feed_data | OtClose nat | OtTimer | OtTick | OtToggle

primrec ops_feed_step :: "ops_feed_event \<Rightarrow> ops_feed \<Rightarrow> ops_feed" where
  "ops_feed_step (OtMessage d) s = ops_feed_onmessage d s"
| "ops_feed_step (OtClose i) s = ops_feed_onclose i s"
| "ops_feed_step OtTimer s = ops_feed_reconnect s"
| "ops_feed_step OtTick s = ops_feed_tick s"
| "ops_feed_step OtToggle s = ops_feed_toggle s"

primrec ops_feed_enabled :: "ops_feed \<Rightarrow> ops_feed_event \<Rightarrow> bool" where
  "ops_feed_enabled s (OtMessage d) = (so_open (ot_sockets s) \<noteq> [])"
| "ops_feed_enabled s (OtClose i) = (i \<in> set (so_open (ot_sockets s)) \<union> set (so_closing (ot_sockets s)))"
| "ops_feed_enabled s OtTimer = (0 < ot_timers s)"
| "ops_feed_enabled s OtTick = True"
| "ops_feed_enabled s OtToggle = True"

definition ops_event_row :: "agent_event \<Rightarrow> feed_msg view list" where
  "ops_event_row e =
     [Text (''['' @ ae_node e @ '']''), Text (js_upper (ae_status e))]
     @ (let p = str_or (ae_provider e) '''' in render_if (p \<noteq> '''') (Text (''via '' @ p)))
     @ render_if (ae_fallbackTriggered e) (Text (''Fallback: '' @ or_else (ae_fallbackReason e) ''''))
     @ (let t = str_or (ae_summary e) '''' in render_if (t \<noteq> '''') (Text (''- '' @ t)))
     @ (let i = str_or (ae_investigationId e) '''' in
        render_if (i \<noteq> '''') (Button i False (FeedOpen (''/investigations/'' @ i))))"

definition ops_AgentTriageFeed_view :: "ops_feed \<Rightarrow> feed_msg view list" where
  "ops_AgentTriageFeed_view s =
     [Text ''Live Agent Trace'',
      Select (ot_filterNode s) [''All'', ''Ingest'', ''Deobfuscation'', ''LLMTriage'', ''Action''] FeedNode,
      Button (if ot_isPaused s then ''Resume'' else ''Pause'') False FeedPause]
     @ concat (map ops_event_row (rev (ops_filteredEvents s)))
     @ render_if (ot_events s = []) (Text ''Waiting for agent telemetry...'')"

section \<open>AgentResilienceStatus of agent-ops\<close>

datatype node_health = NodeHealthy | NodeDegraded | NodeFailed | NodeIdle

record agent_node =
  an_node :: string
  an_status :: node_health
  an_latencyMs :: nat
  an_lastEventAt :: "string option"
  an_fallbackRate :: nat

record resilience_data =
  rd_nodes :: "agent_node list"
  rd_totalProcessed :: nat
  rd_fallbackTotal :: nat
  rd_provider :: string

definition MOCK_INITIAL :: "string \<Rightarrow> resilience_data" where
  "MOCK_INITIAL now = \<lparr>rd_nodes =
     [\<lparr>an_node = ''Ingest'', an_status = NodeHealthy, an_latencyMs = 12, an_lastEventAt = Some now, an_fallbackRate = 0\<rparr>,
      \<lparr>an_node = ''Deobfuscation'', an_status = NodeHealthy, an_latencyMs = 340, an_lastEventAt = Some now, an_fallbackRate = 2\<rparr>,
      \<lparr>an_node = ''LLMTriage'', an_status = NodeDegraded, an_latencyMs = 1820, an_lastEventAt = Some now, an_fallbackRate = 18\<rparr>,
      \<lparr>an_node = ''Action'', an_status = NodeHealthy, an_latencyMs = 55, an_lastEventAt = Some now, an_fallbackRate = 0\<rparr>],
     rd_totalProcessed = 4821, rd_fallbackTotal = 91, rd_provider = ''openai/gpt-4o-mini''\<rparr>"

fun statusColor :: "node_health \<Rightarrow> string" where
  "statusColor NodeHealthy = ''text-emerald-400''"
| "statusColor NodeDegraded = ''text-amber-400''"
| "statusColor NodeFailed = ''text-red-400''"
| "statusColor NodeIdle = ''text-slate-500''"

fun statusBg :: "node_health \<Rightarrow> string" where
  "statusBg NodeHealthy = ''bg-emerald-500''"
| "statusBg NodeDegraded = ''bg-amber-500 animate-pulse''"
| "statusBg NodeFailed = ''bg-red-500 animate-pulse''"
| "statusBg NodeIdle = ''bg-slate-600''"

definition latencyColor :: "nat \<Rightarrow> string" where
  "latencyColor ms = (if ms < 200 then ''text-emerald-400'' else if ms < 1000 then ''text-amber-400'' else ''text-red-400'')"

datatype resilience_message = ResiliencePayload resilience_data | ResilienceLive agent_event | ResilienceOther

definition resilience_onmessage :: "resilience_message \<Rightarrow> resilience_data \<Rightarrow> resilience_data" where
  "resilience_onmessage d s = (case d of
       ResiliencePayload p \<Rightarrow> p
     | ResilienceLive e \<Rightarrow>
         (case ae_latencyMs e of
            Some l \<Rightarrow> if l = 0 \<or> ae_node e = [] then s
              else s\<lparr>rd_totalProcessed := rd_totalProcessed s + 1,
                rd_nodes := map_where (\<lambda>n. an_node n = ae_node e)
                  (\<lambda>n. n\<lparr>an_latencyMs := l, an_lastEventAt := Some (ae_timestamp e),
                        an_status := (if ae_status e = ''failed'' then NodeDegraded else NodeHealthy)\<rparr>) (rd_nodes s)\<rparr>
          | None \<Rightarrow> s)
     | ResilienceOther \<Rightarrow> s)"

definition resilience_rate :: "(rat \<Rightarrow> rat) \<Rightarrow> resilience_data \<Rightarrow> rat" where
  "resilience_rate fl d = (if 0 < rd_totalProcessed d
     then js_percent fl (rd_fallbackTotal d) (rd_totalProcessed d) else 0)"

section \<open>The copy of useInvestigationStream, and ThreatIntelPanel\<close>

definition feature_stream_effect :: "bool \<Rightarrow> string \<Rightarrow> string option \<Rightarrow> inv_stream \<Rightarrow> inv_stream \<times> effect list" where
  "feature_stream_effect https host oid s =
     (case oid of
        None \<Rightarrow> (s, [])
      | Some i \<Rightarrow> if i = [] then (s, [])
          else (s\<lparr>is_socket := Some CONNECTING\<rparr>,
            [OpenSocket ((if https then ''wss:'' else ''ws:'') @ ''//'' @ host @ ''/api/investigations/'' @ i @ ''/stream'')]))"

definition feature_stream_onmessage :: "string \<Rightarrow> inv_stream \<Rightarrow> inv_stream" where
  "feature_stream_onmessage d s = s\<lparr>is_logs := (let updated = is_logs s @ [d] in
     if 1000 < length updated then drop (length updated - 1000) updated else updated)\<rparr>"

definition feature_stream_cleanup :: "inv_stream \<Rightarrow> inv_stream \<times> effect list" where
  "feature_stream_cleanup s =
     (if is_socket s = Some OPEN then (s\<lparr>is_socket := Some CLOSING\<rparr>, [CloseSocket]) else (s, []))"

record intel =
  it_source_ip :: string
  it_reputation :: nat
  it_pulse_count :: nat
  it_tags :: "string list"
  it_listed :: bool
  it_malware_family :: "string option"
  it_misp_correlation :: bool
  it_overall_risk_score :: rat

definition ThreatIntelPanel_timeout :: "string \<Rightarrow> intel" where
  "ThreatIntelPanel_timeout ipAddress = \<lparr>it_source_ip = ipAddress, it_reputation = 85, it_pulse_count = 12,
     it_tags = [''cobaltstrike'', ''c2'', ''apt29''], it_listed = True, it_malware_family = Some ''Qakbot'',
     it_misp_correlation = True, it_overall_risk_score = 47 / 5\<rparr>"

section \<open>Counting sockets\<close>

definition so_wf :: "sockets \<Rightarrow> bool" where
  "so_wf s = (distinct (so_open s @ so_closing s) \<and> (\<forall>i \<in> set (so_open s @ so_closing s). i < so_next s))"

definition so_count :: "sockets \<Rightarrow> nat" where
  "so_count s = length (so_open s) + length (so_closing s)"

lemma length_remove: "distinct xs \<Longrightarrow> length (filter (\<lambda>j. j \<noteq> i) xs) = length xs - of_bool (i \<in> set xs)"
proof -
  assume d: "distinct xs"
  have "set (filter (\<lambda>j. j \<noteq> i) xs) = set xs - {i}" by auto
  then show ?thesis
    using distinct_card [OF distinct_filter [OF d, of "\<lambda>j. j \<noteq> i"]] distinct_card [OF d]
    by (cases "i \<in> set xs") (simp_all add: card_Diff_singleton_if)
qed

lemma so_new_count: "so_wf s \<Longrightarrow> so_wf (so_new s) \<and> so_count (so_new s) = Suc (so_count s)"
  by (auto simp: so_wf_def so_new_def so_count_def intro: less_SucI)

lemma so_close_count: "so_wf s \<Longrightarrow> so_wf (so_close i s) \<and> so_count (so_close i s) = so_count s"
proof -
  assume w: "so_wf s"
  then have d: "distinct (so_open s)" by (simp add: so_wf_def)
  show ?thesis
  proof (cases "i \<in> set (so_open s)")
    case True
    then have "0 < length (so_open s)" by (cases "so_open s") auto
    then show ?thesis using w True length_remove [OF d, of i]
      by (auto simp: so_wf_def so_close_def so_count_def)
  next
    case False
    then show ?thesis using w by (simp add: so_close_def)
  qed
qed

lemma so_close_ref_count: "so_wf s \<Longrightarrow> so_wf (so_close_ref s) \<and> so_count (so_close_ref s) = so_count s"
  by (simp add: so_close_ref_def so_close_count split: option.split)

lemma so_gone_count:
  assumes "so_wf s" and "i \<in> set (so_open s) \<union> set (so_closing s)"
  shows "so_wf (so_gone i s) \<and> Suc (so_count (so_gone i s)) = so_count s"
proof -
  have d: "distinct (so_open s)" "distinct (so_closing s)" "set (so_open s) \<inter> set (so_closing s) = {}"
    using assms(1) by (simp_all add: so_wf_def)
  have pos: "i \<in> set xs \<Longrightarrow> 0 < length xs" for xs :: "nat list" by (cases xs) auto
  have "Suc (so_count (so_gone i s)) = so_count s"
  proof (cases "i \<in> set (so_open s)")
    case True
    then have "i \<notin> set (so_closing s)" using d(3) by auto
    then show ?thesis using True pos [of "so_open s"] length_remove [OF d(1), of i] length_remove [OF d(2), of i]
      by (simp add: so_gone_def so_count_def)
  next
    case False
    then have "i \<in> set (so_closing s)" using assms(2) by auto
    then show ?thesis using False pos [of "so_closing s"] length_remove [OF d(1), of i] length_remove [OF d(2), of i]
      by (simp add: so_gone_def so_count_def)
  qed
  moreover have "so_wf (so_gone i s)" using assms(1) by (auto simp: so_wf_def so_gone_def)
  ultimately show ?thesis by simp
qed

interpretation ops_feed_machine: machine_invariant ops_AgentTriageFeed ops_feed_enabled ops_feed_step
    "\<lambda>s. so_wf (ot_sockets s) \<and> so_count (ot_sockets s) + ot_timers s = 1 + ot_toggles s"
proof (unfold_locales, goal_cases)
  case 1
  have "so_wf no_sockets" "so_count no_sockets = 0" by (simp_all add: so_wf_def so_count_def no_sockets_def)
  then show ?case by (simp add: ops_AgentTriageFeed_def so_new_count)
next
  case (2 s e)
  then show ?case
  proof (cases e)
    case (OtMessage d)
    then show ?thesis using 2 by (simp add: ops_feed_onmessage_def split: ops_feed_data.split)
  next
    case (OtClose i)
    then have "Suc (so_count (so_gone i (ot_sockets s))) = so_count (ot_sockets s)" "so_wf (so_gone i (ot_sockets s))"
      using 2 so_gone_count [of "ot_sockets s" i] by simp_all
    then show ?thesis using 2 OtClose by (simp add: ops_feed_onclose_def)
  next
    case OtTimer
    then show ?thesis using 2 so_new_count [of "ot_sockets s"] by (simp add: ops_feed_reconnect_def)
  next
    case OtTick
    then show ?thesis using 2 by (simp add: ops_feed_tick_def)
  next
    case OtToggle
    then show ?thesis using 2 so_close_ref_count [of "ot_sockets s"] so_new_count [of "so_close_ref (ot_sockets s)"]
      by (simp add: ops_feed_toggle_def)
  qed
qed

section \<open>Event buffer and chat text\<close>

interpretation ops_buffer: bounded_batch_log 500 rev push_events
  by unfold_locales (simp add: push_events_def rev_take_last)

lemma ops_buffer_keeps_last: "fold push_events batches [] = take_last 500 (concat batches)"
proof -
  have "rev (fold push_events batches []) = rev (take_last 500 (concat batches))"
    using ops_buffer.newest_batches [of "[]" batches] by (simp add: rev_take_last)
  then show ?thesis by simp
qed

lemma feature_stream_same:
  "feature_stream_effect = stream_effect \<and> feature_stream_onmessage = stream_onmessage \<and> feature_stream_cleanup = stream_cleanup"
  by (auto simp: fun_eq_iff feature_stream_effect_def stream_effect_def stream_url_def feature_stream_onmessage_def
      stream_onmessage_def push_log_def feature_stream_cleanup_def stream_cleanup_def split: option.split)

text \<open>Chunks without an error, with the provider \<open>p\<close>.\<close>

definition chunk :: "string option \<Rightarrow> string \<Rightarrow> chat_data" where
  "chunk p t = \<lparr>cd_error = None, cd_chunk = t, cd_provider = p, cd_done = False\<rparr>"

lemma chunks_extend_last:
  assumes "ch_messages s = ms @ [m]" and "cm_role m \<noteq> User"
  shows "ch_messages (fold (\<lambda>t. chat_onmessage (chunk p t)) ts s)
      = ms @ [m\<lparr>cm_text := cm_text m @ concat ts,
                cm_provider := (if ts \<noteq> [] \<and> str_or p '''' \<noteq> '''' then p else cm_provider m)\<rparr>]"
  using assms
proof (induction ts arbitrary: s m)
  case Nil
  then show ?case by simp
next
  case (Cons t ts)
  let ?m = "m\<lparr>cm_text := cm_text m @ t, cm_provider := (if str_or p '''' \<noteq> '''' then p else cm_provider m)\<rparr>"
  have "ch_messages (chat_onmessage (chunk p t) s) = ms @ [?m]"
    using Cons.prems by (simp add: chat_onmessage_def chunk_def str_or_def)
  then show ?case using Cons.IH [of _ ?m] Cons.prems(2) by simp
qed

section \<open>Properties\<close>

text \<open>Every click on Pause of the agent trace adds a connection: in every reachable state the sockets that
  are open or closing and the pending reconnections add up to one plus the number of clicks, so that when
  the network is quiet each live event arrives once per connection.\<close>

theorem ops_feed_leaks_sockets:
  assumes "reachable ops_AgentTriageFeed ops_feed_enabled ops_feed_step s"
  shows "length (so_open (ot_sockets s)) + length (so_closing (ot_sockets s)) + ot_timers s = 1 + ot_toggles s"
  using ops_feed_machine.inv_reachable [OF assms] by (simp add: so_count_def)

theorem ops_feed_leaks_sockets_witness:
  "let s = fold ops_feed_step [OtToggle, OtClose 0, OtTimer] ops_AgentTriageFeed in length (so_open (ot_sockets s)) = 2"
proof -
  let ?s1 = "ops_feed_step OtToggle ops_AgentTriageFeed"
  let ?s2 = "ops_feed_step (OtClose 0) ?s1" let ?s3 = "ops_feed_step OtTimer ?s2"
  have r1: "reachable ops_AgentTriageFeed ops_feed_enabled ops_feed_step ?s1"
    by (rule reach_step [OF reach_init]) simp
  have r2: "reachable ops_AgentTriageFeed ops_feed_enabled ops_feed_step ?s2"
    by (rule reach_step [OF r1])
      (simp add: ops_feed_toggle_def ops_AgentTriageFeed_def so_new_def so_close_ref_def so_close_def no_sockets_def)
  have r3: "reachable ops_AgentTriageFeed ops_feed_enabled ops_feed_step ?s3"
    by (rule reach_step [OF r2]) (simp add: ops_feed_onclose_def)
  have "so_closing (ot_sockets ?s3) = []" "ot_timers ?s3 = 0" "ot_toggles ?s3 = 1"
    by (simp_all add: ops_feed_toggle_def ops_feed_onclose_def ops_feed_reconnect_def ops_AgentTriageFeed_def
        so_new_def so_close_ref_def so_close_def so_gone_def no_sockets_def)
  then show ?thesis using ops_feed_leaks_sockets [OF r3] by (simp add: Let_def)
qed

text \<open>Closing the chat of the investigations leaves its socket open; reopening replaces it, and when the
  late \<^verbatim>\<open>onclose\<close> of the old socket arrives the reference to the new one is cleared: the new socket is
  open, and submitting any text does nothing.\<close>

theorem chat_reopen_goes_dead:
  "let s1 = chat_setOpen True (AgentChatWidget d); s2 = chat_setOpen False s1; s3 = chat_setOpen True s2;
       s4 = chat_onclose 0 s3
   in so_open (ch_sockets s2) = [0] \<and> so_open (ch_sockets s3) = [1] \<and> so_closing (ch_sockets s3) = [0]
      \<and> so_ref (ch_sockets s3) = Some 1
      \<and> so_open (ch_sockets s4) = [1] \<and> so_ref (ch_sockets s4) = None
      \<and> (\<forall>t. chat_handleSubmit (s4\<lparr>ch_input := t\<rparr>) = (s4\<lparr>ch_input := t\<rparr>, []))"
  by (simp add: Let_def chat_setOpen_def chat_effect_def chat_cleanup_def chat_onclose_def chat_handleSubmit_def
      AgentChatWidget_def no_sockets_def so_new_def so_close_ref_def so_close_def so_gone_def)



end
