(* ===== verification/Api_Auth.thy ===== *)
theory Api_Auth
  imports SOC_Prelude
begin

text \<open>
  Sessions and requests: the HTTP client and its interceptors (\<^verbatim>\<open>shared/api/apiClient.ts\<close>), the
  token helpers (\<^verbatim>\<open>shared/hooks/useAuthApi.ts\<close>, \<^verbatim>\<open>shared/auth/tokenService.ts\<close>), the guard
  of the protected pages (\<^verbatim>\<open>features/auth/ui/ProtectedRoute.tsx\<close>) and the log-in page
  (\<^verbatim>\<open>features/auth/ui/Login.tsx\<close>).

  \<^verbatim>\<open>encodeURIComponent\<close> and \<^verbatim>\<open>URLSearchParams\<close> are modelled with their UTF-8 encoding for
  Latin-1 text; \<^verbatim>\<open>JSON.parse\<close> and \<^verbatim>\<open>atob\<close> are arguments, \<^const>\<open>None\<close> standing for a throw, and
  the theorems hold for every choice of them.
\<close>

section \<open>Percent encoding\<close>

definition hex_digit :: "nat \<Rightarrow> char" where
  "hex_digit n = (if n < 10 then char_of (48 + n) else char_of (55 + n))"

definition hex_val :: "char \<Rightarrow> nat option" where
  "hex_val c = (let n = of_char c :: nat in
     if 48 \<le> n \<and> n \<le> 57 then Some (n - 48)
     else if 65 \<le> n \<and> n \<le> 70 then Some (n - 55)
     else if 97 \<le> n \<and> n \<le> 102 then Some (n - 87) else None)"

definition utf8 :: "char \<Rightarrow> nat list" where
  "utf8 c = (let n = of_char c :: nat in if n < 128 then [n] else [192 + n div 64, 128 + n mod 64])"

text \<open>The characters \<^verbatim>\<open>encodeURIComponent\<close> leaves alone: letters, digits and \<^verbatim>\<open>-_.!~*'()\<close>.\<close>

definition uri_unreserved :: "char \<Rightarrow> bool" where
  "uri_unreserved c = (let n = of_char c :: nat in
     (48 \<le> n \<and> n \<le> 57) \<or> (65 \<le> n \<and> n \<le> 90) \<or> (97 \<le> n \<and> n \<le> 122)
     \<or> n \<in> {45, 95, 46, 33, 126, 42, 39, 40, 41})"

definition percent_byte :: "nat \<Rightarrow> string" where
  "percent_byte b = [CHR ''%'', hex_digit (b div 16), hex_digit (b mod 16)]"

definition encodeURIComponent :: "string \<Rightarrow> string" where
  "encodeURIComponent s =
     concat (map (\<lambda>c. if uri_unreserved c then [c] else concat (map percent_byte (utf8 c))) s)"

fun percent_decode :: "string \<Rightarrow> nat list" where
  "percent_decode [] = []"
| "percent_decode (c # s) =
     (if c = CHR ''%'' then
        (case s of
           h # l # t \<Rightarrow>
             (case (hex_val h, hex_val l) of
                (Some a, Some b) \<Rightarrow> (16 * a + b) # percent_decode t
              | _ \<Rightarrow> 37 # percent_decode s)
         | _ \<Rightarrow> 37 # percent_decode s)
      else if c = CHR ''+'' then 32 # percent_decode s
      else utf8 c @ percent_decode s)"

text \<open>UTF-8 decoding; \<^const>\<open>None\<close> when the text is not Latin-1.\<close>

fun utf8_decode :: "nat list \<Rightarrow> string option" where
  "utf8_decode [] = Some []"
| "utf8_decode (b # bs) =
     (if b < 128 then map_option (\<lambda>s. char_of b # s) (utf8_decode bs)
      else (case bs of
          c # cs \<Rightarrow> if (b = 194 \<or> b = 195) \<and> 128 \<le> c \<and> c < 192
                   then map_option (\<lambda>s. char_of ((b - 192) * 64 + (c - 128)) # s) (utf8_decode cs)
                   else None
        | [] \<Rightarrow> None))"

definition query_decode :: "string \<Rightarrow> string option" where
  "query_decode s = utf8_decode (percent_decode s)"

text \<open>\<^verbatim>\<open>new URLSearchParams(search).get(name)\<close>: the first pair with that name.\<close>

definition split_pair :: "string \<Rightarrow> string \<times> string" where
  "split_pair p = (takeWhile (\<lambda>c. c \<noteq> CHR ''='') p, drop 1 (dropWhile (\<lambda>c. c \<noteq> CHR ''='') p))"

definition search_pairs :: "string \<Rightarrow> (string \<times> string) list" where
  "search_pairs search =
     (let q = (case search of c # s \<Rightarrow> if c = CHR ''?'' then s else search | [] \<Rightarrow> [])
      in map split_pair (filter (\<lambda>p. p \<noteq> []) (js_split (CHR ''&'') q)))"

definition search_get :: "string \<Rightarrow> string \<Rightarrow> string option" where
  "search_get search name =
     (case find (\<lambda>(k, v). query_decode k = Some name) (search_pairs search) of
        None \<Rightarrow> None | Some (k, v) \<Rightarrow> query_decode v)"

section \<open>tokenService\<close>

definition tokenService_getToken :: "string option" where
  "tokenService_getToken = None"

definition tokenService_setToken :: "string \<Rightarrow> (string \<rightharpoonup> string) \<Rightarrow> (string \<rightharpoonup> string)" where
  "tokenService_setToken t storage = storage"

definition tokenService_clearToken :: "(string \<rightharpoonup> string) \<Rightarrow> (string \<rightharpoonup> string)" where
  "tokenService_clearToken storage = storage"

definition tokenService_isTokenExpired :: "string \<Rightarrow> bool" where
  "tokenService_isTokenExpired t = True"

section \<open>apiClient\<close>

type_synonym headers = "string \<rightharpoonup> string"

text \<open>The request interceptor; \<open>uuid\<close> is what \<^verbatim>\<open>crypto.randomUUID()\<close> returns where it exists and
  \<open>rnd\<close> the text of \<^verbatim>\<open>Math.random().toString(36)\<close>.\<close>

definition apiClient_request :: "string option \<Rightarrow> string \<Rightarrow> headers \<Rightarrow> headers" where
  "apiClient_request uuid rnd h =
     h(''X-Correlation-ID'' \<mapsto> (case uuid of Some u \<Rightarrow> u | None \<Rightarrow> take 13 (drop 2 rnd)))"

definition login_redirect :: "string \<Rightarrow> string" where
  "login_redirect pathname = ''/login?redirect='' @ encodeURIComponent pathname"

text \<open>The response interceptor: the promise it returns, the token store and the effects.\<close>

definition apiClient_response ::
  "string \<Rightarrow> (string \<rightharpoonup> string) \<Rightarrow> 'a response \<Rightarrow> 'a response \<times> (string \<rightharpoonup> string) \<times> effect list" where
  "apiClient_response pathname storage r =
     (case r of
        Resolved x \<Rightarrow> (Resolved x, storage, [])
      | Rejected e \<Rightarrow>
          if err_status e = Some 401 then
            (Rejected e, tokenService_clearToken storage,
             if pathname \<noteq> ''/login'' then [SetHref (login_redirect pathname)] else [])
          else if err_status e = Some 403 then (Rejected e, storage, [SetHref ''/unauthorized''])
          else (Rejected e, storage, []))"

section \<open>useAuthApi\<close>

definition decodeJwtPayload :: "(string \<Rightarrow> string option) \<Rightarrow> (string \<Rightarrow> json option) \<Rightarrow> string \<Rightarrow> json option" where
  "decodeJwtPayload atob json_parse token =
     (case drop 1 (js_split (CHR ''.'') token) of
        [] \<Rightarrow> None
      | base64Url # _ \<Rightarrow>
          if base64Url = [] then None
          else (case atob (js_replace_char (CHR ''_'') (CHR ''/'') (js_replace_char (CHR ''-'') (CHR ''+'') base64Url)) of
                  None \<Rightarrow> None
                | Some text \<Rightarrow> json_parse text))"

definition isTokenExpired :: "(string \<Rightarrow> string option) \<Rightarrow> (string \<Rightarrow> json option) \<Rightarrow> rat \<Rightarrow> string \<Rightarrow> bool" where
  "isTokenExpired atob json_parse now_ms token =
     (let payload = decodeJwtPayload atob json_parse token in
      if \<not> json_truthy payload then True
      else (case json_get ''exp'' (the payload) of
              Some (JNum e) \<Rightarrow> now_ms / 1000 \<ge> e
            | _ \<Rightarrow> True))"

definition getTokenRole :: "(string \<Rightarrow> string option) \<Rightarrow> (string \<Rightarrow> json option) \<Rightarrow> string \<Rightarrow> json option" where
  "getTokenRole atob json_parse token =
     (let payload = decodeJwtPayload atob json_parse token in
      if \<not> json_truthy payload then None
      else (case json_get ''role'' (the payload) of Some JNull \<Rightarrow> None | r \<Rightarrow> r))"

definition getValidToken ::
  "(string \<Rightarrow> string option) \<Rightarrow> (string \<Rightarrow> json option) \<Rightarrow> rat \<Rightarrow> (string \<rightharpoonup> string)
     \<Rightarrow> string option \<times> (string \<rightharpoonup> string) \<times> effect list" where
  "getValidToken atob json_parse now_ms storage =
     (case storage ''internal_access_token'' of
        None \<Rightarrow> (None, storage, [])
      | Some token \<Rightarrow>
          if token = [] then (None, storage, [])
          else if isTokenExpired atob json_parse now_ms token then
            (None, storage(''internal_access_token'' := None),
             [LocalRemove ''internal_access_token'', SetHref ''/login''])
          else (Some token, storage, []))"

definition authApi_request ::
  "(string \<Rightarrow> string option) \<Rightarrow> (string \<Rightarrow> json option) \<Rightarrow> rat \<Rightarrow> (string \<rightharpoonup> string) \<Rightarrow> headers
     \<Rightarrow> headers \<times> (string \<rightharpoonup> string) \<times> effect list" where
  "authApi_request atob json_parse now_ms storage h =
     (let (token, storage', es) = getValidToken atob json_parse now_ms storage in
      ((case token of Some t \<Rightarrow> h(''Authorization'' \<mapsto> ''Bearer '' @ t) | None \<Rightarrow> h), storage', es))"

section \<open>ProtectedRoute and Login\<close>

record guard_state =
  pr_verifying :: bool
  pr_role :: "json option"
  pr_valid :: bool

definition ProtectedRoute :: guard_state where
  "ProtectedRoute = \<lparr>pr_verifying = True, pr_role = None, pr_valid = False\<rparr>"

text \<open>\<^verbatim>\<open>res.data.user.role\<close> throws when \<^verbatim>\<open>user\<close> is missing or \<^verbatim>\<open>null\<close>; the \<^verbatim>\<open>catch\<close> takes that
  too.\<close>

definition verifySession_settle :: "json response \<Rightarrow> guard_state \<Rightarrow> guard_state" where
  "verifySession_settle r s =
     (case r of
        Resolved body \<Rightarrow>
          (case json_get ''user'' body of
             None \<Rightarrow> s\<lparr>pr_valid := False\<rparr>
           | Some JNull \<Rightarrow> s\<lparr>pr_valid := False\<rparr>
           | Some user \<Rightarrow> s\<lparr>pr_role := json_get ''role'' user, pr_valid := True\<rparr>)
      | Rejected e \<Rightarrow> s\<lparr>pr_valid := False\<rparr>)\<lparr>pr_verifying := False\<rparr>"

datatype guard_view = Verifying | RedirectTo string | Children

definition ProtectedRoute_view :: "string \<Rightarrow> string list option \<Rightarrow> guard_state \<Rightarrow> guard_view" where
  "ProtectedRoute_view pathname allowedRoles s =
     (if pr_verifying s then Verifying
      else if \<not> pr_valid s then RedirectTo (login_redirect pathname)
      else (case allowedRoles of
              Some rs \<Rightarrow>
                if json_truthy (pr_role s) \<and> the (pr_role s) \<notin> set (map JStr rs)
                then RedirectTo ''/unauthorized'' else Children
            | None \<Rightarrow> Children))"

definition redirect_param :: "string \<Rightarrow> string" where
  "redirect_param search =
     (case search_get search ''redirect'' of Some t \<Rightarrow> if t = [] then ''/'' else t | None \<Rightarrow> ''/'')"

definition checkSession_settle :: "string \<Rightarrow> 'a response \<Rightarrow> effect list" where
  "checkSession_settle search r =
     (case r of Resolved x \<Rightarrow> [Navigate (redirect_param search)] | Rejected e \<Rightarrow> [])"

definition Login_click :: "string \<Rightarrow> effect list" where
  "Login_click search =
     [SetHref (''/api/auth/google/login?redirect='' @ encodeURIComponent (redirect_param search))]"

definition Login_view :: "string \<Rightarrow> effect view" where
  "Login_view search = Group ''login-screen''
     [Text ''Agentic SOC Platform'',
      Text ''Advanced Multi-Tenant SIEM & SOAR'',
      Button ''Sign in with Corporate Google'' False (hd (Login_click search)),
      Text ''Restricted Access. Authorized Personnel Only.'']"

definition UnauthorizedPage_view :: "effect view" where
  "UnauthorizedPage_view = Group ''''
     [Text ''403'',
      Text ''Unauthorized access. You do not have the required permissions.'',
      Button ''Return to Command Center'' False (Navigate ''/'')]"

section \<open>Encoding round trip\<close>

lemma hex_val_digit [simp]: "n < 16 \<Longrightarrow> hex_val (hex_digit n) = Some n"
  by (simp add: hex_val_def hex_digit_def)

lemma hex_digit_ne:
  assumes "n < 16" shows "hex_digit n \<noteq> CHR ''&'' \<and> hex_digit n \<noteq> CHR ''=''"
  using hex_val_digit [OF assms] by (auto simp: hex_val_def)

lemma utf8_bytes: "b \<in> set (utf8 c) \<Longrightarrow> b < 256"
proof -
  have "(of_char c :: nat) < 256" by simp
  then have "(of_char c :: nat) div 64 < 64" by linarith
  then show "b \<in> set (utf8 c) \<Longrightarrow> b < 256" by (auto simp: utf8_def Let_def split: if_splits)
qed

lemma utf8_decode_utf8: "utf8_decode (utf8 c @ bs) = map_option (\<lambda>s. c # s) (utf8_decode bs)"
proof (cases "(of_char c :: nat) < 128")
  case True
  then show ?thesis by (simp add: utf8_def)
next
  case False
  let ?n = "of_char c :: nat"
  have n: "128 \<le> ?n" "?n < 256" using False by simp_all
  then have "?n div 64 = 2 \<or> ?n div 64 = 3" by linarith
  moreover have "(?n div 64) * 64 + ?n mod 64 = ?n" by simp
  ultimately show ?thesis using False by (auto simp: utf8_def Let_def)
qed

lemma utf8_decode_string: "utf8_decode (concat (map utf8 s)) = Some s"
  by (induction s) (simp_all add: utf8_decode_utf8)

lemma percent_decode_byte: "b < 256 \<Longrightarrow> percent_decode (percent_byte b @ t) = b # percent_decode t"
  by (simp add: percent_byte_def)

lemma percent_decode_bytes:
  "(\<And>b. b \<in> set bs \<Longrightarrow> b < 256) \<Longrightarrow>
    percent_decode (concat (map percent_byte bs) @ t) = bs @ percent_decode t"
  by (induction bs) (simp_all add: percent_decode_byte)

lemma unreserved_plain: "uri_unreserved c \<Longrightarrow> c \<noteq> CHR ''%'' \<and> c \<noteq> CHR ''+'' \<and> c \<noteq> CHR ''&'' \<and> c \<noteq> CHR ''=''"
  by (auto simp: uri_unreserved_def)

lemma percent_decode_encode: "percent_decode (encodeURIComponent s) = concat (map utf8 s)"
proof (induction s)
  case Nil
  show ?case by (simp add: encodeURIComponent_def)
next
  case (Cons c s)
  then show ?case
    using unreserved_plain [of c] utf8_bytes [of _ c]
    by (auto simp: encodeURIComponent_def percent_decode_bytes)
qed

lemma query_decode_encode [simp]: "query_decode (encodeURIComponent s) = Some s"
  by (simp add: query_decode_def percent_decode_encode utf8_decode_string)

lemma percent_byte_no_ampersand:
  assumes "b < 256" shows "CHR ''&'' \<notin> set (percent_byte b)"
proof -
  have "b div 16 < 16" and "b mod 16 < 16" using assms by auto
  then show ?thesis using hex_digit_ne [of "b div 16"] hex_digit_ne [of "b mod 16"]
    by (auto simp: percent_byte_def)
qed

lemma encode_no_ampersand: "CHR ''&'' \<notin> set (encodeURIComponent s)"
  using unreserved_plain percent_byte_no_ampersand [OF utf8_bytes]
  by (auto simp: encodeURIComponent_def)

lemma js_split_one: "d \<notin> set s \<Longrightarrow> js_split d s = [s]"
  by (induction s) auto

lemma search_get_redirect:
  "search_get (''?redirect='' @ encodeURIComponent p) ''redirect'' = Some p"
proof -
  let ?q = "''redirect='' @ encodeURIComponent p"
  have "CHR ''&'' \<notin> set ?q" using encode_no_ampersand by auto
  then have "search_pairs (CHR ''?'' # ?q) = [split_pair ?q]"
    unfolding search_pairs_def by (simp add: js_split_one del: append_Cons)
  moreover have "split_pair ?q = (''redirect'', encodeURIComponent p)"
    by (simp add: split_pair_def)
  moreover have "query_decode ''redirect'' = Some ''redirect''"
    using query_decode_encode [of "''redirect''"] by (simp add: encodeURIComponent_def uri_unreserved_def)
  ultimately show ?thesis by (simp add: search_get_def)
qed

section \<open>Properties\<close>

lemma redirect_param_encode:
  "p \<noteq> [] \<Longrightarrow> redirect_param (''?redirect='' @ encodeURIComponent p) = p"
  using search_get_redirect [of p] by (simp add: redirect_param_def)

text \<open>C7. A guarded page is shown exactly when the session request succeeded with a user object and,
  where roles are required, the role is one of them or is falsy (missing, \<^verbatim>\<open>null\<close>, empty): such a
  role passes every role check.\<close>

theorem protected_page_shown_iff:
  "ProtectedRoute_view pathname allowedRoles (verifySession_settle r ProtectedRoute) = Children \<longleftrightarrow>
     (\<exists>body user. r = Resolved body \<and> json_get ''user'' body = Some user \<and> user \<noteq> JNull
        \<and> (case allowedRoles of None \<Rightarrow> True
           | Some rs \<Rightarrow> if json_truthy (json_get ''role'' user)
               then json_get ''role'' user \<in> Some ` JStr ` set rs else True))"
proof (cases r)
  case (Rejected e)
  then show ?thesis by (simp add: ProtectedRoute_def verifySession_settle_def ProtectedRoute_view_def)
next
  case (Resolved body)
  show ?thesis
  proof (cases "json_get ''user'' body = None \<or> json_get ''user'' body = Some JNull")
    case True
    then show ?thesis using Resolved
      by (auto simp: ProtectedRoute_def verifySession_settle_def ProtectedRoute_view_def)
  next
    case False
    then obtain user where u: "json_get ''user'' body = Some user" "user \<noteq> JNull" by auto
    then have "verifySession_settle r ProtectedRoute
        = \<lparr>pr_verifying = False, pr_role = json_get ''role'' user, pr_valid = True\<rparr>"
      using Resolved by (simp add: verifySession_settle_def ProtectedRoute_def split: json.splits)
    then show ?thesis using Resolved u
      by (cases "json_get ''role'' user") (auto simp: ProtectedRoute_view_def split: option.splits)
  qed
qed

text \<open>C8. A session that ends while a page is open takes the user through the log-in page and back: the
  client sends a 401 answer to \<^verbatim>\<open>/login\<close> with the page's path percent-encoded in the query, and
  the log-in page decodes exactly that path, for every Latin-1 path other than \<^verbatim>\<open>/login\<close>.\<close>

theorem session_expiry_round_trip:
  assumes "err_status e = Some 401" and "p \<noteq> ''/login''" and "p \<noteq> []"
  shows "\<exists>q. apiClient_response p st (Rejected e :: 'a response) = (Rejected e, st, [SetHref (''/login'' @ q)])
    \<and> (\<forall>x. checkSession_settle q (Resolved x) = [Navigate p])
    \<and> Login_click q = [SetHref (''/api/auth/google/login'' @ q)]"
proof -
  let ?q = "''?redirect='' @ encodeURIComponent p"
  have "apiClient_response p st (Rejected e :: 'a response) = (Rejected e, st, [SetHref (''/login'' @ ?q)])"
    using assms(1,2) by (simp add: apiClient_response_def login_redirect_def tokenService_clearToken_def)
  moreover have "redirect_param ?q = p" by (rule redirect_param_encode [OF assms(3)])
  ultimately show ?thesis
    unfolding checkSession_settle_def Login_click_def by (intro exI [of _ ?q]) simp
qed

theorem session_expiry_round_trip_witness:
  "\<exists>q. apiClient_response ''/incidents/active'' Map.empty
      (Rejected \<lparr>err_status = Some 401, err_detail = None, err_data_message = None, err_message = ''x''\<rparr> :: unit response)
    = (Rejected \<lparr>err_status = Some 401, err_detail = None, err_data_message = None, err_message = ''x''\<rparr>,
       Map.empty, [SetHref (''/login'' @ q)])
    \<and> checkSession_settle q (Resolved ()) = [Navigate ''/incidents/active'']"
  using session_expiry_round_trip [of "\<lparr>err_status = Some 401, err_detail = None, err_data_message = None, err_message = ''x''\<rparr>"
      "''/incidents/active''" Map.empty, where 'a = unit]
  by auto


text \<open>C10. For every \<^verbatim>\<open>atob\<close> and \<^verbatim>\<open>JSON.parse\<close>, a stored token is attached to a request exactly when its
  payload has a numeric expiry in the future; any other non-empty token is removed from the store
  and the browser is sent to the log-in page.\<close>

theorem bearer_token_attached_iff:
  "authApi_request atob json_parse now st h =
     (case st ''internal_access_token'' of
        None \<Rightarrow> (h, st, [])
      | Some t \<Rightarrow>
          if t = [] then (h, st, [])
          else if \<exists>pl e. decodeJwtPayload atob json_parse t = Some pl \<and> json_get ''exp'' pl = Some (JNum e)
               \<and> now < 1000 * e
          then (h(''Authorization'' \<mapsto> ''Bearer '' @ t), st, [])
          else (h, st(''internal_access_token'' := None),
                [LocalRemove ''internal_access_token'', SetHref ''/login'']))"
proof -
  have truthy: "json_get k pl = Some v \<Longrightarrow> json_truthy (Some pl)" for k pl v
    by (cases pl) auto
  have "isTokenExpired atob json_parse now t \<longleftrightarrow>
      \<not> (\<exists>pl e. decodeJwtPayload atob json_parse t = Some pl \<and> json_get ''exp'' pl = Some (JNum e)
               \<and> now < 1000 * e)" for t
    using truthy
    by (cases "decodeJwtPayload atob json_parse t")
      (auto simp: isTokenExpired_def Let_def not_le field_simps split: option.split json.split)
  then show ?thesis
    by (auto simp: authApi_request_def getValidToken_def split: option.split)
qed

end
