(* ===== verification/Playbooks.thy ===== *)
theory Playbooks
  imports Agent_Streams Api_Auth
begin

text \<open>
  Playbooks: the store \<^verbatim>\<open>PlaybookContext.tsx\<close> and the sandbox page \<^verbatim>\<open>PlaybookSandbox.tsx\<close>, which runs a
  playbook over a socket and caches the state of the last run of each playbook. The sockets are those of
  \<open>Agent_Streams\<close>; \<open>px_owner\<close> records for which playbook a socket was opened (the variable
  \<^verbatim>\<open>playbookId\<close> its handlers capture).
\<close>

section \<open>PlaybookContext\<close>

record playbook_store =
  ps_playbooks :: "playbook list"
  ps_selected :: "playbook option"
  ps_output :: "string option"

definition PlaybookProvider :: playbook_store where
  "PlaybookProvider = \<lparr>ps_playbooks = [], ps_selected = None, ps_output = None\<rparr>"

definition playbooks_load_settle :: "playbook list response \<Rightarrow> playbook_store \<Rightarrow> playbook_store \<times> effect list" where
  "playbooks_load_settle r s = (case r of
       Resolved xs \<Rightarrow> (s\<lparr>ps_playbooks := xs\<rparr>, [])
     | Rejected e \<Rightarrow> (s, [ConsoleError ''[App] Failed to load playbooks:'']))"

definition store_runPlaybook_start :: "playbook \<Rightarrow> playbook_store \<Rightarrow> playbook_store \<times> effect list" where
  "store_runPlaybook_start p s =
     (s\<lparr>ps_output := Some (''[SANDBOX EXECUTION] Contacting backend for '' @ [CHR 0x27] @ pb_name p @ [CHR 0x27] @ ''...'' @ nl)\<rparr>,
      [Request POST (''/data/playbooks/'' @ pb_id p @ ''/run'')
        (JObj [(''target'', JStr ''demo_target''),
               (''justification'', JStr ''Manual execution from Frontend Dashboard'')])])"

record run_result =
  rr_playbook_id :: string
  rr_execution_time :: string
  rr_logs :: "string list"

definition store_runPlaybook_settle :: "run_result response \<Rightarrow> playbook_store \<Rightarrow> playbook_store" where
  "store_runPlaybook_settle r s = s\<lparr>ps_output := Some (case r of
       Resolved d \<Rightarrow> ''[SUCCESS]'' @ nl @ nl @ ''Playbook: '' @ rr_playbook_id d @ nl @ ''Execution Time: ''
          @ rr_execution_time d @ nl @ nl @ ''Logs:'' @ nl @ js_join nl (rr_logs d)
     | Rejected e \<Rightarrow> ''[FAILED] Playbook execution error:'' @ nl
          @ (case err_detail e of Some t \<Rightarrow> t | None \<Rightarrow> err_message e))\<rparr>"

definition usePlaybooks :: "playbook_store option \<Rightarrow> string + playbook_store" where
  "usePlaybooks ctx = (case ctx of
       None \<Rightarrow> Inl ''usePlaybooks must be used within a PlaybookProvider''
     | Some c \<Rightarrow> Inr c)"

section \<open>PlaybookSandbox\<close>

datatype exec_status = Queued | ExecRunning | ExecSuccess | ExecFailed

record execution =
  ex_status :: exec_status
  ex_output :: "string list"
  ex_exitCode :: "int option"
  ex_duration :: "rat option"

record sandbox =
  px_selected :: "playbook option"
  px_cache :: "string \<rightharpoonup> execution"
  px_sockets :: sockets
  px_owner :: "nat \<rightharpoonup> string"

definition PlaybookSandbox :: sandbox where
  "PlaybookSandbox = \<lparr>px_selected = None, px_cache = Map.empty, px_sockets = no_sockets, px_owner = Map.empty\<rparr>"

definition execution_url :: "bool \<Rightarrow> string \<Rightarrow> string \<Rightarrow> string" where
  "execution_url https host i =
     (if https then ''wss:'' else ''ws:'') @ ''//'' @ host @ ''/api/playbooks/'' @ i @ ''/execute/stream''
     @ (case tokenService_getToken of Some t \<Rightarrow> if t = [] then [] else ''?token='' @ encodeURIComponent t | None \<Rightarrow> [])"

definition runPlaybook :: "string \<Rightarrow> sandbox \<Rightarrow> sandbox" where
  "runPlaybook i s =
     (let so = so_close_ref (px_sockets s) in
      s\<lparr>px_cache := (px_cache s)(i \<mapsto> \<lparr>ex_status = Queued, ex_output = [''> Initiating sandbox execution container...''],
                                      ex_exitCode = None, ex_duration = None\<rparr>),
        px_sockets := so_new so, px_owner := (px_owner s)(so_next so \<mapsto> i)\<rparr>)"

text \<open>The functional updates of the cache read \<^verbatim>\<open>prev[playbookId]\<close>; they throw when it is missing, which the
  model renders as no change.\<close>

definition update_exec :: "string \<Rightarrow> (execution \<Rightarrow> execution) \<Rightarrow> sandbox \<Rightarrow> sandbox" where
  "update_exec i f s = (case px_cache s i of
       Some e \<Rightarrow> s\<lparr>px_cache := (px_cache s)(i \<mapsto> f e)\<rparr>
     | None \<Rightarrow> s)"

definition sandbox_onopen :: "nat \<Rightarrow> sandbox \<Rightarrow> sandbox" where
  "sandbox_onopen w s = (case px_owner s w of
       Some i \<Rightarrow> update_exec i (\<lambda>e. e\<lparr>ex_status := ExecRunning,
                   ex_output := ex_output e @ [''> Connected to sandbox stream...'']\<rparr>) s
     | None \<Rightarrow> s)"

text \<open>A message: the text, and what \<^verbatim>\<open>JSON.parse\<close> makes of it.\<close>

datatype sandbox_message = End int "rat option" | Output string | Other

definition sandbox_onmessage :: "nat \<Rightarrow> string \<Rightarrow> sandbox_message option \<Rightarrow> sandbox \<Rightarrow> sandbox" where
  "sandbox_onmessage w data parsed s = (case px_owner s w of
       None \<Rightarrow> s
     | Some i \<Rightarrow>
         (case parsed of
            Some (End code dur) \<Rightarrow> update_exec i (\<lambda>e. e\<lparr>
              ex_status := (if code = 0 then ExecSuccess else ExecFailed), ex_exitCode := Some code, ex_duration := dur\<rparr>) s
          | Some (Output t) \<Rightarrow> update_exec i (\<lambda>e. e\<lparr>ex_output := ex_output e @ [if t = [] then data else t]\<rparr>) s
          | _ \<Rightarrow> update_exec i (\<lambda>e. e\<lparr>ex_output := ex_output e @ [data]\<rparr>) s))"

definition sandbox_onclose :: "nat \<Rightarrow> sandbox \<Rightarrow> sandbox" where
  "sandbox_onclose w s = s\<lparr>px_sockets := (so_gone w (px_sockets s))\<lparr>so_ref := None\<rparr>\<rparr>"

definition stopExecution :: "string \<Rightarrow> sandbox \<Rightarrow> sandbox" where
  "stopExecution i s =
     (if so_ref (px_sockets s) = None then s
      else update_exec i (\<lambda>e. e\<lparr>ex_status := ExecFailed,
             ex_output := ex_output e @ [''> Execution forcibly terminated by user.'']\<rparr>)
           (s\<lparr>px_sockets := so_close_ref (px_sockets s)\<rparr>))"

definition currentExec :: "sandbox \<Rightarrow> execution option" where
  "currentExec s = (case px_selected s of Some p \<Rightarrow> px_cache s (pb_id p) | None \<Rightarrow> None)"

datatype sandbox_msg = SxSelect playbook | SxStop string | SxRun string | SxRetry

definition PlaybookSandbox_view :: "playbook list option \<Rightarrow> bool \<Rightarrow> bool \<Rightarrow> sandbox \<Rightarrow> sandbox_msg view list" where
  "PlaybookSandbox_view playbooks loading failed s =
     [Text ''Playbooks'']
     @ render_if loading (Text ''loading'')
     @ (if failed then [Text ''Failed to load playbooks'', Button ''Retry Request'' False SxRetry] else [])
     @ map (\<lambda>p. Button (pb_name p @ '' Trigger: '' @ pb_trigger p) False (SxSelect p)) (or_else playbooks [])
     @ (case px_selected s of
          None \<Rightarrow> [Text ''Select a playbook from the sidebar to view and execute.'']
        | Some p \<Rightarrow>
            [Text (pb_name p),
             (if (case currentExec s of Some e \<Rightarrow> ex_status e = ExecRunning | None \<Rightarrow> False)
              then Button ''Stop Execution'' False (SxStop (pb_id p))
              else Button ''Run in Sandbox'' False (SxRun (pb_id p))),
             Text (if pb_code p = [] then ''# No source code available'' else pb_code p), Text ''Sandbox Terminal'']
            @ (case currentExec s of
                 Some e \<Rightarrow> map Text (ex_output e)
               | None \<Rightarrow> [Text ''No output. Click Run in Sandbox to execute.'']))"

datatype sandbox_event = SbxRun string | SbxStop string | SbxOpen nat | SbxMessage nat string "sandbox_message option" | SbxClose nat

primrec sandbox_step :: "sandbox_event \<Rightarrow> sandbox \<Rightarrow> sandbox" where
  "sandbox_step (SbxRun i) s = runPlaybook i s"
| "sandbox_step (SbxStop i) s = stopExecution i s"
| "sandbox_step (SbxOpen w) s = sandbox_onopen w s"
| "sandbox_step (SbxMessage w d m) s = sandbox_onmessage w d m s"
| "sandbox_step (SbxClose w) s = sandbox_onclose w s"

text \<open>An open socket may report that it is connected or deliver a message; a closing one is silent.\<close>

primrec sandbox_enabled :: "sandbox \<Rightarrow> sandbox_event \<Rightarrow> bool" where
  "sandbox_enabled s (SbxRun i) = True"
| "sandbox_enabled s (SbxStop i) = (\<exists>e. px_cache s i = Some e \<and> ex_status e = ExecRunning)"
| "sandbox_enabled s (SbxOpen w) = (w \<in> set (so_open (px_sockets s)))"
| "sandbox_enabled s (SbxMessage w d m) = (w \<in> set (so_open (px_sockets s)))"
| "sandbox_enabled s (SbxClose w) = (w \<in> set (so_open (px_sockets s)) \<union> set (so_closing (px_sockets s)))"

section \<open>Lemmas\<close>

lemma so_close_ref_open: "set (so_open (so_close_ref so)) = set (so_open so) - (case so_ref so of Some i \<Rightarrow> {i} | None \<Rightarrow> {})"
  by (auto simp: so_close_ref_def so_close_def split: option.split)

lemma outputs_append:
  assumes "px_owner s w = Some i" and "px_cache s i = Some e"
  shows "px_cache (fold (\<lambda>t. sandbox_onmessage w t None) ts s) i = Some (e\<lparr>ex_output := ex_output e @ ts\<rparr>)
    \<and> px_owner (fold (\<lambda>t. sandbox_onmessage w t None) ts s) = px_owner s"
  using assms
proof (induction ts arbitrary: s e)
  case Nil
  then show ?case by simp
next
  case (Cons t ts)
  let ?s = "sandbox_onmessage w t None s"
  have "px_owner ?s = px_owner s" "px_cache ?s i = Some (e\<lparr>ex_output := ex_output e @ [t]\<rparr>)"
    using Cons.prems by (simp_all add: sandbox_onmessage_def update_exec_def)
  then show ?case using Cons.IH [of ?s "e\<lparr>ex_output := ex_output e @ [t]\<rparr>"] Cons.prems by simp
qed

text \<open>A run whose socket is neither open nor about to be opened keeps its state.\<close>

definition orphaned :: "string \<Rightarrow> sandbox \<Rightarrow> bool" where
  "orphaned i s = (\<forall>w \<in> set (so_open (px_sockets s)). px_owner s w \<noteq> Some i)"

lemma update_exec_other: "i \<noteq> j \<Longrightarrow> px_cache (update_exec j f s) i = px_cache s i"
  by (simp add: update_exec_def split: option.split)

lemma update_exec_sockets [simp]:
  "px_sockets (update_exec j f s) = px_sockets s" "px_owner (update_exec j f s) = px_owner s"
  by (simp_all add: update_exec_def split: option.split)

lemma orphaned_step:
  assumes "orphaned i s" and "sandbox_enabled s e" and "e \<noteq> SbxRun i" and "e \<noteq> SbxStop i"
    and "so_wf (px_sockets s)"
  shows "orphaned i (sandbox_step e s) \<and> px_cache (sandbox_step e s) i = px_cache s i"
proof (cases e)
  case (SbxRun j)
  have "so_next (so_close_ref (px_sockets s)) \<notin> set (so_open (so_close_ref (px_sockets s)))"
    using so_close_ref_count [OF assms(5)] by (auto simp: so_wf_def)
  then show ?thesis using SbxRun assms
    by (auto simp: runPlaybook_def Let_def orphaned_def so_new_def so_close_ref_open)
next
  case (SbxStop j)
  then show ?thesis using assms
    by (auto simp: stopExecution_def orphaned_def so_close_ref_open update_exec_other)
next
  case (SbxOpen w)
  then show ?thesis using assms
    by (auto simp: sandbox_onopen_def orphaned_def intro!: update_exec_other split: option.split)
next
  case (SbxMessage w d m)
  have j: "px_owner s w = Some j \<Longrightarrow> j \<noteq> i" for j using SbxMessage assms(1,2) by (auto simp: orphaned_def)
  have "\<exists>j f. px_owner s w = Some j \<and> sandbox_onmessage w d m s = update_exec j f s
      \<or> sandbox_onmessage w d m s = s"
    by (cases "px_owner s w"; cases m) (auto simp: sandbox_onmessage_def split: sandbox_message.split)
  then obtain j f where "px_owner s w = Some j \<and> sandbox_onmessage w d m s = update_exec j f s
      \<or> sandbox_onmessage w d m s = s" by blast
  then show ?thesis using SbxMessage assms(1) j [of j]
    by (auto simp: orphaned_def update_exec_other)
next
  case (SbxClose w)
  then show ?thesis using assms by (auto simp: sandbox_onclose_def orphaned_def so_gone_def)
qed

section \<open>Properties\<close>


text \<open>Starting a second playbook orphans the first run: it stays in the state running whatever happens to
  the sockets, its Stop button stays on the page, and pressing it closes the connection of the second
  playbook, which in turn stays in the state running.\<close>

theorem sandbox_stop_hits_other_run:
  assumes "a \<noteq> b"
  shows "let s = fold sandbox_step [SbxRun a, SbxOpen 0, SbxRun b, SbxOpen 1] PlaybookSandbox;
             t = sandbox_step (SbxStop a) s
     in map_option ex_status (px_cache s a) = Some ExecRunning
        \<and> sandbox_enabled s (SbxStop a)
        \<and> so_open (px_sockets s) = [1] \<and> px_owner s 1 = Some b
        \<and> so_open (px_sockets t) = []
        \<and> map_option ex_status (px_cache t a) = Some ExecFailed
        \<and> map_option ex_status (px_cache t b) = Some ExecRunning"
  using assms
  by (simp add: Let_def PlaybookSandbox_def runPlaybook_def sandbox_onopen_def update_exec_def stopExecution_def
      no_sockets_def so_new_def so_close_ref_def so_close_def)

theorem sandbox_stop_hits_other_run_witness:
  "map_option ex_status (px_cache (fold sandbox_step
      [SbxRun ''p1'', SbxOpen 0, SbxRun ''p2'', SbxOpen 1, SbxStop ''p1''] PlaybookSandbox) ''p2'') = Some ExecRunning"
  using sandbox_stop_hits_other_run [of "''p1''" "''p2''"] by (simp add: Let_def)
end
