(* ===== verification/Network_Map.thy ===== *)
theory Network_Map
  imports SOC_Types Shared_Hooks
begin

text \<open>
  The network map (\<^verbatim>\<open>pages/assets/NetworkMapPage.tsx\<close>): the loader that joins the topology with the
  security findings, the breadth-first search behind the blast-radius simulation, the colours, widths
  and drawing commands of nodes and links, the detail panel with its response actions.

  Categories, actions and states of a finding come from the server and are strings; a lookup in a
  colour or label table is a partial map over its own keys. \<^verbatim>\<open>Math.random\<close> is the argument \<open>rnd\<close>.
\<close>

section \<open>Data\<close>

record evidence =
  ev_source_ip :: "string option"
  ev_triggers :: "string list option"

record security_finding =
  sf_finding_id :: string
  sf_category :: string
  sf_score :: rat
  sf_evidence :: "evidence option"
  sf_endpoint_id :: "string option"
  sf_recommended_action :: string
  sf_status :: string
  sf_created_at :: string

record raw_node =
  rn_id :: string
  rn_label :: string
  rn_type :: string
  rn_ip :: "string option"
  rn_properties :: "string option"
  rn_containerId :: "string option"
  rn_containerImage :: "string option"
  rn_isSuspicious :: bool

record enhanced_node =
  en_raw :: raw_node
  en_riskScore :: rat
  en_segment :: string
  en_isNew :: bool
  en_nodeType :: string
  en_findings :: "security_finding list"
  en_findingCategory :: "string option"
  en_hasActiveAlert :: bool

text \<open>The graph component replaces the end points of a link by the node objects.\<close>

datatype end_point = EndId string | EndNode string

fun end_id :: "end_point \<Rightarrow> string" where
  "end_id (EndId i) = i"
| "end_id (EndNode i) = i"

record enhanced_edge =
  ee_source :: end_point
  ee_target :: end_point
  ee_isViolation :: bool
  ee_isNew :: bool
  ee_findingCategory :: "string option"
  ee_relation :: "string option"
  ee_action :: "string option"
  ee_width :: "rat option"

definition FINDING_COLORS :: "string \<rightharpoonup> string" where
  "FINDING_COLORS = map_of
     [(''rat'', ''#a855f7''), (''exfiltration'', ''#f97316''), (''ddos'', ''#ef4444''),
      (''container_abuse'', ''#f59e0b''), (''network_anomaly'', ''#eab308'')]"

definition NODE_TYPE_COLORS :: "string \<rightharpoonup> string" where
  "NODE_TYPE_COLORS = map_of
     [(''RouterHost'', ''#06b6d4''), (''ClientHost'', ''#3b82f6''), (''ExternalDomain'', ''#8b5cf6''),
      (''ExternalIP'', ''#64748b''), (''Container'', ''#10b981''), (''ContainerHost'', ''#14b8a6''),
      (''generic'', ''#3b82f6'')]"

definition NODE_TYPE_RADIUS :: "string \<rightharpoonup> rat" where
  "NODE_TYPE_RADIUS = map_of
     [(''RouterHost'', 10), (''ContainerHost'', 9), (''ClientHost'', 6), (''ExternalDomain'', 7),
      (''Container'', 5), (''ExternalIP'', 6), (''generic'', 6)]"

definition FINDING_LABEL :: "string \<rightharpoonup> string" where
  "FINDING_LABEL = map_of
     [(''rat'', ''RAT Detected''), (''exfiltration'', ''Data Exfiltration''), (''ddos'', ''DDoS / Flood''),
      (''container_abuse'', ''Container Abuse''), (''network_anomaly'', ''Network Anomaly'')]"

definition ACTION_LABEL :: "string \<rightharpoonup> string" where
  "ACTION_LABEL = map_of
     [(''isolate_lan_client'', ''Isolate LAN Client (ARP)''), (''isolate_host'', ''Isolate Host''),
      (''throttle_container'', ''Throttle Container''), (''none'', ''No Action Required'')]"

section \<open>The loader\<close>

definition finding_key :: "security_finding \<Rightarrow> string" where
  "finding_key f = str_or (Option.bind (sf_evidence f) ev_source_ip) (str_or (sf_endpoint_id f) '''')"

definition index_finding ::
  "security_finding \<Rightarrow> (string \<rightharpoonup> security_finding list) \<Rightarrow> (string \<rightharpoonup> security_finding list)" where
  "index_finding f m =
     (let key = finding_key f in
      if key \<noteq> [] then m(key \<mapsto> (case m key of None \<Rightarrow> [] | Some xs \<Rightarrow> xs) @ [f]) else m)"

definition findingsByIp :: "security_finding list \<Rightarrow> string \<rightharpoonup> security_finding list" where
  "findingsByIp fs = fold index_finding fs Map.empty"

definition node_type :: "string \<Rightarrow> string" where
  "node_type t =
     (if t = ''RouterHost'' then ''RouterHost'' else if t = ''ClientHost'' then ''ClientHost''
      else if t = ''ExternalDomain'' then ''ExternalDomain'' else if t = ''ExternalIP'' then ''ExternalIP''
      else if t = ''Container'' then ''Container''
      else if t = ''container_host'' \<or> t = ''ContainerHost'' then ''ContainerHost'' else ''generic'')"

definition enhance_node ::
  "(nat \<Rightarrow> nat) \<Rightarrow> (string \<rightharpoonup> security_finding list) \<Rightarrow> nat \<Rightarrow> raw_node \<Rightarrow> enhanced_node" where
  "enhance_node rnd index i n =
     (let nodeFindings = sort_desc sf_score (or_else (index (str_or (rn_ip n) (rn_id n))) []);
          topFinding = (case nodeFindings of [] \<Rightarrow> None | f # _ \<Rightarrow> Some f)
      in \<lparr>en_raw = n,
          en_riskScore = (case topFinding of Some f \<Rightarrow> sf_score f | None \<Rightarrow> of_nat (rnd i mod 40)),
          en_segment = (if i mod 3 = 0 then ''DMZ'' else if i mod 2 = 0 then ''Production'' else ''Corporate''),
          en_isNew = (i = 4),
          en_nodeType = node_type (rn_type n),
          en_findings = nodeFindings,
          en_findingCategory = map_option sf_category topFinding,
          en_hasActiveAlert = list_ex (\<lambda>f. sf_status f = ''open'' \<and> sf_score f \<ge> 50) nodeFindings\<rparr>)"

definition enhance_edge :: "nat \<Rightarrow> enhanced_edge \<Rightarrow> enhanced_edge" where
  "enhance_edge i e = e\<lparr>ee_isViolation := (i mod 5 = 0), ee_isNew := (i = 6)\<rparr>"

text \<open>Both requests run together; a failure of the findings request counts as no findings.\<close>

definition network_map_load ::
  "(nat \<Rightarrow> nat) \<Rightarrow> (raw_node list \<times> enhanced_edge list) response \<Rightarrow> security_finding list response
     \<Rightarrow> (enhanced_node list \<times> enhanced_edge list) response" where
  "network_map_load rnd mapRes findingsRes =
     (case mapRes of
        Rejected e \<Rightarrow> Rejected e
      | Resolved (ns, es) \<Rightarrow>
          let fs = (case findingsRes of Resolved xs \<Rightarrow> xs | Rejected _ \<Rightarrow> []);
              index = findingsByIp fs
          in Resolved (map (\<lambda>(i, n). enhance_node rnd index i n) (enumerate 0 ns),
                       map (\<lambda>(i, e). enhance_edge i e) (enumerate 0 es)))"

section \<open>Blast radius\<close>

text \<open>The body of the two conditionals: an identifier that is not visited is marked and queued.\<close>

definition bfs_push :: "string \<Rightarrow> string js_set \<times> string list \<Rightarrow> string js_set \<times> string list" where
  "bfs_push x vq = (if \<not> set_has x (fst vq) then (set_add x (fst vq), snd vq @ [x]) else vq)"

definition bfs_edge :: "string \<Rightarrow> string \<times> string \<Rightarrow> string js_set \<times> string list \<Rightarrow> string js_set \<times> string list" where
  "bfs_edge cur e vq =
     (let (srcId, tgtId) = e;
          vq1 = (if srcId = cur then bfs_push tgtId vq else vq)
      in if tgtId = cur then bfs_push srcId vq1 else vq1)"

definition bfs_scan ::
  "(string \<times> string) list \<Rightarrow> string \<Rightarrow> string js_set \<times> string list \<Rightarrow> string js_set \<times> string list" where
  "bfs_scan es cur vq = fold (bfs_edge cur) es vq"

text \<open>The measure of the loop: the identifiers not visited yet and the queue.\<close>

definition edge_ids :: "(string \<times> string) list \<Rightarrow> string set" where
  "edge_ids es = fst ` set es \<union> snd ` set es"

definition bfs_work :: "(string \<times> string) list \<Rightarrow> string js_set \<times> string list \<Rightarrow> nat" where
  "bfs_work es vq = card (edge_ids es - set (fst vq)) + length (snd vq)"

lemma bfs_push_work:
  assumes "x \<in> edge_ids es"
  shows "bfs_work es (bfs_push x vq) = bfs_work es vq"
proof (cases "x \<in> set (fst vq)")
  case True
  then show ?thesis by (simp add: bfs_push_def set_has_def)
next
  case False
  let ?A = "edge_ids es - set (fst vq)"
  have "finite ?A" by (simp add: edge_ids_def)
  moreover have "x \<in> ?A" using assms False by simp
  moreover have "edge_ids es - insert x (set (fst vq)) = ?A - {x}" by auto
  ultimately have "card (edge_ids es - insert x (set (fst vq))) = card ?A - 1" and "0 < card ?A"
    by (auto simp: card_gt_0_iff)
  then show ?thesis using False by (simp add: bfs_work_def bfs_push_def set_has_def set_add_def)
qed

lemma bfs_edge_work: "e \<in> set es \<Longrightarrow> bfs_work es (bfs_edge cur e vq) = bfs_work es vq"
proof -
  assume "e \<in> set es"
  then have "fst e \<in> edge_ids es" "snd e \<in> edge_ids es" by (auto simp: edge_ids_def)
  then show ?thesis by (cases e) (auto simp: bfs_edge_def bfs_push_work)
qed

lemma bfs_scan_work_aux: "set ds \<subseteq> set es \<Longrightarrow> bfs_work es (fold (bfs_edge cur) ds vq) = bfs_work es vq"
  by (induction ds arbitrary: vq) (simp_all add: bfs_edge_work)

lemma bfs_scan_work: "bfs_work es (bfs_scan es cur vq) = bfs_work es vq"
  by (simp add: bfs_scan_def bfs_scan_work_aux)

function bfs_loop :: "(string \<times> string) list \<Rightarrow> string js_set \<Rightarrow> string list \<Rightarrow> string js_set" where
  "bfs_loop es visited [] = visited"
| "bfs_loop es visited (cur # queue) =
     (let vq = bfs_scan es cur (visited, queue) in bfs_loop es (fst vq) (snd vq))"
  by pat_completeness auto
termination
proof (relation "measure (\<lambda>(es, vq). bfs_work es vq)", goal_cases)
  case 1
  show ?case by simp
next
  case (2 es visited cur queue x)
  have "bfs_work es x = bfs_work es (visited, queue)" using 2 by (simp add: bfs_scan_work)
  moreover have "bfs_work es (visited, cur # queue) = Suc (bfs_work es (visited, queue))"
    by (simp add: bfs_work_def)
  ultimately show ?case by simp
qed

definition edge_pairs :: "enhanced_edge list \<Rightarrow> (string \<times> string) list" where
  "edge_pairs es = map (\<lambda>e. (end_id (ee_source e), end_id (ee_target e))) es"

definition reachableNodes :: "bool \<Rightarrow> string option \<Rightarrow> enhanced_edge list option \<Rightarrow> string js_set" where
  "reachableNodes simulatingPath selected edges =
     (case (selected, edges) of
        (Some i, Some es) \<Rightarrow> if simulatingPath then bfs_loop (edge_pairs es) (set_from [i]) [i] else []
      | _ \<Rightarrow> [])"

section \<open>Colours, widths and drawing\<close>

datatype overlay = Standard | Heat | Segmentation | Diff | Findings

definition getNodeColor :: "overlay \<Rightarrow> bool \<Rightarrow> string js_set \<Rightarrow> enhanced_node \<Rightarrow> string" where
  "getNodeColor mode simulating reach n =
     (let typed = or_else (NODE_TYPE_COLORS (str_or (Some (en_nodeType n)) (str_or (Some (rn_type (en_raw n))) ''generic'')))
                    ''#3b82f6''
      in if simulating \<and> \<not> set_has (rn_id (en_raw n)) reach then ''rgba(30, 41, 59, 0.5)''
      else if mode = Findings \<and> str_or (en_findingCategory n) '''' \<noteq> ''''
        then or_else (FINDING_COLORS (the (en_findingCategory n))) ''#ef4444''
      else if mode = Heat
        then (if en_riskScore n > 80 then ''#ef4444'' else if en_riskScore n > 50 then ''#f97316'' else ''#22c55e'')
      else if mode = Segmentation \<and> en_segment n = ''DMZ'' then ''#d946ef''
      else if mode = Segmentation \<and> en_segment n = ''Production'' then ''#3b82f6''
      else if mode = Segmentation \<and> en_segment n = ''Corporate'' then ''#10b981''
      else if mode = Diff \<and> en_isNew n then ''#10b981''
      else typed)"

definition getLinkColor :: "overlay \<Rightarrow> bool \<Rightarrow> string js_set \<Rightarrow> enhanced_edge \<Rightarrow> string" where
  "getLinkColor mode simulating reach e =
     (let srcId = end_id (ee_source e); tgtId = end_id (ee_target e);
          act = js_upper (str_or (ee_action e) '''')
      in if simulating then
           (if set_has srcId reach \<and> set_has tgtId reach then ''#ef4444'' else ''rgba(51, 65, 85, 0.2)'')
      else if mode = Findings \<and> str_or (ee_findingCategory e) '''' \<noteq> ''''
        then or_else (FINDING_COLORS (the (ee_findingCategory e))) ''#ef4444''
      else if act = ''DROP'' then ''#ef4444''
      else if act = ''NAT'' then ''#3b82f6''
      else if act = ''ALLOW'' then ''#10b981''
      else if ee_relation e = Some ''VISITED_SITE'' then ''#6366f1''
      else if ee_relation e = Some ''WAN_EGRESS'' then ''#3b82f6''
      else if mode = Segmentation \<and> ee_isViolation e then ''#f59e0b''
      else if mode = Diff \<and> ee_isNew e then ''#10b981''
      else ''#334155'')"

definition linkWidth :: "overlay \<Rightarrow> bool \<Rightarrow> string js_set \<Rightarrow> enhanced_edge \<Rightarrow> rat" where
  "linkWidth mode simulating reach e =
     (if simulating \<and> set_has (end_id (ee_source e)) reach \<and> set_has (end_id (ee_target e)) reach then 3
      else if mode = Segmentation \<and> ee_isViolation e then 3
      else if mode = Diff \<and> ee_isNew e then 3
      else if mode = Findings \<and> str_or (ee_findingCategory e) '''' \<noteq> '''' then 5 / 2
      else (case ee_width e of Some w \<Rightarrow> if w = 0 then 3 / 2 else w | None \<Rightarrow> 3 / 2))"

definition linkDirectionalParticles :: "overlay \<Rightarrow> enhanced_edge \<Rightarrow> nat" where
  "linkDirectionalParticles mode e = (if mode = Findings \<and> str_or (ee_findingCategory e) '''' \<noteq> '''' then 3 else 0)"

definition linkLineDash :: "overlay \<Rightarrow> enhanced_edge \<Rightarrow> nat list option" where
  "linkLineDash mode e = (if mode = Segmentation \<and> ee_isViolation e then Some [4, 4] else None)"

definition drawNode ::
  "overlay \<Rightarrow> bool \<Rightarrow> string js_set \<Rightarrow> enhanced_node \<Rightarrow> rat \<Rightarrow> rat \<Rightarrow> rat \<Rightarrow> canvas list" where
  "drawNode mode simulating reach n x y globalScale =
     (let fontSize = 12 / globalScale;
          nt = str_or (Some (en_nodeType n)) (str_or (Some (rn_type (en_raw n))) ''generic'');
          radius = or_else (NODE_TYPE_RADIUS nt) 6;
          cat = str_or (en_findingCategory n) '''';
          catColor = or_else (FINDING_COLORS cat) ''#ef4444''
      in [BeginPath, Arc x y radius, FillStyle (getNodeColor mode simulating reach n), Fill]
         @ (if nt = ''RouterHost'' \<or> nt = ''gateway_bridge'' \<or> nt = ''router''
            then [BeginPath, Arc x y (radius + 4 / globalScale), StrokeStyle ''#06b6d4'',
                  LineWidth (3 / 2 / globalScale), Stroke] else [])
         @ (if nt = ''Container'' \<or> nt = ''ContainerHost''
            then [BeginPath, Arc x y (radius + 3 / globalScale), StrokeStyle ''#10b981'',
                  LineWidth (6 / 5 / globalScale), LineDash [3 / globalScale, 2 / globalScale], Stroke, LineDash []]
            else [])
         @ (if en_hasActiveAlert n \<or> rn_isSuspicious (en_raw n)
            then [StrokeStyle (if cat \<noteq> '''' then catColor else ''#ef4444''), LineWidth (2 / globalScale), Stroke]
            else [])
         @ [TextAlign ''center'', TextBaseline ''middle'',
            FillStyle (if simulating \<and> \<not> set_has (rn_id (en_raw n)) reach
                       then ''rgba(100, 116, 139, 0.5)'' else ''rgba(255, 255, 255, 0.85)''),
            Font False fontSize,
            FillText (rn_label (en_raw n)) x (y + radius + 9 / globalScale)]
         @ (if mode = Findings \<and> cat \<noteq> ''''
            then [Font True (fontSize * (3 / 4)), FillStyle catColor,
                  FillText (js_upper cat) x (y + radius + 18 / globalScale)]
            else []))"

section \<open>Page state, response actions and the detail panel\<close>

record map_state =
  mp_selected :: "enhanced_node option"
  mp_overlay :: overlay
  mp_simulating :: bool
  mp_submitting :: bool
  mp_feedback :: "string option"

definition NetworkMapPage :: map_state where
  "NetworkMapPage = \<lparr>mp_selected = None, mp_overlay = Standard, mp_simulating = False,
     mp_submitting = False, mp_feedback = None\<rparr>"

definition map_select :: "enhanced_node option \<Rightarrow> map_state \<Rightarrow> map_state" where
  "map_select n s = s\<lparr>mp_selected := n, mp_simulating := False, mp_feedback := None\<rparr>"

definition handleResponseAction_start ::
  "enhanced_node \<Rightarrow> security_finding \<Rightarrow> map_state \<Rightarrow> map_state \<times> effect list" where
  "handleResponseAction_start n f s =
     (if sf_recommended_action f = ''none'' then (s, [])
      else (s\<lparr>mp_submitting := True, mp_feedback := None\<rparr>,
        [Request POST (''/admin/endpoints/'' @ rn_id (en_raw n) @ ''/tasks'')
          (JObj [(''action'', JStr (sf_recommended_action f)),
                 (''params'', JObj [(''target_ip'', JStr (str_or (rn_ip (en_raw n)) (rn_id (en_raw n)))),
                                    (''container_id'', JStr (str_or (rn_containerId (en_raw n)) '''')),
                                    (''finding_id'', JStr (sf_finding_id f))]),
                 (''twoKeyToken'', JNull)])]))"

definition handleResponseAction_settle :: "security_finding \<Rightarrow> 'a response \<Rightarrow> map_state \<Rightarrow> map_state" where
  "handleResponseAction_settle f r s =
     s\<lparr>mp_feedback := Some (case r of
          Resolved x \<Rightarrow> ''Action queued for two-key approval: '' @ sf_recommended_action f
        | Rejected e \<Rightarrow> ''Failed to queue action: '' @ str_or (err_detail e) (err_message e)),
       mp_submitting := False\<rparr>"

datatype map_msg = MpFit | MpOverlay overlay | MpExport | MpClose | MpAction security_finding | MpSimulate

text \<open>\<^verbatim>\<open>s.replace(a, b)\<close> with a string pattern replaces the first occurrence.\<close>

fun js_replace_first :: "char \<Rightarrow> char \<Rightarrow> string \<Rightarrow> string" where
  "js_replace_first a b [] = []"
| "js_replace_first a b (c # s) = (if c = a then b # s else c # js_replace_first a b s)"

text \<open>The numbers of the panel (scores out of 100) are not rendered. Rendering a finding reads \<^verbatim>\<open>f.evidence.triggers\<close>, which throws without evidence: \<^const>\<open>None\<close>.\<close>

definition finding_view :: "bool \<Rightarrow> security_finding \<Rightarrow> map_msg view list option" where
  "finding_view submitting f =
     (case sf_evidence f of
        None \<Rightarrow> None
      | Some ev \<Rightarrow> Some
          ([Text (or_else (FINDING_LABEL (sf_category f)) (js_upper (sf_category f))),
            Text (js_replace_first (CHR ''_'') (CHR '' '') (sf_status f))]
           @ map Text (or_else (ev_triggers ev) [])
           @ render_if (sf_recommended_action f \<noteq> ''none'' \<and> sf_status f = ''open'')
               (Button (if submitting then ''Queuing''
                        else or_else (ACTION_LABEL (sf_recommended_action f)) (sf_recommended_action f))
                  submitting (MpAction f))))"

definition map_panel :: "map_state \<Rightarrow> string js_set \<Rightarrow> map_msg view list option" where
  "map_panel s reach =
     (case mp_selected s of
        None \<Rightarrow> Some []
      | Some n \<Rightarrow>
          (case those (map (finding_view (mp_submitting s)) (en_findings n)) of
             None \<Rightarrow> None
           | Some fvs \<Rightarrow> Some
              ([Text (rn_label (en_raw n)), Text (if en_hasActiveAlert n then ''ALERT'' else ''SECURE''),
                Text (en_nodeType n), Button ''close'' False MpClose,
                Text (rn_id (en_raw n)), Text (en_segment n)]
               @ map Text (filter (\<lambda>t. t \<noteq> []) (List.map_filter id
                   [rn_containerId (en_raw n), rn_containerImage (en_raw n), rn_properties (en_raw n)]))
               @ (if en_findings n = [] then [Text ''No security findings linked to this node.'']
                  else Text (''Security Findings ('' @ nat_str (length (en_findings n)) @ '')'') # concat fvs)
               @ (case mp_feedback s of Some t \<Rightarrow> [Text t] | None \<Rightarrow> [])
               @ [Text ''Attack Path Simulation'',
                  Button (if mp_simulating s then ''Clear Simulation'' else ''Simulate Blast Radius'') False MpSimulate]
               @ render_if (mp_simulating s) (Text (nat_str (length reach - 1) @ '' downstream assets exposed.'')))))"

definition map_legend :: "overlay \<Rightarrow> string list" where
  "map_legend mode = ''Legend'' #
     (case mode of
        Findings \<Rightarrow> [''RAT Detected'', ''Exfiltration'', ''DDoS / Flood'', ''Container Abuse'', ''Network Anomaly'',
                     ''Router / Gateway'', ''Container'']
      | Standard \<Rightarrow> [''Active Alert'', ''Router / Gateway'', ''Container'', ''Client Host'', ''External Domain'']
      | Segmentation \<Rightarrow> [''DMZ'', ''Production'', ''Corporate'', ''Policy Violation'']
      | Diff \<Rightarrow> [''New Node (7d)'', ''New Connection'']
      | Heat \<Rightarrow> [''Critical (80+)'', ''High (50-79)'', ''Standard''])"

definition map_header :: "map_state \<Rightarrow> map_msg view list" where
  "map_header s =
     [Text ''Network Topology & Attack Surface'', Button ''[+] Fit Viewport'' False MpFit,
      Button ''Standard View'' False (MpOverlay Standard), Button ''Security Findings'' False (MpOverlay Findings),
      Button ''Risk Heat Map'' False (MpOverlay Heat), Button ''Segmentation Policy'' False (MpOverlay Segmentation),
      Button ''Topology Diff (7 Days)'' False (MpOverlay Diff), Button ''Export'' False MpExport]"

fun map_update :: "map_msg \<Rightarrow> map_state \<Rightarrow> map_state \<times> effect list" where
  "map_update MpFit s = (s, [])"
| "map_update (MpOverlay m) s = (s\<lparr>mp_overlay := m\<rparr>, [])"
| "map_update MpExport s = (s, [Alert ''Exporting network map - html-to-image required in production.''])"
| "map_update MpClose s = (map_select None s, [])"
| "map_update (MpAction f) s =
     (case mp_selected s of Some n \<Rightarrow> handleResponseAction_start n f s | None \<Rightarrow> (s, []))"
| "map_update MpSimulate s = (s\<lparr>mp_simulating := \<not> mp_simulating s\<rparr>, [])"

section \<open>Correctness of the search\<close>

text \<open>The links read as an undirected graph.\<close>

definition links :: "(string \<times> string) list \<Rightarrow> (string \<times> string) set" where
  "links es = {(a, b). (a, b) \<in> set es \<or> (b, a) \<in> set es}"

lemma links_Cons: "links ((a, b) # es) = insert (a, b) (insert (b, a) (links es))"
  by (auto simp: links_def)

lemma bfs_push_sets:
  "set (fst (bfs_push x vq)) = insert x (set (fst vq))"
  "set (snd (bfs_push x vq)) = set (snd vq) \<union> ({x} - set (fst vq))"
  by (auto simp: bfs_push_def set_has_def set_add_def)

lemma bfs_push_distinct: "distinct (fst vq) \<Longrightarrow> distinct (fst (bfs_push x vq))"
  by (simp add: bfs_push_def js_list_set.wf_add)

lemma bfs_edge_sets:
  "set (fst (bfs_edge cur (a, b) vq)) = set (fst vq) \<union> {y. (cur, y) \<in> links [(a, b)]}"
  "set (snd (bfs_edge cur (a, b) vq)) = set (snd vq) \<union> ({y. (cur, y) \<in> links [(a, b)]} - set (fst vq))"
  by (auto simp: bfs_edge_def Let_def bfs_push_sets links_def split: if_splits)

lemma bfs_scan_sets:
  "set (fst (bfs_scan es cur vq)) = set (fst vq) \<union> {y. (cur, y) \<in> links es}
   \<and> set (snd (bfs_scan es cur vq)) = set (snd vq) \<union> ({y. (cur, y) \<in> links es} - set (fst vq))"
proof (induction es arbitrary: vq)
  case Nil
  show ?case by (simp add: bfs_scan_def links_def)
next
  case (Cons e es)
  obtain a b where e: "e = (a, b)" by (cases e)
  have split: "{y. (cur, y) \<in> links (e # es)} = {y. (cur, y) \<in> links [(a, b)]} \<union> {y. (cur, y) \<in> links es}"
    by (auto simp: e links_def)
  have scan: "bfs_scan (e # es) cur vq = bfs_scan es cur (bfs_edge cur (a, b) vq)"
    by (simp add: bfs_scan_def e)
  show ?case unfolding scan split using Cons [of "bfs_edge cur (a, b) vq"] bfs_edge_sets [of cur a b vq]
    by auto
qed

lemma bfs_scan_distinct: "distinct (fst vq) \<Longrightarrow> distinct (fst (bfs_scan es cur vq))"
proof (induction es arbitrary: vq)
  case Nil
  then show ?case by (simp add: bfs_scan_def)
next
  case (Cons e es)
  have "distinct (fst (bfs_edge cur e vq))"
    using Cons.prems by (auto simp: bfs_edge_def Let_def bfs_push_distinct split: prod.splits)
  then show ?case using Cons.IH by (simp add: bfs_scan_def)
qed

text \<open>The loop invariant: the queue is visited, visited identifiers can be reached from the start, and the
  neighbours of a visited identifier that left the queue are visited.\<close>

definition bfs_inv :: "(string \<times> string) list \<Rightarrow> string \<Rightarrow> string js_set \<Rightarrow> string list \<Rightarrow> bool" where
  "bfs_inv es s visited queue \<longleftrightarrow> distinct visited \<and> s \<in> set visited \<and> set queue \<subseteq> set visited
     \<and> set visited \<subseteq> {y. (s, y) \<in> (links es)\<^sup>*}
     \<and> (\<forall>x \<in> set visited - set queue. \<forall>y. (x, y) \<in> links es \<longrightarrow> y \<in> set visited)"

lemma bfs_inv_step:
  assumes inv: "bfs_inv es s visited (cur # queue)"
  shows "bfs_inv es s (fst (bfs_scan es cur (visited, queue))) (snd (bfs_scan es cur (visited, queue)))"
proof -
  let ?vq = "bfs_scan es cur (visited, queue)" and ?N = "{y. (cur, y) \<in> links es}"
  have d: "distinct visited" and s: "s \<in> set visited" and q: "set (cur # queue) \<subseteq> set visited"
    and r: "set visited \<subseteq> {y. (s, y) \<in> (links es)\<^sup>*}"
    and c: "\<forall>x \<in> set visited - set (cur # queue). \<forall>y. (x, y) \<in> links es \<longrightarrow> y \<in> set visited"
    using inv unfolding bfs_inv_def by blast+
  have v': "set (fst ?vq) = set visited \<union> ?N" and q': "set (snd ?vq) = set queue \<union> (?N - set visited)"
    using bfs_scan_sets [of es cur "(visited, queue)"] by simp_all
  have "?N \<subseteq> {y. (s, y) \<in> (links es)\<^sup>*}"
    using q r by (auto intro: rtrancl_into_rtrancl)
  moreover have "y \<in> set (fst ?vq)" if "x \<in> set (fst ?vq) - set (snd ?vq)" "(x, y) \<in> links es" for x y
  proof (cases "x = cur")
    case True
    then show ?thesis using that(2) unfolding v' by simp
  next
    case False
    then have "x \<in> set visited - set (cur # queue)" using that(1) unfolding v' q' by auto
    then have "y \<in> set visited" using c that(2) by blast
    then show ?thesis unfolding v' by simp
  qed
  moreover have "distinct (fst ?vq)" using d by (simp add: bfs_scan_distinct)
  moreover have "s \<in> set (fst ?vq)" and "set (snd ?vq) \<subseteq> set (fst ?vq)" using s q unfolding v' q' by auto
  ultimately show ?thesis using r unfolding bfs_inv_def v' by blast
qed

lemma bfs_loop_inv: "bfs_inv es s visited queue \<Longrightarrow> bfs_inv es s (bfs_loop es visited queue) []"
proof (induction es visited queue rule: bfs_loop.induct)
  case (1 es visited)
  then show ?case by simp
next
  case (2 es visited cur queue)
  then show ?case by (simp add: Let_def bfs_inv_step)
qed

lemma bfs_closed:
  assumes "bfs_inv es s visited []"
  shows "set visited = {y. (s, y) \<in> (links es)\<^sup>*}"
proof
  show "set visited \<subseteq> {y. (s, y) \<in> (links es)\<^sup>*}" using assms by (simp add: bfs_inv_def)
  have "y \<in> set visited" if "(s, y) \<in> (links es)\<^sup>*" for y
    using that by (induction rule: rtrancl_induct) (use assms in \<open>auto simp: bfs_inv_def\<close>)
  then show "{y. (s, y) \<in> (links es)\<^sup>*} \<subseteq> set visited" by auto
qed

lemma bfs_loop_correct:
  "distinct (bfs_loop es [s] [s]) \<and> set (bfs_loop es [s] [s]) = {y. (s, y) \<in> (links es)\<^sup>*}"
proof -
  have "bfs_inv es s [s] [s]" by (simp add: bfs_inv_def)
  then have inv: "bfs_inv es s (bfs_loop es [s] [s]) []" by (rule bfs_loop_inv)
  then have "distinct (bfs_loop es [s] [s])" unfolding bfs_inv_def by (elim conjE)
  then show ?thesis using bfs_closed [OF inv] by (intro conjI)
qed

section \<open>Correctness of the loader\<close>

lemma index_finding_lookup:
  "index_finding f m k =
     (if finding_key f = k \<and> k \<noteq> [] then Some (or_else (m k) [] @ [f]) else m k)"
  by (auto simp: index_finding_def Let_def or_else_def)

lemma index_lookup:
  "k \<noteq> [] \<Longrightarrow> or_else (fold index_finding fs m k) [] = or_else (m k) [] @ filter (\<lambda>f. finding_key f = k) fs"
proof (induction fs arbitrary: m)
  case Nil
  then show ?case by simp
next
  case (Cons f fs)
  then show ?case by (simp add: index_finding_lookup or_else_def)
qed

lemma findingsByIp_filter:
  "k \<noteq> [] \<Longrightarrow> or_else (findingsByIp fs k) [] = filter (\<lambda>f. finding_key f = k) fs"
  using index_lookup [of k fs Map.empty] by (simp add: findingsByIp_def or_else_def)

lemma enhance_node_findings:
  assumes "str_or (rn_ip n) (rn_id n) = k" and "k \<noteq> []"
  shows "en_findings (enhance_node rnd (findingsByIp fs) i n) = sort_desc sf_score (filter (\<lambda>f. finding_key f = k) fs)"
  using assms by (simp add: enhance_node_def Let_def findingsByIp_filter)

lemma enhance_node_score:
  assumes "en_findings (enhance_node rnd m i n) \<noteq> []"
  shows "en_riskScore (enhance_node rnd m i n) = sf_score (hd (en_findings (enhance_node rnd m i n)))"
  using assms by (cases "sort_desc sf_score (or_else (m (str_or (rn_ip n) (rn_id n))) [])")
    (simp_all add: enhance_node_def Let_def)

lemma enhance_node_alert:
  "en_hasActiveAlert (enhance_node rnd m i n) =
     (\<exists>f \<in> set (en_findings (enhance_node rnd m i n)). sf_status f = ''open'' \<and> sf_score f \<ge> 50)"
  by (auto simp: enhance_node_def Let_def list_ex_iff)

section \<open>What the panel offers\<close>

lemma clicks_map_Text [simp]: "concat (map clicks (map Text ts)) = []"
  by (induction ts) auto

lemma finding_view_clicks:
  assumes "finding_view submitting g \<noteq> None"
    and "MpAction f \<in> set (concat (map clicks (the (finding_view submitting g))))"
  shows "g = f \<and> sf_status f = ''open'' \<and> sf_recommended_action f \<noteq> ''none'' \<and> \<not> submitting"
  using assms by (auto simp: finding_view_def split: option.splits if_splits)

lemma panel_clicks:
  assumes "map_panel s reach = Some vs" and "mp_selected s = Some n"
    and "those (map (finding_view (mp_submitting s)) (en_findings n)) = Some fvs"
  shows "concat (map clicks vs)
    = MpClose # (if en_findings n = [] then [] else concat (map clicks (concat fvs))) @ [MpSimulate]"
proof -
  have "concat (map clicks (case mp_feedback s of Some t \<Rightarrow> [Text t] | None \<Rightarrow> [])) = []"
    by (cases "mp_feedback s") auto
  then show ?thesis using assms by (auto simp: map_panel_def simp del: map_map)
qed

lemma panel_action_clicks:
  assumes "map_panel s reach = Some vs" and "MpAction f \<in> set (concat (map clicks vs))"
  shows "\<exists>n fvs. mp_selected s = Some n
     \<and> those (map (finding_view (mp_submitting s)) (en_findings n)) = Some fvs
     \<and> MpAction f \<in> set (concat (map clicks (concat fvs)))"
proof -
  obtain n where n: "mp_selected s = Some n"
    using assms by (cases "mp_selected s") (auto simp: map_panel_def)
  then obtain fvs where fvs: "those (map (finding_view (mp_submitting s)) (en_findings n)) = Some fvs"
    using assms(1) by (auto simp: map_panel_def split: option.splits)
  have "MpAction f \<in> set (concat (map clicks (concat fvs)))"
    using assms(2) unfolding panel_clicks [OF assms(1) n fvs] by (simp split: if_splits)
  with n fvs show ?thesis by blast
qed

lemma those_clicks:
  assumes "those (map h xs) = Some ys" and "m \<in> set (concat (map clicks (concat ys)))"
  shows "\<exists>x \<in> set xs. h x \<noteq> None \<and> m \<in> set (concat (map clicks (the (h x))))"
  using assms
proof (induction xs arbitrary: ys)
  case Nil
  then show ?case by simp
next
  case (Cons x xs)
  then obtain z zs where "h x = Some z" "those (map h xs) = Some zs" "ys = z # zs"
    by (auto split: option.splits)
  then show ?case using Cons.IH [of zs] Cons.prems(2) by auto
qed

section \<open>Properties\<close>

text \<open>C4. The blast radius of a node is exactly the set of nodes connected with it by a chain of links read in
  either direction, without repetition; the panel's count is the number of those other than the node
  itself; and during a simulation a link of the map is red exactly when one of its ends (hence both) is in
  that set.\<close>

theorem blast_radius_correct:
  assumes "e \<in> set es"
  shows "let reach = reachableNodes True (Some i) (Some es); R = {y. (i, y) \<in> (links (edge_pairs es))\<^sup>*} in
     set reach = R \<and> distinct reach \<and> length reach - 1 = card (R - {i})
     \<and> (getLinkColor mode True reach e = ''#ef4444''
          \<longleftrightarrow> end_id (ee_source e) \<in> R \<or> end_id (ee_target e) \<in> R)"
proof -
  let ?reach = "reachableNodes True (Some i) (Some es)" and ?L = "links (edge_pairs es)"
  let ?R = "{y. (i, y) \<in> ?L\<^sup>*}"
  have eq: "?reach = bfs_loop (edge_pairs es) [i] [i]"
    by (simp add: reachableNodes_def set_from_distinct)
  have set: "set ?reach = ?R" and dist: "distinct ?reach"
    unfolding eq using bfs_loop_correct [of "edge_pairs es" i] by (rule conjunct2, rule conjunct1)
  have "i \<in> ?R" by simp
  then have count: "length ?reach - 1 = card (?R - {i})"
    using distinct_card [OF dist] set by (simp add: card_Diff_singleton)
  let ?a = "end_id (ee_source e)" and ?b = "end_id (ee_target e)"
  have "(?a, ?b) \<in> ?L" and "(?b, ?a) \<in> ?L"
    using assms by (auto simp: links_def edge_pairs_def)
  then have "?a \<in> ?R \<longleftrightarrow> ?b \<in> ?R" by (auto intro: rtrancl_into_rtrancl)
  then have "getLinkColor mode True ?reach e = ''#ef4444'' \<longleftrightarrow> ?a \<in> ?R \<or> ?b \<in> ?R"
    by (auto simp: getLinkColor_def Let_def set_has_def set)
  with set dist count show ?thesis unfolding Let_def by blast
qed

theorem blast_radius_correct_witness:
  "let e = \<lparr>ee_source = EndId ''a'', ee_target = EndNode ''b'', ee_isViolation = False, ee_isNew = False,
            ee_findingCategory = None, ee_relation = None, ee_action = None, ee_width = None\<rparr>
   in set (reachableNodes True (Some ''b'') (Some [e])) = {''a'', ''b''}
      \<and> getLinkColor Standard True (reachableNodes True (Some ''b'') (Some [e])) e = ''#ef4444''"
proof -
  define e where "e = \<lparr>ee_source = EndId ''a'', ee_target = EndNode ''b'', ee_isViolation = False, ee_isNew = False,
            ee_findingCategory = None, ee_relation = None, ee_action = None, ee_width = None\<rparr>"
  have r: "reachableNodes True (Some ''b'') (Some [e]) = [''b'', ''a'']"
    by (simp add: e_def reachableNodes_def edge_pairs_def set_from_def set_add_def set_has_def
        bfs_scan_def bfs_edge_def bfs_push_def)
  have m: "e \<in> set [e]" by simp
  have "(''b'', ''b'') \<in> (links (edge_pairs [e]))\<^sup>*" by simp
  then have "getLinkColor Standard True (reachableNodes True (Some ''b'') (Some [e])) e = ''#ef4444''"
    using blast_radius_correct [OF m, of "''b''" Standard] by (simp add: Let_def e_def)
  then show ?thesis unfolding e_def [symmetric] Let_def r by auto
qed

text \<open>C18. The loader gives a node with a non-empty key (its address, else its identifier) exactly the server's
  findings with that key, sorted by falling score; if there are any, the node's risk score is the largest
  of their scores, and the node raises an alert exactly when one of them is open with a score of at least
  50. A failing findings request yields a map without findings.\<close>

theorem map_loader_joins_findings:
  assumes "i < length ns" and "str_or (rn_ip (ns ! i)) (rn_id (ns ! i)) = k" and "k \<noteq> []"
  shows "\<exists>nodes edges. network_map_load rnd (Resolved (ns, es)) r = Resolved (nodes, edges)
     \<and> length nodes = length ns \<and> length edges = length es
     \<and> (let fs = (case r of Resolved xs \<Rightarrow> filter (\<lambda>f. finding_key f = k) xs | Rejected _ \<Rightarrow> []); n = nodes ! i in
         en_raw n = ns ! i \<and> en_findings n = sort_desc sf_score fs
         \<and> (fs \<noteq> [] \<longrightarrow> en_riskScore n \<in> sf_score ` set fs \<and> (\<forall>f \<in> set fs. sf_score f \<le> en_riskScore n))
         \<and> en_hasActiveAlert n = (\<exists>f \<in> set fs. sf_status f = ''open'' \<and> 50 \<le> sf_score f))"
proof -
  define xs where "xs = (case r of Resolved xs \<Rightarrow> xs | Rejected _ \<Rightarrow> [])"
  let ?fs = "filter (\<lambda>f. finding_key f = k) xs"
  let ?nodes = "map (\<lambda>(i, n). enhance_node rnd (findingsByIp xs) i n) (enumerate 0 ns)"
  let ?n = "enhance_node rnd (findingsByIp xs) i (ns ! i)"
  let ?edges = "map (\<lambda>(i, e). enhance_edge i e) (enumerate 0 es)"
  have fs: "(case r of Resolved xs \<Rightarrow> filter (\<lambda>f. finding_key f = k) xs | Rejected _ \<Rightarrow> []) = ?fs"
    by (simp add: xs_def split: response.split)
  have n: "?nodes ! i = ?n" using assms(1) by (simp add: nth_enumerate_eq)
  have f: "en_findings ?n = sort_desc sf_score ?fs" using assms(2,3) by (rule enhance_node_findings)
  have "?fs \<noteq> [] \<longrightarrow> en_riskScore ?n \<in> sf_score ` set ?fs \<and> (\<forall>f \<in> set ?fs. sf_score f \<le> en_riskScore ?n)"
  proof
    assume ne: "?fs \<noteq> []"
    then have "en_findings ?n \<noteq> []" unfolding f by (metis length_0_conv length_sort_desc)
    then have "en_riskScore ?n = sf_score (hd (sort_desc sf_score ?fs))" using enhance_node_score f by metis
    then show "en_riskScore ?n \<in> sf_score ` set ?fs \<and> (\<forall>f \<in> set ?fs. sf_score f \<le> en_riskScore ?n)"
      using sort_desc_hd [OF ne, of sf_score] by simp
  qed
  moreover have "en_hasActiveAlert ?n = (\<exists>f \<in> set ?fs. sf_status f = ''open'' \<and> 50 \<le> sf_score f)"
    unfolding enhance_node_alert f by simp
  moreover have "en_raw ?n = ns ! i" by (simp add: enhance_node_def Let_def)
  moreover have "network_map_load rnd (Resolved (ns, es)) r = Resolved (?nodes, ?edges)"
    by (simp add: network_map_load_def xs_def Let_def)
  ultimately show ?thesis
    unfolding fs Let_def by (intro exI [of _ ?nodes] exI [of _ ?edges]) (simp add: n f)
qed

definition c2_finding :: security_finding where
  "c2_finding = \<lparr>sf_finding_id = ''f1'', sf_category = ''rat'', sf_score = 90,
     sf_evidence = Some \<lparr>ev_source_ip = Some ''10.0.0.5'', ev_triggers = None\<rparr>, sf_endpoint_id = None,
     sf_recommended_action = ''isolate_host'', sf_status = ''open'', sf_created_at = ''''\<rparr>"

definition web_node :: raw_node where
  "web_node = \<lparr>rn_id = ''n1'', rn_label = ''web'', rn_type = ''ClientHost'', rn_ip = Some ''10.0.0.5'',
     rn_properties = None, rn_containerId = None, rn_containerImage = None, rn_isSuspicious = False\<rparr>"

theorem map_loader_joins_findings_witness:
  "\<exists>nodes edges. network_map_load (\<lambda>_. 0) (Resolved ([web_node], [])) (Resolved [c2_finding]) = Resolved (nodes, edges)
     \<and> en_hasActiveAlert (nodes ! 0)"
  using map_loader_joins_findings [of 0 "[web_node]" "''10.0.0.5''" "\<lambda>_. 0" "[]" "Resolved [c2_finding]"]
  by (auto simp: web_node_def c2_finding_def str_or_def finding_key_def Let_def)

text \<open>The detail panel offers a response action only for an open finding of the selected node whose
  recommended action is not \<^verbatim>\<open>none\<close> and only while no action is being queued; the click sends exactly one
  request, which carries no two-key token, and locks the panel's action buttons until it is answered.\<close>

theorem response_action_gated:
  assumes "map_panel s reach = Some vs" and "MpAction f \<in> set (concat (map clicks vs))"
  shows "\<exists>n. mp_selected s = Some n \<and> f \<in> set (en_findings n) \<and> sf_status f = ''open''
     \<and> sf_recommended_action f \<noteq> ''none'' \<and> \<not> mp_submitting s
     \<and> (\<exists>body. requests (snd (map_update (MpAction f) s)) = [(POST, ''/admin/endpoints/'' @ rn_id (en_raw n) @ ''/tasks'', body)]
          \<and> json_get ''action'' body = Some (JStr (sf_recommended_action f))
          \<and> json_get ''twoKeyToken'' body = Some JNull)
     \<and> mp_submitting (fst (map_update (MpAction f) s))
     \<and> (\<forall>r. \<not> mp_submitting (handleResponseAction_settle f (r :: unit response) s))"
proof -
  obtain n fvs where n: "mp_selected s = Some n"
    and fvs: "those (map (finding_view (mp_submitting s)) (en_findings n)) = Some fvs"
    and f: "MpAction f \<in> set (concat (map clicks (concat fvs)))"
    using panel_action_clicks [OF assms] by blast
  then obtain g where "g \<in> set (en_findings n)" and g: "finding_view (mp_submitting s) g \<noteq> None"
      "MpAction f \<in> set (concat (map clicks (the (finding_view (mp_submitting s) g))))"
    using those_clicks [OF fvs f] by blast
  moreover have "g = f \<and> sf_status f = ''open'' \<and> sf_recommended_action f \<noteq> ''none'' \<and> \<not> mp_submitting s"
    using finding_view_clicks [OF g] .
  ultimately show ?thesis
    using n by (simp add: handleResponseAction_start_def handleResponseAction_settle_def)
qed

theorem response_action_gated_witness:
  "let n = enhance_node (\<lambda>_. 0) (findingsByIp [c2_finding]) 0 web_node;
       s = NetworkMapPage\<lparr>mp_selected := Some n\<rparr>
   in mp_submitting (fst (map_update (MpAction c2_finding) s))"
proof -
  define n where "n = enhance_node (\<lambda>_. 0) (findingsByIp [c2_finding]) 0 web_node"
  define s where "s = NetworkMapPage\<lparr>mp_selected := Some n\<rparr>"
  have "en_findings n = [c2_finding]"
    by (simp add: n_def enhance_node_def Let_def findingsByIp_def index_finding_def finding_key_def str_or_def
        c2_finding_def web_node_def or_else_def sort_desc_def)
  then have "\<exists>vs. map_panel s [] = Some vs \<and> MpAction c2_finding \<in> set (concat (map clicks vs))"
    by (simp add: map_panel_def s_def NetworkMapPage_def finding_view_def c2_finding_def)
  then show ?thesis using response_action_gated unfolding n_def [symmetric] s_def [symmetric] Let_def by blast
qed

end
