(* ===== verification/Two_Key.thy ===== *)
theory Two_Key
  imports SOC_Types
begin

text \<open>
  The two-key confirmation: a destructive action runs only after the analyst typed the name of its
  target. \<^verbatim>\<open>shared/ui/TwoKeyModal\<close> is the dialog, \<^verbatim>\<open>InvestigationContext.tsx\<close> the store that opens
  it and posts the action. The contract between a page and the gate is the locale
  \<open>two_key_gate\<close>; the store, the alert rules, the isolation page and the danger dialog of the
  settings interpret it.
\<close>

section \<open>The gate\<close>

locale two_key_gate =
  fixes step :: "'e \<Rightarrow> 's \<Rightarrow> 's \<times> effect list"
    and enabled :: "'s \<Rightarrow> 'e \<Rightarrow> bool"
    and guarded :: "'s \<Rightarrow> http_method \<times> string \<times> json \<Rightarrow> bool"
    and confirmed :: "'s \<Rightarrow> bool"
  assumes gate: "enabled s e \<Longrightarrow> r \<in> set (requests (snd (step e s))) \<Longrightarrow> guarded s r \<Longrightarrow> confirmed s"
begin

text \<open>The requests of a run, each with the state in which it was sent.\<close>

primrec sent :: "'e list \<Rightarrow> 's \<Rightarrow> ('s \<times> http_method \<times> string \<times> json) list" where
  "sent [] s = []"
| "sent (e # es) s = map (\<lambda>r. (s, r)) (requests (snd (step e s))) @ sent es (fst (step e s))"

primrec offered :: "'e list \<Rightarrow> 's \<Rightarrow> bool" where
  "offered [] s = True"
| "offered (e # es) s = (enabled s e \<and> offered es (fst (step e s)))"

lemma sent_confirmed: "offered es s \<Longrightarrow> (t, r) \<in> set (sent es s) \<Longrightarrow> guarded t r \<Longrightarrow> confirmed t"
  by (induction es arbitrary: s) (auto intro: gate)

end

section \<open>TwoKeyModal\<close>

text \<open>The properties \<^verbatim>\<open>show\<close>, \<^verbatim>\<open>action\<close> and \<^verbatim>\<open>input\<close> of the dialog are a value of the parent's state;
  \<^verbatim>\<open>isSubmitting\<close> is its own.\<close>

record modal =
  tk_show :: bool
  tk_action :: "action_info option"
  tk_input :: string

definition closed_modal :: modal where
  "closed_modal = \<lparr>tk_show = False, tk_action = None, tk_input = ''''\<rparr>"

datatype modal_msg = TkCancel | TkConfirm | TkInput string

definition isMatch :: "modal \<Rightarrow> bool" where
  "isMatch m = (case tk_action m of Some a \<Rightarrow> js_trim (tk_input m) = ai_target a | None \<Rightarrow> False)"

definition isNonEmptyMismatch :: "modal \<Rightarrow> bool" where
  "isNonEmptyMismatch m = (0 < length (js_trim (tk_input m)) \<and> \<not> isMatch m)"

text \<open>The effect on \<^verbatim>\<open>[show, action?.target]\<close>: run when one of them changed.\<close>

definition modal_show_effect :: "modal \<Rightarrow> modal \<Rightarrow> bool \<Rightarrow> bool" where
  "modal_show_effect old new submitting =
     (if tk_show new \<and>
         (tk_show old \<noteq> tk_show new \<or> map_option ai_target (tk_action old) \<noteq> map_option ai_target (tk_action new))
      then False else submitting)"

text \<open>The key listener is installed while the dialog is shown; the focus trap of \<^verbatim>\<open>Tab\<close> moves the
  focus only.\<close>

definition modal_keydown :: "string \<Rightarrow> modal \<Rightarrow> modal_msg option" where
  "modal_keydown key m = (if tk_show m \<and> key = ''Escape'' then Some TkCancel else None)"

definition modal_confirm_passes :: "modal \<Rightarrow> bool \<Rightarrow> bool" where
  "modal_confirm_passes m submitting = (isMatch m \<and> \<not> submitting)"

definition TwoKeyModal_view :: "modal \<Rightarrow> bool \<Rightarrow> modal_msg view list" where
  "TwoKeyModal_view m submitting =
     (case tk_action m of
        None \<Rightarrow> []
      | Some a \<Rightarrow> if \<not> tk_show m then [] else
          [Clickable TkCancel
            [Group ''two-key-modal''
              ([Text ''DANGER: DESTRUCTIVE ACTION'',
                Text (''You are about to execute: '' @ ai_action a @ '' on '' @ ai_target a @ ''.''),
                Text (''Please type the exact target name ('' @ ai_target a @ '') to confirm:''),
                Input (tk_input m) submitting TkInput]
               @ render_if (isNonEmptyMismatch m)
                   (Text (''Target name does not match - type exactly: '' @ ai_target a))
               @ render_if (isMatch m) (Text ''Target confirmed'')
               @ [Button ''Cancel'' submitting TkCancel,
                  Button (if submitting then ''Executing'' else ''EXECUTE ACTION'')
                    (\<not> isMatch m \<or> submitting) TkConfirm])]])"

section \<open>ConfirmModal\<close>

datatype confirm_msg = CmConfirm | CmCancel

definition ConfirmModal_view :: "bool \<Rightarrow> string \<Rightarrow> string \<Rightarrow> string \<Rightarrow> string \<Rightarrow> confirm_msg view list" where
  "ConfirmModal_view isOpen title message confirmText cancelText =
     (if \<not> isOpen then []
      else [Group '''' [Text title, Text message, Button cancelText False CmCancel, Button confirmText False CmConfirm]])"

section \<open>InvestigationContext\<close>

record context_state =
  cx_alerts :: "alert list"
  cx_alertsLoading :: bool
  cx_alertsError :: "string option"
  cx_selectedAlert :: "alert option"
  cx_investigation :: "investigation_data option"
  cx_twoKeyModal :: modal

definition InvestigationProvider :: context_state where
  "InvestigationProvider =
     \<lparr>cx_alerts = [], cx_alertsLoading = True, cx_alertsError = None, cx_selectedAlert = None,
      cx_investigation = None, cx_twoKeyModal = closed_modal\<rparr>"

definition fetchAlerts_start :: "context_state \<Rightarrow> context_state \<times> effect list" where
  "fetchAlerts_start s = (s\<lparr>cx_alertsLoading := True, cx_alertsError := None\<rparr>, [Request GET ''/data/alerts'' JNull])"

definition fetchAlerts_settle :: "alert list response \<Rightarrow> context_state \<Rightarrow> context_state" where
  "fetchAlerts_settle r s =
     (case r of
        Resolved xs \<Rightarrow> s\<lparr>cx_alerts := xs\<rparr>
      | Rejected e \<Rightarrow> s\<lparr>cx_alertsError := Some ''Failed to load alerts. The backend may be unreachable.''\<rparr>)
     \<lparr>cx_alertsLoading := False\<rparr>"

definition viewInvestigation_start :: "alert \<Rightarrow> context_state \<Rightarrow> context_state \<times> effect list" where
  "viewInvestigation_start a s =
     (s\<lparr>cx_selectedAlert := Some a, cx_investigation := None\<rparr>,
      [Request GET (''/data/investigation/'' @ al_id a) JNull])"

definition viewInvestigation_settle ::
  "investigation_data response \<Rightarrow> context_state \<Rightarrow> context_state \<times> effect list" where
  "viewInvestigation_settle r s =
     (case r of
        Resolved d \<Rightarrow> (s\<lparr>cx_investigation := Some d\<rparr>, [])
      | Rejected e \<Rightarrow> (s, [ConsoleError ''[App] Failed to fetch investigation:'']))"

definition high_risk :: "risk \<Rightarrow> bool" where
  "high_risk r = (r = DESTRUCTIVE \<or> r = HIGH_IMPACT_WRITE)"

definition handleActionApprove :: "action_info \<Rightarrow> context_state \<Rightarrow> context_state" where
  "handleActionApprove a s =
     (if high_risk (ai_risk a)
      then s\<lparr>cx_twoKeyModal := \<lparr>tk_show = True, tk_action = Some a, tk_input = ''''\<rparr>\<rparr>
      else s)"

text \<open>The part of \<^verbatim>\<open>confirmTwoKeyAction\<close> before its \<^verbatim>\<open>await\<close>, and its \<^verbatim>\<open>finally\<close>.\<close>

definition confirmTwoKeyAction_start :: "context_state \<Rightarrow> context_state \<times> effect list" where
  "confirmTwoKeyAction_start s =
     (let m = cx_twoKeyModal s in
      case tk_action m of
        Some a \<Rightarrow>
          if js_trim (tk_input m) = ai_target a
          then (s, [Request POST ''/data/actions/execute'' (action_json a)])
          else (s\<lparr>cx_twoKeyModal := closed_modal\<rparr>, [])
      | None \<Rightarrow> (s\<lparr>cx_twoKeyModal := closed_modal\<rparr>, []))"

definition confirmTwoKeyAction_settle :: "'a response \<Rightarrow> context_state \<Rightarrow> context_state \<times> effect list" where
  "confirmTwoKeyAction_settle r s =
     (s\<lparr>cx_twoKeyModal := closed_modal\<rparr>,
      case r of Resolved x \<Rightarrow> [] | Rejected e \<Rightarrow> [ConsoleError ''[App] Action execution failed:''])"

definition useInvestigation :: "context_state option \<Rightarrow> string + context_state" where
  "useInvestigation ctx = (case ctx of
       None \<Rightarrow> Inl ''useInvestigation must be used within an InvestigationProvider''
     | Some c \<Rightarrow> Inr c)"

section \<open>The store and the dialog together\<close>

text \<open>
  The dialog on top of the store: what the analyst can do and what the server answers.
  \<open>ui_pending\<close> are the actions posted and not answered yet.
\<close>

record two_key_ui =
  ui_ctx :: context_state
  ui_submitting :: bool
  ui_pending :: "action_info list"

datatype ui_event =
    UiApprove action_info
  | UiInput string
  | UiConfirm
  | UiCancel
  | UiKey string
  | UiAnswer "unit response"

definition two_key_init :: two_key_ui where
  "two_key_init = \<lparr>ui_ctx = InvestigationProvider, ui_submitting = False, ui_pending = []\<rparr>"

definition ui_set_ctx :: "context_state \<Rightarrow> two_key_ui \<Rightarrow> two_key_ui" where
  "ui_set_ctx c u = u\<lparr>ui_ctx := c,
     ui_submitting := modal_show_effect (cx_twoKeyModal (ui_ctx u)) (cx_twoKeyModal c) (ui_submitting u)\<rparr>"

abbreviation ui_modal :: "two_key_ui \<Rightarrow> modal" where
  "ui_modal u \<equiv> cx_twoKeyModal (ui_ctx u)"

definition ui_cancel :: "two_key_ui \<Rightarrow> two_key_ui" where
  "ui_cancel u = ui_set_ctx ((ui_ctx u)\<lparr>cx_twoKeyModal := closed_modal\<rparr>) u"

definition ui_confirm :: "two_key_ui \<Rightarrow> two_key_ui \<times> effect list" where
  "ui_confirm u =
     (if \<not> modal_confirm_passes (ui_modal u) (ui_submitting u) then (u, [])
      else let (c, es) = confirmTwoKeyAction_start (ui_ctx u) in
        ((ui_set_ctx c u)\<lparr>ui_submitting := True,
           ui_pending := ui_pending u @ (case tk_action (ui_modal u) of Some a \<Rightarrow> [a] | None \<Rightarrow> [])\<rparr>, es))"

fun two_key_step :: "ui_event \<Rightarrow> two_key_ui \<Rightarrow> two_key_ui \<times> effect list" where
  "two_key_step (UiApprove a) u = (ui_set_ctx (handleActionApprove a (ui_ctx u)) u, [])"
| "two_key_step (UiInput t) u =
     (ui_set_ctx ((ui_ctx u)\<lparr>cx_twoKeyModal := (ui_modal u)\<lparr>tk_input := t\<rparr>\<rparr>) u, [])"
| "two_key_step UiConfirm u = ui_confirm u"
| "two_key_step UiCancel u = (ui_cancel u, [])"
| "two_key_step (UiKey k) u =
     (case modal_keydown k (ui_modal u) of Some TkCancel \<Rightarrow> (ui_cancel u, []) | _ \<Rightarrow> (u, []))"
| "two_key_step (UiAnswer r) u =
     (let (c, es) = confirmTwoKeyAction_settle r (ui_ctx u) in
      ((ui_set_ctx c u)\<lparr>ui_submitting := False, ui_pending := tl (ui_pending u)\<rparr>, es))"

text \<open>What is offered: the dialog's controls as \<^const>\<open>TwoKeyModal_view\<close> renders them (the input while it
  is enabled), any key, an answer to a pending post, and approvals from the page behind while the
  dialog is closed.\<close>

fun two_key_enabled :: "two_key_ui \<Rightarrow> ui_event \<Rightarrow> bool" where
  "two_key_enabled u (UiApprove a) = (TwoKeyModal_view (ui_modal u) (ui_submitting u) = [])"
| "two_key_enabled u (UiInput t) = (TwoKeyModal_view (ui_modal u) (ui_submitting u) \<noteq> [] \<and> \<not> ui_submitting u)"
| "two_key_enabled u UiConfirm =
     (TkConfirm \<in> set (concat (map clicks (TwoKeyModal_view (ui_modal u) (ui_submitting u)))))"
| "two_key_enabled u UiCancel =
     (TkCancel \<in> set (concat (map clicks (TwoKeyModal_view (ui_modal u) (ui_submitting u)))))"
| "two_key_enabled u (UiKey k) = True"
| "two_key_enabled u (UiAnswer r) = (ui_pending u \<noteq> [])"

section \<open>Lemmas\<close>

lemmas two_key_defs = two_key_init_def InvestigationProvider_def closed_modal_def ui_set_ctx_def ui_cancel_def
  ui_confirm_def handleActionApprove_def confirmTwoKeyAction_start_def confirmTwoKeyAction_settle_def
  modal_confirm_passes_def modal_show_effect_def modal_keydown_def isMatch_def TwoKeyModal_view_def

text \<open>The condition under which a post leaves the store: the dialog shows an action and the trimmed
  input is its target.\<close>

definition key_turned :: "two_key_ui \<Rightarrow> bool" where
  "key_turned u = (tk_show (ui_modal u) \<and> isMatch (ui_modal u) \<and> \<not> ui_submitting u)"

interpretation ui_gate: two_key_gate two_key_step two_key_enabled "\<lambda>u r. True" key_turned
proof (unfold_locales, goal_cases)
  case (1 u e r)
  then show ?case
  proof (cases e)
    case UiConfirm
    with 1 have "TkConfirm \<in> set (concat (map clicks (TwoKeyModal_view (ui_modal u) (ui_submitting u))))" by simp
    then show ?thesis
      by (auto simp: key_turned_def TwoKeyModal_view_def split: option.splits if_splits)
  next
    case (UiKey k)
    with 1 show ?thesis by (auto simp: modal_keydown_def split: if_splits)
  next
    case (UiAnswer r)
    with 1 show ?thesis by (cases r) (auto simp: confirmTwoKeyAction_settle_def)
  qed auto
qed

lemma high_risk_threshold: "high_risk r \<longleftrightarrow> HIGH_IMPACT_WRITE \<le> r"
  by (cases r) (simp_all add: high_risk_def less_eq_risk_def)

lemma approval_opens_iff:
  "tk_show (cx_twoKeyModal (handleActionApprove a s)) \<longleftrightarrow> tk_show (cx_twoKeyModal s) \<or> HIGH_IMPACT_WRITE \<le> ai_risk a"
  by (simp add: handleActionApprove_def high_risk_threshold)

lemma ui_confirm_requests:
  "r \<in> set (requests (snd (ui_confirm u))) \<Longrightarrow>
     \<exists>a. tk_action (ui_modal u) = Some a \<and> js_trim (tk_input (ui_modal u)) = ai_target a
       \<and> r = (POST, ''/data/actions/execute'', action_json a)"
  by (auto simp: ui_confirm_def modal_confirm_passes_def isMatch_def confirmTwoKeyAction_start_def Let_def
      split: option.splits if_splits)

lemma step_requests:
  "r \<in> set (requests (snd (two_key_step e u))) \<Longrightarrow>
     \<exists>a. tk_action (ui_modal u) = Some a \<and> js_trim (tk_input (ui_modal u)) = ai_target a
       \<and> r = (POST, ''/data/actions/execute'', action_json a)"
  by (cases e) (auto intro: ui_confirm_requests simp: confirmTwoKeyAction_settle_def Let_def modal_keydown_def
      split: response.splits if_splits)

text \<open>The action in the dialog was approved through \<^verbatim>\<open>handleActionApprove\<close> and has a high risk.\<close>

lemma step_action:
  assumes "tk_action (ui_modal (fst (two_key_step e u))) = Some a"
  shows "tk_action (ui_modal u) = Some a \<or> (e = UiApprove a \<and> high_risk (ai_risk a))"
  using assms
  by (cases e)
    (auto simp: two_key_defs Let_def split: if_splits option.splits response.splits)

lemma sent_approved:
  assumes "(t, r) \<in> set (ui_gate.sent es u)"
    and "\<And>a. tk_action (ui_modal u) = Some a \<Longrightarrow> high_risk (ai_risk a) \<and> UiApprove a \<in> A"
  shows "\<exists>a. UiApprove a \<in> A \<union> set es \<and> high_risk (ai_risk a)
    \<and> js_trim (tk_input (ui_modal t)) = ai_target a \<and> tk_action (ui_modal t) = Some a
    \<and> r = (POST, ''/data/actions/execute'', action_json a)"
  using assms
proof (induction es arbitrary: u A)
  case Nil
  then show ?case by simp
next
  case (Cons e es)
  show ?case
  proof (cases "t = u \<and> r \<in> set (requests (snd (two_key_step e u)))")
    case True
    then show ?thesis using step_requests [of r e u] Cons.prems(2) by blast
  next
    case False
    then have "(t, r) \<in> set (ui_gate.sent es (fst (two_key_step e u)))" using Cons.prems(1) by auto
    then show ?thesis
      using Cons.IH [of "fst (two_key_step e u)" "insert e A"] step_action [of e u] Cons.prems(2) by auto
  qed
qed

text \<open>Cancelling while a post is in flight is what the disabled Cancel button means to rule out; the
  Escape key and the overlay still do it.\<close>

definition patient :: "two_key_ui \<Rightarrow> ui_event \<Rightarrow> bool" where
  "patient u e = (two_key_enabled u e \<and> (ui_submitting u \<longrightarrow> e \<noteq> UiCancel \<and> e \<noteq> UiKey ''Escape''))"

definition one_post :: "two_key_ui \<Rightarrow> bool" where
  "one_post u = (length (ui_pending u) \<le> 1 \<and> (ui_submitting u \<longleftrightarrow> ui_pending u \<noteq> [])
     \<and> (ui_submitting u \<longrightarrow> tk_show (ui_modal u) \<and> tk_action (ui_modal u) \<noteq> None))"

lemma view_empty: "TwoKeyModal_view m b = [] \<longleftrightarrow> \<not> tk_show m \<or> tk_action m = None"
  by (simp add: TwoKeyModal_view_def split: option.split)

lemma one_post_idle: "one_post u \<Longrightarrow> \<not> ui_submitting u \<Longrightarrow> one_post (ui_set_ctx c u)"
  by (simp add: one_post_def ui_set_ctx_def modal_show_effect_def)

lemma one_post_confirm:
  assumes "one_post u" and "tk_show (ui_modal u)"
  shows "one_post (fst (ui_confirm u))"
proof (cases "modal_confirm_passes (ui_modal u) (ui_submitting u)")
  case False
  then show ?thesis using assms(1) by (simp add: ui_confirm_def)
next
  case True
  then obtain a where "tk_action (ui_modal u) = Some a" "js_trim (tk_input (ui_modal u)) = ai_target a"
    by (auto simp: modal_confirm_passes_def isMatch_def split: option.splits)
  then show ?thesis using assms True
    by (simp add: ui_confirm_def confirmTwoKeyAction_start_def one_post_def ui_set_ctx_def modal_confirm_passes_def)
qed

lemma one_post_answer:
  assumes "one_post u"
  shows "one_post (fst (two_key_step (UiAnswer r) u))"
  using assms by (cases "ui_pending u") (simp_all add: one_post_def confirmTwoKeyAction_settle_def ui_set_ctx_def)

interpretation patient_ui: machine_invariant two_key_init patient "\<lambda>e u. fst (two_key_step e u)" one_post
proof (unfold_locales, goal_cases)
  case 1
  show ?case by (simp add: one_post_def two_key_init_def)
next
  case (2 u e)
  have busy: "ui_submitting u \<Longrightarrow> \<not> TwoKeyModal_view (ui_modal u) b = []" for b
    using 2(1) by (simp add: one_post_def view_empty)
  show ?case
  proof (cases e)
    case UiConfirm
    then have "TwoKeyModal_view (ui_modal u) (ui_submitting u) \<noteq> []"
      using 2(2) by (auto simp: patient_def)
    then show ?thesis using one_post_confirm 2(1) UiConfirm by (simp add: view_empty)
  next
    case (UiAnswer r)
    then show ?thesis using one_post_answer 2(1) by simp
  next
    case (UiKey k)
    then show ?thesis using 2 one_post_idle
      by (auto simp: patient_def modal_keydown_def ui_cancel_def)
  qed (use 2 busy one_post_idle in \<open>auto simp: patient_def ui_cancel_def\<close>)
qed

section \<open>Properties\<close>



definition isolate_action :: action_info where
  "isolate_action = \<lparr>ai_action = ''isolate'', ai_target = ''db-01'', ai_justification = '''', ai_risk = DESTRUCTIVE\<rparr>"




text \<open>The Escape key defeats that lock: for every high-risk action with a trimmed target, the run
  approve, type, execute, Escape, approve, type, execute is offered by the dialog and ends with the same
  action posted twice and neither post answered.\<close>

theorem escape_allows_second_submission:
  assumes "high_risk (ai_risk a)" and "js_trim (ai_target a) = ai_target a"
  shows "let es = [UiApprove a, UiInput (ai_target a), UiConfirm, UiKey ''Escape'',
                   UiApprove a, UiInput (ai_target a), UiConfirm] in
     ui_gate.offered es two_key_init
     \<and> map snd (ui_gate.sent es two_key_init) =
         [(POST, ''/data/actions/execute'', action_json a), (POST, ''/data/actions/execute'', action_json a)]
     \<and> ui_pending (fold (\<lambda>e u. fst (two_key_step e u)) es two_key_init) = [a, a]"
  using assms by (simp add: two_key_defs)

theorem escape_allows_second_submission_witness:
  "ui_pending (fold (\<lambda>e u. fst (two_key_step e u))
      [UiApprove isolate_action, UiInput ''db-01'', UiConfirm, UiKey ''Escape'',
       UiApprove isolate_action, UiInput ''db-01'', UiConfirm] two_key_init) = [isolate_action, isolate_action]"
proof -
  have "high_risk (ai_risk isolate_action)" and "ai_target isolate_action = ''db-01''"
    and "js_trim (ai_target isolate_action) = ai_target isolate_action"
    by (simp_all add: isolate_action_def high_risk_def js_trim_def is_js_space_def)
  then show ?thesis using escape_allows_second_submission [of isolate_action] unfolding Let_def by metis
qed

text \<open>The dialog can be confirmed by some input exactly when the target has no white space at its ends:
  the target is compared with the trimmed input.\<close>

theorem two_key_confirmable_iff:
  "(\<exists>t. isMatch \<lparr>tk_show = True, tk_action = Some a, tk_input = t\<rparr>) \<longleftrightarrow> js_trim (ai_target a) = ai_target a"
proof
  assume "\<exists>t. isMatch \<lparr>tk_show = True, tk_action = Some a, tk_input = t\<rparr>"
  then obtain t where "js_trim t = ai_target a" by (auto simp: isMatch_def)
  then show "js_trim (ai_target a) = ai_target a" by (metis js_trim_idem)
next
  assume "js_trim (ai_target a) = ai_target a"
  then show "\<exists>t. isMatch \<lparr>tk_show = True, tk_action = Some a, tk_input = t\<rparr>"
    by (auto simp: isMatch_def)
qed

end
