(* ===== verification/Alert_Rules.thy ===== *)
theory Alert_Rules
  imports Two_Key Shared_Hooks
begin

text \<open>
  The detection rules page (\<^verbatim>\<open>pages/detection/AlertRulesPage.tsx\<close>): single and bulk switching of rules with
  optimistic updates, the two-key dialog for rules with an automatic response, selection, the dry-run,
  version and creation dialogs. Random figures are the argument \<open>rnd\<close>.

  A handler that continues after an \<^verbatim>\<open>await\<close> captures the list of rules it saw; \<open>performToggle_settle\<close>
  therefore takes the captured list and the current state.
\<close>

section \<open>State\<close>

record enhanced_rule = detection_rule +
  er_falsePositiveRate :: nat
  er_triggerCount30d :: nat
  er_dependencies :: "string list"

datatype pending_kind = PToggle enhanced_rule | PBulkDisable

record rules_state =
  ar_async :: "enhanced_rule list async_state"
  ar_selected :: "string js_set"
  ar_pending :: "(action_info \<times> pending_kind) option"
  ar_input :: string
  ar_showCreate :: bool
  ar_newRuleJson :: string
  ar_simulating :: "enhanced_rule option"
  ar_simResult :: "nat option"
  ar_version :: "enhanced_rule option"

abbreviation ar_data :: "rules_state \<Rightarrow> enhanced_rule list option" where
  "ar_data s \<equiv> as_data (ar_async s)"

definition rules_setData :: "enhanced_rule list \<Rightarrow> rules_state \<Rightarrow> rules_state" where
  "rules_setData rs s = s\<lparr>ar_async := setData rs (ar_async s)\<rparr>"

text \<open>\<^verbatim>\<open>if (data) setData(data.map(f))\<close>, as in every handler of the page.\<close>

definition rules_mapData :: "(enhanced_rule list \<Rightarrow> enhanced_rule list) \<Rightarrow> rules_state \<Rightarrow> rules_state" where
  "rules_mapData f s = (case ar_data s of None \<Rightarrow> s | Some rs \<Rightarrow> rules_setData (f rs) s)"

definition AlertRulesPage :: "string \<Rightarrow> rules_state" where
  "AlertRulesPage template = \<lparr>ar_async = useAsyncState, ar_selected = [], ar_pending = None, ar_input = '''',
     ar_showCreate = False, ar_newRuleJson = template, ar_simulating = None, ar_simResult = None, ar_version = None\<rparr>"

definition rules_load :: "(nat \<Rightarrow> nat) \<Rightarrow> (nat \<Rightarrow> nat) \<Rightarrow> detection_rule list \<Rightarrow> enhanced_rule list" where
  "rules_load rndF rndT rs = map (\<lambda>(i, r). detection_rule.extend r
     (enhanced_rule.fields (rndF i mod 40) (rndT i mod 500)
        (if dr_isAutoResponse r then [''Playbook: Auto-Containment''] else []))) (enumerate 0 rs)"

definition rules_execute :: "rules_state \<Rightarrow> rules_state \<times> effect list" where
  "rules_execute s = (s\<lparr>ar_async := execute_start (ar_async s)\<rparr>, [Request GET ''/detection/rules'' JNull])"

definition rules_answer ::
  "(nat \<Rightarrow> nat) \<Rightarrow> (nat \<Rightarrow> nat) \<Rightarrow> detection_rule list response \<Rightarrow> rules_state \<Rightarrow> rules_state" where
  "rules_answer rndF rndT r s = s\<lparr>ar_async := execute_settle (case r of
     Resolved rs \<Rightarrow> Resolved (rules_load rndF rndT rs) | Rejected e \<Rightarrow> Rejected e) (ar_async s)\<rparr>"

lemma rules_mapData_simps [simp]:
  "ar_data (rules_setData rs s) = Some rs" "ar_data (rules_mapData f s) = map_option f (ar_data s)"
  "ar_pending (rules_setData rs s) = ar_pending s" "ar_pending (rules_mapData f s) = ar_pending s"
  "ar_input (rules_setData rs s) = ar_input s" "ar_input (rules_mapData f s) = ar_input s"
  "as_loading (ar_async (rules_mapData f s)) = as_loading (ar_async s)"
  "as_error (ar_async (rules_mapData f s)) = as_error (ar_async s)"
  by (simp_all add: rules_setData_def rules_mapData_def setData_def split: option.splits)

section \<open>Switching one rule\<close>

definition rule_url :: "enhanced_rule \<Rightarrow> string" where
  "rule_url r = ''/detection/rules/'' @ dr_id r"

definition enabled_json :: "bool \<Rightarrow> json" where
  "enabled_json b = JObj [(''enabled'', JBool b)]"

definition flip_rule :: "string \<Rightarrow> enhanced_rule list \<Rightarrow> enhanced_rule list" where
  "flip_rule i rs = map_where (\<lambda>r. dr_id r = i) (\<lambda>r. r\<lparr>dr_enabled := \<not> dr_enabled r\<rparr>) rs"

definition performToggle_start :: "enhanced_rule \<Rightarrow> rules_state \<Rightarrow> rules_state \<times> effect list" where
  "performToggle_start rule s =
     (rules_mapData (flip_rule (dr_id rule)) s,
      [Request PATCH (rule_url rule) (enabled_json (\<not> dr_enabled rule))])"

definition performToggle_settle ::
  "enhanced_rule list \<Rightarrow> 'a response \<Rightarrow> rules_state \<Rightarrow> rules_state \<times> effect list" where
  "performToggle_settle original r s = (case r of
       Resolved x \<Rightarrow> (s\<lparr>ar_pending := None, ar_input := ''''\<rparr>, [])
     | Rejected e \<Rightarrow> (rules_setData original s, [Alert ''Failed to toggle rule'']))"

definition toggle_action :: "enhanced_rule \<Rightarrow> action_info" where
  "toggle_action rule = \<lparr>ai_action = ''Disable High-Impact Rule'', ai_target = dr_name rule,
     ai_justification = ''Disabling auto-response detection rule affects dependent playbooks'', ai_risk = DESTRUCTIVE\<rparr>"

definition toggleRule :: "enhanced_rule \<Rightarrow> rules_state \<Rightarrow> rules_state \<times> effect list" where
  "toggleRule rule s =
     (if dr_enabled rule \<and> dr_isAutoResponse rule
      then (s\<lparr>ar_pending := Some (toggle_action rule, PToggle rule)\<rparr>, [])
      else performToggle_start rule s)"

section \<open>Bulk operations, simulation and selection\<close>

definition performBulkDisable :: "rules_state \<Rightarrow> rules_state \<times> effect list" where
  "performBulkDisable s =
     ((rules_mapData (map_where (\<lambda>r. set_has (dr_id r) (ar_selected s)) (\<lambda>r. r\<lparr>dr_enabled := False\<rparr>)) s)
        \<lparr>ar_pending := None, ar_input := '''', ar_selected := []\<rparr>,
      [Alert (''Bulk disabled '' @ nat_str (length (ar_selected s)) @ '' rules'')])"

definition handleBulkDisable :: "rules_state \<Rightarrow> rules_state \<times> effect list" where
  "handleBulkDisable s =
     (case ar_data s of
        None \<Rightarrow> (s, [])
      | Some rs \<Rightarrow>
          let selectedRules = filter (\<lambda>r. set_has (dr_id r) (ar_selected s)) rs in
          if list_ex (\<lambda>r. dr_isAutoResponse r \<and> dr_enabled r) selectedRules
          then (s\<lparr>ar_pending := Some
                 (\<lparr>ai_action = ''Bulk Disable Rules'', ai_target = nat_str (length (ar_selected s)) @ '' rules'',
                   ai_justification = ''Bulk disabling includes high-impact auto-response rules'',
                   ai_risk = DESTRUCTIVE\<rparr>, PBulkDisable)\<rparr>, [])
          else performBulkDisable s)"

definition handleBulkEnable :: "rules_state \<Rightarrow> rules_state \<times> effect list" where
  "handleBulkEnable s =
     ((rules_mapData (map_where (\<lambda>r. set_has (dr_id r) (ar_selected s)) (\<lambda>r. r\<lparr>dr_enabled := True\<rparr>)) s)
        \<lparr>ar_selected := []\<rparr>, [Alert ''Bulk enabled rules''])"

definition handleSimulate_start :: "enhanced_rule \<Rightarrow> rules_state \<Rightarrow> rules_state \<times> effect list" where
  "handleSimulate_start rule s = (s\<lparr>ar_simulating := Some rule, ar_simResult := None\<rparr>, [StartTimer 1000])"

definition handleSimulate_timer :: "nat \<Rightarrow> rules_state \<Rightarrow> rules_state" where
  "handleSimulate_timer rnd s = s\<lparr>ar_simResult := Some (rnd mod 50 + 10)\<rparr>"

definition toggleSelect :: "string \<Rightarrow> rules_state \<Rightarrow> rules_state" where
  "toggleSelect i s = s\<lparr>ar_selected := set_toggle i (ar_selected s)\<rparr>"

definition toggleSelectAll :: "rules_state \<Rightarrow> rules_state" where
  "toggleSelectAll s =
     (if Some (length (ar_selected s)) = map_option length (ar_data s) then s\<lparr>ar_selected := []\<rparr>
      else s\<lparr>ar_selected := set_from (map dr_id (or_else (ar_data s) []))\<rparr>)"

section \<open>The two-key dialog of the page\<close>

definition rules_modal :: "rules_state \<Rightarrow> modal" where
  "rules_modal s = \<lparr>tk_show = (ar_pending s \<noteq> None), tk_action = map_option fst (ar_pending s), tk_input = ar_input s\<rparr>"

definition rules_onCancel :: "rules_state \<Rightarrow> rules_state" where
  "rules_onCancel s = s\<lparr>ar_pending := None, ar_input := ''''\<rparr>"

definition rules_onConfirm :: "rules_state \<Rightarrow> rules_state \<times> effect list" where
  "rules_onConfirm s = (case ar_pending s of
       Some (a, PToggle rule) \<Rightarrow> performToggle_start rule s
     | Some (a, PBulkDisable) \<Rightarrow> performBulkDisable s
     | None \<Rightarrow> (s, []))"

text \<open>The callback starts its request and returns without a promise, so the dialog's \<^verbatim>\<open>await onConfirm()\<close> is
  over at once and \<^verbatim>\<open>isSubmitting\<close> is false again before the next click.\<close>

datatype rules_event =
    ArToggle enhanced_rule | ArBulkDisable | ArBulkEnable | ArSelect string | ArSelectAll
  | ArSimulate enhanced_rule | ArVersion "enhanced_rule option" | ArCreate bool | ArJson string | ArTag | ArSave | ArRollback
  | ArCloseSimulation | ArSimTimer nat | ArLoad | ArLoaded "detection_rule list response" "nat \<Rightarrow> nat" "nat \<Rightarrow> nat"
  | ArModal modal_msg | ArAnswer "enhanced_rule list" "unit response"

fun rules_step :: "rules_event \<Rightarrow> rules_state \<Rightarrow> rules_state \<times> effect list" where
  "rules_step (ArToggle r) s = toggleRule r s"
| "rules_step ArBulkDisable s = handleBulkDisable s"
| "rules_step ArBulkEnable s = handleBulkEnable s"
| "rules_step (ArSelect i) s = (toggleSelect i s, [])"
| "rules_step ArSelectAll s = (toggleSelectAll s, [])"
| "rules_step (ArSimulate r) s = handleSimulate_start r s"
| "rules_step (ArVersion r) s = (s\<lparr>ar_version := r\<rparr>, [])"
| "rules_step (ArCreate b) s = (s\<lparr>ar_showCreate := b\<rparr>, [])"
| "rules_step (ArJson t) s = (s\<lparr>ar_newRuleJson := t\<rparr>, [])"
| "rules_step ArTag s = (s, [Alert ''Tag modal opened''])"
| "rules_step ArSave s = (s, [Alert ''Created''])"
| "rules_step ArRollback s = (s\<lparr>ar_version := None\<rparr>, [Alert ''Rollback initiated via optimistic update''])"
| "rules_step ArCloseSimulation s = (s\<lparr>ar_simulating := None\<rparr>, [])"
| "rules_step (ArSimTimer n) s = (handleSimulate_timer n s, [])"
| "rules_step ArLoad s = rules_execute s"
| "rules_step (ArLoaded r rndF rndT) s = (rules_answer rndF rndT r s, [])"
| "rules_step (ArModal (TkInput t)) s = (s\<lparr>ar_input := t\<rparr>, [])"
| "rules_step (ArModal TkCancel) s = (rules_onCancel s, [])"
| "rules_step (ArModal TkConfirm) s =
     (if modal_confirm_passes (rules_modal s) False then rules_onConfirm s else (s, []))"
| "rules_step (ArAnswer original r) s = performToggle_settle original r s"

definition severity_str :: "severity4 \<Rightarrow> string" where
  "severity_str v = (case v of Critical \<Rightarrow> ''critical'' | High \<Rightarrow> ''high'' | Medium \<Rightarrow> ''medium'' | Low \<Rightarrow> ''low'')"

definition rule_row :: "rules_state \<Rightarrow> enhanced_rule \<Rightarrow> rules_event view" where
  "rule_row s r = Group (dr_id r)
     [Checkbox (set_has (dr_id r) (ar_selected s)) (ArSelect (dr_id r)),
      Text (dr_name r), Text (''ID: '' @ dr_id r), Text (js_upper (severity_str (dr_severity r))),
      Text (''Triggered: '' @ nat_str (er_triggerCount30d r)), Text (''Noise: '' @ nat_str (er_falsePositiveRate r) @ ''%''),
      Text (if er_dependencies r = [] then ''-'' else js_join '' '' (er_dependencies r)),
      Button (if dr_enabled r then ''on'' else ''off'') False (ArToggle r),
      Button ''History'' False (ArVersion (Some r)), Button ''Simulate'' False (ArSimulate r)]"

definition rules_bulk_bar :: "rules_state \<Rightarrow> rules_event view list" where
  "rules_bulk_bar s =
     (if 0 < length (ar_selected s)
      then [Text (nat_str (length (ar_selected s)) @ '' rules selected''), Button ''Bulk Enable'' False ArBulkEnable,
            Button ''Bulk Disable'' False ArBulkDisable, Button ''Tag Category'' False ArTag] else [])"

definition rules_dialogs :: "rules_state \<Rightarrow> rules_event view list" where
  "rules_dialogs s =
     (case ar_simulating s of
        None \<Rightarrow> []
      | Some r \<Rightarrow> [Text ''Rule Simulation (Dry Run)'', Text (''Testing '' @ dr_name r)]
          @ (case ar_simResult s of
               None \<Rightarrow> [Text ''Executing DSL query against data lake...'']
             | Some n \<Rightarrow> [Text (nat_str n @ '' matches found''), Text ''Query executed in 240ms'']
                 @ render_if (100 < n) (Text ''Warning: High noise potential detected.''))
          @ [Button ''Close'' False ArCloseSimulation])
     @ (case ar_version s of
          None \<Rightarrow> []
        | Some r \<Rightarrow> [Text (''Version History: '' @ dr_name r), 
            Text ''v3 (Current)'', Text ''Today, 10:45 AM'', Text ''Adjusted threshold to > 50'', Text ''By You'',
            Text ''v2'', Text ''2 days ago'', Text ''Added exclusion for internal subnet'', Text ''By Alice (AppSec)'',
            Button ''Rollback to v2'' False ArRollback,
            Text ''v1'', Text ''2 weeks ago'', Text ''Initial creation from Threat Intel Feed'', Text ''By System'',
            Button ''Rollback to v1'' False ArRollback,
            Button ''Close'' False (ArVersion None)])
     @ (if ar_showCreate s
        then [Text ''Create Detection Rule'', Input (ar_newRuleJson s) False ArJson,
              Button ''Cancel'' False (ArCreate False), Button ''Save Rule'' False ArSave] else [])"

definition AlertRulesPage_view :: "rules_state \<Rightarrow> rules_event view list" where
  "AlertRulesPage_view s =
     (if as_loading (ar_async s) then [Text ''loading'']
      else if (case as_error (ar_async s) of None \<Rightarrow> False | Some m \<Rightarrow> m \<noteq> '''') \<and> ar_data s = None
      then [Text (the (as_error (ar_async s))), Button ''Retry Request'' False ArLoad]
      else
     [Text ''Detection Rules'', Button ''Create Rule'' False (ArCreate True)]
     @ rules_bulk_bar s
     @ [Checkbox (case ar_data s of Some rs \<Rightarrow> rs \<noteq> [] \<and> length (ar_selected s) = length rs | None \<Rightarrow> False) ArSelectAll]
     @ map (rule_row s) (or_else (ar_data s) [])
     @ map (map_view ArModal) (TwoKeyModal_view (rules_modal s) False)
     @ rules_dialogs s)"

section \<open>What the page offers\<close>

fun rules_enabled :: "rules_state \<Rightarrow> rules_event \<Rightarrow> bool" where
  "rules_enabled s (ArAnswer original r) = True"
| "rules_enabled s (ArSimTimer n) = True"
| "rules_enabled s (ArLoaded r rndF rndT) = True"
| "rules_enabled s (ArJson t) = ar_showCreate s"
| "rules_enabled s (ArModal (TkInput t)) = (ar_pending s \<noteq> None \<and> \<not> as_loading (ar_async s))"
| "rules_enabled s e = (e \<in> set (concat (map clicks (AlertRulesPage_view s))))"

lemma toggle_offered:
  "ArToggle r \<in> set (concat (map clicks (AlertRulesPage_view s))) \<Longrightarrow> r \<in> set (or_else (ar_data s) [])"
  by (auto simp: AlertRulesPage_view_def rules_bulk_bar_def rule_row_def rules_dialogs_def split: if_splits option.splits)

lemma modal_offered:
  "ArModal m \<in> set (concat (map clicks (AlertRulesPage_view s)))
     \<Longrightarrow> m \<in> set (concat (map clicks (TwoKeyModal_view (rules_modal s) False)))"
  by (auto simp: AlertRulesPage_view_def rules_bulk_bar_def rule_row_def rules_dialogs_def split: if_splits option.splits)

lemma confirm_offered: "rules_enabled s (ArModal TkConfirm) \<Longrightarrow> isMatch (rules_modal s)"
  using modal_offered [of TkConfirm s] by (auto simp: TwoKeyModal_view_def split: option.splits if_splits)

section \<open>The gate\<close>

text \<open>The request that disables rule \<open>i\<close>, sent while the page shows \<open>i\<close> as an enabled rule with an automatic
  response (identifiers being unique).\<close>

definition disables_high_impact :: "string \<Rightarrow> rules_state \<Rightarrow> http_method \<times> string \<times> json \<Rightarrow> bool" where
  "disables_high_impact i s r =
     (distinct (map dr_id (or_else (ar_data s) [])) \<and>
      (\<exists>x \<in> set (or_else (ar_data s) []). dr_id x = i \<and> dr_isAutoResponse x \<and> dr_enabled x)
      \<and> r = (PATCH, ''/detection/rules/'' @ i, enabled_json False))"

definition rule_confirmed :: "string \<Rightarrow> rules_state \<Rightarrow> bool" where
  "rule_confirmed i s = (\<exists>a rule. ar_pending s = Some (a, PToggle rule) \<and> dr_id rule = i
     \<and> js_trim (ar_input s) = ai_target a)"

lemma toggle_requests:
  assumes "r \<in> set (requests (snd (toggleRule rule s)))"
  shows "\<not> (dr_enabled rule \<and> dr_isAutoResponse rule)
    \<and> r = (PATCH, ''/detection/rules/'' @ dr_id rule, enabled_json (\<not> dr_enabled rule))"
  using assms by (auto simp: toggleRule_def performToggle_start_def rule_url_def split: if_splits)

lemma confirm_requests:
  assumes "r \<in> set (requests (snd (rules_onConfirm s)))" and "isMatch (rules_modal s)"
  shows "\<exists>a rule. ar_pending s = Some (a, PToggle rule) \<and> js_trim (ar_input s) = ai_target a
    \<and> r = (PATCH, ''/detection/rules/'' @ dr_id rule, enabled_json (\<not> dr_enabled rule))"
  using assms
  by (auto simp: rules_onConfirm_def performToggle_start_def performBulkDisable_def rule_url_def isMatch_def
      rules_modal_def split: option.splits pending_kind.splits)

lemma other_requests:
  assumes "r \<in> set (requests (snd (rules_step e s)))"
  shows "(\<exists>rule. e = ArToggle rule) \<or> e = ArModal TkConfirm \<or> fst r = GET"
  using assms
  by (cases "(e, s)" rule: rules_step.cases)
    (auto simp: handleBulkDisable_def performBulkDisable_def handleBulkEnable_def handleSimulate_start_def rules_execute_def
      performToggle_settle_def Let_def split: option.splits if_splits response.splits)

interpretation rules_gate: two_key_gate rules_step rules_enabled "disables_high_impact i" "rule_confirmed i"
proof (unfold_locales, goal_cases)
  case (1 s e r)
  from other_requests [OF 1(2)] show ?case
  proof (elim disjE exE)
    fix rule assume e: "e = ArToggle rule"
    then have mem: "rule \<in> set (or_else (ar_data s) [])" using 1(1) toggle_offered by simp
    have t: "\<not> (dr_enabled rule \<and> dr_isAutoResponse rule)"
      "r = (PATCH, ''/detection/rules/'' @ dr_id rule, enabled_json (\<not> dr_enabled rule))"
      using toggle_requests [of r rule s] 1(2) e by simp_all
    obtain x where x: "x \<in> set (or_else (ar_data s) [])" "dr_id x = i" "dr_isAutoResponse x" "dr_enabled x"
      and d: "distinct (map dr_id (or_else (ar_data s) []))" and r: "dr_id rule = i"
      using 1(3) t(2) unfolding disables_high_impact_def by auto
    have "rule = x" using d mem x(1,2) r by (auto simp: distinct_map inj_on_def)
    then show ?thesis using t(1) x by simp
  next
    assume e: "e = ArModal TkConfirm"
    then have m: "isMatch (rules_modal s)" using 1(1) confirm_offered by blast
    have q: "r \<in> set (requests (snd (rules_onConfirm s)))"
      using 1(2) e by (auto simp: modal_confirm_passes_def split: if_splits)
    obtain a rule where p: "ar_pending s = Some (a, PToggle rule)" "js_trim (ar_input s) = ai_target a"
      and r: "r = (PATCH, ''/detection/rules/'' @ dr_id rule, enabled_json (\<not> dr_enabled rule))"
      using confirm_requests [OF q m] by blast
    have "r = (PATCH, ''/detection/rules/'' @ i, enabled_json False)"
      using 1(3) unfolding disables_high_impact_def by blast
    then have "dr_id rule = i" using r by simp
    then show ?thesis using p unfolding rule_confirmed_def by blast
  next
    assume "fst r = GET"
    moreover have "fst r = PATCH" using 1(3) by (auto simp: disables_high_impact_def)
    ultimately show ?thesis by simp
  qed
qed

text \<open>The dialog always names the rule it is about.\<close>

definition pending_ok :: "rules_state \<Rightarrow> bool" where
  "pending_ok s = (\<forall>a rule. ar_pending s = Some (a, PToggle rule) \<longrightarrow> a = toggle_action rule)"

lemma pending_ok_step: "pending_ok s \<Longrightarrow> pending_ok (fst (rules_step e s))"
  by (cases "(e, s)" rule: rules_step.cases)
    (auto simp: pending_ok_def rules_execute_def rules_answer_def toggleRule_def performToggle_start_def handleBulkDisable_def performBulkDisable_def
      handleBulkEnable_def toggleSelect_def toggleSelectAll_def handleSimulate_start_def handleSimulate_timer_def rules_onCancel_def
      rules_onConfirm_def performToggle_settle_def Let_def
      split: option.splits pending_kind.splits response.splits)

lemma pending_ok_sent: "pending_ok s \<Longrightarrow> (t, r) \<in> set (rules_gate.sent es s) \<Longrightarrow> pending_ok t"
proof (induction es arbitrary: s)
  case Nil
  then show ?case by simp
next
  case (Cons e es)
  then show ?case using pending_ok_step [of s e] by auto
qed

section \<open>Properties\<close>

text \<open>C6. In every run of the rules page through its own controls, the request that disables an enabled rule with
  an automatic response is sent only while the two-key dialog is open for that rule and the trimmed input is
  the rule's name.\<close>

theorem high_impact_rule_gated:
  assumes "rules_gate.offered es s" and "ar_pending s = None"
    and "(t, PATCH, ''/detection/rules/'' @ i, enabled_json False) \<in> set (rules_gate.sent es s)"
    and "distinct (map dr_id (or_else (ar_data t) []))"
    and "x \<in> set (or_else (ar_data t) [])" and "dr_id x = i" and "dr_isAutoResponse x" and "dr_enabled x"
  shows "\<exists>rule. ar_pending t = Some (toggle_action rule, PToggle rule) \<and> dr_id rule = i
    \<and> js_trim (ar_input t) = dr_name rule"
proof -
  let ?r = "(PATCH, ''/detection/rules/'' @ i, enabled_json False)"
  have "disables_high_impact i t ?r" using assms(4-8) by (auto simp: disables_high_impact_def)
  then have c: "rule_confirmed i t" using rules_gate.sent_confirmed [OF assms(1,3)] by blast
  have "pending_ok s" using assms(2) by (simp add: pending_ok_def)
  then have "pending_ok t" using pending_ok_sent [OF _ assms(3)] by blast
  then show ?thesis using c unfolding rule_confirmed_def pending_ok_def toggle_action_def by fastforce
qed

definition example_rule :: enhanced_rule where
  "example_rule = \<lparr>dr_id = ''r1'', dr_name = ''Ransomware'', dr_severity = Critical, dr_enabled = True,
     dr_lastTriggered = None, dr_isAutoResponse = True, dr_description = '''',
     er_falsePositiveRate = 1, er_triggerCount30d = 2, er_dependencies = []\<rparr>"

definition rules_example :: rules_state where
  "rules_example = (AlertRulesPage '''')\<lparr>ar_async := \<lparr>as_data = Some [example_rule], as_loading = False, as_error = None\<rparr>\<rparr>"

lemma toggle_action_simps [simp]:
  "ai_target (toggle_action r) = dr_name r" "ai_risk (toggle_action r) = DESTRUCTIVE"
  by (simp_all add: toggle_action_def)

lemmas rules_run = rules_modal_def isMatch_def modal_confirm_passes_def toggleRule_def performToggle_start_def
  rules_onConfirm_def flip_rule_def rule_url_def map_where_def

theorem high_impact_rule_gated_witness:
  "\<exists>t. (t, PATCH, ''/detection/rules/'' @ ''r1'', enabled_json False)
       \<in> set (rules_gate.sent [ArToggle example_rule, ArModal (TkInput ''Ransomware''), ArModal TkConfirm] rules_example)
     \<and> js_trim (ar_input t) = ''Ransomware''"
proof -
  let ?es = "[ArToggle example_rule, ArModal (TkInput ''Ransomware''), ArModal TkConfirm]"
  have trim: "js_trim ''Ransomware'' = ''Ransomware''" by (simp add: js_trim_def is_js_space_def)
  have row: "ArToggle example_rule \<in> set (concat (map clicks (AlertRulesPage_view rules_example)))"
    by (simp add: AlertRulesPage_view_def rule_row_def rules_example_def or_else_def)
  have ex: "dr_enabled example_rule" "dr_isAutoResponse example_rule" "dr_id example_rule = ''r1''"
    "dr_name example_rule = ''Ransomware''" by (simp_all add: example_rule_def)
  have e: "\<not> as_loading (ar_async rules_example)" "as_error (ar_async rules_example) = None"
    by (simp_all add: rules_example_def)
  define t where "t = rules_example\<lparr>ar_pending := Some (toggle_action example_rule, PToggle example_rule),
    ar_input := ''Ransomware''\<rparr>"
  have t1: "fst (rules_step (ArToggle example_rule) rules_example)
      = rules_example\<lparr>ar_pending := Some (toggle_action example_rule, PToggle example_rule)\<rparr>"
    using ex by (simp add: toggleRule_def)
  have conf: "ArModal TkConfirm \<in> set (concat (map clicks (AlertRulesPage_view t)))"
    using ex trim e by (simp add: AlertRulesPage_view_def TwoKeyModal_view_def t_def rules_modal_def isMatch_def)
  have off: "rules_gate.offered ?es rules_example" using row conf ex e by (simp add: toggleRule_def t_def)
  have m: "(t, PATCH, ''/detection/rules/'' @ ''r1'', enabled_json False) \<in> set (rules_gate.sent ?es rules_example)"
    using ex trim by (simp add: rules_run t_def)
  have d: "distinct (map dr_id (or_else (ar_data t) []))" "example_rule \<in> set (or_else (ar_data t) [])"
    by (simp_all add: t_def rules_example_def or_else_def)
  have "ar_pending rules_example = None" by (simp add: rules_example_def AlertRulesPage_def)
  then obtain rule where p: "ar_pending t = Some (toggle_action rule, PToggle rule)"
    and i: "js_trim (ar_input t) = dr_name rule"
    using high_impact_rule_gated [OF off _ m d ex(3,2,1)] by blast
  have "ar_pending t = Some (toggle_action example_rule, PToggle example_rule)" unfolding t_def by simp
  from trans [OF sym [OF p] this] have "rule = example_rule"
    by (simp only: option.inject prod.inject pending_kind.inject)
  with i ex(4) have "js_trim (ar_input t) = ''Ransomware''" by (simp only:)
  with m show ?thesis by blast
qed

text \<open>The page's callback does not return the promise of its request, so the dialog's submit lock is released
  at once. A second click on EXECUTE before the answer is offered; it sends the disabling request again and
  flips the optimistic row back: the table shows the rule enabled while both requests disable it, and it stays so
  when both are accepted.\<close>

theorem double_confirm_shows_enabled:
  assumes "dr_enabled x" and "dr_isAutoResponse x" and "js_trim (dr_name x) = dr_name x"
    and "s = (AlertRulesPage template)\<lparr>ar_async := \<lparr>as_data = Some [x], as_loading = False, as_error = None\<rparr>\<rparr>"
    and "es = [ArToggle x, ArModal (TkInput (dr_name x)), ArModal TkConfirm, ArModal TkConfirm,
               ArAnswer [x] (Resolved ()), ArAnswer (flip_rule (dr_id x) [x]) (Resolved ())]"
  shows "rules_gate.offered es s
    \<and> map snd (rules_gate.sent es s) =
        [(PATCH, rule_url x, enabled_json False), (PATCH, rule_url x, enabled_json False)]
    \<and> ar_data (fold (\<lambda>e s. fst (rules_step e s)) es s) = Some [x]"
proof -
  have row: "ArToggle x \<in> set (concat (map clicks (AlertRulesPage_view s)))"
    using assms(4) by (simp add: AlertRulesPage_view_def rule_row_def or_else_def)
  have conf: "ArModal TkConfirm \<in> set (concat (map clicks (AlertRulesPage_view u)))"
    if "ar_pending u = Some (toggle_action x, PToggle x)" and "ar_input u = dr_name x"
      and "\<not> as_loading (ar_async u)" and "as_error (ar_async u) = None" for u
    using that assms(3) by (simp add: AlertRulesPage_view_def TwoKeyModal_view_def rules_modal_def isMatch_def)
  have "rules_gate.offered es s"
    unfolding assms(5) using row conf assms(1-4)
    by (simp add: toggleRule_def modal_confirm_passes_def rules_modal_def isMatch_def rules_onConfirm_def
        performToggle_start_def performToggle_settle_def)
  moreover have "map snd (rules_gate.sent es s) =
        [(PATCH, rule_url x, enabled_json False), (PATCH, rule_url x, enabled_json False)]"
    unfolding assms(5) using assms(1-4) by (simp add: rules_run performToggle_settle_def)
  moreover have "ar_data (fold (\<lambda>e s. fst (rules_step e s)) es s) = Some [x]"
    unfolding assms(5) using assms(1-4) by (simp add: rules_run performToggle_settle_def)
  ultimately show ?thesis by blast
qed

theorem double_confirm_shows_enabled_witness:
  "ar_data (fold (\<lambda>e s. fst (rules_step e s))
     [ArToggle example_rule, ArModal (TkInput (dr_name example_rule)), ArModal TkConfirm, ArModal TkConfirm,
      ArAnswer [example_rule] (Resolved ()),
      ArAnswer (flip_rule (dr_id example_rule) [example_rule]) (Resolved ())] rules_example) = Some [example_rule]"
proof -
  have "dr_enabled example_rule" "dr_isAutoResponse example_rule"
    "js_trim (dr_name example_rule) = dr_name example_rule"
    by (simp_all add: example_rule_def js_trim_def is_js_space_def)
  then show ?thesis using double_confirm_shows_enabled [OF _ _ _ rules_example_def refl] by blast
qed

text \<open>Restoring the captured list on failure loses what happened meanwhile: two rules are switched, the second
  request is accepted, the first is refused, and the table shows both as before, although the server has
  switched the second.\<close>

theorem rollback_loses_accepted_toggle:
  assumes "dr_id x \<noteq> dr_id y" and "\<not> dr_enabled x" and "\<not> dr_enabled y" and "ar_data s = Some [x, y]"
  shows "let es = [ArToggle x, ArToggle y, ArAnswer (flip_rule (dr_id x) [x, y]) (Resolved ()),
                   ArAnswer [x, y] (Rejected e)]; s' = fold (\<lambda>e s. fst (rules_step e s)) es s
     in map snd (rules_gate.sent es s) = [(PATCH, rule_url x, enabled_json True), (PATCH, rule_url y, enabled_json True)]
        \<and> ar_data s' = Some [x, y]"
  using assms by (simp add: rules_run performToggle_settle_def)

text \<open>The bulk handlers only change the table: no request is ever sent by them.\<close>

lemma bulk_sends_nothing:
  "requests (snd (handleBulkDisable s)) = []" "requests (snd (handleBulkEnable s)) = []"
  "requests (snd (performBulkDisable s)) = []"
  by (simp_all add: handleBulkDisable_def handleBulkEnable_def performBulkDisable_def Let_def split: option.splits)

end
