(* ===== verification/Isolation.thy ===== *)
theory Isolation
  imports Two_Key Shared_Hooks
begin

text \<open>
  The isolation page (\<^verbatim>\<open>pages/endpoints/IsolationControlsPage.tsx\<close>): the candidates, the dialog with its own
  confirmation by the host's name, the scheduled release, and the checklist after an isolation. The page loads
  through \<^verbatim>\<open>useAsyncState\<close>; it shows only a skeleton while a load is running.

  \<open>performAction\<close> is split at its \<^verbatim>\<open>await\<close>: \<open>performAction_settle\<close> takes the pending action its call
  captured and the state at the time of the answer. \<open>fmt\<close> is the browser's date format.
\<close>

section \<open>State and loading\<close>

record raw_isolation_host = endpoint_host +
  rh_aiRecommended :: "bool option"
  rh_isolationHistoryCount :: "nat option"
  rh_services :: "string list option"
  rh_autoReleaseAt :: "string option"

record isolation_host = endpoint_host +
  ih_aiRecommended :: bool
  ih_isolationHistoryCount :: nat
  ih_services :: "string list"
  ih_autoReleaseAt :: "string option"

definition isolation_load :: "raw_isolation_host list \<Rightarrow> isolation_host list" where
  "isolation_load hs = map (\<lambda>h. endpoint_host.extend (endpoint_host.truncate h)
     (isolation_host.fields (or_else (rh_aiRecommended h) False) (or_else (rh_isolationHistoryCount h) 0)
        (or_else (rh_services h) [''System Daemon'']) (rh_autoReleaseAt h))) hs"

datatype isolation_type = Isolate | Release

record isolation_state =
  ic_async :: "isolation_host list async_state"
  ic_pending :: "(isolation_host \<times> isolation_type) option"
  ic_input :: string
  ic_hours :: nat
  ic_checklist :: "isolation_host option"

definition IsolationControlsPage :: isolation_state where
  "IsolationControlsPage = \<lparr>ic_async = useAsyncState, ic_pending = None, ic_input = '''', ic_hours = 0,
     ic_checklist = None\<rparr>"

definition isolation_execute :: "isolation_state \<Rightarrow> isolation_state \<times> effect list" where
  "isolation_execute s = (s\<lparr>ic_async := execute_start (ic_async s)\<rparr>,
     [Request GET ''/endpoints/isolation-candidates'' JNull])"

definition isolation_answer :: "raw_isolation_host list response \<Rightarrow> isolation_state \<Rightarrow> isolation_state" where
  "isolation_answer r s = s\<lparr>ic_async := execute_settle (case r of
     Resolved hs \<Rightarrow> Resolved (isolation_load hs) | Rejected e \<Rightarrow> Rejected e) (ic_async s)\<rparr>"

section \<open>The action\<close>

definition performAction_start :: "isolation_state \<Rightarrow> effect list" where
  "performAction_start s = (case ic_pending s of
       None \<Rightarrow> []
     | Some (h, Isolate) \<Rightarrow>
         [Request POST (''/endpoints/'' @ eh_id h @ ''/isolate'')
            (JObj [(''autoReleaseHours'', JNum (of_nat (ic_hours s)))])]
     | Some (h, Release) \<Rightarrow> [Request POST (''/endpoints/'' @ eh_id h @ ''/release'') JNull])"

definition performAction_settle ::
  "isolation_host \<times> isolation_type \<Rightarrow> unit response \<Rightarrow> isolation_state \<Rightarrow> isolation_state \<times> effect list" where
  "performAction_settle captured r s =
     (let (s1, es) = (case r of
            Resolved x \<Rightarrow> isolation_execute
              (if snd captured = Isolate then s\<lparr>ic_checklist := Some (fst captured)\<rparr> else s)
          | Rejected e \<Rightarrow> (s, [Alert ''Action failed.'']))
      in (s1\<lparr>ic_pending := None, ic_input := '''', ic_hours := 0\<rparr>, es))"

definition getActionInfo :: "isolation_state \<Rightarrow> action_info option" where
  "getActionInfo s = (case ic_pending s of
       None \<Rightarrow> None
     | Some (h, Isolate) \<Rightarrow> Some \<lparr>ai_action = ''Isolate Host'', ai_target = eh_hostname h,
         ai_justification = ''Containment for investigation''
           @ (if 0 < ic_hours s then '' (Auto-release in '' @ nat_str (ic_hours s) @ ''h)'' else ''''),
         ai_risk = DESTRUCTIVE\<rparr>
     | Some (h, Release) \<Rightarrow> Some \<lparr>ai_action = ''Release Isolation'', ai_target = eh_hostname h,
         ai_justification = ''Restoring network connectivity'', ai_risk = HIGH_IMPACT_WRITE\<rparr>)"

definition isolatedCount :: "isolation_state \<Rightarrow> nat" where
  "isolatedCount s = length (filter eh_isIsolated (or_else (as_data (ic_async s)) []))"

definition aiRecommendedHosts :: "isolation_state \<Rightarrow> isolation_host list" where
  "aiRecommendedHosts s = filter ih_aiRecommended (or_else (as_data (ic_async s)) [])"

section \<open>The page\<close>

datatype isolation_event =
    IcPending isolation_host isolation_type | IcHours nat | IcInput string | IcCancel | IcExecute | IcDone
  | IcLoad | IcLoaded "raw_isolation_host list response"
  | IcAnswer "isolation_host \<times> isolation_type" "unit response"

fun isolation_step :: "isolation_event \<Rightarrow> isolation_state \<Rightarrow> isolation_state \<times> effect list" where
  "isolation_step (IcPending h t) s = (s\<lparr>ic_pending := Some (h, t)\<rparr>, [])"
| "isolation_step (IcHours n) s = (s\<lparr>ic_hours := n\<rparr>, [])"
| "isolation_step (IcInput t) s = (s\<lparr>ic_input := t\<rparr>, [])"
| "isolation_step IcCancel s = (s\<lparr>ic_pending := None, ic_input := ''''\<rparr>, [])"
| "isolation_step IcExecute s = (s, performAction_start s)"
| "isolation_step IcDone s = (s\<lparr>ic_checklist := None\<rparr>, [])"
| "isolation_step IcLoad s = isolation_execute s"
| "isolation_step (IcLoaded r) s = (isolation_answer r s, [])"
| "isolation_step (IcAnswer p r) s = performAction_settle p r s"

definition isolation_row :: "(string \<Rightarrow> string) \<Rightarrow> isolation_host \<Rightarrow> isolation_event view" where
  "isolation_row fmt h = Group (eh_id h)
     ([Text (eh_hostname h), Text (eh_ipAddress h), Text (if eh_isIsolated h then ''ISOLATED'' else ''CONNECTED'')]
      @ (case ih_autoReleaseAt h of
           Some t \<Rightarrow> render_if (eh_isIsolated h \<and> t \<noteq> '''') (Text (''Auto-release: '' @ fmt t))
         | None \<Rightarrow> [])
      @ [Text (''Isolated '' @ nat_str (ih_isolationHistoryCount h) @ '' times''),
         if eh_isIsolated h then Button ''Release Isolation'' False (IcPending h Release)
         else Button ''Isolate Host'' False (IcPending h Isolate)])"

definition isolation_banners :: "isolation_state \<Rightarrow> isolation_event view list" where
  "isolation_banners s =
     render_if (0 < isolatedCount s)
       (Text (''CRITICAL WARNING: There are '' @ nat_str (isolatedCount s)
          @ '' endpoint(s) currently isolated from the network.''))
     @ (if 0 < length (aiRecommendedHosts s)
        then Text ''AI Recommended Actions''
          # map (\<lambda>h. Button (''Isolate '' @ eh_hostname h) False (IcPending h Isolate)) (aiRecommendedHosts s)
        else [])"

definition isolation_dialog :: "isolation_state \<Rightarrow> isolation_event view list" where
  "isolation_dialog s = (case ic_pending s of
       None \<Rightarrow> []
     | Some (h, t) \<Rightarrow>
         [Text (if t = Isolate then ''Emergency Isolation'' else ''Release Isolation''),
          Text (eh_hostname h @ '' ('' @ eh_ipAddress h @ '')'')]
         @ (if t = Isolate
            then Text ''Blast Radius Preview'' # map Text (ih_services h)
              @ map (\<lambda>(n, l). Button l False (IcHours n))
                  [(0, ''Manual Release Only''), (1, ''Auto-release in 1 Hour''), (4, ''Auto-release in 4 Hours''),
                   (24, ''Auto-release in 24 Hours'')]
            else [])
         @ [Text (''Please type '' @ eh_hostname h @ '' to confirm this action.''),
            Input (ic_input s) False IcInput, Button ''Cancel'' False IcCancel,
            Button ''Execute Action'' (ic_input s \<noteq> eh_hostname h) IcExecute])"

definition isolation_checklist :: "isolation_state \<Rightarrow> isolation_event view list" where
  "isolation_checklist s = (case ic_checklist s of
       None \<Rightarrow> []
     | Some h \<Rightarrow> [Text ''Isolation Complete'', Text (''Host '' @ eh_hostname h @ '' has been successfully contained.''),
         Text ''Trigger forensic memory dump'', Text ''Rotate local administrator credentials'',
         Text ''Notify service owner'', Button ''Done'' False IcDone])"

definition IsolationControlsPage_view :: "(string \<Rightarrow> string) \<Rightarrow> isolation_state \<Rightarrow> isolation_event view list" where
  "IsolationControlsPage_view fmt s =
     (if as_loading (ic_async s) then [Text ''loading'']
      else if (case as_error (ic_async s) of None \<Rightarrow> False | Some m \<Rightarrow> m \<noteq> '''') \<and> as_data (ic_async s) = None
      then [Text (the (as_error (ic_async s))), Button ''Retry Request'' False IcLoad]
      else [Text ''Isolation Controls''] @ isolation_banners s
        @ map (isolation_row fmt) (or_else (as_data (ic_async s)) [])
        @ isolation_dialog s @ isolation_checklist s)"

fun isolation_enabled :: "(string \<Rightarrow> string) \<Rightarrow> isolation_state \<Rightarrow> isolation_event \<Rightarrow> bool" where
  "isolation_enabled fmt s (IcAnswer p r) = True"
| "isolation_enabled fmt s (IcLoaded r) = True"
| "isolation_enabled fmt s (IcInput t) = (ic_pending s \<noteq> None \<and> \<not> as_loading (ic_async s))"
| "isolation_enabled fmt s e = (e \<in> set (concat (map clicks (IsolationControlsPage_view fmt s))))"

section \<open>The gate\<close>

lemmas isolation_views = IsolationControlsPage_view_def isolation_banners_def isolation_row_def
  isolation_dialog_def isolation_checklist_def

lemma execute_only_in_dialog:
  "IcExecute \<notin> set (concat (map clicks (isolation_banners s)))"
  "IcExecute \<notin> set (clicks (isolation_row fmt h))"
  "IcExecute \<notin> set (concat (map clicks (isolation_checklist s)))"
  by (auto simp: isolation_banners_def isolation_row_def isolation_checklist_def split: option.splits if_splits)

lemma execute_in_dialog:
  assumes "IcExecute \<in> set (concat (map clicks (isolation_dialog s)))"
  shows "\<exists>h t. ic_pending s = Some (h, t) \<and> ic_input s = eh_hostname h"
proof (cases "ic_pending s")
  case None
  then show ?thesis using assms by (simp add: isolation_dialog_def)
next
  case (Some p)
  then show ?thesis using assms by (cases p) (auto simp: isolation_dialog_def split: if_splits)
qed

lemma execute_offered:
  assumes "IcExecute \<in> set (concat (map clicks (IsolationControlsPage_view fmt s)))"
  shows "\<not> as_loading (ic_async s) \<and> (\<exists>h t. ic_pending s = Some (h, t) \<and> ic_input s = eh_hostname h)"
proof -
  have "\<not> as_loading (ic_async s)" using assms by (auto simp: IsolationControlsPage_view_def)
  moreover have "IcExecute \<in> set (concat (map clicks (isolation_dialog s)))"
    using assms execute_only_in_dialog by (auto simp: IsolationControlsPage_view_def split: if_splits)
  ultimately show ?thesis using execute_in_dialog by blast
qed

lemma isolation_posts:
  assumes "(POST, u, b) \<in> set (requests (snd (isolation_step e s)))"
  shows "e = IcExecute"
  using assms
  by (cases "(e, s)" rule: isolation_step.cases)
    (auto simp: performAction_settle_def isolation_execute_def split: response.splits)

interpretation isolation_gate: two_key_gate isolation_step "isolation_enabled fmt" "\<lambda>s r. fst r = POST"
  "\<lambda>s. \<not> as_loading (ic_async s) \<and> (\<exists>h t. ic_pending s = Some (h, t) \<and> ic_input s = eh_hostname h)"
proof (unfold_locales, goal_cases)
  case (1 s e r)
  obtain u b where "r = (POST, u, b)" using 1(3) by (cases r) simp
  then have "e = IcExecute" using isolation_posts 1(2) by simp
  then show ?case using 1(1) execute_offered by simp
qed

lemma isolation_sent_post:
  "(t, POST, u, b) \<in> set (isolation_gate.sent es s) \<Longrightarrow> (POST, u, b) \<in> set (requests (performAction_start t))"
proof (induction es arbitrary: s)
  case Nil
  then show ?case by simp
next
  case (Cons e es)
  show ?case
  proof (cases "(t, POST, u, b) \<in> set (isolation_gate.sent es (fst (isolation_step e s)))")
    case True
    then show ?thesis by (rule Cons.IH)
  next
    case False
    then have m: "t = s" "(POST, u, b) \<in> set (requests (snd (isolation_step e s)))"
      using Cons.prems by auto
    then show ?thesis using isolation_posts [OF m(2)] by simp
  qed
qed

section \<open>Properties\<close>

text \<open>C5. In every run of the isolation page through its own controls, an isolation or release request goes out
  only while the dialog is open and the input is exactly the host's name, and it is the request for that host,
  with the hours chosen in the dialog.\<close>

theorem isolation_run_safe:
  assumes "isolation_gate.offered fmt es s" and "(t, POST, u, b) \<in> set (isolation_gate.sent es s)"
  shows "\<exists>h ty. ic_pending t = Some (h, ty) \<and> ic_input t = eh_hostname h \<and> \<not> as_loading (ic_async t)
    \<and> (u, b) = (case ty of
         Isolate \<Rightarrow> (''/endpoints/'' @ eh_id h @ ''/isolate'',
                     JObj [(''autoReleaseHours'', JNum (of_nat (ic_hours t)))])
       | Release \<Rightarrow> (''/endpoints/'' @ eh_id h @ ''/release'', JNull))"
proof -
  obtain h ty where p: "ic_pending t = Some (h, ty)" "ic_input t = eh_hostname h" "\<not> as_loading (ic_async t)"
    using isolation_gate.sent_confirmed [OF assms] by auto
  have "(POST, u, b) \<in> set (requests (performAction_start t))" using isolation_sent_post [OF assms(2)] .
  then show ?thesis using p by (cases ty) (simp_all add: performAction_start_def)
qed

definition example_host :: isolation_host where
  "example_host = \<lparr>eh_id = ''h1'', eh_hostname = ''db-01'', eh_ipAddress = ''10.0.0.5'', eh_isIsolated = False,
     eh_isolatedAt = None, eh_isolatedBy = None, eh_auditTrail = [], ih_aiRecommended = True,
     ih_isolationHistoryCount = 0, ih_services = [''postgres''], ih_autoReleaseAt = None\<rparr>"

definition isolation_example :: isolation_state where
  "isolation_example = IsolationControlsPage\<lparr>ic_async := \<lparr>as_data = Some [example_host], as_loading = False, as_error = None\<rparr>\<rparr>"

lemma isolation_page_loaded:
  assumes "\<not> as_loading (ic_async s)" and "as_error (ic_async s) = None" and "as_data (ic_async s) = Some hs"
  shows "IsolationControlsPage_view fmt s = [Text ''Isolation Controls''] @ isolation_banners s
    @ map (isolation_row fmt) hs @ isolation_dialog s @ isolation_checklist s"
  using assms by (simp add: IsolationControlsPage_view_def or_else_def)

lemma isolate_offered:
  assumes "\<not> as_loading (ic_async s)" and "as_error (ic_async s) = None" and "as_data (ic_async s) = Some hs"
    and "h \<in> set hs" and "\<not> eh_isIsolated h"
  shows "isolation_enabled fmt s (IcPending h Isolate)"
proof -
  have "IcPending h Isolate \<in> set (clicks (isolation_row fmt h))" using assms(5) by (simp add: isolation_row_def)
  then show ?thesis using assms(4) by (auto simp: isolation_page_loaded [OF assms(1-3)])
qed

lemma dialog_offered:
  assumes "\<not> as_loading (ic_async s)" and "as_error (ic_async s) = None" and "as_data (ic_async s) = Some hs"
    and "ic_pending s = Some (h, Isolate)"
  shows "isolation_enabled fmt s (IcInput t)" and "isolation_enabled fmt s IcCancel"
    and "isolation_enabled fmt s (IcHours 24)"
    and "ic_input s = eh_hostname h \<Longrightarrow> isolation_enabled fmt s IcExecute"
  using assms by (simp_all add: isolation_page_loaded [OF assms(1-3)] isolation_dialog_def)

theorem isolation_run_safe_witness:
  "\<exists>t. (t, POST, ''/endpoints/h1/isolate'', JObj [(''autoReleaseHours'', JNum 0)])
       \<in> set (isolation_gate.sent [IcPending example_host Isolate, IcInput ''db-01'', IcExecute] isolation_example)
     \<and> ic_input t = ''db-01''"
proof -
  let ?es = "[IcPending example_host Isolate, IcInput ''db-01'', IcExecute]"
  let ?fmt = "\<lambda>t. t"
  have e: "\<not> as_loading (ic_async isolation_example)" "as_error (ic_async isolation_example) = None"
    "as_data (ic_async isolation_example) = Some [example_host]" "ic_hours isolation_example = 0"
    by (simp_all add: isolation_example_def IsolationControlsPage_def)
  have h: "\<not> eh_isIsolated example_host" "eh_hostname example_host = ''db-01''" "eh_id example_host = ''h1''"
    by (simp_all add: example_host_def)
  define t where "t = isolation_example\<lparr>ic_pending := Some (example_host, Isolate), ic_input := ''db-01''\<rparr>"
  have off: "isolation_gate.offered ?fmt ?es isolation_example"
    using isolate_offered [OF e(1-3) _ h(1), of ?fmt] dialog_offered(4) [of t "[example_host]" example_host ?fmt] e h
    by (simp add: t_def)
  have m: "(t, POST, ''/endpoints/h1/isolate'', JObj [(''autoReleaseHours'', JNum 0)])
      \<in> set (isolation_gate.sent ?es isolation_example)"
    using e h by (simp add: t_def performAction_start_def)
  obtain x y where p: "ic_pending t = Some (x, y)" and i: "ic_input t = eh_hostname x"
    using isolation_run_safe [OF off m] by blast
  have "ic_pending t = Some (example_host, Isolate)" by (simp add: t_def)
  from trans [OF sym [OF p] this] have "x = example_host" by (simp only: option.inject prod.inject)
  with i h(2) have "ic_input t = ''db-01''" by (simp only:)
  with m show ?thesis by blast
qed

text \<open>C38. Execute has no submit lock: for a listed host that is not isolated, opening the dialog, typing the name
  and clicking Execute twice before the answer are all offered and send the isolation request twice.\<close>

theorem isolation_double_post:
  assumes "\<not> as_loading (ic_async s)" and "as_error (ic_async s) = None" and "as_data (ic_async s) = Some hs"
    and "h \<in> set hs" and "\<not> eh_isIsolated h"
    and "es = [IcPending h Isolate, IcInput (eh_hostname h), IcExecute, IcExecute]"
  shows "isolation_gate.offered fmt es s
    \<and> map (\<lambda>(t, m, u, b). (m, u)) (isolation_gate.sent es s) =
        [(POST, ''/endpoints/'' @ eh_id h @ ''/isolate''), (POST, ''/endpoints/'' @ eh_id h @ ''/isolate'')]"
proof -
  define t where "t = s\<lparr>ic_pending := Some (h, Isolate), ic_input := eh_hostname h\<rparr>"
  have ex: "isolation_enabled fmt t IcExecute"
    using dialog_offered(4) [of t hs h fmt] assms(1-3) by (simp add: t_def)
  have "isolation_gate.offered fmt es s"
    unfolding assms(6) using isolate_offered [OF assms(1-5), of fmt] ex assms(1) by (simp add: t_def)
  moreover have "map (\<lambda>(t, m, u, b). (m, u)) (isolation_gate.sent es s) =
        [(POST, ''/endpoints/'' @ eh_id h @ ''/isolate''), (POST, ''/endpoints/'' @ eh_id h @ ''/isolate'')]"
    unfolding assms(6) by (simp add: performAction_start_def)
  ultimately show ?thesis by blast
qed

theorem isolation_double_post_witness:
  "map (\<lambda>(t, m, u, b). (m, u)) (isolation_gate.sent
     [IcPending example_host Isolate, IcInput (eh_hostname example_host), IcExecute, IcExecute] isolation_example)
   = [(POST, ''/endpoints/'' @ eh_id example_host @ ''/isolate''),
      (POST, ''/endpoints/'' @ eh_id example_host @ ''/isolate'')]"
proof -
  have e: "\<not> as_loading (ic_async isolation_example)" "as_error (ic_async isolation_example) = None"
    "as_data (ic_async isolation_example) = Some [example_host]" "\<not> eh_isIsolated example_host"
    by (simp_all add: isolation_example_def IsolationControlsPage_def example_host_def)
  have "example_host \<in> set [example_host]" by simp
  then show ?thesis using isolation_double_post [OF e(1-3) _ e(4) refl] by blast
qed

text \<open>The late \<^verbatim>\<open>finally\<close> of one action resets whatever the page shows by then: a dialog opened for another host
  while the first request was running disappears with its input.\<close>

theorem late_answer_closes_other_dialog:
  "let s' = fst (performAction_settle (h, ty) r (s\<lparr>ic_pending := Some (h', ty'), ic_input := t\<rparr>))
   in ic_pending s' = None \<and> ic_input s' = ''''"
  by (simp add: performAction_settle_def isolation_execute_def split: response.splits)

text \<open>Cancel keeps the hours: the next host is isolated with the automatic release chosen for the cancelled one
  unless the analyst changes the selection.\<close>

theorem cancelled_hours_carry_over:
  "requests (snd (isolation_step IcExecute (fold (\<lambda>e s. fst (isolation_step e s))
     [IcPending h Isolate, IcHours 24, IcCancel, IcPending h' Isolate, IcInput (eh_hostname h')] s)))
   = [(POST, ''/endpoints/'' @ eh_id h' @ ''/isolate'', JObj [(''autoReleaseHours'', JNum 24)])]"
  by (simp add: performAction_start_def)

text \<open>A recommended host that is isolated already is still offered for isolation.\<close>

lemma recommended_isolated_offered:
  assumes "\<not> as_loading (ic_async s)" and "as_error (ic_async s) = None" and "as_data (ic_async s) = Some hs"
    and "h \<in> set hs" and "ih_aiRecommended h"
  shows "isolation_enabled fmt s (IcPending h Isolate)"
proof -
  have "h \<in> set (aiRecommendedHosts s)" using assms(3-5) by (simp add: aiRecommendedHosts_def or_else_def)
  then have "IcPending h Isolate \<in> set (concat (map clicks (isolation_banners s)))"
    by (cases "aiRecommendedHosts s") (auto simp: isolation_banners_def)
  then show ?thesis by (auto simp: isolation_page_loaded [OF assms(1-3)])
qed

end
