(* ===== verification/Hosts.thy ===== *)
theory Hosts
  imports SOC_Types Shared_Hooks
begin

text \<open>
  The fleet page (\<^verbatim>\<open>pages/endpoints/HostManagementPage.tsx\<close>): loading with defaults and order, search and
  filters, selection, bulk actions with their progress, token enrolment, credential rotation, remote tasks and
  the live enrolment listener.

  The loop of \<open>handleBulkAction\<close> awaits a timer in every round. Each round is one step (\<open>bulk_tick\<close>) that
  uses the list of hosts and the selection the click captured, and writes to the state of the moment. Dates are
  read by the argument \<open>time\<close>, the outcome of \<^verbatim>\<open>Math.random() > 0.9\<close> is the argument \<open>fails\<close>.
  The help texts of the six SDKs (lines 768 to 1004 of the page) are constants and not part of the model.
\<close>

section \<open>Data\<close>

datatype toast_type = TSuccess | TInfo | TWarning | TError

record toast =
  to_title :: string
  to_desc :: "string option"
  to_type :: toast_type

record raw_host = managed_host +
  rm_criticality :: "string option"
  rm_openIncidentsCount :: "nat option"
  rm_lastIsolatedDaysAgo :: "nat option"
  rm_trendingStale :: "bool option"
  rm_type :: "string option"
  rm_ipAddress :: "string option"
  rm_region :: "string option"

record fleet_host = managed_host +
  fh_criticality :: string
  fh_openIncidentsCount :: nat
  fh_lastIsolatedDaysAgo :: "nat option"
  fh_trendingStale :: bool
  fh_type :: string
  fh_ipAddress :: string
  fh_region :: string

definition host_defaults :: "raw_host \<Rightarrow> fleet_host" where
  "host_defaults h = managed_host.extend (managed_host.truncate h)
     (fleet_host.fields (str_or (rm_criticality h) ''Tier-3'') (or_else (rm_openIncidentsCount h) 0)
        (rm_lastIsolatedDaysAgo h) (or_else (rm_trendingStale h) False) (str_or (rm_type h) ''iaas'')
        (str_or (rm_ipAddress h) ''Dynamic Edge'') (str_or (rm_region h) ''local''))"

definition hosts_load :: "(string \<Rightarrow> int) \<Rightarrow> raw_host list \<Rightarrow> fleet_host list" where
  "hosts_load time hs = sort_desc (\<lambda>h. time (mh_lastCheckIn h)) (map host_defaults hs)"

record token_details =
  td_token :: string
  td_tenantId :: string
  td_expiresIn :: nat
  td_maxUse :: nat
  td_endpointType :: string
  td_createdAt :: string

datatype bulk_kind = Restart | Update

record bulk_progress =
  bp_total :: nat
  bp_completed :: nat
  bp_failed :: nat

record hosts_state =
  hs_async :: "fleet_host list async_state"
  hs_selected :: "string js_set"
  hs_bulkAction :: "bulk_kind option"
  hs_bulkProgress :: "bulk_progress option"
  hs_viewFilter :: string
  hs_searchTerm :: string
  hs_enrollOpen :: bool
  hs_tenant :: string
  hs_expires :: nat
  hs_maxUse :: nat
  hs_endpointType :: string
  hs_generating :: bool
  hs_token :: "token_details option"
  hs_tab :: string
  hs_showSecret :: bool
  hs_toast :: "toast option"
  hs_rotate :: "fleet_host option"

definition HostManagementPage :: hosts_state where
  "HostManagementPage = \<lparr>hs_async = useAsyncState, hs_selected = [], hs_bulkAction = None, hs_bulkProgress = None,
     hs_viewFilter = ''all'', hs_searchTerm = '''', hs_enrollOpen = False, hs_tenant = ''acme-corp'', hs_expires = 900,
     hs_maxUse = 1, hs_endpointType = ''iaas'', hs_generating = False, hs_token = None, hs_tab = ''curl'',
     hs_showSecret = False, hs_toast = None, hs_rotate = None\<rparr>"

section \<open>Handlers\<close>

definition showToast :: "string \<Rightarrow> string option \<Rightarrow> toast_type \<Rightarrow> hosts_state \<Rightarrow> hosts_state" where
  "showToast t d ty s = s\<lparr>hs_toast := Some \<lparr>to_title = t, to_desc = d, to_type = ty\<rparr>\<rparr>"

definition hosts_execute :: "hosts_state \<Rightarrow> hosts_state \<times> effect list" where
  "hosts_execute s = (s\<lparr>hs_async := execute_start (hs_async s)\<rparr>, [Request GET ''/endpoints/hosts'' JNull])"

definition hosts_answer :: "(string \<Rightarrow> int) \<Rightarrow> raw_host list response \<Rightarrow> hosts_state \<Rightarrow> hosts_state" where
  "hosts_answer time r s = s\<lparr>hs_async := execute_settle (case r of
     Resolved hs \<Rightarrow> Resolved (hosts_load time hs) | Rejected e \<Rightarrow> Rejected e) (hs_async s)\<rparr>"

definition hosts_onMessage :: "string \<Rightarrow> string \<Rightarrow> hosts_state \<Rightarrow> hosts_state \<times> effect list" where
  "hosts_onMessage ty endpoint s =
     (if ty = ''endpoint_enrolled'' \<or> ty = ''endpoint_registered''
      then let (s1, es) = hosts_execute s in
        (showToast ''Agent Connected'' (Some (''Endpoint '' @ endpoint @ '' successfully enrolled in real-time.'')) TInfo s1, es)
      else (s, []))"

definition enroll_start :: "hosts_state \<Rightarrow> hosts_state \<times> effect list" where
  "enroll_start s =
     (if js_trim (hs_tenant s) = '''' then (s, [])
      else (s\<lparr>hs_generating := True\<rparr>, [Request POST ''/admin/enrollment-tokens'' (JObj
         [(''tenant_id'', JStr (js_trim (hs_tenant s))), (''expires_in'', JNum (of_nat (hs_expires s))),
          (''max_use'', JNum (of_nat (hs_maxUse s)))])]))"

text \<open>\<open>c\<close> is the state the click captured, \<open>now\<close> the clock.\<close>

definition enroll_settle :: "string \<Rightarrow> hosts_state \<Rightarrow> string response \<Rightarrow> hosts_state \<Rightarrow> hosts_state" where
  "enroll_settle now c r s = (case r of
       Resolved tok \<Rightarrow> showToast ''Enrollment Token Created''
         (Some (''Generated one-time token for tenant '' @ [CHR 0x27] @ hs_tenant c @ [CHR 0x27])) TSuccess
         (s\<lparr>hs_token := Some \<lparr>td_token = tok, td_tenantId = js_trim (hs_tenant c), td_expiresIn = hs_expires c,
            td_maxUse = hs_maxUse c, td_endpointType = hs_endpointType c, td_createdAt = now\<rparr>\<rparr>)
     | Rejected e \<Rightarrow> showToast ''Failed to Generate Token''
         (Some (str_or (err_detail e) (if err_message e = '''' then ''Server error'' else err_message e))) TError s)
     \<lparr>hs_generating := False\<rparr>"

definition handleCopyCommand :: "string \<Rightarrow> string \<Rightarrow> hosts_state \<Rightarrow> hosts_state \<times> effect list" where
  "handleCopyCommand t label s =
     (showToast ''Copied to Clipboard!'' (Some (label @ '' copied. Ready to paste in terminal.'')) TSuccess s, [Clipboard t])"

definition handleRotateCredential_start :: "hosts_state \<Rightarrow> hosts_state \<times> effect list" where
  "handleRotateCredential_start s = (case hs_rotate s of
       None \<Rightarrow> (s, [])
     | Some h \<Rightarrow> (s\<lparr>hs_rotate := None\<rparr>, [Request POST (''/admin/endpoints/'' @ mh_id h @ ''/rotate'') JNull]))"

definition handleRotateCredential_settle ::
  "fleet_host \<Rightarrow> unit response \<Rightarrow> hosts_state \<Rightarrow> hosts_state \<times> effect list" where
  "handleRotateCredential_settle h r s = (case r of
       Resolved x \<Rightarrow> hosts_execute (showToast ''Credential Rotated''
         (Some (''Endpoint '' @ mh_hostname h @ '' rotated. Agent must re-enroll.'')) TWarning s)
     | Rejected e \<Rightarrow> (showToast ''Rotation Failed'' (Some (str_or (err_detail e) ''Failed to rotate credential'')) TError s, []))"

definition handleDispatchSoarTask_start :: "string \<Rightarrow> string \<Rightarrow> effect list" where
  "handleDispatchSoarTask_start endpointId actionName =
     [Request POST (''/admin/endpoints/'' @ endpointId @ ''/tasks'')
        (JObj [(''action'', JStr actionName), (''params'', JObj [(''triggered_by'', JStr ''soc-admin-ui'')])])]"

definition handleDispatchSoarTask_settle ::
  "string \<Rightarrow> string \<Rightarrow> unit response \<Rightarrow> hosts_state \<Rightarrow> hosts_state" where
  "handleDispatchSoarTask_settle actionName hostname r s = (case r of
       Resolved x \<Rightarrow> showToast ''SOAR Task Dispatched''
         (Some (''Command '' @ [CHR 0x27] @ actionName @ [CHR 0x27] @ '' assigned to host '' @ hostname @ ''.'')) TSuccess s
     | Rejected e \<Rightarrow> showToast ''Dispatch Error'' (Some (str_or (err_detail e) ''Failed to dispatch SOAR task'')) TError s)"

section \<open>Bulk actions\<close>

text \<open>What one click of a bulk button captured, and the two counters of its loop.\<close>

record bulk_run =
  br_action :: bulk_kind
  br_data :: "fleet_host list option"
  br_total :: nat
  br_rest :: "string list"
  br_completed :: nat
  br_failed :: nat

definition handleBulkAction :: "bulk_kind \<Rightarrow> hosts_state \<Rightarrow> hosts_state \<times> bulk_run" where
  "handleBulkAction a s =
     (s\<lparr>hs_bulkAction := Some a,
        hs_bulkProgress := Some \<lparr>bp_total = length (hs_selected s), bp_completed = 0, bp_failed = 0\<rparr>\<rparr>,
      \<lparr>br_action = a, br_data = as_data (hs_async s), br_total = length (hs_selected s), br_rest = hs_selected s,
       br_completed = 0, br_failed = 0\<rparr>)"

definition to_baseline :: "string \<Rightarrow> fleet_host list \<Rightarrow> fleet_host list" where
  "to_baseline i hs = map_where (\<lambda>h. mh_id h = i) (\<lambda>h. h\<lparr>mh_agentVersion := mh_latestVersion h\<rparr>) hs"

definition bulk_tick :: "bool \<Rightarrow> bulk_run \<times> hosts_state \<Rightarrow> bulk_run \<times> hosts_state" where
  "bulk_tick fails = (\<lambda>(b, s). case br_rest b of
       [] \<Rightarrow> (b, s)
     | i # rest \<Rightarrow>
         let b1 = (if fails then b\<lparr>br_failed := Suc (br_failed b)\<rparr> else b\<lparr>br_completed := Suc (br_completed b)\<rparr>)
                    \<lparr>br_rest := rest\<rparr>;
             s1 = (case (br_action b, br_data b) of
                     (Update, Some hs) \<Rightarrow> s\<lparr>hs_async := setData (to_baseline i hs) (hs_async s)\<rparr>
                   | _ \<Rightarrow> s)
         in (b1, s1\<lparr>hs_bulkProgress := Some \<lparr>bp_total = br_total b, bp_completed = br_completed b1, bp_failed = br_failed b1\<rparr>\<rparr>))"

definition bulk_str :: "bulk_kind \<Rightarrow> string" where
  "bulk_str a = (case a of Restart \<Rightarrow> ''restart'' | Update \<Rightarrow> ''update'')"

definition bulk_finish :: "bulk_run \<Rightarrow> hosts_state \<Rightarrow> hosts_state" where
  "bulk_finish b s = (showToast ''Bulk Action Complete''
     (Some (''Successfully executed '' @ bulk_str (br_action b) @ '' across '' @ nat_str (br_completed b) @ '' hosts.'')) TSuccess s)
     \<lparr>hs_bulkAction := None, hs_bulkProgress := None, hs_selected := []\<rparr>"

text \<open>A whole run: one draw per selected host, other events of the page (\<open>between\<close>) before each round.\<close>

definition bulk_rounds :: "(hosts_state \<Rightarrow> hosts_state) \<Rightarrow> bool list \<Rightarrow> bulk_run \<times> hosts_state \<Rightarrow> bulk_run \<times> hosts_state" where
  "bulk_rounds between rs p = fold (\<lambda>r (b, s). bulk_tick r (b, between s)) rs p"

section \<open>Selection, search and figures\<close>

definition out_of_compliance :: "fleet_host \<Rightarrow> bool" where
  "out_of_compliance h = (mh_agentVersion h \<noteq> mh_latestVersion h \<or> mh_health h = Stale)"

definition matches_filter :: "string \<Rightarrow> fleet_host \<Rightarrow> bool" where
  "matches_filter f h =
     (if f = ''out-of-compliance'' then out_of_compliance h
      else if f = ''tier-1'' then fh_criticality h = ''Tier-1''
      else if f = ''paas'' then fh_type h = ''paas''
      else if f = ''iaas'' then fh_type h = ''iaas''
      else if f = ''local_cf_tunnel'' then fh_type h = ''local_cf_tunnel''
      else True)"

definition matches_search :: "string \<Rightarrow> fleet_host \<Rightarrow> bool" where
  "matches_search term h =
     (let query = js_trim (js_lower term) in
      query = '''' \<or> js_includes (js_lower (mh_hostname h)) query \<or> js_includes (js_lower (mh_id h)) query
      \<or> js_includes (js_lower (mh_os h)) query
      \<or> (fh_ipAddress h \<noteq> '''' \<and> js_includes (fh_ipAddress h) query)
      \<or> (fh_region h \<noteq> '''' \<and> js_includes (js_lower (fh_region h)) query))"

definition filteredData :: "hosts_state \<Rightarrow> fleet_host list" where
  "filteredData s = (case as_data (hs_async s) of
       None \<Rightarrow> []
     | Some hs \<Rightarrow> filter (\<lambda>h. matches_filter (hs_viewFilter s) h \<and> matches_search (hs_searchTerm s) h) hs)"

definition hosts_toggleSelect :: "string \<Rightarrow> hosts_state \<Rightarrow> hosts_state" where
  "hosts_toggleSelect i s = s\<lparr>hs_selected := set_toggle i (hs_selected s)\<rparr>"

definition hosts_toggleSelectAll :: "hosts_state \<Rightarrow> hosts_state" where
  "hosts_toggleSelectAll s =
     (if length (hs_selected s) = length (filteredData s) then s\<lparr>hs_selected := []\<rparr>
      else s\<lparr>hs_selected := set_from (map mh_id (filteredData s))\<rparr>)"

definition outOfComplianceCount :: "hosts_state \<Rightarrow> nat" where
  "outOfComplianceCount s = length (filter out_of_compliance (or_else (as_data (hs_async s)) []))"

definition complianceRate :: "(rat \<Rightarrow> rat) \<Rightarrow> hosts_state \<Rightarrow> int" where
  "complianceRate fl s = (case as_data (hs_async s) of
       None \<Rightarrow> 100
     | Some hs \<Rightarrow>
         if 0 < length hs then js_round (js_percent fl (length hs - outOfComplianceCount s) (length hs)) else 100)"

definition tier1Count :: "hosts_state \<Rightarrow> nat" where
  "tier1Count s = length (filter (\<lambda>h. fh_criticality h = ''Tier-1'') (or_else (as_data (hs_async s)) []))"

section \<open>The page\<close>

datatype hosts_event =
    HmOpenEnroll | HmCloseEnroll | HmSearch string | HmFilter string | HmBulk bulk_kind | HmClear | HmSelect string
  | HmSelectAll | HmGo string | HmBreakGlass fleet_host | HmDispatch fleet_host string | HmRotateAsk "fleet_host option"
  | HmRotate | HmTenant string | HmType string | HmExpires nat | HmMaxUse nat | HmGenerate | HmSecret
  | HmCopyToken | HmTab string | HmCopyCommand | HmAnother | HmToastClose | HmLoad

definition launch_command :: "string \<Rightarrow> string \<Rightarrow> string" where
  "launch_command tab tok =
     (if tab = ''curl'' then ''TENANT_ENROLLMENT_TOKEN='' @ tok @ '' bash enroll_and_push.sh''
      else if tab = ''python'' then ''TENANT_ENROLLMENT_TOKEN='' @ tok @ '' python siem_connector.py''
      else if tab = ''csharp'' then ''dotnet run  # Set enrollment_token='' @ [CHR 0x22] @ tok @ [CHR 0x22] @ '' in config''
      else if tab = ''go'' then ''ENROLLMENT_TOKEN='' @ tok @ '' go run main.go''
      else if tab = ''typescript'' then ''TENANT_ENROLLMENT_TOKEN='' @ tok @ '' npx tsx siemConnector.ts''
      else ''ENROLLMENT_TOKEN='' @ tok @ '' java SiemConnector.java'')"

text \<open>The clicks and inputs of the page; the loops and answers they start are the definitions above.
  \<open>host\<close> is \<^verbatim>\<open>window.location.hostname\<close>.\<close>

fun hosts_step :: "string \<Rightarrow> hosts_event \<Rightarrow> hosts_state \<Rightarrow> hosts_state \<times> effect list" where
  "hosts_step host HmOpenEnroll s = (s\<lparr>hs_enrollOpen := True, hs_token := None\<rparr>, [])"
| "hosts_step host HmCloseEnroll s = (s\<lparr>hs_enrollOpen := False\<rparr>, [])"
| "hosts_step host (HmSearch t) s = (s\<lparr>hs_searchTerm := t\<rparr>, [])"
| "hosts_step host (HmFilter f) s = (s\<lparr>hs_viewFilter := f\<rparr>, [])"
| "hosts_step host (HmBulk a) s = (fst (handleBulkAction a s), [])"
| "hosts_step host HmClear s = (s\<lparr>hs_selected := []\<rparr>, [])"
| "hosts_step host (HmSelect i) s = (hosts_toggleSelect i s, [])"
| "hosts_step host HmSelectAll s = (hosts_toggleSelectAll s, [])"
| "hosts_step host (HmGo u) s = (s, [Navigate u])"
| "hosts_step host (HmBreakGlass h) s = (s, [Alert (''[Mock Feature] Break-Glass SSH for '' @ mh_hostname h @ '':''
     @ nl @ nl @ ''ssh -i ~/.ssh/id_rsa root@'' @ host @ '' -p 2222'')])"
| "hosts_step host (HmDispatch h a) s = (s, if a = '''' then [] else handleDispatchSoarTask_start (mh_id h) a)"
| "hosts_step host (HmRotateAsk h) s = (s\<lparr>hs_rotate := h\<rparr>, [])"
| "hosts_step host HmRotate s = handleRotateCredential_start s"
| "hosts_step host (HmTenant t) s = (s\<lparr>hs_tenant := t\<rparr>, [])"
| "hosts_step host (HmType t) s = (s\<lparr>hs_endpointType := t\<rparr>, [])"
| "hosts_step host (HmExpires n) s = (s\<lparr>hs_expires := n\<rparr>, [])"
| "hosts_step host (HmMaxUse n) s = (s\<lparr>hs_maxUse := n\<rparr>, [])"
| "hosts_step host HmGenerate s = enroll_start s"
| "hosts_step host HmSecret s = (s\<lparr>hs_showSecret := \<not> hs_showSecret s\<rparr>, [])"
| "hosts_step host HmCopyToken s = (case hs_token s of
     None \<Rightarrow> (s, []) | Some t \<Rightarrow> handleCopyCommand (td_token t) ''Enrollment Token'' s)"
| "hosts_step host (HmTab t) s = (s\<lparr>hs_tab := t\<rparr>, [])"
| "hosts_step host HmCopyCommand s = (case hs_token s of
     None \<Rightarrow> (s, []) | Some t \<Rightarrow> handleCopyCommand (launch_command (hs_tab s) (td_token t)) ''Launch Command'' s)"
| "hosts_step host HmAnother s = (s\<lparr>hs_token := None\<rparr>, [])"
| "hosts_step host HmToastClose s = (s\<lparr>hs_toast := None\<rparr>, [])"
| "hosts_step host HmLoad s = hosts_execute s"

definition health_str :: "agent_health \<Rightarrow> string" where
  "health_str a = (case a of Healthy \<Rightarrow> ''healthy'' | Stale \<Rightarrow> ''stale'' | Outdated \<Rightarrow> ''outdated'' | Offline \<Rightarrow> ''offline'')"

definition host_row :: "(string \<Rightarrow> string) \<Rightarrow> string \<Rightarrow> hosts_state \<Rightarrow> fleet_host \<Rightarrow> hosts_event view" where
  "host_row fmt hub s h = Group (mh_id h)
     ([Checkbox (set_has (mh_id h) (hs_selected s)) (HmSelect (mh_id h)), Text (mh_hostname h)]
      @ render_if (fh_type h = ''paas'') (Text ''PaaS'') @ render_if (fh_type h = ''iaas'') (Text ''IaaS'')
      @ render_if (fh_type h = ''local_cf_tunnel'') (Text ''Local CF Tunnel'')
      @ [Text (fh_criticality h), Text (fh_ipAddress h), Text (fh_region h), Text (mh_os h), Text (''v'' @ mh_agentVersion h)]
      @ render_if (mh_agentVersion h \<noteq> mh_latestVersion h) (Text ''(Outdated)'')
      @ [Text (js_upper (health_str (mh_health h)))] @ render_if (fh_trendingStale h) (Text ''Trending Stale'')
      @ [Text (''Synced '' @ fmt (mh_lastCheckIn h))]
      @ [if fh_openIncidentsCount h \<noteq> 0
         then Button (nat_str (fh_openIncidentsCount h) @ '' active incident'' @ (if 1 < fh_openIncidentsCount h then ''s'' else ''''))
                False (HmGo (''/incidents/active?entity='' @ mh_id h))
         else Text ''No active incidents'']
      @ (case fh_lastIsolatedDaysAgo h of
           None \<Rightarrow> []
         | Some n \<Rightarrow> if n = 0 then [Text ''0'']
             else [Button (''Isolated '' @ nat_str n @ ''d ago'') False (HmGo (''/endpoints/isolation?entity='' @ mh_id h))])
      @ [Text (hub @ ''/api/endpoints/'' @ mh_id h), Button ''Break-Glass SSH'' False (HmBreakGlass h),
         Select '''' [''maintenance_mode'', ''test_alert'', ''collect_diagnostics''] (HmDispatch h),
         Button ''Isolate'' (fh_type h = ''paas'') (HmGo (''/endpoints/isolation?host='' @ mh_id h)),
         Button ''Rotate'' False (HmRotateAsk (Some h))])"

definition hosts_header :: "(rat \<Rightarrow> rat) \<Rightarrow> hosts_state \<Rightarrow> hosts_event view list" where
  "hosts_header fl s =
     (case hs_toast s of
        None \<Rightarrow> []
      | Some t \<Rightarrow> [Text (to_title t)] @ (case to_desc t of Some d \<Rightarrow> render_if (d \<noteq> '''') (Text d) | None \<Rightarrow> [])
          @ [Button ''x'' False HmToastClose])
     @ [Text ''Host Management'', Button ''Enroll Spoke Agent'' False HmOpenEnroll,
        Text (nat_str (nat (complianceRate fl s)) @ ''%''), Text (nat_str (outOfComplianceCount s)), Text (nat_str (tier1Count s))]"

definition hosts_toolbar :: "hosts_state \<Rightarrow> hosts_event view list" where
  "hosts_toolbar s =
     (let hs = or_else (as_data (hs_async s)) []; count = (\<lambda>t. nat_str (length (filter (\<lambda>h. fh_type h = t) hs))) in
      [Input (hs_searchTerm s) False HmSearch] @ render_if (hs_searchTerm s \<noteq> '''') (Button ''x'' False (HmSearch ''''))
      @ map (\<lambda>(i, l, n). Button (l @ '' '' @ n) False (HmFilter i))
          [(''all'', ''All Fleet'', nat_str (length hs)), (''out-of-compliance'', ''Out of Baseline'', nat_str (outOfComplianceCount s)),
           (''tier-1'', ''Tier-1 Critical'', nat_str (tier1Count s)), (''iaas'', ''IaaS VM'', count ''iaas''),
           (''paas'', ''PaaS App'', count ''paas''), (''local_cf_tunnel'', ''Local CF Tunnel'', count ''local_cf_tunnel'')])"

definition hosts_bulk_bar :: "hosts_state \<Rightarrow> hosts_event view list" where
  "hosts_bulk_bar s = (case hs_bulkProgress s of
       None \<Rightarrow> if 0 < length (hs_selected s)
         then [Text (nat_str (length (hs_selected s)) @ '' host'' @ (if 1 < length (hs_selected s) then ''s'' else '''') @ '' selected''),
               Button ''Restart Agents'' False (HmBulk Restart), Button ''Update to Baseline'' False (HmBulk Update),
               Button ''Clear Selection'' False HmClear] else []
     | Some p \<Rightarrow> [Text (''Executing bulk '' @ (case hs_bulkAction s of Some a \<Rightarrow> bulk_str a | None \<Rightarrow> '''') @ ''...''),
         Text (nat_str (bp_completed p + bp_failed p) @ '' / '' @ nat_str (bp_total p))])"

definition hosts_enroll_dialog :: "hosts_state \<Rightarrow> hosts_event view list" where
  "hosts_enroll_dialog s =
     (if \<not> hs_enrollOpen s then []
      else [Text ''Enroll Spoke Agent'', Button ''x'' False HmCloseEnroll]
        @ (case hs_token s of
             None \<Rightarrow> [Input (hs_tenant s) False HmTenant]
               @ map (\<lambda>t. Button t False (HmTenant t)) [''acme-corp'', ''default_fallback_tenant'', ''globex-sec'']
               @ map (\<lambda>(i, l). Button l False (HmType i))
                   [(''iaas'', ''IaaS VM''), (''paas'', ''PaaS App''), (''local_cf_tunnel'', ''Local Server'')]
               @ map (\<lambda>(n, l). Button l False (HmExpires n))
                   [(900, ''15 Minutes (Recommended)''), (3600, ''1 Hour''), (86400, ''24 Hours'')]
               @ map (\<lambda>(n, l). Button l False (HmMaxUse n))
                   [(1, ''Single-Use (1 Agent)''), (5, ''Multi-Use (5 Agents)''), (100, ''Fleet-Wide (100 Agents)'')]
               @ [Button ''Cancel'' False HmCloseEnroll,
                  Button (if hs_generating s then ''Generating Token...'' else ''Generate Token'') (hs_generating s) HmGenerate]
           | Some t \<Rightarrow> [Text ''Bootstrap Token Generated Successfully!'', Text (td_tenantId t),
               Text (nat_str (td_expiresIn t div 60) @ '' mins''),
               Button (if hs_showSecret s then ''Hide Secret'' else ''Reveal Secret'') False HmSecret,
               Text (if hs_showSecret s then td_token t else replicate (length (td_token t)) CHR 0x2A),
               Button ''Copy'' False HmCopyToken]
               @ map (\<lambda>(i, l). Button l False (HmTab i))
                   [(''curl'', ''Bash / cURL''), (''python'', ''Python''), (''csharp'', ''C# .NET''), (''go'', ''Go''),
                    (''typescript'', ''TypeScript''), (''java'', ''Java'')]
               @ [Button ''Copy'' False HmCopyCommand, Button ''Generate Another Token'' False HmAnother,
                  Button ''Done'' False HmCloseEnroll]))"

definition hosts_rotate_dialog :: "hosts_state \<Rightarrow> hosts_event view list" where
  "hosts_rotate_dialog s = (case hs_rotate s of
       None \<Rightarrow> []
     | Some h \<Rightarrow> [Text ''Rotate Endpoint Credential?'', Text (mh_hostname h),
         Button ''Cancel'' False (HmRotateAsk None), Button ''Confirm Rotation'' False HmRotate])"

definition HostManagementPage_view :: "(rat \<Rightarrow> rat) \<Rightarrow> (string \<Rightarrow> string) \<Rightarrow> string \<Rightarrow> hosts_state \<Rightarrow> hosts_event view list" where
  "HostManagementPage_view fl fmt hub s =
     (if as_loading (hs_async s) then [Text ''loading'']
      else if (case as_error (hs_async s) of None \<Rightarrow> False | Some m \<Rightarrow> m \<noteq> '''') \<and> as_data (hs_async s) = None
      then [Text (the (as_error (hs_async s))), Button ''Retry Request'' False HmLoad]
      else hosts_header fl s @ hosts_toolbar s @ hosts_bulk_bar s
        @ [Checkbox (0 < length (filteredData s) \<and> length (hs_selected s) = length (filteredData s)) HmSelectAll]
        @ (if filteredData s = [] then [Text ''No managed hosts match your search or filter parameters.'']
           else map (host_row fmt hub s) (filteredData s))
        @ hosts_enroll_dialog s @ hosts_rotate_dialog s)"

section \<open>Bulk runs\<close>

lemma bulk_tick_Cons:
  assumes "br_rest b = i # rest"
  shows "br_rest (fst (bulk_tick f (b, s))) = rest"
    and "br_completed (fst (bulk_tick f (b, s))) + br_failed (fst (bulk_tick f (b, s))) = Suc (br_completed b + br_failed b)"
    and "br_action (fst (bulk_tick f (b, s))) = br_action b" and "br_data (fst (bulk_tick f (b, s))) = br_data b"
    and "br_total (fst (bulk_tick f (b, s))) = br_total b"
    and "hs_bulkProgress (snd (bulk_tick f (b, s))) = Some \<lparr>bp_total = br_total b,
       bp_completed = br_completed (fst (bulk_tick f (b, s))), bp_failed = br_failed (fst (bulk_tick f (b, s)))\<rparr>"
    and "br_action b = Update \<Longrightarrow> br_data b = Some hs \<Longrightarrow>
       as_data (hs_async (snd (bulk_tick f (b, s)))) = Some (to_baseline i hs)"
  using assms by (simp_all add: bulk_tick_def Let_def setData_def split: bulk_kind.splits option.splits)

lemma bulk_rounds_Cons:
  "bulk_rounds between (r # rs) (b, s) = bulk_rounds between rs (bulk_tick r (b, between s))"
  by (simp add: bulk_rounds_def)

lemma bulk_rounds_end:
  assumes "br_rest b = ids @ [i]" and "length rs = Suc (length ids)" and "br_action b = Update" and "br_data b = Some hs"
  shows "(case bulk_rounds between rs (b, s) of (b', s') \<Rightarrow>
     as_data (hs_async s') = Some (to_baseline i hs) \<and> br_rest b' = []
     \<and> br_completed b' + br_failed b' = br_completed b + br_failed b + Suc (length ids)
     \<and> hs_bulkProgress s' = Some \<lparr>bp_total = br_total b, bp_completed = br_completed b', bp_failed = br_failed b'\<rparr>)"
  using assms
proof (induction ids arbitrary: b s rs)
  case Nil
  then obtain r where rs: "rs = [r]" by (cases rs) auto
  obtain b' s' where t: "bulk_tick r (b, between s) = (b', s')" by (cases "bulk_tick r (b, between s)")
  have rest: "br_rest b = [i]" using Nil.prems(1) by simp
  have "bulk_rounds between rs (b, s) = (b', s')" using t by (simp add: rs bulk_rounds_def)
  then show ?case using bulk_tick_Cons [OF rest, where f = r and s = "between s"] Nil.prems(3,4) by (simp add: t)
next
  case (Cons j ids)
  then obtain r rs' where rs: "rs = r # rs'" by (cases rs) auto
  obtain b' s' where t: "bulk_tick r (b, between s) = (b', s')" by (cases "bulk_tick r (b, between s)")
  have rest: "br_rest b = j # (ids @ [i])" using Cons.prems(1) by simp
  note k = bulk_tick_Cons [OF rest, where f = r and s = "between s", unfolded t fst_conv snd_conv]
  have len: "length rs' = Suc (length ids)" using Cons.prems(2) rs by simp
  have "(case bulk_rounds between rs' (b', s') of (b'', s'') \<Rightarrow>
     as_data (hs_async s'') = Some (to_baseline i hs) \<and> br_rest b'' = []
     \<and> br_completed b'' + br_failed b'' = br_completed b' + br_failed b' + Suc (length ids)
     \<and> hs_bulkProgress s'' = Some \<lparr>bp_total = br_total b', bp_completed = br_completed b'', bp_failed = br_failed b''\<rparr>)"
    by (rule Cons.IH) (use k len Cons.prems(3,4) in simp_all)
  moreover have "bulk_rounds between rs (b, s) = bulk_rounds between rs' (b', s')"
    by (simp only: rs bulk_rounds_Cons t)
  ultimately show ?case using k(2,5) by (auto split: prod.splits)
qed

section \<open>Properties\<close>

text \<open>C39. A bulk update counts every selected host, but every round writes the list the click captured with one
  host changed. Whatever else happens on the page between the rounds, the table that remains is the captured one
  with only the last selected host at its baseline: earlier hosts fall back and concurrent changes are lost.\<close>

theorem bulk_update_keeps_only_last:
  assumes "hs_selected s = ids @ [i]" and "as_data (hs_async s) = Some hs" and "length rs = Suc (length ids)"
    and "handleBulkAction Update s = (s1, b)" and "bulk_rounds between rs (b, s1) = (b', s')"
  shows "as_data (hs_async s') = Some (to_baseline i hs)
    \<and> br_completed b' + br_failed b' = Suc (length ids) \<and> br_rest b' = []
    \<and> hs_bulkProgress s' = Some \<lparr>bp_total = Suc (length ids), bp_completed = br_completed b', bp_failed = br_failed b'\<rparr>"
proof -
  have b: "br_rest b = ids @ [i]" "br_action b = Update" "br_data b = Some hs" "br_total b = Suc (length ids)"
    "br_completed b = 0" "br_failed b = 0"
    using assms(1,2,4) by (auto simp: handleBulkAction_def)
  show ?thesis
    using bulk_rounds_end [OF b(1) assms(3) b(2,3), of between s1, unfolded assms(5) prod.case] b(4-6) by auto
qed

definition old_host :: "string \<Rightarrow> fleet_host" where
  "old_host i = \<lparr>mh_id = i, mh_hostname = i, mh_os = ''linux'', mh_agentVersion = ''1'', mh_latestVersion = ''2'',
     mh_health = Healthy, mh_lastCheckIn = '''', fh_criticality = ''Tier-3'', fh_openIncidentsCount = 0,
     fh_lastIsolatedDaysAgo = None, fh_trendingStale = False, fh_type = ''iaas'', fh_ipAddress = '''', fh_region = ''local''\<rparr>"

theorem bulk_update_keeps_only_last_witness:
  "\<exists>s'. as_data (hs_async s') = Some [old_host ''a'', (old_host ''b'')\<lparr>mh_agentVersion := ''2''\<rparr>]
     \<and> s' = snd (bulk_rounds (\<lambda>s. s) [False, False] (case handleBulkAction Update
          (HostManagementPage\<lparr>hs_async := setData [old_host ''a'', old_host ''b''] useAsyncState, hs_selected := [''a'', ''b'']\<rparr>)
        of (s, b) \<Rightarrow> (b, s)))"
proof -
  let ?hs = "[old_host ''a'', old_host ''b'']"
  let ?s = "HostManagementPage\<lparr>hs_async := setData ?hs useAsyncState, hs_selected := [''a'', ''b'']\<rparr>"
  obtain s1 b where h: "handleBulkAction Update ?s = (s1, b)" by (cases "handleBulkAction Update ?s")
  obtain b' s' where r: "bulk_rounds (\<lambda>s. s) [False, False] (b, s1) = (b', s')"
    by (cases "bulk_rounds (\<lambda>s. s) [False, False] (b, s1)")
  have "as_data (hs_async s') = Some (to_baseline ''b'' ?hs)"
    using bulk_update_keeps_only_last [OF _ _ _ h r, of "[''a'']" "''b''" ?hs] by (simp add: setData_def)
  moreover have "to_baseline ''b'' ?hs = [old_host ''a'', (old_host ''b'')\<lparr>mh_agentVersion := ''2''\<rparr>]"
    by (simp add: to_baseline_def map_where_def old_host_def)
  ultimately show ?thesis by (simp add: h r)
qed

text \<open>The compliance figure is a percentage, and it is 100 when no host is out of its baseline.\<close>

theorem compliance_rate_bounds:
  assumes "ieee fl"
  shows "0 \<le> complianceRate fl s \<and> complianceRate fl s \<le> 100
    \<and> (if outOfComplianceCount s = 0 then complianceRate fl s = 100 else True)"
proof (cases "as_data (hs_async s)")
  case None
  then show ?thesis by (simp add: complianceRate_def)
next
  case (Some hs)
  let ?p = "js_percent fl (length hs - outOfComplianceCount s) (length hs)"
  have p: "of_int 0 \<le> ?p" "?p \<le> of_int 100" using js_percent_bounds [OF assms, of "length hs - outOfComplianceCount s"] by simp_all
  have "?p = of_int 100" if "hs \<noteq> []" and "outOfComplianceCount s = 0"
    using js_percent_all [OF assms, of "length hs"] that by simp
  then show ?thesis using Some js_round_between [OF p] js_round_between [of 100 ?p 100] by (auto simp: complianceRate_def)
qed

theorem compliance_rate_bounds_witness:
  "0 \<le> complianceRate (\<lambda>x. x) HostManagementPage \<and> complianceRate (\<lambda>x. x) HostManagementPage \<le> 100"
  using compliance_rate_bounds [OF ieee_exact, of HostManagementPage] by blast

text \<open>Loading keeps every host and shows the most recent check-in first.\<close>

lemma hosts_load_sorted:
  "length (hosts_load time hs) = length hs"
  "sorted (map (\<lambda>h. - time (mh_lastCheckIn h)) (hosts_load time hs))"
  by (simp_all add: hosts_load_def sorted_sort_desc)

text \<open>Select-all compares sizes only: with as many hidden hosts selected as visible ones listed, it clears.\<close>

lemma select_all_confused_by_hidden:
  assumes "length (hs_selected s) = length (filteredData s)"
  shows "hs_selected (hosts_toggleSelectAll s) = []"
  using assms by (simp add: hosts_toggleSelectAll_def)

lemma select_all_selects_visible:
  assumes "length (hs_selected s) \<noteq> length (filteredData s)"
  shows "set (hs_selected (hosts_toggleSelectAll s)) = mh_id ` set (filteredData s)"
  using assms by (simp add: hosts_toggleSelectAll_def)

text \<open>The shown token belongs to the request that was sent, whatever the form holds by then; a revealed secret
  stays revealed for the next token.\<close>

theorem enrolment_matches_request:
  assumes "enroll_start c = (c', [Request POST u b])"
  shows "u = ''/admin/enrollment-tokens''"
    and "\<exists>t. hs_token (enroll_settle now c (Resolved tok) s) = Some t \<and> td_token t = tok
      \<and> json_get ''tenant_id'' b = Some (JStr (td_tenantId t)) \<and> json_get ''expires_in'' b = Some (JNum (of_nat (td_expiresIn t)))
      \<and> json_get ''max_use'' b = Some (JNum (of_nat (td_maxUse t)))"
    and "td_tenantId (the (hs_token (enroll_settle now c (Resolved tok) s))) \<noteq> ''''"
    and "hs_showSecret (enroll_settle now c (Resolved tok) s) = hs_showSecret s"
  using assms by (auto simp: enroll_start_def enroll_settle_def showToast_def split: if_splits)

end
