(* ===== verification/App_Routes.thy ===== *)
theory App_Routes
  imports SOC_Types Api_Auth
begin

text \<open>
  The shell of the console: the route table of \<^verbatim>\<open>App.tsx\<close>, the path registry and the navigation
  tree (\<^verbatim>\<open>shared/config\<close>), and the layout components that navigate (\<^verbatim>\<open>layouts\<close>): side bar, command
  palette, notification centre, main layout.

  The router library picks the route of a path; it is the argument \<open>pick\<close>, and
  \<open>documented_router\<close> states what its documentation promises.
\<close>

section \<open>Path registry and navigation tree\<close>

record routes =
  r_root :: string
  r_login :: string
  r_overview :: string
  r_executive :: string
  r_compliance :: string
  r_active :: string
  r_closed :: string
  r_warRoom :: string
  r_rules :: string
  r_feeds :: string
  r_ioc :: string
  r_inventory :: string
  r_vulnerabilities :: string
  r_networkMap :: string
  r_hosts :: string
  r_edr :: string
  r_isolation :: string
  r_marketplace :: string
  r_settings :: string
  r_profile :: string

definition ROUTES :: routes where
  "ROUTES = \<lparr>r_root = ''/'', r_login = ''/login'',
     r_overview = ''/dashboard/overview'', r_executive = ''/dashboard/executive'',
     r_compliance = ''/dashboard/compliance'',
     r_active = ''/incidents/active'', r_closed = ''/incidents/closed'', r_warRoom = ''/incidents/war-room'',
     r_rules = ''/detection/rules'', r_feeds = ''/detection/feeds'', r_ioc = ''/detection/ioc'',
     r_inventory = ''/assets/inventory'', r_vulnerabilities = ''/assets/vulnerabilities'',
     r_networkMap = ''/assets/network-map'',
     r_hosts = ''/endpoints/hosts'', r_edr = ''/endpoints/edr'', r_isolation = ''/endpoints/isolation'',
     r_marketplace = ''/marketplace'', r_settings = ''/settings'', r_profile = ''/profile''\<rparr>"

record nav_group =
  ng_label :: string
  ng_items :: "(string \<times> string) list"

definition NAV_GROUPS :: "nav_group list" where
  "NAV_GROUPS =
     [\<lparr>ng_label = ''Dashboards & Reports'', ng_items =
        [(''Overview'', r_overview ROUTES), (''Executive Summary'', r_executive ROUTES),
         (''Compliance'', r_compliance ROUTES)]\<rparr>,
      \<lparr>ng_label = ''Incident Response'', ng_items =
        [(''Active Incidents'', r_active ROUTES), (''Closed Incidents'', r_closed ROUTES),
         (''War Room'', r_warRoom ROUTES)]\<rparr>,
      \<lparr>ng_label = ''Detection & Threat Intel'', ng_items =
        [(''Alert Rules'', r_rules ROUTES), (''Threat Feeds'', r_feeds ROUTES), (''IOC Search'', r_ioc ROUTES)]\<rparr>,
      \<lparr>ng_label = ''Assets'', ng_items =
        [(''Inventory'', r_inventory ROUTES), (''Vulnerabilities'', r_vulnerabilities ROUTES),
         (''Network Map'', r_networkMap ROUTES)]\<rparr>,
      \<lparr>ng_label = ''Endpoints'', ng_items =
        [(''Host Management'', r_hosts ROUTES), (''EDR Logs'', r_edr ROUTES),
         (''Isolation Controls'', r_isolation ROUTES)]\<rparr>]"

section \<open>The route table\<close>

datatype layout = NoLayout | PublicLayout | ProtectedLayout
datatype element = Page string | NavigateTo string

record route =
  rt_layout :: layout
  rt_path :: string
  rt_element :: element

definition rt :: "layout \<Rightarrow> string \<Rightarrow> element \<Rightarrow> route" where
  "rt l p e = \<lparr>rt_layout = l, rt_path = p, rt_element = e\<rparr>"

definition App :: "route list" where
  "App =
     [rt NoLayout ''/login'' (Page ''Login''),
      rt NoLayout ''/unauthorized'' (Page ''UnauthorizedPage''),
      rt PublicLayout ''/documentation'' (Page ''DocumentationPage''),
      rt ProtectedLayout ''/'' (Page ''CommandCenter''),
      rt ProtectedLayout ''/investigations'' (NavigateTo ''/incidents/active''),
      rt ProtectedLayout ''/investigations/:id'' (Page ''InvestigationDashboard''),
      rt ProtectedLayout ''/playbooks'' (Page ''PlaybookSandbox''),
      rt ProtectedLayout ''/dashboard/overview'' (Page ''OverviewPage''),
      rt ProtectedLayout ''/dashboard/executive'' (Page ''ExecutiveDashboardPage''),
      rt ProtectedLayout ''/dashboard/compliance'' (Page ''CompliancePage''),
      rt ProtectedLayout ''/detection/rules'' (Page ''AlertRulesPage''),
      rt ProtectedLayout ''/detection/ioc'' (Page ''IocSearchPage''),
      rt ProtectedLayout ''/detection/feeds'' (Page ''ThreatFeedsPage''),
      rt ProtectedLayout ''/endpoints/hosts'' (Page ''HostManagementPage''),
      rt ProtectedLayout ''/endpoints/isolation'' (Page ''IsolationControlsPage''),
      rt ProtectedLayout ''/endpoints/edr'' (Page ''EdrLogsPage''),
      rt ProtectedLayout ''/incidents/active'' (Page ''ActiveIncidentsPage''),
      rt ProtectedLayout ''/incidents/closed'' (Page ''ClosedIncidentsPage''),
      rt ProtectedLayout ''/incidents/war-room'' (NavigateTo ''/incidents/active''),
      rt ProtectedLayout ''/incidents/war-room/:id'' (Page ''WarRoomPage''),
      rt ProtectedLayout ''/assets/inventory'' (Page ''AssetInventoryPage''),
      rt ProtectedLayout ''/assets/network-map'' (Page ''NetworkMapPage''),
      rt ProtectedLayout ''/assets/vulnerabilities'' (Page ''VulnerabilitiesPage''),
      rt ProtectedLayout ''/marketplace'' (Page ''MarketplacePage''),
      rt ProtectedLayout ''/settings'' (Page ''SettingsPage''),
      rt ProtectedLayout ''/profile'' (Page ''ProfilePage''),
      rt ProtectedLayout ''*'' (Page ''NotFoundPage'')]"

definition app_route :: "(string list \<Rightarrow> string \<Rightarrow> string option) \<Rightarrow> string \<Rightarrow> route option" where
  "app_route pick path =
     (case pick (map rt_path App) path of
        None \<Rightarrow> None
      | Some p \<Rightarrow> find (\<lambda>r. rt_path r = p) App)"

text \<open>What is on the screen at a path, given the answer to the session request of the guard.\<close>

definition app_screen :: "(string list \<Rightarrow> string \<Rightarrow> string option) \<Rightarrow> json response \<Rightarrow> string \<Rightarrow> element option" where
  "app_screen pick session path =
     (case app_route pick path of
        None \<Rightarrow> None
      | Some r \<Rightarrow>
          if rt_layout r = ProtectedLayout
          then (case ProtectedRoute_view path None (verifySession_settle session ProtectedRoute) of
                  Children \<Rightarrow> Some (rt_element r)
                | RedirectTo t \<Rightarrow> Some (NavigateTo t)
                | Verifying \<Rightarrow> None)
          else Some (rt_element r))"

text \<open>The documented behaviour of the router: it picks a pattern that matches segment by segment
  (\<^verbatim>\<open>:name\<close> matches one non-empty segment, \<^verbatim>\<open>*\<close> everything), it picks one whenever there is one, a
  pattern without parameters that equals the path comes first and \<^verbatim>\<open>*\<close> comes last.\<close>

definition dynamic_segment :: "string \<Rightarrow> bool" where
  "dynamic_segment s = js_starts_with s '':''"

fun segments_match :: "string list \<Rightarrow> string list \<Rightarrow> bool" where
  "segments_match [] [] = True"
| "segments_match (p # ps) (s # ss) =
     ((if dynamic_segment p then s \<noteq> [] else p = s) \<and> segments_match ps ss)"
| "segments_match _ _ = False"

definition pattern_matches :: "string \<Rightarrow> string \<Rightarrow> bool" where
  "pattern_matches p path =
     (p = ''*'' \<or> segments_match (js_split (CHR ''/'') p) (js_split (CHR ''/'') path))"

definition static_pattern :: "string \<Rightarrow> bool" where
  "static_pattern p = (p \<noteq> ''*'' \<and> list_all (\<lambda>s. \<not> dynamic_segment s) (js_split (CHR ''/'') p))"

definition documented_router :: "(string list \<Rightarrow> string \<Rightarrow> string option) \<Rightarrow> bool" where
  "documented_router pick \<longleftrightarrow> (\<forall>ps path.
     (\<forall>p. pick ps path = Some p \<longrightarrow> p \<in> set ps \<and> pattern_matches p path)
     \<and> (path \<in> set ps \<and> static_pattern path \<longrightarrow> pick ps path = Some path)
     \<and> ((\<exists>p \<in> set ps. pattern_matches p path) \<longrightarrow> pick ps path \<noteq> None)
     \<and> ((\<exists>p \<in> set ps. p \<noteq> ''*'' \<and> pattern_matches p path) \<longrightarrow> pick ps path \<noteq> Some ''*''))"

section \<open>Sidebar\<close>

record sidebar_state =
  sb_expanded :: "string \<Rightarrow> bool"
  sb_showSearch :: bool
  sb_showNotifs :: bool
  sb_notifications :: "notification_item list"
  sb_notifsLoading :: bool

definition Sidebar :: sidebar_state where
  "Sidebar = \<lparr>sb_expanded = (\<lambda>_. False), sb_showSearch = False, sb_showNotifs = False,
     sb_notifications = [], sb_notifsLoading = False\<rparr>"

definition toggleMenu :: "string \<Rightarrow> sidebar_state \<Rightarrow> sidebar_state" where
  "toggleMenu m s = s\<lparr>sb_expanded := (sb_expanded s)(m := \<not> sb_expanded s m)\<rparr>"

definition sidebar_keydown :: "string \<Rightarrow> bool \<Rightarrow> sidebar_state \<Rightarrow> sidebar_state" where
  "sidebar_keydown key metaOrCtrl s =
     (let s1 = (if key = ''Escape'' then s\<lparr>sb_showSearch := False, sb_showNotifs := False\<rparr> else s) in
      if metaOrCtrl \<and> js_lower key = ''k'' then s1\<lparr>sb_showSearch := \<not> sb_showSearch s1\<rparr> else s1)"

definition openNotifications_start :: "sidebar_state \<Rightarrow> sidebar_state \<times> effect list" where
  "openNotifications_start s =
     (let s1 = s\<lparr>sb_showNotifs := \<not> sb_showNotifs s\<rparr> in
      if \<not> sb_showNotifs s then (s1\<lparr>sb_notifsLoading := True\<rparr>, [Request GET ''/notifications'' JNull]) else (s1, []))"

definition openNotifications_settle ::
  "string \<Rightarrow> notification_item list response \<Rightarrow> sidebar_state \<Rightarrow> sidebar_state" where
  "openNotifications_settle now r s =
     s\<lparr>sb_notifications := (case r of
          Resolved ns \<Rightarrow> ns
        | Rejected e \<Rightarrow> [\<lparr>ni_id = ''err'', ni_message = ''Could not load notifications.'', ni_severity = NInfo,
                         ni_timestamp = now, ni_read = True\<rparr>]),
       sb_notifsLoading := False\<rparr>"

definition navToPath :: "string \<Rightarrow> effect list" where
  "navToPath path = [Navigate path]"

definition isActive :: "string \<Rightarrow> string \<Rightarrow> bool" where
  "isActive pathname path = (pathname = path \<or> (path \<noteq> ''/'' \<and> js_starts_with pathname path))"

datatype sidebar_msg = SbClose | SbNav string | SbToggle string | SbSearch | SbNotifications

definition Sidebar_view :: "bool \<Rightarrow> sidebar_state \<Rightarrow> sidebar_msg view" where
  "Sidebar_view hasOnClose s = Group ''sidebar''
     ([Text ''CORTEX CLONE'']
      @ render_if hasOnClose (Button ''Close navigation sidebar'' False SbClose)
      @ [Button ''Command Center'' False (SbNav ''/''), Button ''Playbook Sandbox'' False (SbNav ''/playbooks'')]
      @ concat (map (\<lambda>g. Button (ng_label g) False (SbToggle (ng_label g))
            # (if sb_expanded s (ng_label g) then map (\<lambda>(l, p). Button l False (SbNav p)) (ng_items g) else []))
          NAV_GROUPS)
      @ [Button ''Marketplace'' False (SbNav (r_marketplace ROUTES)),
         Button ''Settings'' False (SbNav (r_settings ROUTES)),
         Button ''Search'' False SbSearch,
         Button ''Notifications'' False SbNotifications,
         Button ''Principal Analyst'' False (SbNav (r_profile ROUTES))])"

section \<open>CommandPalette\<close>

text \<open>\<open>cp_timer\<close>: the 600 ms timer of the query effect is pending.\<close>

record palette_state =
  cp_open :: bool
  cp_query :: string
  cp_activeIndex :: nat
  cp_isQuerying :: bool
  cp_timer :: bool

definition CommandPalette :: palette_state where
  "CommandPalette = \<lparr>cp_open = False, cp_query = '''', cp_activeIndex = 0, cp_isQuerying = False, cp_timer = False\<rparr>"

record command_item =
  ci_key :: string
  ci_label :: string
  ci_navigate :: "string option"

definition cmd :: "string \<Rightarrow> string \<Rightarrow> string option \<Rightarrow> command_item" where
  "cmd i l n = \<lparr>ci_key = i, ci_label = l, ci_navigate = n\<rparr>"

definition defaultCommands :: "command_item list" where
  "defaultCommands =
     [cmd ''c1'' ''Go to Playbooks'' (Some ''/playbooks''),
      cmd ''c2'' ''View Active Incidents'' (Some (r_active ROUTES)),
      cmd ''c3'' ''Asset Inventory'' (Some (r_inventory ROUTES)),
      cmd ''c4'' ''Threat Feeds'' (Some (r_feeds ROUTES)),
      cmd ''c5'' ''System Settings'' (Some (r_settings ROUTES))]"

definition searchResults :: "string \<Rightarrow> command_item list" where
  "searchResults query =
     [cmd ''s1'' (''Search AI Index for \"'' @ query @ ''\"'') None,
      cmd ''s2'' (''Filter Alerts by \"'' @ query @ ''\"'') (Some (r_active ROUTES))]"

definition displayedItems :: "palette_state \<Rightarrow> command_item list" where
  "displayedItems s = (if cp_query s \<noteq> [] then searchResults (cp_query s) else defaultCommands)"

text \<open>The effect on \<^verbatim>\<open>[query]\<close>: the clean-up of the previous run, then the body.\<close>

definition palette_query_effect :: "palette_state \<Rightarrow> palette_state" where
  "palette_query_effect s =
     (let s1 = s\<lparr>cp_timer := False, cp_activeIndex := 0\<rparr> in
      if cp_query s \<noteq> [] then s1\<lparr>cp_isQuerying := True, cp_timer := True\<rparr> else s1)"

definition palette_setQuery :: "string \<Rightarrow> palette_state \<Rightarrow> palette_state" where
  "palette_setQuery q s = (if q = cp_query s then s else palette_query_effect (s\<lparr>cp_query := q\<rparr>))"

definition palette_open :: "palette_state \<Rightarrow> palette_state" where
  "palette_open s = (if cp_open s then s else palette_setQuery '''' (s\<lparr>cp_open := True, cp_activeIndex := 0\<rparr>))"

definition palette_action :: "command_item \<Rightarrow> palette_state \<Rightarrow> palette_state \<times> effect list" where
  "palette_action c s =
     (s\<lparr>cp_open := False\<rparr>, case ci_navigate c of Some p \<Rightarrow> [Navigate p] | None \<Rightarrow> [])"

definition palette_keydown :: "string \<Rightarrow> palette_state \<Rightarrow> palette_state \<times> effect list" where
  "palette_keydown key s =
     (let n = length (displayedItems s) in
      if \<not> cp_open s then (s, [])
      else if key = ''Escape'' then (s\<lparr>cp_open := False\<rparr>, [])
      else if key = ''ArrowDown'' then (s\<lparr>cp_activeIndex := (cp_activeIndex s + 1) mod n\<rparr>, [])
      else if key = ''ArrowUp'' then
        (s\<lparr>cp_activeIndex := nat ((int (cp_activeIndex s) - 1 + int n) mod int n)\<rparr>, [])
      else if key = ''Enter'' then
        (if cp_activeIndex s < n then palette_action (displayedItems s ! cp_activeIndex s) s else (s, []))
      else (s, []))"

datatype palette_event = CpOpen | CpClose | CpType string | CpKey string | CpHover nat | CpClick nat | CpTimer

fun palette_step :: "palette_event \<Rightarrow> palette_state \<Rightarrow> palette_state \<times> effect list" where
  "palette_step CpOpen s = (palette_open s, [])"
| "palette_step CpClose s = (s\<lparr>cp_open := False\<rparr>, [])"
| "palette_step (CpType q) s = (palette_setQuery q s, [])"
| "palette_step (CpKey k) s = palette_keydown k s"
| "palette_step (CpHover i) s = (s\<lparr>cp_activeIndex := i\<rparr>, [])"
| "palette_step (CpClick i) s = palette_action (displayedItems s ! i) s"
| "palette_step CpTimer s = (s\<lparr>cp_isQuerying := False, cp_timer := False\<rparr>, [])"

definition CommandPalette_view :: "palette_state \<Rightarrow> palette_event view list" where
  "CommandPalette_view s =
     (if \<not> cp_open s then []
      else [Group ''''
        ([Input (cp_query s) False CpType]
         @ (if cp_isQuerying s then [Text ''Analyzing intent via Semantic Index...'']
            else if displayedItems s = [] then [Text (''No results found for \"'' @ cp_query s @ ''\"'')]
            else Text (if cp_query s \<noteq> [] then ''Search Results'' else ''Suggested Actions'')
              # map (\<lambda>(i, c). Button (ci_label c) False (CpClick i)) (enumerate 0 (displayedItems s)))
         @ [Text ''to navigate'', Text ''to select'', Text ''SOC OS v2.4''])])"

text \<open>The list is there for the pointer only while it is rendered.\<close>

fun palette_enabled :: "palette_state \<Rightarrow> palette_event \<Rightarrow> bool" where
  "palette_enabled s (CpType q) = cp_open s"
| "palette_enabled s (CpHover i) = (CpClick i \<in> set (concat (map clicks (CommandPalette_view s))))"
| "palette_enabled s (CpClick i) = (CpClick i \<in> set (concat (map clicks (CommandPalette_view s))))"
| "palette_enabled s CpTimer = cp_timer s"
| "palette_enabled s _ = True"

section \<open>NotificationCenter, MainLayout and the not-found pages\<close>

datatype notification_msg = NcClose

fun severity_label :: "notification_severity \<Rightarrow> string" where
  "severity_label NInfo = ''info''"
| "severity_label NWarning = ''warning''"
| "severity_label NCritical = ''critical''"

text \<open>The buttons \<^verbatim>\<open>Mark all as read\<close>, \<^verbatim>\<open>View Details\<close> and \<^verbatim>\<open>Dismiss\<close> have no handler: they are text.\<close>

definition NotificationCenter_view :: "bool \<Rightarrow> bool \<Rightarrow> notification_item list \<Rightarrow> notification_msg view list" where
  "NotificationCenter_view isOpen loading ns =
     (if \<not> isOpen then []
      else [Group ''Notification Center''
        ([Text ''Notifications'', Text ''LIVE'', Button ''Close notifications'' False NcClose,
          Text (nat_str (length ns) @ '' Unread''), Text ''Mark all as read'']
         @ (if loading then [Text ''Syncing Streams...'']
            else if ns = [] then
              [Text ''All caught up!'', Text ''No new alerts or critical events detected in your environment.'']
            else concat (map (\<lambda>n. [Text (severity_label (ni_severity n)), Text (ni_message n),
                   Text ''View Details'', Text ''Dismiss'']) ns)))])"

datatype layout_msg = LayoutOpen | LayoutClose

fun layout_update :: "layout_msg \<Rightarrow> bool \<Rightarrow> bool" where
  "layout_update LayoutOpen sidebarOpen = True"
| "layout_update LayoutClose sidebarOpen = False"

definition MainLayout_view :: "bool \<Rightarrow> layout_msg view list" where
  "MainLayout_view sidebarOpen =
     render_if sidebarOpen (Clickable LayoutClose [])
     @ [Button ''Open navigation menu'' False LayoutOpen, Text ''CORTEX CLONE'', Text ''SOC CORE'']"

definition NotFoundPage_view :: "effect view" where
  "NotFoundPage_view = Group ''''
     [Text ''404'', Text ''This sector of the SOC does not exist.'',
      Button ''Return to Command Center'' False (Navigate ''/'')]"

definition pages_NotFoundPage_view :: "effect view" where
  "pages_NotFoundPage_view = Group ''''
     [Text ''404'', Text ''Page Not Found'', Text ''The routing destination does not exist or has been moved.'',
      Button ''Return to Command Center'' False (Navigate ''/dashboard'')]"

section \<open>Lemmas on routing\<close>

lemma segments_match_static: "list_all (\<lambda>s. \<not> dynamic_segment s) ps \<Longrightarrow> segments_match ps ss = (ps = ss)"
  by (induction ps ss rule: segments_match.induct) auto

lemma picked_route:
  assumes "documented_router pick" and "p \<in> set (map rt_path App)" and "static_pattern p"
  shows "app_route pick p = find (\<lambda>r. rt_path r = p) App"
proof -
  have "pick (map rt_path App) p = Some p"
    using assms unfolding documented_router_def by blast
  then show ?thesis by (simp add: app_route_def)
qed

lemma picked_specific:
  assumes "documented_router pick" and "q \<in> set ps" and "q \<noteq> ''*''" and "pattern_matches q path"
  shows "\<exists>p. pick ps path = Some p \<and> p \<noteq> ''*'' \<and> p \<in> set ps \<and> pattern_matches p path"
proof -
  have some: "pick ps path \<noteq> None" using assms unfolding documented_router_def by blast
  then obtain p where p: "pick ps path = Some p" by blast
  moreover have "pick ps path \<noteq> Some ''*''" using assms unfolding documented_router_def by blast
  moreover have "p \<in> set ps \<and> pattern_matches p path" using assms(1) p unfolding documented_router_def by blast
  ultimately show ?thesis by (intro exI [of _ p]) simp
qed

lemma picked_fallback:
  assumes "documented_router pick" and "\<And>p. p \<in> set (map rt_path App) \<Longrightarrow> p \<noteq> ''*'' \<Longrightarrow> \<not> pattern_matches p path"
  shows "app_route pick path = Some (rt ProtectedLayout ''*'' (Page ''NotFoundPage''))"
proof -
  have star: "''*'' \<in> set (map rt_path App)" "pattern_matches ''*'' path"
    by (simp_all add: App_def rt_def pattern_matches_def)
  then obtain p where p: "pick (map rt_path App) path = Some p"
    using assms(1) unfolding documented_router_def by blast
  then have "p \<in> set (map rt_path App) \<and> pattern_matches p path"
    using assms(1) unfolding documented_router_def by blast
  then have "p = ''*''" using assms(2) by blast
  then show ?thesis using p by (simp add: app_route_def App_def rt_def)
qed

text \<open>The patterns of the table as segments.\<close>

lemma App_segments:
  "map (\<lambda>r. js_split (CHR ''/'') (rt_path r)) App =
    [['''', ''login''], ['''', ''unauthorized''], ['''', ''documentation''], ['''', ''''],
     ['''', ''investigations''], ['''', ''investigations'', '':id''], ['''', ''playbooks''],
     ['''', ''dashboard'', ''overview''], ['''', ''dashboard'', ''executive''], ['''', ''dashboard'', ''compliance''],
     ['''', ''detection'', ''rules''], ['''', ''detection'', ''ioc''], ['''', ''detection'', ''feeds''],
     ['''', ''endpoints'', ''hosts''], ['''', ''endpoints'', ''isolation''], ['''', ''endpoints'', ''edr''],
     ['''', ''incidents'', ''active''], ['''', ''incidents'', ''closed''], ['''', ''incidents'', ''war-room''],
     ['''', ''incidents'', ''war-room'', '':id''], ['''', ''assets'', ''inventory''],
     ['''', ''assets'', ''network-map''], ['''', ''assets'', ''vulnerabilities''], ['''', ''marketplace''],
     ['''', ''settings''], ['''', ''profile''], [''*'']]"
  by (simp add: App_def rt_def)

lemma App_pattern_cases:
  assumes "p \<in> set (map rt_path App)" and "p \<noteq> ''*''" and "pattern_matches p path"
  shows "\<exists>ps \<in> set (map (\<lambda>r. js_split (CHR ''/'') (rt_path r)) App). segments_match ps (js_split (CHR ''/'') path)"
proof -
  obtain r where "r \<in> set App" and "p = rt_path r" using assms(1) by auto
  then show ?thesis using assms(2,3) by (force simp: pattern_matches_def)
qed

text \<open>The paths the shell navigates to.\<close>

definition shell_paths :: "string list" where
  "shell_paths = [''/'', ''/playbooks''] @ concat (map (\<lambda>g. map snd (ng_items g)) NAV_GROUPS)
     @ [r_marketplace ROUTES, r_settings ROUTES, r_profile ROUTES]"

lemma sidebar_clicks_paths: "SbNav p \<in> set (clicks (Sidebar_view b s)) \<Longrightarrow> p \<in> set shell_paths"
  by (auto simp: Sidebar_view_def shell_paths_def NAV_GROUPS_def split: if_splits)

lemma palette_paths:
  "c \<in> set defaultCommands \<union> set (searchResults q) \<Longrightarrow> ci_navigate c = Some p \<Longrightarrow> p \<in> set shell_paths"
  by (auto simp: defaultCommands_def searchResults_def cmd_def shell_paths_def NAV_GROUPS_def ROUTES_def)

lemma shell_paths_routes:
  "list_all (\<lambda>p. static_pattern p \<and> p \<in> set (map rt_path App)
     \<and> (case find (\<lambda>r. rt_path r = p) App of None \<Rightarrow> False
        | Some r \<Rightarrow> rt_path r = p \<and> rt_layout r = ProtectedLayout \<and> rt_element r \<noteq> Page ''NotFoundPage'')) shell_paths"
  by (simp add: shell_paths_def NAV_GROUPS_def ROUTES_def static_pattern_def dynamic_segment_def App_def rt_def)

text \<open>A concrete router with the documented behaviour.\<close>

definition pick_route :: "string list \<Rightarrow> string \<Rightarrow> string option" where
  "pick_route ps path =
     (if path \<in> set ps \<and> static_pattern path then Some path
      else (case find (\<lambda>p. p \<noteq> ''*'' \<and> pattern_matches p path) ps of
              Some p \<Rightarrow> Some p
            | None \<Rightarrow> find (\<lambda>p. p = ''*'') ps))"

lemma static_self_match: "static_pattern p \<Longrightarrow> pattern_matches p p"
  by (simp add: static_pattern_def pattern_matches_def segments_match_static)

lemma pattern_star: "pattern_matches ''*'' path"
  by (simp add: pattern_matches_def)

lemma pick_route_documented: "documented_router pick_route"
  unfolding documented_router_def
proof (intro allI conjI impI, goal_cases)
  case (1 ps path p)
  then show ?case
    by (auto simp: pick_route_def static_self_match dest: find_SomeD split: if_splits option.splits)
next
  case (2 ps path p)
  then show ?case
    by (auto simp: pick_route_def static_self_match pattern_star dest: find_SomeD split: if_splits option.splits)

next
  case (3 ps path)
  then show ?case by (simp add: pick_route_def)
next
  case (4 ps path)
  then obtain p where p: "p \<in> set ps" "pattern_matches p path" by blast
  show ?case
  proof
    assume "pick_route ps path = None"
    then have "find (\<lambda>p. p \<noteq> ''*'' \<and> pattern_matches p path) ps = None" and "find (\<lambda>p. p = ''*'') ps = None"
      by (auto simp: pick_route_def split: if_splits option.splits)
    with p show False by (auto simp: find_None_iff)
  qed
next
  case (5 ps path)
  then show ?case
    by (auto simp: pick_route_def find_None_iff find_Some_iff static_pattern_def split: option.splits)
qed

section \<open>Invariants of the palette\<close>

lemma length_displayedItems: "length (displayedItems s) = (if cp_query s = [] then 5 else 2)"
  by (simp add: displayedItems_def defaultCommands_def searchResults_def)

lemma palette_click_range:
  "CpClick i \<in> set (concat (map clicks (CommandPalette_view s))) \<Longrightarrow> i < length (displayedItems s)"
  by (auto simp: CommandPalette_view_def in_set_enumerate_eq split: if_splits)

lemma nat_mod_less: "0 < n \<Longrightarrow> nat (k mod int n) < n"
  by (simp add: nat_less_iff)

interpretation palette_machine: machine_invariant CommandPalette palette_enabled "\<lambda>e s. fst (palette_step e s)"
    "\<lambda>s. cp_activeIndex s < length (displayedItems s)"
proof (unfold_locales, goal_cases)
  case 1
  show ?case by (simp add: CommandPalette_def displayedItems_def defaultCommands_def)
next
  case (2 s e)
  have same: "displayedItems (s\<lparr>cp_open := b\<rparr>) = displayedItems s" for b by (simp add: displayedItems_def)
  have idx: "displayedItems (s\<lparr>cp_activeIndex := i\<rparr>) = displayedItems s" for i by (simp add: displayedItems_def)
  have pos: "0 < length (displayedItems s)" using 2(1) by linarith
  have query: "cp_activeIndex (palette_setQuery q t) < length (displayedItems (palette_setQuery q t))"
    if "cp_activeIndex t < length (displayedItems t)" for q t
    using that by (auto simp: palette_setQuery_def palette_query_effect_def length_displayedItems Let_def)
  show ?case
  proof (cases e)
    case CpOpen
    have "cp_activeIndex (s\<lparr>cp_open := True, cp_activeIndex := 0\<rparr>)
        < length (displayedItems (s\<lparr>cp_open := True, cp_activeIndex := 0\<rparr>))"
      by (simp add: length_displayedItems)
    then show ?thesis using CpOpen 2(1) query by (simp add: palette_open_def)
  next
    case (CpKey k)
    have up: "nat ((int (cp_activeIndex s) - 1 + int (length (displayedItems s))) mod int (length (displayedItems s)))
        < length (displayedItems s)" using pos by (rule nat_mod_less)
    show ?thesis using CpKey 2(1) pos up
      by (simp add: palette_keydown_def palette_action_def Let_def same idx)
  next
    case (CpHover i)
    then show ?thesis using 2(2) palette_click_range by (simp add: idx)
  next
    case CpTimer
    then show ?thesis using 2(1) by (simp add: length_displayedItems)
  qed (use 2(1) same query in \<open>simp_all add: palette_action_def\<close>)
qed

section \<open>Properties\<close>



text \<open>C19. Without a session only the log-in, the unauthorized and the documentation page are shown, whatever
  the router picks; every other page turns into a redirection to the log-in page that carries the path.\<close>

theorem no_session_no_page:
  "app_screen pick (Rejected e) path \<in>
     {None, Some (Page ''Login''), Some (Page ''UnauthorizedPage''), Some (Page ''DocumentationPage''),
      Some (NavigateTo (login_redirect path))}"
proof (cases "app_route pick path")
  case None
  then show ?thesis by (simp add: app_screen_def)
next
  case (Some r)
  then have "r \<in> set App" by (auto simp: app_route_def dest: find_SomeD split: option.splits)
  then have "rt_layout r \<noteq> ProtectedLayout \<Longrightarrow>
      rt_element r \<in> {Page ''Login'', Page ''UnauthorizedPage'', Page ''DocumentationPage''}"
    by (auto simp: App_def rt_def)
  moreover have "ProtectedRoute_view path None (verifySession_settle (Rejected e) ProtectedRoute)
      = RedirectTo (login_redirect path)"
    by (simp add: ProtectedRoute_view_def verifySession_settle_def ProtectedRoute_def)
  ultimately show ?thesis using Some by (auto simp: app_screen_def)
qed

text \<open>The highlighted entry of the command palette is always one of the entries shown, through any
  sequence of opening, typing, keys and pointer moves.\<close>

theorem palette_index_in_range:
  assumes "reachable CommandPalette palette_enabled (\<lambda>e s. fst (palette_step e s)) s"
  shows "cp_activeIndex s < length (displayedItems s)"
  using assms by (rule palette_machine.inv_reachable)

theorem palette_index_in_range_witness:
  "cp_activeIndex (fst (palette_step CpOpen CommandPalette))
     < length (displayedItems (fst (palette_step CpOpen CommandPalette)))"
proof -
  have "palette_enabled CommandPalette CpOpen" by simp
  then show ?thesis by (rule palette_index_in_range [OF reach_step [OF reach_init]])
qed

text \<open>Clearing the search text within the 600 ms of its timer leaves the palette in its busy state for
  good: the timer is cancelled, nothing lowers the flag, and no entry is offered although the text is
  empty.\<close>

theorem palette_stays_busy:
  assumes "q \<noteq> []" and "cp_query s = []"
  shows "let t = fst (palette_step (CpType []) (fst (palette_step (CpType q) s))) in
     cp_query t = [] \<and> cp_isQuerying t \<and> \<not> cp_timer t
     \<and> concat (map clicks (CommandPalette_view t)) = []"
  using assms
  by (simp add: palette_setQuery_def palette_query_effect_def CommandPalette_view_def Let_def)

theorem palette_stays_busy_witness:
  "cp_isQuerying (fst (palette_step (CpType []) (fst (palette_step (CpType ''a'') CommandPalette))))"
  using palette_stays_busy [of "''a''" CommandPalette] by (simp add: CommandPalette_def Let_def)

end
