(* ===== verification/Incidents.thy ===== *)
theory Incidents
  imports App_Routes Shared_Hooks
begin

text \<open>
  The incident pages: active incidents (\<^verbatim>\<open>pages/incidents/ActiveIncidentsPage.tsx\<close>) with search, selection and bulk
  reassignment, closed incidents (\<^verbatim>\<open>ClosedIncidentsPage.tsx\<close>) with root causes, detection gaps and reviews, and
  the war room (\<^verbatim>\<open>WarRoomPage.tsx\<close>). The links of the pages are checked against the route table.
\<close>

section \<open>Active incidents\<close>

datatype sla = SlaOk | SlaWarning | SlaBreached

record active_incident = incident +
  ac_assignee :: "string option"
  ac_slaStatus :: sla

record raw_incident = incident +
  ri_assignee :: "string option"

definition sla_of :: "nat \<Rightarrow> sla" where
  "sla_of i = (if i mod 7 = 0 then SlaBreached else if i mod 4 = 0 then SlaWarning else SlaOk)"

definition active_load :: "raw_incident list \<Rightarrow> active_incident list" where
  "active_load is = map (\<lambda>(i, inc). incident.extend (incident.truncate inc)
     (active_incident.fields (ri_assignee inc) (sla_of i))) (enumerate 0 is)"

record active_state =
  av_async :: "active_incident list async_state"
  av_selected :: "string js_set"
  av_showReassign :: bool
  av_target :: string
  av_query :: string

definition ActiveIncidentsPage :: active_state where
  "ActiveIncidentsPage = \<lparr>av_async = useAsyncState, av_selected = [], av_showReassign = False, av_target = '''', av_query = ''''\<rparr>"

definition active_execute :: "active_state \<Rightarrow> active_state \<times> effect list" where
  "active_execute s = (s\<lparr>av_async := execute_start (av_async s)\<rparr>, [Request GET ''/incidents/active'' JNull])"

definition active_answer :: "raw_incident list response \<Rightarrow> active_state \<Rightarrow> active_state" where
  "active_answer r s = s\<lparr>av_async := execute_settle (case r of
     Resolved is \<Rightarrow> Resolved (active_load is) | Rejected e \<Rightarrow> Rejected e) (av_async s)\<rparr>"

definition handleBulkReassign :: "active_state \<Rightarrow> active_state" where
  "handleBulkReassign s = (case as_data (av_async s) of
       None \<Rightarrow> s
     | Some is \<Rightarrow> s\<lparr>av_async := setData (map_where (\<lambda>i. set_has (in_id i) (av_selected s))
           (\<lambda>i. i\<lparr>ac_assignee := Some (av_target s)\<rparr>) is) (av_async s), av_selected := [], av_showReassign := False\<rparr>)"

definition active_toggleSelect :: "string \<Rightarrow> active_state \<Rightarrow> active_state" where
  "active_toggleSelect i s = s\<lparr>av_selected := set_toggle i (av_selected s)\<rparr>"

definition active_toggleSelectAll :: "active_state \<Rightarrow> active_state" where
  "active_toggleSelectAll s =
     (if Some (length (av_selected s)) = map_option length (as_data (av_async s)) then s\<lparr>av_selected := []\<rparr>
      else s\<lparr>av_selected := set_from (map in_id (or_else (as_data (av_async s)) []))\<rparr>)"

definition sla_count :: "sla \<Rightarrow> active_state \<Rightarrow> nat" where
  "sla_count k s = length (filter (\<lambda>i. ac_slaStatus i = k) (or_else (as_data (av_async s)) []))"

definition unassigned :: "active_incident \<Rightarrow> bool" where
  "unassigned i = (ac_assignee i = None \<or> ac_assignee i = Some '''')"

definition analystWorkload :: "active_state \<Rightarrow> (string \<times> nat) list" where
  "analystWorkload s = [(''alice'', 4), (''bob'', 12), (''charlie'', 2),
     (''unassigned'', length (filter unassigned (or_else (as_data (av_async s)) [])))]"

definition incident_matches :: "string \<Rightarrow> active_incident \<Rightarrow> bool" where
  "incident_matches q i =
     (js_includes (js_lower (in_id i)) (js_lower q) \<or> js_includes (js_lower (in_title i)) (js_lower q)
      \<or> (case ac_assignee i of None \<Rightarrow> False | Some a \<Rightarrow> js_includes (js_lower a) (js_lower q)))"

definition active_filteredData :: "active_state \<Rightarrow> active_incident list option" where
  "active_filteredData s = map_option (filter (incident_matches (av_query s))) (as_data (av_async s))"

datatype active_event =
    AvRefresh | AvSelect string | AvSelectAll | AvShow bool | AvQuery string | AvTarget string | AvConfirm | AvGo string

fun active_step :: "active_event \<Rightarrow> active_state \<Rightarrow> active_state \<times> effect list" where
  "active_step AvRefresh s = active_execute s"
| "active_step (AvSelect i) s = (active_toggleSelect i s, [])"
| "active_step AvSelectAll s = (active_toggleSelectAll s, [])"
| "active_step (AvShow b) s = (s\<lparr>av_showReassign := b\<rparr>, [])"
| "active_step (AvQuery q) s = (s\<lparr>av_query := q\<rparr>, [])"
| "active_step (AvTarget t) s = (s\<lparr>av_target := t\<rparr>, [])"
| "active_step AvConfirm s = (handleBulkReassign s, [])"
| "active_step (AvGo u) s = (s, [Navigate u])"

definition active_row :: "(string \<Rightarrow> string) \<Rightarrow> active_state \<Rightarrow> active_incident \<Rightarrow> active_event view" where
  "active_row fmt s i = Group (in_id i)
     ([Checkbox (set_has (in_id i) (av_selected s)) (AvSelect (in_id i)),
       Clickable (AvGo (''/incidents/'' @ in_id i)) [Text (in_id i)], Text (in_title i)]
      @ render_if (ac_slaStatus i = SlaBreached) (Text ''BREACHED'') @ render_if (ac_slaStatus i = SlaWarning) (Text ''EXPIRING'')
      @ [Text (js_upper (in_severity i)),
         case ac_assignee i of
           None \<Rightarrow> Text ''Unassigned''
         | Some a \<Rightarrow> if a = '''' then Text ''Unassigned'' else Text (js_upper (take 1 a) @ a),
         Text (fmt (in_createdAt i)),
         Button ''War Room'' False (AvGo (''/incidents/'' @ in_id i @ ''/war-room''))])"

definition active_reassign :: "active_state \<Rightarrow> active_event view list" where
  "active_reassign s =
     (if av_showReassign s
      then [Text ''Bulk Reassign (Load Balance)'',
            Text (''Reassigning '' @ nat_str (length (av_selected s)) @ '' incident(s). View current analyst workloads below.'')]
        @ map (\<lambda>(name, n). Clickable (AvTarget (if name = ''unassigned'' then '''' else name)) [Text name, Text (nat_str n)])
            (analystWorkload s)
        @ [Button ''Cancel'' False (AvShow False), Button ''Confirm Reassignment'' False AvConfirm]
      else [])"

definition ActiveIncidentsPage_view :: "(string \<Rightarrow> string) \<Rightarrow> active_state \<Rightarrow> active_event view list" where
  "ActiveIncidentsPage_view fmt s =
     (let shown = or_else (active_filteredData s) [] in
      if as_loading (av_async s) then [Text ''loading'']
      else if (case as_error (av_async s) of None \<Rightarrow> False | Some m \<Rightarrow> m \<noteq> '''') \<and> as_data (av_async s) = None
      then [Text (the (as_error (av_async s))), Button ''Retry Request'' False AvRefresh]
      else [Text ''Active Incidents'', Button ''Refresh'' False AvRefresh, Text ''2.4h'',
            Text (nat_str (sla_count SlaWarning s) @ '' incidents''), Text (nat_str (sla_count SlaBreached s) @ '' incidents'')]
        @ (if 0 < length (av_selected s)
           then [Text (nat_str (length (av_selected s)) @ '' incidents selected''),
                 Button ''Bulk Reassign (Load Balance)'' False (AvShow True)] else [])
        @ [Input (av_query s) False AvQuery,
           Checkbox (0 < length shown \<and> length (av_selected s) = length shown) AvSelectAll]
        @ map (active_row fmt s) shown
        @ render_if (shown = []) (Text ''No active incidents found matching criteria.'')
        @ active_reassign s)"

section \<open>Closed incidents\<close>

datatype post_mortem = Scheduled | Pending | Completed | NotRequired

record past_incident = closed_incident +
  pi_rootCause :: string
  pi_gapReported :: bool
  pi_postMortem :: post_mortem

definition root_causes :: "string list" where
  "root_causes = [''Phishing'', ''Misconfiguration'', ''Insider Threat'', ''Third-Party'', ''False Positive'']"

definition closed_load :: "closed_incident list \<Rightarrow> past_incident list" where
  "closed_load is = map (\<lambda>(i, inc). closed_incident.extend inc (past_incident.fields
     (root_causes ! (i mod length root_causes)) (i mod 5 = 0)
     (if ci_severity inc = ''critical'' \<or> ci_severity inc = ''high''
      then (if i mod 3 = 0 then Completed else if i mod 2 = 0 then Scheduled else Pending) else NotRequired)))
     (enumerate 0 is)"

record closed_state =
  cl_async :: "past_incident list async_state"
  cl_gapModal :: "string option"
  cl_scheduleModal :: "string option"

definition ClosedIncidentsPage :: closed_state where
  "ClosedIncidentsPage = \<lparr>cl_async = useAsyncState, cl_gapModal = None, cl_scheduleModal = None\<rparr>"

text \<open>The object \<^verbatim>\<open>acc\<close> of the reduction keeps its keys in insertion order.\<close>

fun count_cause :: "string \<Rightarrow> (string \<times> nat) list \<Rightarrow> (string \<times> nat) list" where
  "count_cause c [] = [(c, 1)]"
| "count_cause c ((d, n) # acc) = (if c = d then (d, n + 1) # acc else (d, n) # count_cause c acc)"

definition rootCauseCounts :: "closed_state \<Rightarrow> (string \<times> nat) list" where
  "rootCauseCounts s = foldl (\<lambda>acc i. if pi_rootCause i \<noteq> '''' then count_cause (pi_rootCause i) acc else acc) []
     (or_else (as_data (cl_async s)) [])"

definition handleReportGap :: "string \<Rightarrow> closed_state \<Rightarrow> closed_state" where
  "handleReportGap i s = s\<lparr>cl_async := setData (map_where (\<lambda>x. ci_id x = i) (\<lambda>x. x\<lparr>pi_gapReported := True\<rparr>)
     (or_else (as_data (cl_async s)) [])) (cl_async s), cl_gapModal := None\<rparr>"

definition handleScheduleReview :: "string \<Rightarrow> closed_state \<Rightarrow> closed_state" where
  "handleScheduleReview i s = s\<lparr>cl_async := setData (map_where (\<lambda>x. ci_id x = i) (\<lambda>x. x\<lparr>pi_postMortem := Scheduled\<rparr>)
     (or_else (as_data (cl_async s)) [])) (cl_async s), cl_scheduleModal := None\<rparr>"

datatype closed_event =
    ClRefresh | ClGap "string option" | ClSchedule "string option" | ClReport string | ClReview string | ClGo string

fun closed_step :: "closed_event \<Rightarrow> closed_state \<Rightarrow> closed_state \<times> effect list" where
  "closed_step ClRefresh s = (s\<lparr>cl_async := execute_start (cl_async s)\<rparr>, [Request GET ''/incidents/closed'' JNull])"
| "closed_step (ClGap g) s = (s\<lparr>cl_gapModal := g\<rparr>, [])"
| "closed_step (ClSchedule g) s = (s\<lparr>cl_scheduleModal := g\<rparr>, [])"
| "closed_step (ClReport i) s = (handleReportGap i s, [])"
| "closed_step (ClReview i) s = (handleScheduleReview i s, [])"
| "closed_step (ClGo u) s = (s, [Navigate u])"

definition closed_row :: "(string \<Rightarrow> string) \<Rightarrow> past_incident \<Rightarrow> closed_event view" where
  "closed_row fmt i = Group (ci_id i)
     [Clickable (ClGo (''/incidents/'' @ ci_id i))
        [Text (''#'' @ (let h = hd (js_split (CHR ''-'') (ci_id i)) in if h = '''' then ci_id i else h))],
      Text (js_upper (ci_severity i)), Text (ci_title i),
      Text (if pi_rootCause i = '''' then ''Unclassified'' else pi_rootCause i),
      (case pi_postMortem i of
         NotRequired \<Rightarrow> Text ''Not Required'' | Completed \<Rightarrow> Text ''Completed'' | Scheduled \<Rightarrow> Text ''Scheduled''
       | Pending \<Rightarrow> Button ''Schedule Review'' False (ClSchedule (Some (ci_id i)))),
      (if pi_gapReported i then Text ''Rule Gap Logged''
       else Button ''Report Detection Gap'' False (ClGap (Some (ci_id i)))),
      Text (fmt (ci_closedAt i))]"

definition ClosedIncidentsPage_view :: "(string \<Rightarrow> string) \<Rightarrow> closed_state \<Rightarrow> closed_event view list" where
  "ClosedIncidentsPage_view fmt s =
     (if as_loading (cl_async s) then [Text ''loading'']
      else if (case as_error (cl_async s) of None \<Rightarrow> False | Some m \<Rightarrow> m \<noteq> '''') \<and> as_data (cl_async s) = None
      then [Text (the (as_error (cl_async s))), Button ''Retry Request'' False ClRefresh]
      else [Text ''Closed Incidents'', Button ''Refresh Archive'' False ClRefresh]
        @ map (\<lambda>(c, n). Group c [Text (nat_str n), Text c]) (sort_desc (\<lambda>x. int (snd x)) (rootCauseCounts s))
        @ map (closed_row fmt) (or_else (as_data (cl_async s)) [])
        @ (case cl_gapModal s of
             None \<Rightarrow> []
           | Some i \<Rightarrow> if i = '''' then [] else
               [Text ''Report Detection Gap'', Button ''Cancel'' False (ClGap None), Button ''Submit to Backlog'' False (ClReport i)])
        @ (case cl_scheduleModal s of
             None \<Rightarrow> []
           | Some i \<Rightarrow> if i = '''' then [] else
               [Text ''Schedule Post-Mortem'', Button ''Cancel'' False (ClSchedule None), Button ''Send Invites'' False (ClReview i)]))"

section \<open>War room\<close>

record war_message =
  wm_id :: string
  wm_sender :: string
  wm_text :: string
  wm_timestamp :: string
  wm_isDecision :: bool

record war_state =
  wr_messages :: "war_message list"
  wr_draft :: string
  wr_decision :: bool
  wr_bridge :: string
  wr_editing :: bool
  wr_broadcast :: bool
  wr_postMortem :: bool
  wr_connected :: bool

definition WarRoomPage :: "string \<Rightarrow> string \<Rightarrow> war_state" where
  "WarRoomPage t1 t2 = \<lparr>wr_messages =
       [\<lparr>wm_id = ''1'', wm_sender = ''System'', wm_text = ''War Room initialized. Incident Commander not yet assigned.'',
         wm_timestamp = t1, wm_isDecision = False\<rparr>,
        \<lparr>wm_id = ''2'', wm_sender = ''Alice (IC)'',
         wm_text = ''I am taking Incident Commander. Let'' @ [CHR 0x27] @ ''s isolate the host.'',
         wm_timestamp = t2, wm_isDecision = True\<rparr>],
     wr_draft = '''', wr_decision = False, wr_bridge = ''https://zoom.us/j/123456789 (Draft)'', wr_editing = False,
     wr_broadcast = False, wr_postMortem = False, wr_connected = False\<rparr>"

definition war_onMessage :: "war_message \<Rightarrow> war_state \<Rightarrow> war_state" where
  "war_onMessage m s = s\<lparr>wr_messages := wr_messages s @ [m]\<rparr>"

definition sendMessage :: "string \<Rightarrow> string \<Rightarrow> war_state \<Rightarrow> war_state \<times> effect list" where
  "sendMessage now stamp s =
     (if js_trim (wr_draft s) = '''' then (s, [])
      else (s\<lparr>wr_messages := wr_messages s @ [\<lparr>wm_id = now, wm_sender = ''You'', wm_text = wr_draft s, wm_timestamp = stamp,
               wm_isDecision = wr_decision s\<rparr>], wr_draft := '''', wr_decision := False\<rparr>, []))"

definition war_decisions :: "war_state \<Rightarrow> war_message list" where
  "war_decisions s = filter wm_isDecision (wr_messages s)"

datatype war_event =
    WrBack | WrBroadcast bool | WrPostMortem bool | WrBridge string | WrEdit bool | WrDecision bool | WrDraft string
  | WrSend string string | WrExit

fun war_step :: "war_event \<Rightarrow> war_state \<Rightarrow> war_state \<times> effect list" where
  "war_step WrBack s = (s, [NavigateBack])"
| "war_step (WrBroadcast b) s = (s\<lparr>wr_broadcast := b\<rparr>, [])"
| "war_step (WrPostMortem b) s = (s\<lparr>wr_postMortem := b\<rparr>, [])"
| "war_step (WrBridge t) s = (s\<lparr>wr_bridge := t\<rparr>, [])"
| "war_step (WrEdit b) s = (s\<lparr>wr_editing := b\<rparr>, [])"
| "war_step (WrDecision b) s = (s\<lparr>wr_decision := b\<rparr>, [])"
| "war_step (WrDraft t) s = (s\<lparr>wr_draft := t\<rparr>, [])"
| "war_step (WrSend now stamp) s = sendMessage now stamp s"
| "war_step WrExit s = (s\<lparr>wr_postMortem := False\<rparr>, [Navigate ''/incidents/closed''])"

text \<open>\<open>fmt\<close> prints a time; \<open>now\<close> and \<open>stamp\<close> are the clock at the click.\<close>

definition WarRoomPage_view ::
  "(string \<Rightarrow> string) \<Rightarrow> string \<Rightarrow> string \<Rightarrow> string \<Rightarrow> war_state \<Rightarrow> war_event view list" where
  "WarRoomPage_view fmt i now stamp s =
     [Button ''Back'' False WrBack, Text (''Crisis War Room: '' @ i), Text (if wr_connected s then ''LIVE'' else ''DISCONNECTED''),
      Button ''Broadcast Status'' False (WrBroadcast True), Button ''Resolve & Draft Post-Mortem'' False (WrPostMortem True)]
     @ (if wr_editing s then [Input (wr_bridge s) False WrBridge, Button ''Save'' False (WrEdit False)]
        else [Text (if wr_bridge s = '''' then ''No link set'' else wr_bridge s), Button ''Edit'' False (WrEdit True)])
     @ [Text ''Alice'', Text ''Bob'', Text ''Unassigned'']
     @ map (\<lambda>m. Group (wm_id m) [Text (wm_sender m), Text (wm_text m)]) (war_decisions s)
     @ render_if (war_decisions s = []) (Text ''No decisions logged yet.'')
     @ render_if (wr_messages s = []) (Text ''Welcome to the War Room. Communications are encrypted.'')
     @ map (\<lambda>m. Group (wm_id m) ([Text (wm_sender m @ '' '' @ fmt (wm_timestamp m))]
          @ render_if (wm_isDecision m) (Text ''Decision Made'') @ [Text (wm_text m)])) (wr_messages s)
     @ [Checkbox (wr_decision s) (WrDecision (\<not> wr_decision s)), Input (wr_draft s) False WrDraft,
        Button ''Send'' (js_trim (wr_draft s) = '''' \<or> \<not> wr_connected s) (WrSend now stamp)]
     @ (if wr_broadcast s
        then [Text ''Broadcast Status Update'', Button ''Cancel'' False (WrBroadcast False),
              Button ''Broadcast Now'' False (WrBroadcast False)] else [])
     @ (if wr_postMortem s
        then [Text ''Incident Resolved'', Text (''Draft Post-Mortem: '' @ i)]
          @ map (\<lambda>m. Text (wm_text m @ '' ('' @ wm_sender m @ '')'')) (war_decisions s)
          @ render_if (war_decisions s = []) (Text ''No explicit decisions logged.'')
          @ [Button ''Close'' False (WrPostMortem False), Button ''Save & Exit to Closed Incidents'' False WrExit]
        else [])"

section \<open>Links of the incident pages\<close>

lemma incident_path_segments:
  assumes "CHR ''/'' \<notin> set i"
  shows "js_split (CHR ''/'') (''/incidents/'' @ i) = ['''', ''incidents'', i]"
    and "js_split (CHR ''/'') (''/incidents/'' @ i @ ''/war-room'') = ['''', ''incidents'', i, ''war-room'']"
proof -
  have single: "js_split (CHR ''/'') i = [i]" using assms by (induction i) auto
  then show "js_split (CHR ''/'') (''/incidents/'' @ i) = ['''', ''incidents'', i]" by simp
  have "js_split (CHR ''/'') (i @ CHR ''/'' # ''war-room'') = [i, ''war-room'']"
    using js_split_append [OF assms, of "''war-room''"] by simp
  then show "js_split (CHR ''/'') (''/incidents/'' @ i @ ''/war-room'') = ['''', ''incidents'', i, ''war-room'']" by simp
qed

lemma incident_links_unmatched:
  assumes "CHR ''/'' \<notin> set i" and "p \<in> set (map rt_path App)" and "p \<noteq> ''*''"
  shows "i \<notin> {''active'', ''closed'', ''war-room''} \<Longrightarrow> \<not> pattern_matches p (''/incidents/'' @ i)"
    and "i \<noteq> ''war-room'' \<Longrightarrow> \<not> pattern_matches p (''/incidents/'' @ i @ ''/war-room'')"
proof -
  note cases = App_pattern_cases [OF assms(2,3), unfolded App_segments]
  show "i \<notin> {''active'', ''closed'', ''war-room''} \<Longrightarrow> \<not> pattern_matches p (''/incidents/'' @ i)"
    using cases [of "''/incidents/'' @ i"] unfolding incident_path_segments(1) [OF assms(1)]
    by (auto simp: dynamic_segment_def)
  show "i \<noteq> ''war-room'' \<Longrightarrow> \<not> pattern_matches p (''/incidents/'' @ i @ ''/war-room'')"
    using cases [of "''/incidents/'' @ i @ ''/war-room''"] unfolding incident_path_segments(2) [OF assms(1)]
    by (auto simp: dynamic_segment_def)
qed

lemma active_links:
  "AvGo u \<in> set (concat (map clicks (ActiveIncidentsPage_view fmt s)))
     \<Longrightarrow> \<exists>i \<in> set (or_else (as_data (av_async s)) []). u = ''/incidents/'' @ in_id i \<or> u = ''/incidents/'' @ in_id i @ ''/war-room''"
  by (auto simp: ActiveIncidentsPage_view_def active_row_def active_reassign_def active_filteredData_def or_else_def Let_def
      split: if_splits option.splits)

lemma closed_links:
  "ClGo u \<in> set (concat (map clicks (ClosedIncidentsPage_view fmt s)))
     \<Longrightarrow> \<exists>i \<in> set (or_else (as_data (cl_async s)) []). u = ''/incidents/'' @ ci_id i"
  by (auto simp: ClosedIncidentsPage_view_def closed_row_def or_else_def Let_def
      split: if_splits option.splits post_mortem.splits)

section \<open>Properties\<close>

text \<open>Every link of the active and closed incident tables leads to the not-found page, for every identifier that
  has no slash and is not itself the name of an incident page: the route table has no route for one incident, and
  its war-room route has the segments in the other order.\<close>

theorem incident_links_not_found:
  assumes "documented_router pick"
    and "AvGo u \<in> set (concat (map clicks (ActiveIncidentsPage_view fmt s)))
       \<or> ClGo u \<in> set (concat (map clicks (ClosedIncidentsPage_view fmt c)))"
    and "\<And>i. i \<in> in_id ` set (or_else (as_data (av_async s)) []) \<union> ci_id ` set (or_else (as_data (cl_async c)) [])
       \<Longrightarrow> CHR ''/'' \<notin> set i \<and> i \<notin> {''active'', ''closed'', ''war-room''}"
  shows "app_route pick u = Some (rt ProtectedLayout ''*'' (Page ''NotFoundPage''))"
proof -
  obtain i where i: "CHR ''/'' \<notin> set i" "i \<notin> {''active'', ''closed'', ''war-room''}"
    and u: "u = ''/incidents/'' @ i \<or> u = ''/incidents/'' @ i @ ''/war-room''"
    using assms(2,3) active_links [of u fmt s] closed_links [of u fmt c] by blast
  have "\<not> pattern_matches p u" if "p \<in> set (map rt_path App)" and "p \<noteq> ''*''" for p
    using u incident_links_unmatched [OF i(1) that] i(2) by blast
  then show ?thesis by (rule picked_fallback [OF assms(1)])
qed

definition example_incident :: active_incident where
  "example_incident = \<lparr>in_id = ''INC-7'', in_title = ''Beacon'', in_severity = ''high'', in_status = ''open'', in_createdAt = '''',
     in_assignedTo = '''', in_linkedAlerts = 1, ac_assignee = None, ac_slaStatus = SlaOk\<rparr>"

theorem incident_links_not_found_witness:
  "app_route pick_route ''/incidents/INC-7/war-room'' = Some (rt ProtectedLayout ''*'' (Page ''NotFoundPage''))"
proof -
  let ?s = "ActiveIncidentsPage\<lparr>av_async := \<lparr>as_data = Some [example_incident], as_loading = False, as_error = None\<rparr>\<rparr>"
  have in_row: "AvGo ''/incidents/INC-7/war-room'' \<in> set (clicks (active_row (\<lambda>t. t) ?s example_incident))"
    by (simp add: active_row_def example_incident_def)
  have "active_row (\<lambda>t. t) ?s example_incident \<in> set (ActiveIncidentsPage_view (\<lambda>t. t) ?s)"
    by (simp add: ActiveIncidentsPage_view_def ActiveIncidentsPage_def active_filteredData_def or_else_def
        incident_matches_def js_lower_def Let_def)
  with in_row have off: "AvGo ''/incidents/INC-7/war-room'' \<in> set (concat (map clicks (ActiveIncidentsPage_view (\<lambda>t. t) ?s)))"
    by auto
  show ?thesis
    by (rule incident_links_not_found [OF pick_route_documented disjI1 [OF off], of ClosedIncidentsPage])
      (auto simp: or_else_def example_incident_def ClosedIncidentsPage_def useAsyncState_def)
qed

text \<open>Select-all marks every loaded incident, also those the search hides, and the reassignment that follows
  changes them all.\<close>

theorem reassign_reaches_hidden:
  assumes "as_data (av_async s) = Some is" and "length (av_selected s) \<noteq> length is"
  shows "as_data (av_async (handleBulkReassign (active_toggleSelectAll s)))
    = Some (map (\<lambda>i. i\<lparr>ac_assignee := Some (av_target s)\<rparr>) is)"
  using assms
  by (auto simp: handleBulkReassign_def active_toggleSelectAll_def or_else_def setData_def map_where_def set_has_def)

theorem reassign_reaches_hidden_witness:
  "\<exists>s. active_filteredData s = Some []
     \<and> as_data (av_async (handleBulkReassign (active_toggleSelectAll s))) = Some [example_incident\<lparr>ac_assignee := Some ''bob''\<rparr>]"
proof -
  let ?s = "ActiveIncidentsPage\<lparr>av_async := setData [example_incident] useAsyncState, av_query := ''zzz'', av_target := ''bob''\<rparr>"
  have "active_filteredData ?s = Some []"
    by (simp add: active_filteredData_def incident_matches_def setData_def example_incident_def js_lower_def js_lower_char_def
        char_of_def)
  moreover have "as_data (av_async (handleBulkReassign (active_toggleSelectAll ?s)))
      = Some [example_incident\<lparr>ac_assignee := Some ''bob''\<rparr>]"
    using reassign_reaches_hidden [of ?s "[example_incident]"] by (simp add: setData_def ActiveIncidentsPage_def)
  ultimately show ?thesis by blast
qed

text \<open>The strip of root causes counts every classified incident exactly once, under its own cause.\<close>

lemma count_cause_sum: "sum_list (map snd (count_cause c acc)) = Suc (sum_list (map snd acc))"
  by (induction c acc rule: count_cause.induct) auto

lemma map_of_count_cause:
  "map_of (count_cause c acc) d = (if c = d then Some (Suc (or_else (map_of acc c) 0)) else map_of acc d)"
  by (induction c acc rule: count_cause.induct) (auto simp: or_else_def)

theorem root_causes_counted:
  fixes s :: closed_state
  defines "is \<equiv> or_else (as_data (cl_async s)) []"
  shows "or_else (map_of (rootCauseCounts s) c) 0 = (if c = '''' then 0 else length (filter (\<lambda>i. pi_rootCause i = c) is))"
    and "sum_list (map snd (rootCauseCounts s)) = length (filter (\<lambda>i. pi_rootCause i \<noteq> '''') is)"
proof -
  let ?f = "\<lambda>acc i. if pi_rootCause i \<noteq> '''' then count_cause (pi_rootCause i) acc else acc"
  have a: "or_else (map_of (foldl ?f acc xs) c) 0
      = or_else (map_of acc c) 0 + (if c = '''' then 0 else length (filter (\<lambda>i. pi_rootCause i = c) xs))"
    for acc and xs :: "past_incident list"
    by (induction xs arbitrary: acc) (auto simp: map_of_count_cause or_else_def)
  have b: "sum_list (map snd (foldl ?f acc xs))
      = sum_list (map snd acc) + length (filter (\<lambda>i. pi_rootCause i \<noteq> '''') xs)"
    for acc and xs :: "past_incident list"
    by (induction xs arbitrary: acc) (auto simp: count_cause_sum)
  show "or_else (map_of (rootCauseCounts s) c) 0 = (if c = '''' then 0 else length (filter (\<lambda>i. pi_rootCause i = c) is))"
    using a [of "[]" "is"] by (simp add: rootCauseCounts_def is_def or_else_def)
  show "sum_list (map snd (rootCauseCounts s)) = length (filter (\<lambda>i. pi_rootCause i \<noteq> '''') is)"
    using b [of "[]" "is"] by (simp add: rootCauseCounts_def is_def)
qed

text \<open>A message of the war room never leaves the page, and a reload of the room starts from the two fixed lines.\<close>

theorem war_room_sends_nothing: "snd (sendMessage now stamp s) = []"
  by (simp add: sendMessage_def)

end
