(* ===== verification/Assets.thy ===== *)
theory Assets
  imports SOC_Types Shared_Hooks
begin

text \<open>
  The asset inventory (\<^verbatim>\<open>pages/assets/AssetInventoryPage.tsx\<close>): ownership, classification, bulk assignment, rescoring
  and history; and the vulnerability list (\<^verbatim>\<open>pages/assets/VulnerabilitiesPage.tsx\<close>): risk scores, order, counters and
  risk acceptance. The clock, random draws and the date format are arguments; products are rounded by \<open>fl\<close>.
\<close>

section \<open>Inventory: state\<close>

datatype lifecycle = LcActive | LcScheduled | LcDecommissioned

text \<open>What the server sends of an asset, as far as the page reads it.\<close>

record raw_asset =
  ra_id :: string
  ra_hostname :: string
  ra_ipAddress :: string
  ra_owner :: "string option"
  ra_criticality :: "string option"

record inventory_asset =
  ia_id :: string
  ia_hostname :: string
  ia_ipAddress :: string
  ia_owner :: string
  ia_criticality :: string
  ia_isUnmanaged :: bool
  ia_lifecycle :: lifecycle
  ia_history :: "(string \<times> string) list"

definition lifecycle_of :: "nat \<Rightarrow> lifecycle" where
  "lifecycle_of i = (if i mod 10 = 0 then LcDecommissioned else if i mod 7 = 0 then LcScheduled else LcActive)"

text \<open>\<open>ago\<close> prints the date some days before now.\<close>

definition inventory_load :: "(nat \<Rightarrow> string) \<Rightarrow> raw_asset list \<Rightarrow> inventory_asset list" where
  "inventory_load ago rs = map (\<lambda>(i, a).
     \<lparr>ia_id = ra_id a, ia_hostname = ra_hostname a, ia_ipAddress = ra_ipAddress a,
      ia_owner = (if i mod 4 = 0 then '''' else str_or (ra_owner a) ''Alice''),
      ia_criticality = (if i mod 4 = 0 then '''' else str_or (ra_criticality a) ''Tier 3''),
      ia_isUnmanaged = (i mod 4 = 0), ia_lifecycle = lifecycle_of i,
      ia_history = [(ago 10, ''Asset discovered via EDR telemetry''), (ago 2, ''Criticality bumped to Tier 2 by SecOps'')]\<rparr>)
     (enumerate 0 rs)"

record inventory_state =
  iv_async :: "inventory_asset list async_state"
  iv_selected :: "string js_set"
  iv_assignOwner :: bool
  iv_ownerInput :: string
  iv_rescore :: "inventory_asset option"
  iv_newCriticality :: string
  iv_justification :: string
  iv_historyAsset :: "inventory_asset option"
  iv_unmanagedOnly :: bool

definition AssetInventoryPage :: inventory_state where
  "AssetInventoryPage = \<lparr>iv_async = useAsyncState, iv_selected = [], iv_assignOwner = False, iv_ownerInput = '''',
     iv_rescore = None, iv_newCriticality = ''Tier 2'', iv_justification = '''', iv_historyAsset = None, iv_unmanagedOnly = False\<rparr>"

abbreviation iv_data :: "inventory_state \<Rightarrow> inventory_asset list" where
  "iv_data s \<equiv> or_else (as_data (iv_async s)) []"

section \<open>Inventory: handlers\<close>

definition inventory_execute :: "inventory_state \<Rightarrow> inventory_state \<times> effect list" where
  "inventory_execute s = (s\<lparr>iv_async := execute_start (iv_async s)\<rparr>, [Request GET ''/assets/inventory'' JNull])"

definition inventory_answer :: "(nat \<Rightarrow> string) \<Rightarrow> raw_asset list response \<Rightarrow> inventory_state \<Rightarrow> inventory_state" where
  "inventory_answer ago r s = s\<lparr>iv_async := execute_settle (case r of
     Resolved rs \<Rightarrow> Resolved (inventory_load ago rs) | Rejected e \<Rightarrow> Rejected e) (iv_async s)\<rparr>"

definition assign_owner :: "string \<Rightarrow> inventory_asset \<Rightarrow> inventory_asset" where
  "assign_owner owner a = a\<lparr>ia_owner := owner, ia_isUnmanaged := False,
     ia_criticality := (if ia_criticality a = '''' then ''Tier 3'' else ia_criticality a)\<rparr>"

definition handleBulkAssign :: "inventory_state \<Rightarrow> inventory_state" where
  "handleBulkAssign s =
     (if js_trim (iv_ownerInput s) = '''' then s
      else s\<lparr>iv_async := setData (map_where (\<lambda>a. set_has (ia_id a) (iv_selected s)) (assign_owner (iv_ownerInput s)) (iv_data s))
               (iv_async s),
             iv_selected := [], iv_assignOwner := False, iv_ownerInput := ''''\<rparr>)"

definition handleRemindOwners :: "effect list" where
  "handleRemindOwners = [Alert ''Automated reminders sent via Slack to 3 owners for missing asset context.'']"

definition handleSubmitRescore :: "inventory_state \<Rightarrow> inventory_state \<times> effect list" where
  "handleSubmitRescore s = (case iv_rescore s of
       None \<Rightarrow> (s, [])
     | Some a \<Rightarrow>
         if js_trim (iv_justification s) = '''' then (s, [])
         else (s\<lparr>iv_rescore := None, iv_justification := ''''\<rparr>,
               [Alert (''Approval request submitted to update '' @ ia_hostname a @ '' to '' @ iv_newCriticality s @ ''.'')]))"

definition inventory_filteredData :: "inventory_state \<Rightarrow> inventory_asset list" where
  "inventory_filteredData s = filter (\<lambda>a. \<not> iv_unmanagedOnly s \<or> (iv_unmanagedOnly s \<and> ia_isUnmanaged a)) (iv_data s)"

definition unmanagedCount :: "inventory_state \<Rightarrow> nat" where
  "unmanagedCount s = length (filter ia_isUnmanaged (iv_data s))"

definition inventory_toggleSelect :: "string \<Rightarrow> inventory_state \<Rightarrow> inventory_state" where
  "inventory_toggleSelect i s = s\<lparr>iv_selected := set_toggle i (iv_selected s)\<rparr>"

definition inventory_toggleSelectAll :: "inventory_state \<Rightarrow> inventory_state" where
  "inventory_toggleSelectAll s =
     (if length (iv_selected s) = length (inventory_filteredData s) then s\<lparr>iv_selected := []\<rparr>
      else s\<lparr>iv_selected := set_from (map ia_id (inventory_filteredData s))\<rparr>)"

datatype inventory_event =
    IvLoad | IvLoaded "raw_asset list response" | IvRemind | IvFilter | IvSelect string | IvSelectAll | IvAssignOpen bool
  | IvOwner string | IvAssign | IvRescore "inventory_asset option" | IvCriticality string | IvJustification string
  | IvSubmit | IvHistory "inventory_asset option"

fun inventory_step :: "(nat \<Rightarrow> string) \<Rightarrow> inventory_event \<Rightarrow> inventory_state \<Rightarrow> inventory_state \<times> effect list" where
  "inventory_step ago IvLoad s = inventory_execute s"
| "inventory_step ago (IvLoaded r) s = (inventory_answer ago r s, [])"
| "inventory_step ago IvRemind s = (s, handleRemindOwners)"
| "inventory_step ago IvFilter s = (s\<lparr>iv_unmanagedOnly := \<not> iv_unmanagedOnly s\<rparr>, [])"
| "inventory_step ago (IvSelect i) s = (inventory_toggleSelect i s, [])"
| "inventory_step ago IvSelectAll s = (inventory_toggleSelectAll s, [])"
| "inventory_step ago (IvAssignOpen b) s = (s\<lparr>iv_assignOwner := b\<rparr>, [])"
| "inventory_step ago (IvOwner t) s = (s\<lparr>iv_ownerInput := t\<rparr>, [])"
| "inventory_step ago IvAssign s = (handleBulkAssign s, [])"
| "inventory_step ago (IvRescore a) s = (s\<lparr>iv_rescore := a\<rparr>, [])"
| "inventory_step ago (IvCriticality t) s = (s\<lparr>iv_newCriticality := t\<rparr>, [])"
| "inventory_step ago (IvJustification t) s = (s\<lparr>iv_justification := t\<rparr>, [])"
| "inventory_step ago IvSubmit s = handleSubmitRescore s"
| "inventory_step ago (IvHistory a) s = (s\<lparr>iv_historyAsset := a\<rparr>, [])"

section \<open>Inventory: the page\<close>

definition inventory_row :: "inventory_state \<Rightarrow> inventory_asset \<Rightarrow> inventory_event view" where
  "inventory_row s a = Group (ia_id a)
     ([Checkbox (set_has (ia_id a) (iv_selected s)) (IvSelect (ia_id a)), Text (ia_hostname a), Text (ia_ipAddress a)]
      @ (if ia_isUnmanaged a then [Text ''UNCLASSIFIED'']
         else [Text (ia_criticality a), Button ''Rescore'' False (IvRescore (Some a))])
      @ (if ia_owner a \<noteq> '''' then [Text (js_upper (take 1 (ia_owner a))), Text (ia_owner a)] else [Text ''No Owner Assigned''])
      @ [Text (case ia_lifecycle a of LcActive \<Rightarrow> ''Active'' | LcScheduled \<Rightarrow> ''Retiring Soon'' | LcDecommissioned \<Rightarrow> ''Decommissioned''),
         Button ''View History'' False (IvHistory (Some a))])"

definition inventory_dialogs :: "(string \<Rightarrow> string) \<Rightarrow> inventory_state \<Rightarrow> inventory_event view list" where
  "inventory_dialogs fmt s =
     (if iv_assignOwner s
      then [Text ''Bulk Assign Ownership'',
            Text (''Assigning '' @ nat_str (length (iv_selected s)) @ '' asset(s) to a business owner. They will be responsible for security compliance.''),
            Input (iv_ownerInput s) False IvOwner, Button ''Cancel'' False (IvAssignOpen False),
            Button ''Assign Owner'' (js_trim (iv_ownerInput s) = '''') IvAssign]
      else [])
     @ (case iv_rescore s of
          None \<Rightarrow> []
        | Some a \<Rightarrow> [Text ''Request Criticality Change'', Text (ia_hostname a),
            Select (iv_newCriticality s)
              [''Tier 1 (Mission Critical)'', ''Tier 2 (Business Important)'', ''Tier 3 (Internal Standard)''] IvCriticality,
            Input (iv_justification s) False IvJustification, Button ''Cancel'' False (IvRescore None),
            Button ''Submit Request'' (js_trim (iv_justification s) = '''') IvSubmit])
     @ (case iv_historyAsset s of
          None \<Rightarrow> []
        | Some a \<Rightarrow> [Text ''Asset Lifecycle History'', Text (''Contextual events for '' @ ia_hostname a)]
            @ map (\<lambda>(d, e). Group e [Text e, Text (fmt d)]) (ia_history a) @ [Button ''Close'' False (IvHistory None)])"

definition AssetInventoryPage_view :: "(string \<Rightarrow> string) \<Rightarrow> inventory_state \<Rightarrow> inventory_event view list" where
  "AssetInventoryPage_view fmt s =
     (if as_loading (iv_async s) then [Text ''loading'']
      else if (case as_error (iv_async s) of None \<Rightarrow> False | Some m \<Rightarrow> m \<noteq> '''') \<and> as_data (iv_async s) = None
      then [Text (the (as_error (iv_async s))), Button ''Retry Request'' False IvLoad]
      else [Text ''Asset Intelligence'', Button ''Send Context Reminders'' False IvRemind, Text ''+ Manually Register Asset'']
        @ (if 0 < unmanagedCount s
           then [Text (''Visibility Gap: '' @ nat_str (unmanagedCount s) @ '' Rogue/Unclassified Assets Detected''),
                 Button (if iv_unmanagedOnly s then ''Clear Filter'' else ''Review Rogue Assets'') False IvFilter] else [])
        @ (if 0 < length (iv_selected s)
           then [Text (nat_str (length (iv_selected s)) @ '' assets selected''), Button ''Bulk Assign Owner'' False (IvAssignOpen True)]
           else [])
        @ [Checkbox (0 < length (inventory_filteredData s) \<and> length (iv_selected s) = length (inventory_filteredData s)) IvSelectAll]
        @ map (inventory_row s) (inventory_filteredData s) @ inventory_dialogs fmt s)"

section \<open>Vulnerabilities\<close>

datatype exploitation = ExploitNone | CisaKev | InternalAlert
datatype ticket_status = TkOpen | TkInProgress | TkResolved
datatype vuln_status = VsOpen | CompensatingControl

record risk_vuln = vulnerability +
  rv_epssScore :: rat
  rv_exploitation :: exploitation
  rv_slaDueDate :: string
  rv_isOverdue :: bool
  rv_ticketStatus :: ticket_status
  rv_ticketId :: string
  rv_status :: vuln_status
  rv_combinedRiskScore :: int

text \<open>\<open>epss i\<close> is \<^verbatim>\<open>Math.random() * 0.8 + 0.1\<close> for row \<open>i\<close>, \<open>due\<close> the date that many days from now.\<close>

definition combinedRisk :: "(rat \<Rightarrow> rat) \<Rightarrow> rat \<Rightarrow> rat \<Rightarrow> int" where
  "combinedRisk fl cvss epss = js_round (fl (fl (cvss * epss) * 10))"

definition enrich_vuln ::
  "(rat \<Rightarrow> rat) \<Rightarrow> (nat \<Rightarrow> rat) \<Rightarrow> (int \<Rightarrow> string) \<Rightarrow> nat \<Rightarrow> vulnerability \<Rightarrow> risk_vuln" where
  "enrich_vuln fl epss due i v = vulnerability.extend v (risk_vuln.fields (epss i)
     (if i mod 8 = 0 then InternalAlert else if i mod 5 = 0 then CisaKev else ExploitNone)
     (if i mod 6 = 0 then due (- 2) else due 7) (i mod 6 = 0)
     (if i mod 3 = 0 then TkInProgress else if i mod 4 = 0 then TkResolved else TkOpen)
     (''TICK-'' @ nat_str (1000 + i)) (if i mod 10 = 0 then CompensatingControl else VsOpen)
     (combinedRisk fl (vu_cvssScore v) (epss i)))"

definition vuln_load ::
  "(rat \<Rightarrow> rat) \<Rightarrow> (nat \<Rightarrow> rat) \<Rightarrow> (int \<Rightarrow> string) \<Rightarrow> vulnerability list \<Rightarrow> risk_vuln list" where
  "vuln_load fl epss due vs =
     sort_desc rv_combinedRiskScore (map (\<lambda>(i, v). enrich_vuln fl epss due i v) (enumerate 0 vs))"

record vuln_state =
  vn_async :: "risk_vuln list async_state"
  vn_control :: "risk_vuln option"
  vn_justification :: string

definition VulnerabilitiesPage :: vuln_state where
  "VulnerabilitiesPage = \<lparr>vn_async = useAsyncState, vn_control = None, vn_justification = ''''\<rparr>"

abbreviation vn_data :: "vuln_state \<Rightarrow> risk_vuln list" where
  "vn_data s \<equiv> or_else (as_data (vn_async s)) []"

definition handleAcceptRisk :: "vuln_state \<Rightarrow> vuln_state" where
  "handleAcceptRisk s = (case vn_control s of
       None \<Rightarrow> s
     | Some c \<Rightarrow>
         if vn_justification s = '''' then s
         else s\<lparr>vn_async := setData (map_where (\<lambda>v. vu_id v = vu_id c) (\<lambda>v. v\<lparr>rv_status := CompensatingControl\<rparr>) (vn_data s))
                  (vn_async s), vn_control := None, vn_justification := ''''\<rparr>)"

definition overdueCount :: "vuln_state \<Rightarrow> nat" where
  "overdueCount s = length (filter (\<lambda>v. rv_isOverdue v \<and> rv_status v = VsOpen) (vn_data s))"

definition activeExploitCount :: "vuln_state \<Rightarrow> nat" where
  "activeExploitCount s = length (filter (\<lambda>v. rv_exploitation v = InternalAlert) (vn_data s))"

datatype vuln_event =
    VnLoad | VnLoaded "vulnerability list response" | VnControl "risk_vuln option" | VnJustification string | VnApply

fun vuln_step ::
  "(rat \<Rightarrow> rat) \<Rightarrow> (nat \<Rightarrow> rat) \<Rightarrow> (int \<Rightarrow> string) \<Rightarrow> vuln_event \<Rightarrow> vuln_state \<Rightarrow> vuln_state \<times> effect list" where
  "vuln_step fl epss due VnLoad s =
     (s\<lparr>vn_async := execute_start (vn_async s)\<rparr>, [Request GET ''/assets/vulnerabilities'' JNull])"
| "vuln_step fl epss due (VnLoaded r) s = (s\<lparr>vn_async := execute_settle (case r of
     Resolved vs \<Rightarrow> Resolved (vuln_load fl epss due vs) | Rejected e \<Rightarrow> Rejected e) (vn_async s)\<rparr>, [])"
| "vuln_step fl epss due (VnControl c) s = (s\<lparr>vn_control := c\<rparr>, [])"
| "vuln_step fl epss due (VnJustification t) s = (s\<lparr>vn_justification := t\<rparr>, [])"
| "vuln_step fl epss due VnApply s = (handleAcceptRisk s, [])"

definition ticket_text :: "ticket_status \<Rightarrow> string" where
  "ticket_text t = (case t of TkOpen \<Rightarrow> ''OPEN'' | TkInProgress \<Rightarrow> ''IN PROGRESS'' | TkResolved \<Rightarrow> ''RESOLVED'')"

text \<open>\<open>toFixed1\<close> and \<open>fmt\<close> print numbers and dates.\<close>

definition vuln_row ::
  "(rat \<Rightarrow> rat) \<Rightarrow> (rat \<Rightarrow> string) \<Rightarrow> (string \<Rightarrow> string) \<Rightarrow> risk_vuln \<Rightarrow> vuln_event view" where
  "vuln_row fl toFixed1 fmt v = Group (vu_id v)
     ([Text (vu_cveId v), Text (vu_description v), Text (''CVSS '' @ toFixed1 (vu_cvssScore v)),
       Text (''EPSS '' @ toFixed1 (fl (rv_epssScore v * 100)) @ ''%''),
       Text (''Risk Score '' @ int_str (rv_combinedRiskScore v)),
       Text (case rv_exploitation v of
               InternalAlert \<Rightarrow> ''Alert Fired'' | CisaKev \<Rightarrow> ''CISA KEV'' | ExploitNone \<Rightarrow> ''No known active exploit'')]
      @ (if rv_status v = CompensatingControl then [Text ''Risk Accepted'']
         else [Text (if rv_isOverdue v then ''OVERDUE'' else ''DUE SOON''), Text (fmt (rv_slaDueDate v))])
      @ [Text (rv_ticketId v), Text (ticket_text (rv_ticketStatus v))]
      @ render_if (rv_status v \<noteq> CompensatingControl) (Button ''Add Mitigating Control'' False (VnControl (Some v))))"

definition VulnerabilitiesPage_view ::
  "(rat \<Rightarrow> rat) \<Rightarrow> (rat \<Rightarrow> string) \<Rightarrow> (string \<Rightarrow> string) \<Rightarrow> vuln_state \<Rightarrow> vuln_event view list" where
  "VulnerabilitiesPage_view fl toFixed1 fmt s =
     (if as_loading (vn_async s) then [Text ''loading'']
      else if (case as_error (vn_async s) of None \<Rightarrow> False | Some m \<Rightarrow> m \<noteq> '''') \<and> as_data (vn_async s) = None
      then [Text (the (as_error (vn_async s))), Button ''Retry Request'' False VnLoad]
      else [Text ''Vulnerability Management'', Button ''Trigger Scanners'' False VnLoad,
            Text (''Active Exploitation '' @ nat_str (activeExploitCount s) @ '' assets''),
            Text (''SLA Overdue '' @ nat_str (overdueCount s) @ '' tickets'')]
        @ map (vuln_row fl toFixed1 fmt) (vn_data s)
        @ (case vn_control s of
             None \<Rightarrow> []
           | Some v \<Rightarrow> [Text ''Accept Risk via Compensating Control'', Text (vu_cveId v),
               Input (vn_justification s) False VnJustification, Button ''Cancel'' False (VnControl None),
               Button ''Apply Control'' (js_trim (vn_justification s) = '''') VnApply]))"

section \<open>Inventory: invariant\<close>

text \<open>A managed asset has an owner and a tier, and the selection has no duplicates.\<close>

definition asset_ok :: "inventory_asset \<Rightarrow> bool" where
  "asset_ok a = (ia_isUnmanaged a \<or> (ia_owner a \<noteq> '''' \<and> ia_criticality a \<noteq> ''''))"

definition inventory_ok :: "inventory_state \<Rightarrow> bool" where
  "inventory_ok s = (list_all asset_ok (iv_data s) \<and> distinct (iv_selected s))"

lemma str_or_nonempty: "d \<noteq> '''' \<Longrightarrow> str_or x d \<noteq> ''''"
  by (auto simp: str_or_def split: option.splits)

lemma asset_ok_load: "list_all asset_ok (inventory_load ago rs)"
  by (auto simp: list_all_iff inventory_load_def asset_ok_def str_or_nonempty)

lemma asset_ok_assign: "js_trim t \<noteq> '''' \<Longrightarrow> asset_ok (assign_owner t a)"
  by (cases t) (auto simp: asset_ok_def assign_owner_def)

lemma list_all_map_where:
  "list_all P xs \<Longrightarrow> (\<And>x. P x \<Longrightarrow> P (f x)) \<Longrightarrow> list_all P (map_where q f xs)"
  by (auto simp: list_all_iff map_where_def)

lemma inventory_ok_assign: "inventory_ok s \<Longrightarrow> inventory_ok (handleBulkAssign s)"
  by (simp add: inventory_ok_def handleBulkAssign_def setData_def or_else_def list_all_map_where asset_ok_assign)

lemma inventory_ok_answer: "inventory_ok s \<Longrightarrow> inventory_ok (inventory_answer ago r s)"
  by (cases r) (simp_all add: inventory_ok_def inventory_answer_def execute_settle_def or_else_def asset_ok_load)

lemma inventory_ok_step: "inventory_ok s \<Longrightarrow> inventory_ok (fst (inventory_step ago e s))"
proof (cases e)
  case (IvLoaded r)
  assume "inventory_ok s"
  then show ?thesis using inventory_ok_answer IvLoaded by simp
next
  case IvAssign
  assume "inventory_ok s"
  then show ?thesis using inventory_ok_assign IvAssign by simp
qed (auto simp: inventory_ok_def inventory_execute_def execute_start_def inventory_toggleSelect_def
      inventory_toggleSelectAll_def handleSubmitRescore_def split: option.splits)

interpretation inventory_machine:
  machine_invariant AssetInventoryPage "\<lambda>s e. True" "\<lambda>e s. fst (inventory_step ago e s)" inventory_ok
  by unfold_locales
    (simp_all add: inventory_ok_step, simp add: inventory_ok_def AssetInventoryPage_def useAsyncState_def or_else_def)

section \<open>Vulnerabilities: scores\<close>

lemma combinedRisk_bounds:
  assumes "ieee fl" and "0 \<le> cvss" and "cvss \<le> 10" and "0 \<le> epss" and "epss \<le> 1"
  shows "0 \<le> combinedRisk fl cvss epss \<and> combinedRisk fl cvss epss \<le> 100"
proof -
  have "0 \<le> cvss * epss" "cvss * epss \<le> 10"
    using assms(2-5) mult_mono [of cvss 10 epss 1] by simp_all
  then have a: "0 \<le> fl (cvss * epss)" "fl (cvss * epss) \<le> 10"
    using ieee_between [OF assms(1), of 0 "cvss * epss" 10] by simp_all
  have "0 \<le> fl (fl (cvss * epss) * 10)" "fl (fl (cvss * epss) * 10) \<le> 100"
    using ieee_between [OF assms(1), of 0 "fl (cvss * epss) * 10" 100] a by simp_all
  then show ?thesis unfolding combinedRisk_def using js_round_between [of 0 _ 100] by simp
qed

lemma length_vuln_load [simp]: "length (vuln_load fl epss due vs) = length vs"
  by (simp add: vuln_load_def)

lemma vuln_load_mem:
  "v \<in> set (vuln_load fl epss due vs) \<Longrightarrow> \<exists>i w. w \<in> set vs \<and> v = enrich_vuln fl epss due i w"
  by (auto simp: vuln_load_def in_set_enumerate_eq) (metis nth_mem)

lemma enrich_vuln_simps [simp]:
  "rv_combinedRiskScore (enrich_vuln fl epss due i v) = combinedRisk fl (vu_cvssScore v) (epss i)"
  "vu_id (enrich_vuln fl epss due i v) = vu_id v"
  by (simp_all add: enrich_vuln_def vulnerability.defs risk_vuln.defs)

section \<open>Properties\<close>

text \<open>C28. Whatever the analyst and the server do on the inventory page, every asset that is not marked as unmanaged has
  an owner and a tier, and no asset is selected twice.\<close>

theorem inventory_always_owned:
  assumes "reachable AssetInventoryPage (\<lambda>s e. True) (\<lambda>e s. fst (inventory_step ago e s)) s"
  shows "(if a \<in> set (iv_data s) \<and> \<not> ia_isUnmanaged a then ia_owner a \<noteq> '''' \<and> ia_criticality a \<noteq> '''' else True)
    \<and> length (iv_selected s) = card (set (iv_selected s))"
proof -
  have "inventory_ok s" using inventory_machine.inv_reachable [OF assms] .
  then show ?thesis by (auto simp: inventory_ok_def list_all_iff asset_ok_def distinct_card)
qed

definition example_raw_asset :: raw_asset where
  "example_raw_asset = \<lparr>ra_id = ''a'', ra_hostname = ''db'', ra_ipAddress = ''10.0.0.1'', ra_owner = None, ra_criticality = None\<rparr>"

theorem inventory_always_owned_witness:
  "\<exists>a. ia_owner a = ''Alice'' \<and> ia_criticality a \<noteq> ''''
     \<and> a \<in> set (iv_data (fst (inventory_step (\<lambda>n. '''') (IvLoaded (Resolved [example_raw_asset, example_raw_asset])) AssetInventoryPage)))"
proof -
  let ?s = "fst (inventory_step (\<lambda>n. '''') (IvLoaded (Resolved [example_raw_asset, example_raw_asset])) AssetInventoryPage)"
  have r: "reachable AssetInventoryPage (\<lambda>s e. True) (\<lambda>e s. fst (inventory_step (\<lambda>n. '''') e s)) ?s"
    by (rule reach_step [OF reach_init]) simp
  define a where "a = iv_data ?s ! 1"
  have d: "iv_data ?s = inventory_load (\<lambda>n. '''') [example_raw_asset, example_raw_asset]"
    by (simp add: inventory_answer_def execute_settle_def or_else_def)
  have a: "a \<in> set (iv_data ?s)" "\<not> ia_isUnmanaged a" "ia_owner a = ''Alice''"
    unfolding a_def d by (simp_all add: inventory_load_def example_raw_asset_def str_or_def)
  have "ia_criticality a \<noteq> ''''" using inventory_always_owned [OF r, of a] a(1,2) by simp
  then show ?thesis using a by blast
qed

text \<open>The control that clears the filter is shown only while some asset is unmanaged. Once the last unmanaged asset
  has an owner, a page filtered to unmanaged assets lists nothing and offers no way back to the full list.\<close>

theorem unmanaged_filter_stuck:
  assumes "iv_unmanagedOnly s" and "\<not> as_loading (iv_async s)" and "js_trim (iv_ownerInput s) \<noteq> ''''"
    and "\<And>a. a \<in> set (iv_data s) \<Longrightarrow> ia_isUnmanaged a \<Longrightarrow> ia_id a \<in> set (iv_selected s)"
  shows "inventory_filteredData (handleBulkAssign s) = []
    \<and> IvFilter \<notin> set (concat (map clicks (AssetInventoryPage_view fmt (handleBulkAssign s))))"
proof -
  let ?t = "handleBulkAssign s"
  have t: "iv_data ?t = map_where (\<lambda>a. set_has (ia_id a) (iv_selected s)) (assign_owner (iv_ownerInput s)) (iv_data s)"
    "iv_unmanagedOnly ?t"
    using assms(1,3) by (simp_all add: handleBulkAssign_def setData_def or_else_def)
  have none: "\<not> ia_isUnmanaged a" if "a \<in> set (iv_data ?t)" for a
    using that assms(4) unfolding t(1) by (auto simp: map_where_def set_has_def assign_owner_def split: if_splits)
  then have e: "inventory_filteredData ?t = []" using t(2) by (auto simp: inventory_filteredData_def filter_empty_conv)
  have "unmanagedCount ?t = 0" using none by (auto simp: unmanagedCount_def filter_empty_conv)
  then show ?thesis using e
    by (auto simp: AssetInventoryPage_view_def inventory_dialogs_def split: if_splits option.splits)
qed

theorem unmanaged_filter_stuck_witness:
  "\<exists>s. iv_unmanagedOnly s \<and> length (iv_data s) = 1
     \<and> inventory_filteredData (handleBulkAssign s) = []
     \<and> IvFilter \<notin> set (concat (map clicks (AssetInventoryPage_view (\<lambda>t. t) (handleBulkAssign s))))"
proof -
  let ?d = "inventory_load (\<lambda>n. '''') [example_raw_asset]"
  let ?s = "AssetInventoryPage\<lparr>iv_async := \<lparr>as_data = Some ?d, as_loading = False, as_error = None\<rparr>,
     iv_unmanagedOnly := True, iv_selected := [''a''], iv_ownerInput := ''Bob''\<rparr>"
  have t: "js_trim ''Bob'' \<noteq> ''''" by (simp add: js_trim_def is_js_space_def)
  have "inventory_filteredData (handleBulkAssign ?s) = []
     \<and> IvFilter \<notin> set (concat (map clicks (AssetInventoryPage_view (\<lambda>t. t) (handleBulkAssign ?s))))"
    by (rule unmanaged_filter_stuck)
      (use t in \<open>auto simp: or_else_def inventory_load_def example_raw_asset_def\<close>)
  moreover have "iv_unmanagedOnly ?s" "length (iv_data ?s) = 1" by (simp_all add: or_else_def inventory_load_def)
  ultimately show ?thesis by blast
qed

text \<open>C33. The vulnerability list keeps every finding of the server, ranks them by their combined score, highest first, and
  a score is between 0 and 100 when CVSS is between 0 and 10 and EPSS between 0 and 1.\<close>

theorem vulnerabilities_ranked:
  assumes "ieee fl" and "\<And>v. v \<in> set vs \<Longrightarrow> 0 \<le> vu_cvssScore v \<and> vu_cvssScore v \<le> 10"
    and "\<And>i. 0 \<le> epss i \<and> epss i \<le> 1"
  shows "vu_id ` set (vuln_load fl epss due vs) = vu_id ` set vs \<and> length (vuln_load fl epss due vs) = length vs
    \<and> sorted (map (\<lambda>v. - rv_combinedRiskScore v) (vuln_load fl epss due vs))
    \<and> rv_combinedRiskScore ` set (vuln_load fl epss due vs) \<subseteq> {0..100}"
proof -
  have ids: "vu_id ` set (vuln_load fl epss due vs) = vu_id ` set vs"
  proof -
    have "map vu_id (map (\<lambda>(i, v). enrich_vuln fl epss due i v) (enumerate 0 vs)) = map vu_id vs"
      by (rule nth_equalityI) (simp_all add: nth_enumerate_eq)
    then have "set (map vu_id (map (\<lambda>(i, v). enrich_vuln fl epss due i v) (enumerate 0 vs))) = set (map vu_id vs)" by simp
    then show ?thesis by (simp add: vuln_load_def image_image)
  qed
  have "rv_combinedRiskScore v \<in> {0..100}" if "v \<in> set (vuln_load fl epss due vs)" for v
  proof -
    from vuln_load_mem [OF that] obtain i w where "w \<in> set vs" and "v = enrich_vuln fl epss due i w" by blast
    then show ?thesis using combinedRisk_bounds [OF assms(1), of "vu_cvssScore w" "epss i"] assms(2,3) by simp
  qed
  then have "rv_combinedRiskScore ` set (vuln_load fl epss due vs) \<subseteq> {0..100}" by blast
  moreover have "sorted (map (\<lambda>v. - rv_combinedRiskScore v) (vuln_load fl epss due vs))"
    by (simp add: vuln_load_def sorted_sort_desc)
  ultimately show ?thesis using ids by simp
qed

theorem vulnerabilities_ranked_witness:
  "\<exists>v. rv_combinedRiskScore ` set (vuln_load (\<lambda>x. x) (\<lambda>i. 1 / 2) (\<lambda>d. '''') [v]) \<subseteq> {0..100} \<and> vu_cvssScore v = 8"
proof -
  let ?v = "\<lparr>vu_id = ''1'', vu_cveId = ''CVE'', vu_affectedAsset = '''', vu_affectedAssetId = '''', vu_cvssScore = 8,
    vu_severity = High, vu_patchStatus = Unpatched, vu_discoveredAt = '''', vu_description = ''''\<rparr>"
  have "rv_combinedRiskScore ` set (vuln_load (\<lambda>x. x) (\<lambda>i. 1 / 2) (\<lambda>d. '''') [?v]) \<subseteq> {0..100}"
    using vulnerabilities_ranked [OF ieee_exact, of "[?v]" "\<lambda>i. 1 / 2"] by simp
  then show ?thesis by (intro exI [of _ ?v]) simp
qed

text \<open>Accepting a risk with a justification takes exactly the findings of that identifier out of the overdue counter and
  leaves every score; without one nothing changes.\<close>

theorem risk_acceptance:
  assumes "vn_control s = Some c"
  shows "overdueCount (handleAcceptRisk s) =
      (if vn_justification s = '''' then overdueCount s
       else length (filter (\<lambda>v. rv_isOverdue v \<and> rv_status v = VsOpen \<and> vu_id v \<noteq> vu_id c) (vn_data s)))"
    and "map rv_combinedRiskScore (vn_data (handleAcceptRisk s)) = map rv_combinedRiskScore (vn_data s)"
proof -
  let ?f = "\<lambda>v :: risk_vuln. v\<lparr>rv_status := CompensatingControl\<rparr>"
  have "filter (\<lambda>v. rv_isOverdue v \<and> rv_status v = VsOpen) (map_where (\<lambda>v. vu_id v = vu_id c) ?f xs)
      = filter (\<lambda>v. rv_isOverdue v \<and> rv_status v = VsOpen \<and> vu_id v \<noteq> vu_id c) xs" for xs
    by (induction xs) (auto simp: map_where_def)
  then show "overdueCount (handleAcceptRisk s) =
      (if vn_justification s = '''' then overdueCount s
       else length (filter (\<lambda>v. rv_isOverdue v \<and> rv_status v = VsOpen \<and> vu_id v \<noteq> vu_id c) (vn_data s)))"
    using assms by (simp add: overdueCount_def handleAcceptRisk_def setData_def or_else_def)
  show "map rv_combinedRiskScore (vn_data (handleAcceptRisk s)) = map rv_combinedRiskScore (vn_data s)"
    using assms by (simp add: handleAcceptRisk_def setData_def or_else_def)
qed

end
