(* ===== verification/Shared_UI.thy ===== *)
theory Shared_UI
  imports Shared_Hooks
begin

text \<open>
  The presentational components of \<^verbatim>\<open>shared/ui\<close> that decide what a page shows: the skeleton, the error box with its
  retry button, the empty state and the table; and the guard every loader page starts with.
\<close>

definition LoadingSkeleton :: "nat \<Rightarrow> 'm view" where
  "LoadingSkeleton lines = Group ''loading'' (replicate lines (Text ''''))"

definition ErrorState :: "string \<Rightarrow> 'm option \<Rightarrow> 'm view" where
  "ErrorState message onRetry = Group ''error'' (Text message # (case onRetry of
     None \<Rightarrow> [] | Some m \<Rightarrow> [Button ''Retry Request'' False m]))"

definition EmptyState :: "string \<Rightarrow> 'm view" where
  "EmptyState message = Text message"

text \<open>A column is its header and what it renders for a record.\<close>

definition DataTable ::
  "('r \<Rightarrow> string) \<Rightarrow> (string \<times> ('r \<Rightarrow> 'm view list)) list \<Rightarrow> bool \<Rightarrow> 'r list \<Rightarrow> 'm view list" where
  "DataTable keyExtractor columns isLoading data =
     (if isLoading then [LoadingSkeleton 5]
      else if data = [] then [Text ''No records found.'']
      else map (\<lambda>c. Text (fst c)) columns
        @ map (\<lambda>item. Group (keyExtractor item) (concat (map (\<lambda>c. snd c item) columns))) data)"

text \<open>The two guards before the markup of a page: \<^verbatim>\<open>if (loading) \<dots>\<close> and \<^verbatim>\<open>if (error && !data) \<dots>\<close>.\<close>

definition error_shown :: "'a async_state \<Rightarrow> bool" where
  "error_shown st = (str_or (as_error st) '''' \<noteq> '''' \<and> as_data st = None)"

definition loader_view :: "nat \<Rightarrow> 'a async_state \<Rightarrow> 'm \<Rightarrow> 'm view list \<Rightarrow> 'm view list" where
  "loader_view lines st retry page =
     (if as_loading st then [LoadingSkeleton lines]
      else if error_shown st then [ErrorState (or_else (as_error st) '''') (Some retry)]
      else page)"

lemma clicks_LoadingSkeleton [simp]: "clicks (LoadingSkeleton n) = []"
  by (simp add: LoadingSkeleton_def)

lemma clicks_ErrorState [simp]: "clicks (ErrorState t r) = (case r of None \<Rightarrow> [] | Some m \<Rightarrow> [m])"
  by (simp add: ErrorState_def split: option.splits)

lemma loader_view_clicks:
  "m \<in> set (concat (map clicks (loader_view n st retry page))) \<Longrightarrow>
     m = retry \<or> (\<not> as_loading st \<and> m \<in> set (concat (map clicks page)))"
  by (auto simp: loader_view_def split: if_splits)

lemma DataTable_clicks:
  "m \<in> set (concat (map clicks (DataTable k cols l rows))) \<longleftrightarrow>
     \<not> l \<and> (\<exists>r \<in> set rows. \<exists>c \<in> set cols. m \<in> set (concat (map clicks (snd c r))))"
  by (auto simp: DataTable_def comp_def bex_Un)

text \<open>Every page that loads through \<^verbatim>\<open>useAsyncState\<close> has a state of the loader inside its own. What the guards rely
  on: the two steps of the loader touch nothing else, so an answer always ends the skeleton.\<close>

locale loader_page =
  fixes async :: "'s \<Rightarrow> 'a async_state"
    and start :: "'s \<Rightarrow> 's"
    and settle :: "'r response \<Rightarrow> 's \<Rightarrow> 's"
    and decode :: "'r \<Rightarrow> 'a"
  assumes async_start: "async (start s) = execute_start (async s)"
    and async_settle: "async (settle r s) =
      execute_settle (case r of Resolved x \<Rightarrow> Resolved (decode x) | Rejected e \<Rightarrow> Rejected e) (async s)"
begin

lemma loading_while_running: "loader_view n (async (start s)) m page = [LoadingSkeleton n]"
  by (simp add: loader_view_def async_start execute_start_def)

lemma answer_shows_page: "loader_view n (async (settle (Resolved x) s)) m page = page"
  by (simp add: loader_view_def error_shown_def async_settle execute_settle_def)

lemma data_after_answer: "as_data (async (settle (Resolved x) s)) = Some (decode x)"
  by (simp add: async_settle execute_settle_def)

lemma failure_keeps_data: "as_data (async (settle (Rejected e) s)) = as_data (async s)"
  by (simp add: async_settle execute_settle_def)

lemma failure_offers_retry:
  "as_data (async s) = None \<Longrightarrow> loader_view n (async (settle (Rejected e) s)) m page =
     [ErrorState (error_or (err_message e) ''An error occurred'') (Some m)]"
  by (simp add: loader_view_def error_shown_def async_settle execute_settle_def or_else_def str_or_def error_or_def)

lemma failure_with_data_shows_page:
  "as_data (async s) = Some d \<Longrightarrow> loader_view n (async (settle (Rejected e) s)) m page = page"
  by (simp add: loader_view_def error_shown_def async_settle execute_settle_def)

end

end
