(* ===== verification/Detection.thy ===== *)
theory Detection
  imports SOC_Types Shared_UI Api_Auth
begin

text \<open>
  Threat feeds (\<^verbatim>\<open>pages/detection/ThreatFeedsPage.tsx\<close>): synchronisation, adding a feed, quotas, the ingestion chart;
  and the indicator search (\<^verbatim>\<open>pages/detection/IocSearchPage.tsx\<close>): recent searches, batch classification, the watch list
  and the CSV export. Random draws, the clock, date and number formats, \<^verbatim>\<open>JSON.stringify\<close> and the browser's check of
  a URL field are arguments.
\<close>

section \<open>Threat feeds: data\<close>

record enhanced_feed = threat_feed +
  ef_qualityScore :: nat
  ef_quota :: "(nat \<times> nat) option"
  ef_recentErrors :: "(string \<times> string) list"

text \<open>\<open>draw i k\<close> is the \<open>k\<close>-th \<^verbatim>\<open>Math.random()\<close> for row \<open>i\<close>, \<open>ago\<close> prints the time some milliseconds before now.\<close>

definition feed_load ::
  "(rat \<Rightarrow> rat) \<Rightarrow> (nat \<Rightarrow> nat \<Rightarrow> rat) \<Rightarrow> (nat \<Rightarrow> string) \<Rightarrow> threat_feed list \<Rightarrow> enhanced_feed list" where
  "feed_load fl draw ago fs = map (\<lambda>(i, f). threat_feed.extend f (enhanced_feed.fields
     (nat \<lfloor>fl (draw i 0 * 40)\<rfloor> + 10)
     (if tf_type f = ''COMMERCIAL'' \<or> js_includes (tf_name f) ''Alien''
      then Some (nat \<lfloor>fl (draw i 1 * 9000)\<rfloor>, 10000) else None)
     (if 1 / 2 < draw i 2
      then [(ago 3600000, ''Malformed STIX payload at line 42''), (ago 7200000, ''Connection timeout during bulk fetch'')]
      else []))) (enumerate 0 fs)"

text \<open>The chart: the heights of its bars in per cent of the largest value, at least 1.\<close>

definition spark_max :: "rat list \<Rightarrow> rat" where
  "spark_max xs = foldl max 1 xs"

definition Sparkline :: "(rat \<Rightarrow> rat) \<Rightarrow> rat list \<Rightarrow> rat list \<Rightarrow> rat list" where
  "Sparkline fl random7 data =
     (let chart = (if length data = 7 then data else random7)
      in map (\<lambda>v. fl (fl (v / spark_max chart) * 100)) chart)"

record new_feed =
  nf_name :: string
  nf_type :: string
  nf_url :: string
  nf_credential :: string

definition empty_feed :: new_feed where
  "empty_feed = \<lparr>nf_name = '''', nf_type = ''TAXII'', nf_url = '''', nf_credential = ''''\<rparr>"

definition feed_json :: "new_feed \<Rightarrow> json" where
  "feed_json f = JObj [(''name'', JStr (nf_name f)), (''type'', JStr (nf_type f)), (''url'', JStr (nf_url f)),
     (''credential'', JStr (nf_credential f))]"

record feeds_state =
  fd_async :: "enhanced_feed list async_state"
  fd_syncing :: "string option"
  fd_showAdd :: bool
  fd_newFeed :: new_feed
  fd_addError :: string
  fd_showAlert :: bool
  fd_channel :: string
  fd_threshold :: "int option"
  fd_expanded :: "string option"
  fd_showOverlap :: bool

definition ThreatFeedsPage :: feeds_state where
  "ThreatFeedsPage = \<lparr>fd_async = useAsyncState, fd_syncing = None, fd_showAdd = False, fd_newFeed = empty_feed,
     fd_addError = '''', fd_showAlert = False, fd_channel = ''slack'', fd_threshold = Some 15, fd_expanded = None,
     fd_showOverlap = False\<rparr>"

abbreviation fd_data :: "feeds_state \<Rightarrow> enhanced_feed list" where
  "fd_data s \<equiv> or_else (as_data (fd_async s)) []"

section \<open>Threat feeds: handlers\<close>

definition feeds_execute :: "feeds_state \<Rightarrow> feeds_state \<times> effect list" where
  "feeds_execute s = (s\<lparr>fd_async := execute_start (fd_async s)\<rparr>, [Request GET ''/detection/feeds'' JNull])"

definition feeds_answer ::
  "(rat \<Rightarrow> rat) \<Rightarrow> (nat \<Rightarrow> nat \<Rightarrow> rat) \<Rightarrow> (nat \<Rightarrow> string) \<Rightarrow> threat_feed list response \<Rightarrow> feeds_state \<Rightarrow> feeds_state" where
  "feeds_answer fl draw ago r s = s\<lparr>fd_async := execute_settle (case r of
     Resolved fs \<Rightarrow> Resolved (feed_load fl draw ago fs) | Rejected e \<Rightarrow> Rejected e) (fd_async s)\<rparr>"

definition handleSync_start :: "enhanced_feed \<Rightarrow> feeds_state \<Rightarrow> feeds_state \<times> effect list" where
  "handleSync_start f s = (s\<lparr>fd_syncing := Some (tf_id f)\<rparr>,
     [Request POST (''/detection/feeds/'' @ tf_id f @ ''/sync'') JNull])"

definition handleSync_settle :: "enhanced_feed \<Rightarrow> unit response \<Rightarrow> feeds_state \<Rightarrow> feeds_state \<times> effect list" where
  "handleSync_settle f r s =
     (let (s1, es) = (case r of
            Resolved x \<Rightarrow> feeds_execute s
          | Rejected e \<Rightarrow> (s, [Alert (if err_status e = Some 401 \<or> err_status e = Some 403
              then ''Authentication failed for '' @ tf_name f @ '': The API key or credential may be expired or invalid.''
              else ''Sync failed for '' @ tf_name f)]))
      in (s1\<lparr>fd_syncing := None\<rparr>, es))"

definition handleAddFeed_start :: "feeds_state \<Rightarrow> feeds_state \<times> effect list" where
  "handleAddFeed_start s = (s\<lparr>fd_addError := ''''\<rparr>, [Request POST ''/detection/feeds'' (feed_json (fd_newFeed s))])"

definition handleAddFeed_settle :: "unit response \<Rightarrow> feeds_state \<Rightarrow> feeds_state \<times> effect list" where
  "handleAddFeed_settle r s = (case r of
       Resolved x \<Rightarrow> feeds_execute (s\<lparr>fd_showAdd := False, fd_newFeed := empty_feed\<rparr>)
     | Rejected e \<Rightarrow> (s\<lparr>fd_addError := str_or (err_data_message e) (error_or (err_message e) ''Failed to add feed'')\<rparr>, []))"

datatype feeds_event =
    FdLoad | FdLoaded "threat_feed list response" | FdSync enhanced_feed | FdSynced enhanced_feed "unit response"
  | FdShowAdd bool | FdName string | FdType string | FdUrl string | FdCredential string | FdSubmit | FdAdded "unit response"
  | FdShowAlert bool | FdChannel string | FdThreshold string | FdSaveAlert | FdExpand string | FdShowOverlap bool

fun feeds_step ::
  "(rat \<Rightarrow> rat) \<Rightarrow> (nat \<Rightarrow> nat \<Rightarrow> rat) \<Rightarrow> (nat \<Rightarrow> string) \<Rightarrow> feeds_event \<Rightarrow> feeds_state \<Rightarrow> feeds_state \<times> effect list" where
  "feeds_step fl draw ago FdLoad s = feeds_execute s"
| "feeds_step fl draw ago (FdLoaded r) s = (feeds_answer fl draw ago r s, [])"
| "feeds_step fl draw ago (FdSync f) s = handleSync_start f s"
| "feeds_step fl draw ago (FdSynced f r) s = handleSync_settle f r s"
| "feeds_step fl draw ago (FdShowAdd b) s = (s\<lparr>fd_showAdd := b\<rparr>, [])"
| "feeds_step fl draw ago (FdName t) s = (s\<lparr>fd_newFeed := (fd_newFeed s)\<lparr>nf_name := t\<rparr>\<rparr>, [])"
| "feeds_step fl draw ago (FdType t) s = (s\<lparr>fd_newFeed := (fd_newFeed s)\<lparr>nf_type := t\<rparr>\<rparr>, [])"
| "feeds_step fl draw ago (FdUrl t) s = (s\<lparr>fd_newFeed := (fd_newFeed s)\<lparr>nf_url := t\<rparr>\<rparr>, [])"
| "feeds_step fl draw ago (FdCredential t) s = (s\<lparr>fd_newFeed := (fd_newFeed s)\<lparr>nf_credential := t\<rparr>\<rparr>, [])"
| "feeds_step fl draw ago FdSubmit s = handleAddFeed_start s"
| "feeds_step fl draw ago (FdAdded r) s = handleAddFeed_settle r s"
| "feeds_step fl draw ago (FdShowAlert b) s = (s\<lparr>fd_showAlert := b\<rparr>, [])"
| "feeds_step fl draw ago (FdChannel t) s = (s\<lparr>fd_channel := t\<rparr>, [])"
| "feeds_step fl draw ago (FdThreshold t) s = (s\<lparr>fd_threshold := js_parse_int t\<rparr>, [])"
| "feeds_step fl draw ago FdSaveAlert s = (s\<lparr>fd_showAlert := False\<rparr>, [Alert ''Alerts saved''])"
| "feeds_step fl draw ago (FdExpand i) s = (s\<lparr>fd_expanded := (if fd_expanded s = Some i then None else Some i)\<rparr>, [])"
| "feeds_step fl draw ago (FdShowOverlap b) s = (s\<lparr>fd_showOverlap := b\<rparr>, [])"

section \<open>Threat feeds: the page\<close>

definition health_text :: "feed_health \<Rightarrow> string" where
  "health_text h = (case h of FeedHealthy \<Rightarrow> ''HEALTHY'' | FeedDegraded \<Rightarrow> ''DEGRADED'' | FeedDown \<Rightarrow> ''DOWN'')"

text \<open>\<open>fmt\<close> prints times and \<open>loc\<close> numbers.\<close>

definition threat_feed_row ::
  "(string \<Rightarrow> string) \<Rightarrow> (nat \<Rightarrow> string) \<Rightarrow> feeds_state \<Rightarrow> enhanced_feed \<Rightarrow> feeds_event view" where
  "threat_feed_row fmt loc s f = Group (tf_id f)
     ([Text (health_text (tf_health f)), Text (tf_name f), Text (tf_type f @ '' Last: '' @ fmt (tf_lastSync f))]
      @ (if ef_qualityScore f \<noteq> 0 then [Text (nat_str (ef_qualityScore f) @ ''%''), Text ''led to incidents''] else [Text ''N/A''])
      @ (case ef_quota f of Some q \<Rightarrow> [Text (loc (fst q)), Text (loc (snd q))] | None \<Rightarrow> [Text ''Unlimited''])
      @ render_if (0 < length (ef_recentErrors f))
          (Button (nat_str (length (ef_recentErrors f)) @ '' Errors'') False (FdExpand (tf_id f)))
      @ [Button (if fd_syncing s = Some (tf_id f) then ''Syncing...'' else ''Force Sync'') (fd_syncing s = Some (tf_id f)) (FdSync f)]
      @ (if fd_expanded s = Some (tf_id f)
         then Text ''Recent Ingestion Errors'' # map (\<lambda>(t, m). Group m [Text (fmt t), Text m]) (ef_recentErrors f) else []))"

definition feeds_overlap :: "feeds_event view list" where
  "feeds_overlap = [Text ''Feed Overlap Analysis'', Text ''AlienVault OTX - Abuse.ch 34% overlap Monitor redundancy'',
     Text ''Commercial Feed B - OSINT List 89% overlap High redundancy (Deprecate OSINT)'',
     Button ''Close'' False (FdShowOverlap False)]"

definition feeds_alerts :: "feeds_state \<Rightarrow> feeds_event view list" where
  "feeds_alerts s = [Text ''Feed Health Alerts'', Select (fd_channel s) [''slack'', ''email''] FdChannel,
     Input (case fd_threshold s of Some n \<Rightarrow> int_str n | None \<Rightarrow> '''') False FdThreshold,
     Button ''Cancel'' False (FdShowAlert False), Button ''Save Config'' False FdSaveAlert]"

text \<open>A form with an empty required field, or a URL field the browser does not accept, is not submitted.\<close>

definition feed_form_valid :: "(string \<Rightarrow> bool) \<Rightarrow> new_feed \<Rightarrow> bool" where
  "feed_form_valid valid_url f = (nf_name f \<noteq> '''' \<and> nf_url f \<noteq> '''' \<and> valid_url (nf_url f) \<and> nf_credential f \<noteq> '''')"

definition feeds_add_dialog :: "(string \<Rightarrow> bool) \<Rightarrow> feeds_state \<Rightarrow> feeds_event view list" where
  "feeds_add_dialog valid_url s =
     [Text ''Add New Threat Feed'', Input (nf_name (fd_newFeed s)) False FdName,
      Select (nf_type (fd_newFeed s)) [''TAXII'', ''MISP'', ''CUSTOM_API''] FdType,
      Input (nf_url (fd_newFeed s)) False FdUrl, Input (nf_credential (fd_newFeed s)) False FdCredential]
     @ render_if (fd_addError s \<noteq> '''') (Text (fd_addError s))
     @ [Button ''Cancel'' False (FdShowAdd False),
        Button ''Add Feed'' (\<not> feed_form_valid valid_url (fd_newFeed s)) FdSubmit]"

definition ThreatFeedsPage_view ::
  "(string \<Rightarrow> string) \<Rightarrow> (nat \<Rightarrow> string) \<Rightarrow> (string \<Rightarrow> bool) \<Rightarrow> feeds_state \<Rightarrow> feeds_event view list" where
  "ThreatFeedsPage_view fmt loc valid_url s = loader_view 8 (fd_async s) FdLoad
     ([Text ''Threat Intelligence Feeds'', Button ''Overlap Analysis'' False (FdShowOverlap True),
       Button ''Configure Alerts'' False (FdShowAlert True), Button ''+ Add New Feed'' False (FdShowAdd True)]
      @ map (threat_feed_row fmt loc s) (fd_data s)
      @ (if fd_showOverlap s then feeds_overlap else [])
      @ (if fd_showAlert s then feeds_alerts s else [])
      @ (if fd_showAdd s then feeds_add_dialog valid_url s else []))"


section \<open>Indicator search: data\<close>

datatype ioc_type = IocIp | IocDomain | IocHash

record ioc_row =
  io_ioc :: string
  io_type :: ioc_type
  io_feed :: string
  io_verdict :: ioc_verdict
  io_confidence :: nat
  io_lastSeen :: "string option"
  io_searchCount30d :: nat
  io_globalRiskScore :: rat
  io_isWatched :: bool

text \<open>\<^verbatim>\<open>/^[0-9]+(?:\.[0-9]+){3}$/\<close>: four non-empty runs of digits between dots.\<close>

definition dotted_quad :: "string \<Rightarrow> bool" where
  "dotted_quad s = (let ws = js_split (CHR ''.'') s in length ws = 4 \<and> list_all (\<lambda>w. w \<noteq> [] \<and> list_all is_digit w) ws)"

definition ioc_type_of :: "string \<Rightarrow> ioc_type" where
  "ioc_type_of s = (if js_includes s ''.'' then if dotted_quad s then IocIp else IocDomain else IocHash)"

text \<open>\<^verbatim>\<open>searchQuery.split('\n').map(s => s.trim()).filter(Boolean)\<close>.\<close>

definition ioc_list :: "string \<Rightarrow> string list" where
  "ioc_list q = filter (\<lambda>s. s \<noteq> []) (map js_trim (js_split (CHR 0x0A) q))"

text \<open>\<open>draw k\<close> is the \<open>k\<close>-th random number of a row, \<open>fixed1\<close> is \<^verbatim>\<open>parseFloat(x.toFixed(1))\<close>, \<open>now\<close> the time.\<close>

definition ioc_row_of ::
  "(rat \<Rightarrow> rat) \<Rightarrow> (rat \<Rightarrow> rat) \<Rightarrow> (nat \<Rightarrow> rat) \<Rightarrow> string \<Rightarrow> string \<Rightarrow> ioc_row" where
  "ioc_row_of fl fixed1 draw now ioc =
     (let bad = (1 / 2 < draw 0)
      in \<lparr>io_ioc = ioc, io_type = ioc_type_of ioc,
          io_feed = (if bad then ''AlienVault OTX'' else ''Internal Lookup''),
          io_verdict = (if bad then Malicious else Clean),
          io_confidence = (if bad then 80 + nat \<lfloor>fl (draw 1 * 20)\<rfloor> else 0),
          io_lastSeen = (if bad then Some now else None),
          io_searchCount30d = nat \<lfloor>fl (draw 2 * 15)\<rfloor>,
          io_globalRiskScore = (if bad then fixed1 (fl (7 + fl (draw 3 * 3))) else fl (12 / 10)),
          io_isWatched = False\<rparr>)"

definition ioc_results ::
  "(rat \<Rightarrow> rat) \<Rightarrow> (rat \<Rightarrow> rat) \<Rightarrow> (nat \<Rightarrow> nat \<Rightarrow> rat) \<Rightarrow> string \<Rightarrow> string \<Rightarrow> ioc_row list" where
  "ioc_results fl fixed1 draw now q = map (\<lambda>(i, ioc). ioc_row_of fl fixed1 (draw i) now ioc) (enumerate 0 (ioc_list q))"

record ioc_state =
  is_query :: string
  is_results :: "ioc_row list"
  is_loading :: bool
  is_recents :: "string list"

text \<open>\<open>parse\<close> is \<^verbatim>\<open>JSON.parse\<close> of a stored list of strings, \<^const>\<open>None\<close> when it throws; \<open>stored\<close> is the local storage.\<close>

definition ioc_recents_init :: "(string \<Rightarrow> string list option) \<Rightarrow> string option \<Rightarrow> string list" where
  "ioc_recents_init parse stored = or_else (parse (str_or stored ''[]'')) []"

definition IocSearchPage :: "(string \<Rightarrow> string list option) \<Rightarrow> string option \<Rightarrow> ioc_state" where
  "IocSearchPage parse stored = \<lparr>is_query = '''', is_results = [], is_loading = False,
     is_recents = ioc_recents_init parse stored\<rparr>"

section \<open>Indicator search: handlers\<close>

definition add_recent :: "string \<Rightarrow> string list \<Rightarrow> string list" where
  "add_recent q rs = take 10 (q # filter (\<lambda>r. r \<noteq> q) rs)"

text \<open>\<open>stringify\<close> is \<^verbatim>\<open>JSON.stringify\<close> of a list of strings.\<close>

definition handleSearch_start :: "(string list \<Rightarrow> string) \<Rightarrow> string \<Rightarrow> ioc_state \<Rightarrow> ioc_state \<times> effect list" where
  "handleSearch_start stringify q s =
     (if js_trim q = '''' then (s, [])
      else (s\<lparr>is_loading := True, is_recents := add_recent q (is_recents s)\<rparr>,
            [LocalSet ''ioc_recent_searches'' (stringify (add_recent q (is_recents s))), StartTimer 800]))"

definition handleSearch_settle ::
  "(rat \<Rightarrow> rat) \<Rightarrow> (rat \<Rightarrow> rat) \<Rightarrow> (nat \<Rightarrow> nat \<Rightarrow> rat) \<Rightarrow> string \<Rightarrow> string \<Rightarrow> ioc_state \<Rightarrow> ioc_state" where
  "handleSearch_settle fl fixed1 draw now q s = s\<lparr>is_results := ioc_results fl fixed1 draw now q, is_loading := False\<rparr>"

text \<open>\<^verbatim>\<open>encodeURI\<close> keeps the reserved characters too.\<close>

definition encodeURI :: "string \<Rightarrow> string" where
  "encodeURI s = concat (map (\<lambda>c. if uri_unreserved c \<or> c \<in> set '';,/?:@&=+$#'' then [c]
     else concat (map percent_byte (utf8 c))) s)"

definition ioc_type_text :: "ioc_type \<Rightarrow> string" where
  "ioc_type_text t = (case t of IocIp \<Rightarrow> ''ip'' | IocDomain \<Rightarrow> ''domain'' | IocHash \<Rightarrow> ''hash'')"

definition verdict_text :: "ioc_verdict \<Rightarrow> string" where
  "verdict_text v = (case v of Malicious \<Rightarrow> ''malicious'' | Suspicious \<Rightarrow> ''suspicious'' | Clean \<Rightarrow> ''clean'' | Unknown \<Rightarrow> ''unknown'')"

text \<open>\<open>num\<close> prints a number.\<close>

definition csv_fields :: "(rat \<Rightarrow> string) \<Rightarrow> ioc_row \<Rightarrow> string list" where
  "csv_fields num r = [io_ioc r, ioc_type_text (io_type r), verdict_text (io_verdict r), num (io_globalRiskScore r),
     nat_str (io_confidence r) @ ''%'', io_feed r, nat_str (io_searchCount30d r)]"

definition csv_header :: string where
  "csv_header = ''IOC,Type,Verdict,Global Risk,Confidence,Feed,Search Count (30d)''"

definition csv_body :: "(rat \<Rightarrow> string) \<Rightarrow> ioc_row list \<Rightarrow> string" where
  "csv_body num rs = js_join nl (map (\<lambda>r. js_join '','' (csv_fields num r)) rs)"

definition handleExport :: "(rat \<Rightarrow> string) \<Rightarrow> ioc_state \<Rightarrow> effect list" where
  "handleExport num s = [Download ''ioc_search_results.csv''
     (encodeURI (''data:text/csv;charset=utf-8,'' @ csv_header @ nl @ csv_body num (is_results s)))]"

definition toggleWatchlist_start :: "string \<Rightarrow> effect list" where
  "toggleWatchlist_start ioc = [Request POST ''/detection/watchlist'' (JObj [(''ioc'', JStr ioc)])]"

definition toggle_watched :: "string \<Rightarrow> ioc_row list \<Rightarrow> ioc_row list" where
  "toggle_watched ioc rs = map_where (\<lambda>r. io_ioc r = ioc) (\<lambda>r. r\<lparr>io_isWatched := \<not> io_isWatched r\<rparr>) rs"

text \<open>\<open>captured\<close> are the results at the time of the click.\<close>

definition toggleWatchlist_settle ::
  "ioc_row list \<Rightarrow> string \<Rightarrow> unit response \<Rightarrow> ioc_state \<Rightarrow> ioc_state \<times> effect list" where
  "toggleWatchlist_settle captured ioc r s = (case r of
       Resolved x \<Rightarrow> (s\<lparr>is_results := toggle_watched ioc captured\<rparr>, [])
     | Rejected e \<Rightarrow> (s, [Alert ''Failed to update watchlist'']))"

datatype ioc_event =
    IsQuery string | IsSearch | IsRecent string | IsFound string string "nat \<Rightarrow> nat \<Rightarrow> rat" | IsExport
  | IsWatch string | IsWatched "ioc_row list" string "unit response"

fun ioc_step ::
  "(string list \<Rightarrow> string) \<Rightarrow> (rat \<Rightarrow> rat) \<Rightarrow> (rat \<Rightarrow> rat) \<Rightarrow> (rat \<Rightarrow> string) \<Rightarrow> ioc_event \<Rightarrow> ioc_state
     \<Rightarrow> ioc_state \<times> effect list" where
  "ioc_step sf fl fixed1 num (IsQuery t) s = (s\<lparr>is_query := t\<rparr>, [])"
| "ioc_step sf fl fixed1 num IsSearch s = handleSearch_start sf (is_query s) s"
| "ioc_step sf fl fixed1 num (IsRecent q) s = handleSearch_start sf q (s\<lparr>is_query := q\<rparr>)"
| "ioc_step sf fl fixed1 num (IsFound q now draw) s = (handleSearch_settle fl fixed1 draw now q s, [])"
| "ioc_step sf fl fixed1 num IsExport s = (s, handleExport num s)"
| "ioc_step sf fl fixed1 num (IsWatch ioc) s = (s, toggleWatchlist_start ioc)"
| "ioc_step sf fl fixed1 num (IsWatched rs ioc r) s = toggleWatchlist_settle rs ioc r s"

section \<open>Indicator search: the page\<close>

definition recent_label :: "string \<Rightarrow> string" where
  "recent_label s = hd (js_split (CHR 0x0A) s) @ '' '' @ (if js_includes s nl then ''(Batch)'' else '''')"

text \<open>\<open>toFixed1\<close> is \<^verbatim>\<open>x.toFixed(1)\<close>.\<close>

definition ioc_columns :: "(rat \<Rightarrow> string) \<Rightarrow> (string \<times> (ioc_row \<Rightarrow> ioc_event view list)) list" where
  "ioc_columns toFixed1 =
     [(''Indicator'', \<lambda>r. [Text (io_ioc r),
         Text (ioc_type_text (io_type r) @ '' Searched '' @ nat_str (io_searchCount30d r) @ '' times (30d)'')]),
      (''Verdict & Risk'', \<lambda>r. [Text (js_upper (verdict_text (io_verdict r))), Text (toFixed1 (io_globalRiskScore r) @ ''/ 10'')]),
      (''Primary Source'', \<lambda>r. [Text (io_feed r @ '' ('' @ nat_str (io_confidence r) @ ''% conf)'')]),
      ('''', \<lambda>r. render_if (io_verdict r = Malicious) (Text ''Pivot to Investigation'')
         @ [Button (if io_isWatched r then ''Watched'' else ''Watch'') False (IsWatch (io_ioc r))])]"

definition IocSearchPage_view :: "(rat \<Rightarrow> string) \<Rightarrow> ioc_state \<Rightarrow> ioc_event view list" where
  "IocSearchPage_view toFixed1 s =
     Text ''IOC Threat Hunting''
     # render_if (0 < length (is_results s)) (Button ''Export CSV'' False IsExport)
     @ [Text ''(Newline separated, max 100)'', Input (is_query s) False IsQuery,
        Button (if is_loading s then ''Scanning Feeds...'' else ''Hunt IOCs'') (is_loading s \<or> js_trim (is_query s) = '''') IsSearch]
     @ (if 0 < length (is_recents s)
        then Text ''Recent Searches'' # map (\<lambda>q. Button (recent_label q) False (IsRecent q)) (is_recents s) else [])
     @ (if is_loading s then [Text ''Aggregating feed data and calculating global risk...'']
        else if length (is_results s) = 0 then [Text ''Enter indicators on the left to begin hunting.'']
        else DataTable io_ioc (ioc_columns toFixed1) False (is_results s))"


section \<open>Facts\<close>

interpretation feeds_loader: loader_page fd_async "\<lambda>s. fst (feeds_execute s)" "feeds_answer fl draw ago" "feed_load fl draw ago"
  by unfold_locales (simp_all add: feeds_execute_def feeds_answer_def)

lemma spark_max_ge: "1 \<le> spark_max xs \<and> (\<forall>x \<in> set xs. x \<le> spark_max xs)"
proof -
  have "a \<le> foldl max a xs \<and> (\<forall>x \<in> set xs. x \<le> foldl max a xs)" for a :: rat
  proof (induction xs arbitrary: a)
    case (Cons x xs)
    show ?case using Cons [of "max a x"] by simp
  qed simp
  then show ?thesis by (simp add: spark_max_def)
qed

lemma take_filter_take:
  "distinct xs \<Longrightarrow> take n (filter (\<lambda>x. x \<noteq> q) (take (Suc n) xs)) = take n (filter (\<lambda>x. x \<noteq> q) xs)"
proof (induction xs arbitrary: n)
  case (Cons x xs)
  show ?case
  proof (cases "x = q")
    case True
    then have "filter (\<lambda>y. y \<noteq> q) xs = xs" "filter (\<lambda>y. y \<noteq> q) (take n xs) = take n xs"
      using Cons.prems by (auto simp: filter_id_conv dest: in_set_takeD)
    then show ?thesis using True by simp
  next
    case False
    then show ?thesis using Cons by (cases n) simp_all
  qed
qed simp

lemma add_recent_take: "distinct xs \<Longrightarrow> add_recent q (take 10 xs) = take 10 (q # filter (\<lambda>r. r \<noteq> q) xs)"
  using take_filter_take [of xs 9 q] by (simp add: add_recent_def)

lemma rev_remdups_snoc: "rev (remdups (qs @ [q])) = q # filter (\<lambda>r. r \<noteq> q) (rev (remdups qs))"
  by (induction qs) (auto simp: rev_filter [symmetric])

lemma digits_no_dot: "list_all is_digit w \<Longrightarrow> CHR ''.'' \<notin> set w"
  by (auto simp: list_all_iff is_digit_def Let_def)

lemma length_4_eq: "length xs = 4 \<Longrightarrow> \<exists>a b c d. xs = [a, b, c, d]"
  by (auto simp: numeral_eq_Suc length_Suc_conv)

lemma ioc_list_no_nl: "w \<in> set (ioc_list q) \<Longrightarrow> CHR 0x0A \<notin> set w"
  using set_js_trim js_split_no_sep unfolding ioc_list_def by fastforce

lemma is_digit_char_of: "k < 10 \<Longrightarrow> is_digit (char_of (48 + k :: nat))"
  by (simp add: is_digit_def Let_def)

lemma nat_str_digits: "c \<in> set (nat_str n) \<Longrightarrow> is_digit c"
proof (induction n rule: nat_str.induct)
  case (1 n)
  then show ?case by (subst (asm) (2) nat_str.simps) (auto simp: is_digit_char_of split: if_splits)
qed

lemma nat_str_plain: "CHR '','' \<notin> set (nat_str n)" "CHR 0x0A \<notin> set (nat_str n)"
  using nat_str_digits [of "CHR '',''" n] nat_str_digits [of "CHR 0x0A" n] by (auto simp: is_digit_def Let_def)

lemma ioc_results_iocs: "map io_ioc (ioc_results fl fixed1 draw now q) = ioc_list q"
  by (rule nth_equalityI) (simp_all add: ioc_results_def ioc_row_of_def Let_def nth_enumerate_eq)

lemma csv_fields_plain:
  assumes "CHR '','' \<notin> set (io_ioc r)" and "CHR 0x0A \<notin> set (io_ioc r)" and "io_feed r \<in> {''AlienVault OTX'', ''Internal Lookup''}"
    and "\<And>x. CHR '','' \<notin> set (num x) \<and> CHR 0x0A \<notin> set (num x)" and "w \<in> set (csv_fields num r)"
  shows "CHR '','' \<notin> set w \<and> CHR 0x0A \<notin> set w"
  using assms by (auto simp: csv_fields_def ioc_type_text_def verdict_text_def nat_str_plain split: ioc_type.splits ioc_verdict.splits)


section \<open>What the pages guarantee\<close>

text \<open>C25. The recent searches implement a list of the ten latest distinct queries: after any sequence of searches that
  starts with an empty list they are the first ten of the distinct queries, most recent first.\<close>

theorem ioc_recents_refine_history:
  "foldl (\<lambda>rs q. add_recent q rs) [] qs = take 10 (rev (remdups qs))"
proof (induction qs rule: rev_induct)
  case Nil
  show ?case by simp
next
  case (snoc q qs)
  have "foldl (\<lambda>rs q. add_recent q rs) [] (qs @ [q]) = add_recent q (take 10 (rev (remdups qs)))" using snoc by simp
  also have "\<dots> = take 10 (q # filter (\<lambda>r. r \<noteq> q) (rev (remdups qs)))" by (rule add_recent_take) simp
  also have "\<dots> = take 10 (rev (remdups (qs @ [q])))" by (simp only: rev_remdups_snoc)
  finally show ?case .
qed

text \<open>Recent searches survive a reload: a search that is not blank puts its query first, keeps at most ten and stores
  them; a page that opens on the stored text, which \<^verbatim>\<open>JSON.parse\<close> reads back, has the same list.\<close>

theorem ioc_recents_round_trip:
  assumes "js_trim q \<noteq> ''''" and "parse (sf (add_recent q (is_recents s))) = Some (add_recent q (is_recents s))"
    and "sf (add_recent q (is_recents s)) \<noteq> ''''"
  shows "\<exists>v. LocalSet ''ioc_recent_searches'' v \<in> set (snd (handleSearch_start sf q s))
      \<and> is_recents (IocSearchPage parse (Some v)) = is_recents (fst (handleSearch_start sf q s))
      \<and> hd (is_recents (fst (handleSearch_start sf q s))) = q
      \<and> length (is_recents (fst (handleSearch_start sf q s))) \<le> 10"
  using assms by (simp add: handleSearch_start_def IocSearchPage_def ioc_recents_init_def str_or_def or_else_def)
    (simp add: add_recent_def)

theorem ioc_recents_round_trip_witness:
  "\<exists>v. LocalSet ''ioc_recent_searches'' v \<in> set (snd (handleSearch_start (\<lambda>xs. ''[1.1.1.1]'') ''1.1.1.1''
       (IocSearchPage (\<lambda>t. None) None)))"
proof -
  have t: "js_trim ''1.1.1.1'' \<noteq> ''''" by (simp add: js_trim_def is_js_space_def)
  have r: "is_recents (IocSearchPage (\<lambda>t. None) None) = []"
    by (simp add: IocSearchPage_def ioc_recents_init_def or_else_def)
  show ?thesis
    using ioc_recents_round_trip [OF t, of "\<lambda>t. Some [''1.1.1.1'']" "\<lambda>xs. ''[1.1.1.1]''" "IocSearchPage (\<lambda>t. None) None"]
    by (simp add: r add_recent_def) blast
qed

text \<open>C26. The classification of indicators: an indicator is an address exactly when it is four runs of digits joined by
  dots, a hash exactly when it has no dot, and a domain otherwise.\<close>

theorem ioc_classification:
  "(ioc_type_of s = IocIp \<longleftrightarrow> (\<exists>a b c d. s = js_join ''.'' [a, b, c, d]
       \<and> list_all (\<lambda>w. w \<noteq> '''' \<and> list_all is_digit w) [a, b, c, d]))
   \<and> (ioc_type_of s = IocHash \<longleftrightarrow> CHR ''.'' \<notin> set s)"
proof -
  have "dotted_quad s \<longleftrightarrow> (\<exists>a b c d. s = js_join ''.'' [a, b, c, d]
       \<and> list_all (\<lambda>w. w \<noteq> '''' \<and> list_all is_digit w) [a, b, c, d])" (is "_ = ?R")
  proof
    assume "dotted_quad s"
    then obtain a b c d where "js_split (CHR ''.'') s = [a, b, c, d]"
      and "list_all (\<lambda>w. w \<noteq> '''' \<and> list_all is_digit w) [a, b, c, d]"
      unfolding dotted_quad_def Let_def by (metis length_4_eq)
    then show ?R using js_join_split [of "CHR ''.''" s] by metis
  next
    assume ?R
    then obtain a b c d where s: "s = js_join ''.'' [a, b, c, d]"
      and w: "list_all (\<lambda>w. w \<noteq> '''' \<and> list_all is_digit w) [a, b, c, d]" by blast
    have "CHR ''.'' \<notin> set v" if "v \<in> set [a, b, c, d]" for v
      using w that digits_no_dot unfolding list_all_iff by blast
    then have "js_split (CHR ''.'') s = [a, b, c, d]" unfolding s by (intro js_split_join) simp_all
    then show "dotted_quad s" using w by (simp add: dotted_quad_def)
  qed
  moreover have "dotted_quad s \<Longrightarrow> CHR ''.'' \<in> set s"
    by (cases "CHR ''.'' \<in> set s") (simp_all add: dotted_quad_def js_split_sep_free)
  ultimately show ?thesis by (auto simp: ioc_type_of_def js_includes_char)
qed

text \<open>One row per indicator: a finished search shows exactly the lines of its query that are not blank, trimmed and in
  order, each classified, none of them watched, with a confidence of 0 or of at least 80 and at most 100 per cent.\<close>

theorem ioc_search_rows:
  assumes "ieee fl" and "\<And>i k. 0 \<le> draw i k \<and> draw i k \<le> 1"
  shows "map io_ioc (is_results (handleSearch_settle fl fixed1 draw now q s)) = ioc_list q
    \<and> list_all (\<lambda>r. io_type r = ioc_type_of (io_ioc r) \<and> \<not> io_isWatched r
        \<and> (if io_verdict r = Malicious then 80 \<le> io_confidence r \<and> io_confidence r \<le> 100
           else io_verdict r = Clean \<and> io_confidence r = 0)) (is_results (handleSearch_settle fl fixed1 draw now q s))"
proof -
  have "\<lfloor>fl (draw i k * 20)\<rfloor> \<le> 20 \<and> 0 \<le> \<lfloor>fl (draw i k * 20)\<rfloor>" for i k
  proof -
    have "0 \<le> fl (draw i k * 20)" "fl (draw i k * 20) \<le> 20"
      using ieee_between [OF assms(1), of 0 "draw i k * 20" 20] assms(2) [of i k] by simp_all
    then show ?thesis by (simp add: floor_le_iff)
  qed
  then have c: "nat \<lfloor>fl (draw i k * 20)\<rfloor> \<le> 20" for i k by (simp add: nat_le_iff)
  have "list_all (\<lambda>r. io_type r = ioc_type_of (io_ioc r) \<and> \<not> io_isWatched r
        \<and> (if io_verdict r = Malicious then 80 \<le> io_confidence r \<and> io_confidence r \<le> 100
           else io_verdict r = Clean \<and> io_confidence r = 0)) (ioc_results fl fixed1 draw now q)"
    using c by (auto simp: list_all_iff ioc_results_def ioc_row_of_def Let_def split: if_splits)
  then show ?thesis by (simp add: handleSearch_settle_def ioc_results_iocs)
qed

theorem ioc_search_rows_witness:
  "map io_ioc (is_results (handleSearch_settle (\<lambda>x. x) (\<lambda>x. x) (\<lambda>i k. 0) '''' ''evil.com'' (IocSearchPage (\<lambda>t. None) None)))
     = [''evil.com'']"
proof -
  have "ioc_list ''evil.com'' = [''evil.com'']" by (simp add: ioc_list_def js_trim_def is_js_space_def)
  then show ?thesis
    using ioc_search_rows [OF ieee_exact, of "\<lambda>i k. 0" "\<lambda>x. x" "''''" "''evil.com''" "IocSearchPage (\<lambda>t. None) None"] by simp
qed



text \<open>An answer of the watch list replaces the results by those of the moment of the click: a search that finished in
  between disappears from the table, whatever it found.\<close>

theorem watch_answer_drops_search:
  "is_results (fst (ioc_step sf fl fixed1 num (IsWatched (is_results s) ioc (Resolved ()))
      (fst (ioc_step sf fl fixed1 num (IsFound q now draw) s)))) = toggle_watched ioc (is_results s)"
  by (simp add: toggleWatchlist_settle_def)

text \<open>The bars of the ingestion chart are percentages: for seven counts that are not negative every height is between
  0 and 100.\<close>

theorem sparkline_bounds:
  assumes "ieee fl" and "length data = 7" and "\<And>x. x \<in> set data \<Longrightarrow> 0 \<le> x"
  shows "set (Sparkline fl r data) \<subseteq> {0..100} \<and> length (Sparkline fl r data) = 7"
proof -
  have "fl (fl (v / spark_max data) * 100) \<in> {0..100}" if "v \<in> set data" for v
  proof -
    have m: "1 \<le> spark_max data" "v \<le> spark_max data" using spark_max_ge that by blast+
    then have "0 \<le> v / spark_max data" "v / spark_max data \<le> 1" using assms(3) [OF that] by (simp_all add: divide_le_eq)
    then have "0 \<le> fl (v / spark_max data)" "fl (v / spark_max data) \<le> 1"
      using ieee_between [OF assms(1), of 0 _ 1] by simp_all
    then show ?thesis using ieee_between [OF assms(1), of 0 _ 100] by simp
  qed
  then show ?thesis using assms(2) by (auto simp: Sparkline_def)
qed

theorem sparkline_bounds_witness:
  "set (Sparkline (\<lambda>x. x) [] [1, 2, 3, 4, 5, 6, 7]) \<subseteq> {0..100}"
proof -
  have "0 \<le> x" if "x \<in> set [1, 2, 3, 4, 5, 6, 7 :: rat]" for x using that by auto
  then show ?thesis using sparkline_bounds [OF ieee_exact, of "[1, 2, 3, 4, 5, 6, 7]" "[]"] by simp
qed

text \<open>The lock of Force Sync holds only the feed that was started last: with a synchronisation of one feed running,
  starting another makes the button of the first available again, and clicking it posts its synchronisation a second
  time.\<close>

theorem sync_lock_is_shared:
  assumes "f \<in> set (fd_data s)" and "g \<in> set (fd_data s)" and "tf_id f \<noteq> tf_id g"
    and "\<not> as_loading (fd_async s)" and "as_data (fd_async s) \<noteq> None" and "fd_syncing s = Some (tf_id f)"
  shows "FdSync f \<notin> set (clicks (threat_feed_row fmt loc s f))
    \<and> FdSync g \<in> set (concat (map clicks (ThreatFeedsPage_view fmt loc ok s)))
    \<and> FdSync f \<in> set (concat (map clicks (ThreatFeedsPage_view fmt loc ok (fst (handleSync_start g s)))))
    \<and> requests (snd (handleSync_start f (fst (handleSync_start g s)))) = [(POST, ''/detection/feeds/'' @ tf_id f @ ''/sync'', JNull)]"
proof -
  have row: "FdSync h \<in> set (clicks (threat_feed_row fmt loc t h)) \<longleftrightarrow> fd_syncing t \<noteq> Some (tf_id h)" for h t
    by (auto simp: threat_feed_row_def split: option.splits)
  have page: "FdSync h \<in> set (concat (map clicks (ThreatFeedsPage_view fmt loc ok t)))"
    if "h \<in> set (fd_data t)" "\<not> as_loading (fd_async t)" "as_data (fd_async t) \<noteq> None" "fd_syncing t \<noteq> Some (tf_id h)" for h t
    using that row [of h t] by (auto simp: ThreatFeedsPage_view_def loader_view_def error_shown_def)
  show ?thesis
    using assms row [of f s] page [of g s] page [of f "fst (handleSync_start g s)"]
    by (simp add: handleSync_start_def)
qed

definition example_feed :: "string \<Rightarrow> enhanced_feed" where
  "example_feed i = \<lparr>tf_id = i, tf_name = i, tf_type = ''OSINT'', tf_health = FeedHealthy, tf_lastSync = '''', tf_iocVolume7d = [],
     tf_authFailed = False, ef_qualityScore = 10, ef_quota = None, ef_recentErrors = []\<rparr>"

theorem sync_lock_is_shared_witness:
  "\<exists>s. fd_syncing s = Some ''a''
     \<and> FdSync (example_feed ''a'') \<in> set (concat (map clicks (ThreatFeedsPage_view (\<lambda>t. t) nat_str (\<lambda>u. True)
         (fst (handleSync_start (example_feed ''b'') s)))))"
proof -
  let ?s = "ThreatFeedsPage\<lparr>fd_async := \<lparr>as_data = Some [example_feed ''a'', example_feed ''b''], as_loading = False, as_error = None\<rparr>,
    fd_syncing := Some ''a''\<rparr>"
  have "fd_syncing ?s = Some ''a''" by simp
  moreover have "FdSync (example_feed ''a'') \<in> set (concat (map clicks (ThreatFeedsPage_view (\<lambda>t. t) nat_str (\<lambda>u. True)
         (fst (handleSync_start (example_feed ''b'') ?s)))))"
    using sync_lock_is_shared [of "example_feed ''a''" ?s "example_feed ''b''" "\<lambda>t. t" nat_str "\<lambda>u. True"]
    by (simp add: or_else_def example_feed_def)
  ultimately show ?thesis by blast
qed

text \<open>The message of a failed synchronisation tells a rejected credential from any other failure, and either way the button
  is released; a successful one reloads the list.\<close>

theorem sync_outcome:
  "handleSync_settle f (Rejected e) s = (s\<lparr>fd_syncing := None\<rparr>, [Alert (if err_status e \<in> {Some 401, Some 403}
      then ''Authentication failed for '' @ tf_name f @ '': The API key or credential may be expired or invalid.''
      else ''Sync failed for '' @ tf_name f)])"
  "fd_syncing (fst (handleSync_settle f (Resolved ()) s)) = None"
  "requests (snd (handleSync_settle f (Resolved ()) s)) = [(GET, ''/detection/feeds'', JNull)]"
  by (simp_all add: handleSync_settle_def feeds_execute_def)

text \<open>Cancelling the dialog keeps the credential that was typed, and an answer to an earlier submission discards what has
  been typed since.\<close>

theorem add_feed_form:
  "nf_credential (fd_newFeed (fst (feeds_step fl draw ago (FdShowAdd False) s))) = nf_credential (fd_newFeed s)"
  "fd_newFeed (fst (feeds_step fl draw ago (FdAdded (Resolved ())) s)) = empty_feed"
  by (simp_all add: handleAddFeed_settle_def feeds_execute_def)

end
