(* ===== verification/EDR.thy ===== *)
theory EDR
  imports SOC_Types Shared_UI
begin

text \<open>
  The EDR log page (\<^verbatim>\<open>pages/endpoints/EdrLogsPage.tsx\<close>): loading, host, type and keyword filters, saved hunts, live tail,
  the process tree and the links to the isolation page.

  React compares the \<^verbatim>\<open>hosts\<close> array of the filter by reference to decide whether to load again, so a filter carries
  the reference of that array (\<open>ft_ref\<close>); \<open>ed_next\<close> is the next fresh one. Event types are the strings the server
  sends. \<open>parse\<close> and \<open>stringify\<close> are \<^verbatim>\<open>JSON.parse\<close> (\<^const>\<open>None\<close> when it throws) and \<^verbatim>\<open>JSON.stringify\<close> of
  saved hunts, \<open>fmt\<close> is the date format.
\<close>

section \<open>State\<close>

datatype proc_node = ProcNode string nat "proc_node list"

record edr_raw =
  er_id :: string
  er_host :: string
  er_eventType :: string
  er_timestamp :: string
  er_process :: string
  er_detail :: string
  er_isSuspicious :: bool

record edr_log = edr_raw +
  er_processTree :: "proc_node option"

text \<open>The event types the declared type of a log entry has.\<close>

definition event_type_str :: "event_type \<Rightarrow> string" where
  "event_type_str t = (case t of Process_exec \<Rightarrow> ''process_exec'' | File_modification \<Rightarrow> ''file_modification''
     | Registry_change \<Rightarrow> ''registry_change'' | Network_connection \<Rightarrow> ''network_connection'')"

definition LOLBINS :: "string list" where
  "LOLBINS = [''powershell.exe -enc'', ''certutil.exe -urlcache'', ''wmic process call create'', ''regsvr32.exe /s /u /i:'']"

definition lolbin_detail :: "string \<Rightarrow> bool" where
  "lolbin_detail d = list_ex (\<lambda>b. js_includes (js_lower d) b) LOLBINS"

definition edr_load :: "edr_raw list \<Rightarrow> edr_log list" where
  "edr_load ls = map (\<lambda>l. edr_raw.extend (l\<lparr>er_isSuspicious := er_isSuspicious l \<or> lolbin_detail (er_detail l)\<rparr>)
     (edr_log.fields (if er_eventType l = ''PROCESS_EXECUTION''
        then Some (ProcNode ''explorer.exe'' 1422 [ProcNode ''cmd.exe'' 5122 [ProcNode (er_process l) 8192 []]])
        else None))) ls"

record edr_filter =
  ft_hosts :: "string list"
  ft_ref :: nat
  ft_keyword :: string
  ft_type :: string

record edr_hunt =
  hu_name :: string
  hu_filter :: edr_filter

text \<open>A hunt as it is stored: its name, hosts, keyword and type.\<close>

type_synonym stored_hunt = "string \<times> string list \<times> string \<times> string"

definition store_hunt :: "edr_hunt \<Rightarrow> stored_hunt" where
  "store_hunt h = (hu_name h, ft_hosts (hu_filter h), ft_keyword (hu_filter h), ft_type (hu_filter h))"

fun restore_hunt :: "nat \<Rightarrow> stored_hunt \<Rightarrow> edr_hunt" where
  "restore_hunt r (n, hs, k, t) = \<lparr>hu_name = n, hu_filter = \<lparr>ft_hosts = hs, ft_ref = r, ft_keyword = k, ft_type = t\<rparr>\<rparr>"

definition useSavedView :: "(string \<Rightarrow> 'v option) \<Rightarrow> string option \<Rightarrow> 'v \<Rightarrow> 'v option" where
  "useSavedView parse stored defaultView = (case stored of
     None \<Rightarrow> Some defaultView | Some t \<Rightarrow> if t = '''' then Some defaultView else parse t)"

record edr_state =
  ed_async :: "edr_log list async_state"
  ed_filter :: edr_filter
  ed_hunts :: "edr_hunt list"
  ed_huntName :: string
  ed_live :: bool
  ed_tree :: "edr_log option"
  ed_next :: nat

text \<open>\<open>stored\<close> is the local storage and \<open>host\<close> the query parameter; \<^const>\<open>None\<close> when the stored text does not parse and
  the page cannot be rendered.\<close>

definition edr_initial :: "string option \<Rightarrow> stored_hunt list \<Rightarrow> edr_state" where
  "edr_initial host hs =
     \<lparr>ed_async = useAsyncState,
      ed_filter = \<lparr>ft_hosts = (if str_or host '''' \<noteq> '''' then [str_or host ''''] else []), ft_ref = 0, ft_keyword = '''', ft_type = ''all''\<rparr>,
      ed_hunts = map (\<lambda>(i, h). restore_hunt i h) (enumerate 1 hs), ed_huntName = '''', ed_live = False, ed_tree = None,
      ed_next = Suc (length hs)\<rparr>"

definition EdrLogsPage :: "(string \<Rightarrow> stored_hunt list option) \<Rightarrow> string option \<Rightarrow> string option \<Rightarrow> edr_state option" where
  "EdrLogsPage parse stored host = map_option (edr_initial host) (useSavedView parse stored [])"

section \<open>Handlers\<close>

definition edr_url :: "edr_filter \<Rightarrow> string" where
  "edr_url f = ''/endpoints/logs?hosts='' @ (if 0 < length (ft_hosts f) then js_join '','' (ft_hosts f) else ''all'')"

definition edr_execute :: "edr_state \<Rightarrow> edr_state \<times> effect list" where
  "edr_execute s = (s\<lparr>ed_async := execute_start (ed_async s)\<rparr>, [Request GET (edr_url (ed_filter s)) JNull])"

definition edr_answer :: "edr_raw list response \<Rightarrow> edr_state \<Rightarrow> edr_state" where
  "edr_answer r s = s\<lparr>ed_async := execute_settle (case r of
     Resolved ls \<Rightarrow> Resolved (edr_load ls) | Rejected e \<Rightarrow> Rejected e) (ed_async s)\<rparr>"

text \<open>\<^verbatim>\<open>setFilter\<close> and the effect on \<^verbatim>\<open>[filter.hosts]\<close>.\<close>

definition edr_setFilter :: "edr_filter \<Rightarrow> edr_state \<Rightarrow> edr_state \<times> effect list" where
  "edr_setFilter f s =
     (let s1 = s\<lparr>ed_filter := f\<rparr> in if ft_ref f = ft_ref (ed_filter s) then (s1, []) else edr_execute s1)"

definition edr_setHosts :: "string list \<Rightarrow> edr_state \<Rightarrow> edr_state \<times> effect list" where
  "edr_setHosts hs s = edr_setFilter ((ed_filter s)\<lparr>ft_hosts := hs, ft_ref := ed_next s\<rparr>) (s\<lparr>ed_next := Suc (ed_next s)\<rparr>)"

definition hosts_of_input :: "string \<Rightarrow> string list" where
  "hosts_of_input v = filter (\<lambda>h. h \<noteq> []) (map js_trim (js_split (CHR '','') v))"

definition handleSaveHunt :: "(stored_hunt list \<Rightarrow> string) \<Rightarrow> edr_state \<Rightarrow> edr_state \<times> effect list" where
  "handleSaveHunt stringify s =
     (if ed_huntName s = '''' then (s, [])
      else let hs = ed_hunts s @ [\<lparr>hu_name = ed_huntName s, hu_filter = ed_filter s\<rparr>]
        in (s\<lparr>ed_hunts := hs, ed_huntName := ''''\<rparr>, [LocalSet ''edr_saved_hunts'' (stringify (map store_hunt hs))]))"

definition edr_matches :: "edr_filter \<Rightarrow> edr_log \<Rightarrow> bool" where
  "edr_matches f l =
     (if ft_type f \<noteq> ''all'' \<and> er_eventType l \<noteq> ft_type f then False
      else if ft_keyword f \<noteq> '''' \<and> \<not> js_includes (js_lower (er_detail l)) (js_lower (ft_keyword f))
        \<and> \<not> js_includes (js_lower (er_process l)) (js_lower (ft_keyword f)) then False
      else True)"

definition edr_filteredData :: "edr_state \<Rightarrow> edr_log list" where
  "edr_filteredData s = filter (edr_matches (ed_filter s)) (or_else (as_data (ed_async s)) [])"

datatype edr_event =
    EdMount | EdLoaded "edr_raw list response" | EdTick | EdLive | EdHosts string | EdType string | EdKeyword string
  | EdHuntName string | EdSaveHunt | EdHunt edr_hunt | EdHost string | EdTree "edr_log option" | EdGo string

fun edr_step :: "(stored_hunt list \<Rightarrow> string) \<Rightarrow> edr_event \<Rightarrow> edr_state \<Rightarrow> edr_state \<times> effect list" where
  "edr_step sf EdMount s = edr_execute s"
| "edr_step sf (EdLoaded r) s = (edr_answer r s, [])"
| "edr_step sf EdTick s = (if ed_live s then edr_execute s else (s, []))"
| "edr_step sf EdLive s = (s\<lparr>ed_live := \<not> ed_live s\<rparr>, [])"
| "edr_step sf (EdHosts v) s = edr_setHosts (hosts_of_input v) s"
| "edr_step sf (EdType t) s = edr_setFilter ((ed_filter s)\<lparr>ft_type := t\<rparr>) s"
| "edr_step sf (EdKeyword k) s = edr_setFilter ((ed_filter s)\<lparr>ft_keyword := k\<rparr>) s"
| "edr_step sf (EdHuntName t) s = (s\<lparr>ed_huntName := t\<rparr>, [])"
| "edr_step sf EdSaveHunt s = handleSaveHunt sf s"
| "edr_step sf (EdHunt h) s = edr_setFilter (hu_filter h) s"
| "edr_step sf (EdHost h) s = edr_setHosts [h] s"
| "edr_step sf (EdTree l) s = (s\<lparr>ed_tree := l\<rparr>, [])"
| "edr_step sf (EdGo u) s = (s, [Navigate u])"

section \<open>The page\<close>

text \<open>The rows of the process tree: depth, name and process number.\<close>

fun renderTree :: "nat \<Rightarrow> proc_node \<Rightarrow> (nat \<times> string \<times> nat) list" where
  "renderTree depth (ProcNode n p cs) = (depth, n, p) # concat (map (renderTree (depth + 1)) cs)"

definition isolation_link :: "string \<Rightarrow> string" where
  "isolation_link h = ''/endpoints/isolation?entity='' @ h"

definition edr_row :: "(string \<Rightarrow> string) \<Rightarrow> edr_log \<Rightarrow> edr_event view" where
  "edr_row fmt r = Group (er_id r)
     ([Text (fmt (er_timestamp r)), Clickable (EdHost (er_host r)) [Text (er_host r)], Text (er_eventType r),
       Text (er_process r @ '' '' @ er_detail r)]
      @ (if er_isSuspicious r
         then [Text ''ANOMALY DETECTED'', Button ''Pivot to Isolation'' False (EdGo (isolation_link (er_host r)))]
         else [])
      @ render_if (er_eventType r = ''PROCESS_EXECUTION'') (Button ''View Process Tree'' False (EdTree (Some r))))"

definition edr_tree_dialog :: "edr_state \<Rightarrow> edr_event view list" where
  "edr_tree_dialog s = (case ed_tree s of
       None \<Rightarrow> []
     | Some l \<Rightarrow> (case er_processTree l of
           None \<Rightarrow> []
         | Some t \<Rightarrow>
             [Text ''Process Execution Tree'', Text (if er_isSuspicious l then ''SUSPICIOUS CHAIN'' else ''NORMAL'')]
             @ map (\<lambda>(d, n, p). Group n [Text n, Text (''PID: '' @ nat_str p)]) (renderTree 0 t)
             @ render_if (er_isSuspicious l) (Button ''Isolate Host'' False (EdGo (isolation_link (er_host l))))
             @ [Button ''Close'' False (EdTree None)]))"

definition edr_filters :: "edr_state \<Rightarrow> edr_event view list" where
  "edr_filters s =
     [Text ''Telemetry Filters'', Input (js_join '','' (ft_hosts (ed_filter s))) False EdHosts,
      Select (ft_type (ed_filter s)) [''all'', ''PROCESS_EXECUTION'', ''NETWORK_CONNECTION'', ''FILE_MODIFICATION''] EdType,
      Input (ft_keyword (ed_filter s)) False EdKeyword,
      Text ''Saved Hunt Templates'', Input (ed_huntName s) False EdHuntName,
      Button ''Save'' (ed_huntName s = '''') EdSaveHunt]
     @ map (\<lambda>h. Button (hu_name h) False (EdHunt h)) (ed_hunts s)
     @ render_if (length (ed_hunts s) = 0) (Text ''No saved hunts.'')"

definition EdrLogsPage_view :: "(string \<Rightarrow> string) \<Rightarrow> edr_state \<Rightarrow> edr_event view list" where
  "EdrLogsPage_view fmt s =
     [Text ''EDR Telemetry Logs'', Button ''Live Tail'' False EdLive] @ edr_filters s
     @ map (edr_row fmt) (edr_filteredData s)
     @ render_if (length (edr_filteredData s) = 0) (Text ''No telemetry matches the current filters.'')
     @ edr_tree_dialog s"

text \<open>The events that can happen: what the page offers, a timer, an answer or typing.\<close>

fun edr_enabled :: "(string \<Rightarrow> string) \<Rightarrow> edr_state \<Rightarrow> edr_event \<Rightarrow> bool" where
  "edr_enabled fmt s (EdLoaded r) = True"
| "edr_enabled fmt s EdMount = True"
| "edr_enabled fmt s EdTick = ed_live s"
| "edr_enabled fmt s (EdHosts v) = True"
| "edr_enabled fmt s (EdKeyword v) = True"
| "edr_enabled fmt s (EdHuntName v) = True"
| "edr_enabled fmt s e = (e \<in> set (concat (map clicks (EdrLogsPage_view fmt s))))"


section \<open>Facts\<close>

interpretation edr_loader: loader_page ed_async "\<lambda>s. fst (edr_execute s)" edr_answer edr_load
  by unfold_locales (simp_all add: edr_execute_def edr_answer_def)

definition tree_ok :: "edr_log \<Rightarrow> bool" where
  "tree_ok l = (er_processTree l = (if er_eventType l = ''PROCESS_EXECUTION''
     then Some (ProcNode ''explorer.exe'' 1422 [ProcNode ''cmd.exe'' 5122 [ProcNode (er_process l) 8192 []]]) else None))"

definition edr_ok :: "edr_state \<Rightarrow> bool" where
  "edr_ok s = (list_all tree_ok (or_else (as_data (ed_async s)) [])
     \<and> (case ed_tree s of None \<Rightarrow> True | Some l \<Rightarrow> tree_ok l \<and> er_eventType l = ''PROCESS_EXECUTION''))"

lemma edr_raw_extend_simps [simp]:
  "er_id (edr_raw.extend l f) = er_id l" "er_host (edr_raw.extend l f) = er_host l"
  "er_eventType (edr_raw.extend l f) = er_eventType l" "er_process (edr_raw.extend l f) = er_process l"
  "er_detail (edr_raw.extend l f) = er_detail l" "er_isSuspicious (edr_raw.extend l f) = er_isSuspicious l"
  "er_timestamp (edr_raw.extend l f) = er_timestamp l"
  by (cases l, simp add: edr_raw.defs)+

lemma er_processTree_extend [simp]: "er_processTree (edr_raw.extend l (edr_log.fields t)) = t"
  by (cases l) (simp add: edr_raw.defs edr_log.defs)

lemma tree_ok_load: "list_all tree_ok (edr_load ls)"
  by (simp add: list_all_iff edr_load_def tree_ok_def)

lemma edr_setFilter_fields [simp]:
  "as_data (ed_async (fst (edr_setFilter f s))) = as_data (ed_async s)"
  "ed_tree (fst (edr_setFilter f s)) = ed_tree s" "ed_filter (fst (edr_setFilter f s)) = f"
  by (simp_all add: edr_setFilter_def edr_execute_def execute_start_def Let_def)

lemma edr_execute_fields [simp]:
  "as_data (ed_async (fst (edr_execute s))) = as_data (ed_async s)" "ed_tree (fst (edr_execute s)) = ed_tree s"
  by (simp_all add: edr_execute_def execute_start_def)

lemma edr_tree_click:
  assumes "EdTree (Some l) \<in> set (concat (map clicks (EdrLogsPage_view fmt s)))"
  shows "l \<in> set (edr_filteredData s) \<and> er_eventType l = ''PROCESS_EXECUTION''"
  using assms
  by (auto simp: EdrLogsPage_view_def edr_filters_def edr_row_def edr_tree_dialog_def split: if_splits option.splits)

lemma edr_ok_initial: "edr_ok (edr_initial host hs)"
  by (simp add: edr_ok_def edr_initial_def useAsyncState_def or_else_def)

lemma edr_ok_keep: "edr_ok s \<Longrightarrow> as_data (ed_async t) = as_data (ed_async s) \<Longrightarrow> ed_tree t = ed_tree s \<Longrightarrow> edr_ok t"
  by (simp add: edr_ok_def)

lemma edr_ok_answer: "edr_ok s \<Longrightarrow> edr_ok (edr_answer r s)"
  by (cases r) (simp_all add: edr_ok_def edr_answer_def execute_settle_def or_else_def tree_ok_load)

lemma edr_ok_step:
  assumes "edr_ok s" and "edr_enabled fmt s e"
  shows "edr_ok (fst (edr_step sf e s))"
proof (cases e)
  case (EdTree l)
  show ?thesis
  proof (cases l)
    case None
    then show ?thesis using assms(1) EdTree by (simp add: edr_ok_def)
  next
    case (Some x)
    then have "x \<in> set (edr_filteredData s)" "er_eventType x = ''PROCESS_EXECUTION''"
      using assms(2) edr_tree_click [of x fmt s] EdTree by simp_all
    then show ?thesis using assms(1) EdTree Some by (auto simp: edr_ok_def edr_filteredData_def list_all_iff)
  qed
next
  case (EdLoaded r)
  then show ?thesis using assms(1) edr_ok_answer by simp
qed (auto intro!: edr_ok_keep [OF assms(1)] simp: edr_setHosts_def handleSaveHunt_def Let_def)

interpretation edr_machine:
  machine_invariant "edr_initial host hs" "edr_enabled fmt" "\<lambda>e s. fst (edr_step sf e s)" edr_ok
  by unfold_locales (rule edr_ok_initial, rule edr_ok_step)

lemma event_type_names:
  "event_type_str t \<noteq> ''PROCESS_EXECUTION'' \<and> event_type_str t \<noteq> ''NETWORK_CONNECTION'' \<and> event_type_str t \<noteq> ''FILE_MODIFICATION''"
  by (cases t) (simp_all add: event_type_str_def)

section \<open>What the page guarantees\<close>


definition example_edr :: edr_raw where
  "example_edr = \<lparr>er_id = ''1'', er_host = ''h'', er_eventType = ''PROCESS_EXECUTION'', er_timestamp = '''', er_process = ''calc.exe'',
     er_detail = '''', er_isSuspicious = False\<rparr>"


text \<open>C40. The type filter: when the entries have the event types their declared type allows, every choice but All Events
  shows an empty table, and the process tree is never offered.\<close>

theorem edr_type_filter_empty:
  assumes "\<And>l. l \<in> set (or_else (as_data (ed_async s)) []) \<Longrightarrow> er_eventType l \<in> range event_type_str"
  shows "(if ft_type (ed_filter s) \<in> {''PROCESS_EXECUTION'', ''NETWORK_CONNECTION'', ''FILE_MODIFICATION''}
      then edr_filteredData s = [] else True)
    \<and> EdTree (Some l) \<notin> set (concat (map clicks (EdrLogsPage_view fmt s)))"
proof
  show "if ft_type (ed_filter s) \<in> {''PROCESS_EXECUTION'', ''NETWORK_CONNECTION'', ''FILE_MODIFICATION''}
      then edr_filteredData s = [] else True"
    using assms event_type_names by (force simp: edr_filteredData_def edr_matches_def filter_empty_conv)
  show "EdTree (Some l) \<notin> set (concat (map clicks (EdrLogsPage_view fmt s)))"
  proof
    assume "EdTree (Some l) \<in> set (concat (map clicks (EdrLogsPage_view fmt s)))"
    from edr_tree_click [OF this] have "l \<in> set (or_else (as_data (ed_async s)) [])" "er_eventType l = ''PROCESS_EXECUTION''"
      by (auto simp: edr_filteredData_def)
    then show False using assms [of l] event_type_names by force
  qed
qed

theorem edr_type_filter_empty_witness:
  "edr_filteredData (fst (edr_step (\<lambda>hs. '''') (EdType ''PROCESS_EXECUTION'')
     (edr_answer (Resolved [example_edr\<lparr>er_eventType := ''process_exec''\<rparr>]) (edr_initial None [])))) = []"
proof -
  let ?s = "fst (edr_step (\<lambda>hs. '''') (EdType ''PROCESS_EXECUTION'')
     (edr_answer (Resolved [example_edr\<lparr>er_eventType := ''process_exec''\<rparr>]) (edr_initial None [])))"
  have e: "''process_exec'' = event_type_str Process_exec" by (simp add: event_type_str_def)
  have "er_eventType l \<in> range event_type_str" if "l \<in> set (or_else (as_data (ed_async ?s)) [])" for l
  proof -
    have "er_eventType l = ''process_exec''"
      using that by (simp add: edr_loader.data_after_answer or_else_def edr_load_def)
    then show ?thesis using e by simp
  qed
  then have "if ft_type (ed_filter ?s) \<in> {''PROCESS_EXECUTION'', ''NETWORK_CONNECTION'', ''FILE_MODIFICATION''}
      then edr_filteredData ?s = [] else True"
    using edr_type_filter_empty [of ?s undefined "\<lambda>t. t"] by blast
  moreover have "ft_type (ed_filter ?s) = ''PROCESS_EXECUTION''" by simp
  ultimately show ?thesis by simp
qed

text \<open>A comma cannot be typed into the host field: with or without a comma at the end of the text the field holds the same
  hosts, so it shows the text without it.\<close>

theorem edr_comma_dropped:
  "ft_hosts (ed_filter (fst (edr_step sf (EdHosts (v @ '','')) s))) = ft_hosts (ed_filter (fst (edr_step sf (EdHosts v) s)))"
  by (simp add: edr_setHosts_def hosts_of_input_def js_split_snoc)

text \<open>Suspicious entries: an entry is marked when the server marks it or its detail, in any case, contains one of the
  listed command lines; and the link to the isolation page of its host is offered in its row exactly then.\<close>

theorem edr_suspicious_pivot:
  "map er_isSuspicious (edr_load ls)
     = map (\<lambda>l. er_isSuspicious l \<or> (\<exists>b. b \<in> set LOLBINS \<and> sublist b (js_lower (er_detail l)))) ls
   \<and> (EdGo u \<in> set (clicks (edr_row fmt l)) \<longleftrightarrow> er_isSuspicious l \<and> u = isolation_link (er_host l))"
proof
  show "map er_isSuspicious (edr_load ls)
     = map (\<lambda>l. er_isSuspicious l \<or> (\<exists>b. b \<in> set LOLBINS \<and> sublist b (js_lower (er_detail l)))) ls"
    by (simp add: edr_load_def lolbin_detail_def list_ex_iff js_includes_sublist Bex_def)
  show "EdGo u \<in> set (clicks (edr_row fmt l)) \<longleftrightarrow> er_isSuspicious l \<and> u = isolation_link (er_host l)"
    by (cases "er_isSuspicious l") (auto simp: edr_row_def)
qed

text \<open>When the page loads again: a change of hosts asks for exactly those hosts, the type and the keyword only filter
  what is loaded.\<close>

theorem edr_reload_on_hosts:
  assumes "ft_ref (ed_filter s) < ed_next s"
  shows "snd (edr_step sf (EdHost h) s) = [Request GET (''/endpoints/logs?hosts='' @ h) JNull]
    \<and> snd (edr_step sf (EdHosts v) s) = [Request GET (''/endpoints/logs?hosts=''
        @ (if hosts_of_input v = [] then ''all'' else js_join '','' (hosts_of_input v))) JNull]
    \<and> snd (edr_step sf (EdType t) s) = [] \<and> snd (edr_step sf (EdKeyword k) s) = []"
  using assms by (simp add: edr_setHosts_def edr_setFilter_def edr_execute_def edr_url_def Let_def)

theorem edr_reload_on_hosts_witness:
  "snd (edr_step (\<lambda>hs. '''') (EdHost ''web-1'') (edr_initial None [])) = [Request GET (''/endpoints/logs?hosts='' @ ''web-1'') JNull]"
  using edr_reload_on_hosts [of "edr_initial None []" "\<lambda>hs. ''''" "''web-1''"] by (simp add: edr_initial_def)

text \<open>Saved hunts survive a reload: after saving a hunt the stored text, read back, gives the same hunts.\<close>

theorem edr_hunts_round_trip:
  assumes "ed_huntName s \<noteq> ''''" and "\<And>hs. parse (sf hs) = Some hs" and "\<And>hs. sf hs \<noteq> ''''"
  shows "\<exists>v s'. snd (handleSaveHunt sf s) = [LocalSet ''edr_saved_hunts'' v]
    \<and> EdrLogsPage parse (Some v) host = Some s'
    \<and> map store_hunt (ed_hunts s') = map store_hunt (ed_hunts s) @ [store_hunt \<lparr>hu_name = ed_huntName s, hu_filter = ed_filter s\<rparr>]"
proof -
  have st: "store_hunt (restore_hunt i h) = h" for i h by (cases h) (simp add: store_hunt_def)
  have "map store_hunt (map (\<lambda>(i, h). restore_hunt i h) (enumerate 1 hs)) = hs" for hs
    by (rule nth_equalityI) (simp_all add: nth_enumerate_eq st)
  then have h: "map store_hunt (ed_hunts (edr_initial host hs)) = hs" for hs by (simp add: edr_initial_def)
  let ?hs = "map store_hunt (ed_hunts s @ [\<lparr>hu_name = ed_huntName s, hu_filter = ed_filter s\<rparr>])"
  have "snd (handleSaveHunt sf s) = [LocalSet ''edr_saved_hunts'' (sf ?hs)]"
    using assms(1) by (simp add: handleSaveHunt_def Let_def)
  moreover have "EdrLogsPage parse (Some (sf ?hs)) host = Some (edr_initial host ?hs)"
    using assms(2) [of ?hs] assms(3) [of ?hs] by (simp add: EdrLogsPage_def useSavedView_def)
  moreover have "map store_hunt (ed_hunts (edr_initial host ?hs)) = ?hs" by (rule h)
  ultimately show ?thesis by (intro exI conjI) (assumption, assumption, simp)
qed

text \<open>An answer belongs to the hosts it was asked for, not to those the field shows: when the answer to the earlier request
  arrives after the one for the newly chosen host, the table shows the earlier hosts.\<close>

theorem edr_stale_hosts:
  "as_data (ed_async (edr_answer (Resolved old) (edr_answer (Resolved new) (fst (edr_step sf (EdHost h) s))))) = Some (edr_load old)
   \<and> ft_hosts (ed_filter (edr_answer (Resolved old) (edr_answer (Resolved new) (fst (edr_step sf (EdHost h) s))))) = [h]"
  by (simp add: edr_loader.data_after_answer) (simp add: edr_answer_def edr_setHosts_def)

end
