(* ===== verification/Dashboards.thy ===== *)
theory Dashboards
  imports SOC_Types Shared_UI
begin

text \<open>
  The three dashboards of \<^verbatim>\<open>pages/dashboards\<close>: the operations overview with its alert queue, service-level clock and
  activity feed (\<^verbatim>\<open>OverviewPage.tsx\<close>), the executive summary (\<^verbatim>\<open>ExecutiveDashboardPage.tsx\<close>) and the compliance page
  (\<^verbatim>\<open>CompliancePage.tsx\<close>). The clock, random draws, number and date formats are arguments. The panels of
  \<^verbatim>\<open>features/agent-ops\<close> that the overview embeds are modelled in their own theories.
\<close>

section \<open>Overview: data\<close>

record overview_metrics =
  om_alertsScanned :: nat
  om_eventsIngestGB24h :: rat
  om_dataIngestTB24h :: rat
  om_openIncidents :: nat
  om_preventedEvents :: nat

record overview_alert =
  oa_id :: string
  oa_type :: string
  oa_severity :: rat
  oa_assignedTo :: string
  oa_createdAt :: string
  oa_slaMinutesRemaining :: "int option"

text \<open>What the alert endpoint and the alert stream send. A severity that is not a number is \<^const>\<open>None\<close>.\<close>

record raw_alert =
  rw_id :: "string option"
  rw_type :: "string option"
  rw_severity :: "rat option"
  rw_assigned_to :: "string option"
  rw_assignedTo :: "string option"
  rw_created_at :: "string option"
  rw_createdAt :: "string option"

record activity =
  av_time :: string
  av_msg :: string
  av_kind :: string

definition slaBudget :: "raw_alert \<Rightarrow> int" where
  "slaBudget a = (if rw_severity a = Some 1 then 15 else if rw_severity a = Some 2 then 45 else 120)"

text \<open>\<open>now\<close> and \<open>time_of\<close> are milliseconds, \<open>nowText\<close> is the present time as text, \<open>draw i k\<close> the random numbers of row \<open>i\<close>.\<close>

definition overview_parse ::
  "(rat \<Rightarrow> rat) \<Rightarrow> (nat \<Rightarrow> rat) \<Rightarrow> (string \<Rightarrow> int) \<Rightarrow> int \<Rightarrow> string \<Rightarrow> raw_alert \<Rightarrow> overview_alert" where
  "overview_parse fl draw time_of now nowText a =
     (let createdAt = str_or (rw_created_at a) (str_or (rw_createdAt a) nowText);
          elapsedMinutes = (now - time_of createdAt) div 60000
      in \<lparr>oa_id = str_or (rw_id a) (''ALT-'' @ int_str \<lfloor>fl (100 + fl (draw 0 * 900))\<rfloor>),
          oa_type = str_or (rw_type a) ''Suspicious Activity'',
          oa_severity = or_else (rw_severity a) 2,
          oa_assignedTo = str_or (rw_assigned_to a) (str_or (rw_assignedTo a) (if 1 / 2 < draw 1 then ''me'' else ''team'')),
          oa_createdAt = createdAt,
          oa_slaMinutesRemaining = Some (slaBudget a - elapsedMinutes)\<rparr>)"

record overview_state =
  ov_async :: "overview_metrics async_state"
  ov_myQueueOnly :: bool
  ov_alerts :: "overview_alert list"
  ov_activities :: "activity list"
  ov_handoff :: bool

definition OverviewPage :: overview_state where
  "OverviewPage = \<lparr>ov_async = useAsyncState, ov_myQueueOnly = False, ov_alerts = [], ov_activities = [], ov_handoff = False\<rparr>"

section \<open>Overview: handlers\<close>

definition executeMetrics :: "overview_state \<Rightarrow> overview_state \<times> effect list" where
  "executeMetrics s = (s\<lparr>ov_async := execute_start (ov_async s)\<rparr>, [Request GET ''/metrics/overview'' JNull])"

definition metrics_answer :: "overview_metrics response \<Rightarrow> overview_state \<Rightarrow> overview_state" where
  "metrics_answer r s = s\<lparr>ov_async := execute_settle r (ov_async s)\<rparr>"

definition overview_fetchAlerts_start :: "effect list" where
  "overview_fetchAlerts_start = [Request GET ''/alerts'' JNull]"

text \<open>The body is \<^const>\<open>None\<close> when it is not an array.\<close>

definition overview_fetchAlerts_settle ::
  "(rat \<Rightarrow> rat) \<Rightarrow> (nat \<Rightarrow> nat \<Rightarrow> rat) \<Rightarrow> (string \<Rightarrow> int) \<Rightarrow> int \<Rightarrow> string \<Rightarrow> raw_alert list option response \<Rightarrow> overview_state
     \<Rightarrow> overview_state \<times> effect list" where
  "overview_fetchAlerts_settle fl draw time_of now nowText r s = (case r of
       Resolved (Some rs) \<Rightarrow>
         (s\<lparr>ov_alerts := map (\<lambda>(i, a). overview_parse fl (draw i) time_of now nowText a) (enumerate 0 rs)\<rparr>, [])
     | Resolved None \<Rightarrow> (s, [])
     | Rejected e \<Rightarrow> (s, [ConsoleError ''Failed to load live alerts queue:'']))"

definition push_activity :: "activity \<Rightarrow> activity list \<Rightarrow> activity list" where
  "push_activity a prev = a # take 19 prev"

definition live_alert :: "string \<Rightarrow> string \<Rightarrow> raw_alert \<Rightarrow> overview_alert" where
  "live_alert nowText i a = \<lparr>oa_id = i, oa_type = str_or (rw_type a) ''Realtime Alert'', oa_severity = or_else (rw_severity a) 1,
     oa_assignedTo = ''me'', oa_createdAt = nowText,
     oa_slaMinutesRemaining = Some (if rw_severity a = Some 1 then 15 else 45)\<rparr>"

definition overview_prepend :: "overview_alert \<Rightarrow> overview_alert list \<Rightarrow> overview_alert list" where
  "overview_prepend a prev = (if list_ex (\<lambda>b. oa_id b = oa_id a) prev then prev else a # prev)"

definition overview_onAlert :: "string \<Rightarrow> string \<Rightarrow> raw_alert \<Rightarrow> overview_state \<Rightarrow> overview_state" where
  "overview_onAlert clock nowText a s =
     (let i = str_or (rw_id a) '''' in
      if i = '''' then s
      else s\<lparr>ov_alerts := overview_prepend (live_alert nowText i a) (ov_alerts s),
             ov_activities := push_activity \<lparr>av_time = clock,
               av_msg = ''High-priority alert '' @ i @ '' triggered: '' @ str_or (rw_type a) ''Detection'', av_kind = ''alert''\<rparr>
               (ov_activities s)\<rparr>)"

record stream_event =
  sv_message :: "string option"
  sv_msg :: "string option"
  sv_node :: "string option"

definition overview_onAgent :: "string \<Rightarrow> stream_event \<Rightarrow> overview_state \<Rightarrow> overview_state" where
  "overview_onAgent clock e s = s\<lparr>ov_activities := push_activity \<lparr>av_time = clock,
     av_msg = str_or (sv_message e) (str_or (sv_msg e) (str_or (sv_node e) ''Agent'' @ '' executed successfully'')),
     av_kind = (if sv_node e = Some ''LLMTriage'' then ''system'' else ''info'')\<rparr> (ov_activities s)\<rparr>"

definition handleStartInvestigation :: "string \<Rightarrow> effect list" where
  "handleStartInvestigation i = [Navigate (''/investigations/'' @ i)]"

definition handleEscalate_start :: "string \<Rightarrow> effect list" where
  "handleEscalate_start i = [Request PATCH (''/alerts/'' @ i @ ''/assign'') (JObj [(''role'', JStr ''tier3_lead'')])]"

definition handleEscalate_settle :: "string \<Rightarrow> unit response \<Rightarrow> overview_state \<Rightarrow> overview_state \<times> effect list" where
  "handleEscalate_settle i r s = (case r of
       Resolved x \<Rightarrow> (s\<lparr>ov_alerts := map_where (\<lambda>a. oa_id a = i) (\<lambda>a. a\<lparr>oa_severity := 1\<rparr>) (ov_alerts s)\<rparr>,
         [Alert (''Alert '' @ i @ '' escalated to Tier 3 Lead.'')])
     | Rejected e \<Rightarrow> (s, [Alert (''Alert '' @ i @ '' escalated.'')]))"

definition handleFalsePositive_start :: "string \<Rightarrow> effect list" where
  "handleFalsePositive_start i = [Request PATCH (''/alerts/'' @ i @ ''/acknowledge'') JNull]"

definition handleFalsePositive_settle :: "string \<Rightarrow> unit response \<Rightarrow> overview_state \<Rightarrow> overview_state" where
  "handleFalsePositive_settle i r s = (case r of
       Resolved x \<Rightarrow> s\<lparr>ov_alerts := filter (\<lambda>a. oa_id a \<noteq> i) (ov_alerts s)\<rparr>
     | Rejected e \<Rightarrow> s\<lparr>ov_alerts := filter (\<lambda>a. oa_id a \<noteq> i) (ov_alerts s)\<rparr>)"

definition handleGenerateHandoff_start :: "overview_state \<Rightarrow> overview_state \<times> effect list" where
  "handleGenerateHandoff_start s = (s\<lparr>ov_handoff := True\<rparr>,
     [Request POST ''/shifts/handoff'' (JObj [(''queue'', JStr (if ov_myQueueOnly s then ''me'' else ''all''))])])"

definition handleGenerateHandoff_settle :: "unit response \<Rightarrow> overview_state \<Rightarrow> overview_state \<times> effect list" where
  "handleGenerateHandoff_settle r s = (s\<lparr>ov_handoff := False\<rparr>, (case r of
       Resolved x \<Rightarrow> [Alert ''Shift handoff note generated and persisted successfully.'']
     | Rejected e \<Rightarrow> [Alert ''Shift handoff report compiled for current operational queue.'']))"

definition filteredAlerts :: "overview_state \<Rightarrow> overview_alert list" where
  "filteredAlerts s = (if ov_myQueueOnly s then filter (\<lambda>a. oa_assignedTo a = ''me'') (ov_alerts s) else ov_alerts s)"

datatype overview_event =
    OvLoad | OvMetrics "overview_metrics response" | OvFetch | OvFetched int string "nat \<Rightarrow> nat \<Rightarrow> rat" "raw_alert list option response"
  | OvAlert string string raw_alert | OvAgent string stream_event | OvOpen string | OvEscalate string
  | OvEscalated string "unit response" | OvFalse string | OvFalsed string "unit response" | OvQueue bool
  | OvHandoff | OvHandedOff "unit response"

fun overview_step ::
  "(rat \<Rightarrow> rat) \<Rightarrow> (string \<Rightarrow> int) \<Rightarrow> overview_event \<Rightarrow> overview_state \<Rightarrow> overview_state \<times> effect list" where
  "overview_step fl time_of OvLoad s = executeMetrics s"
| "overview_step fl time_of (OvMetrics r) s = (metrics_answer r s, [])"
| "overview_step fl time_of OvFetch s = (s, overview_fetchAlerts_start)"
| "overview_step fl time_of (OvFetched now nowText draw r) s = overview_fetchAlerts_settle fl draw time_of now nowText r s"
| "overview_step fl time_of (OvAlert clock nowText a) s = (overview_onAlert clock nowText a s, [])"
| "overview_step fl time_of (OvAgent clock e) s = (overview_onAgent clock e s, [])"
| "overview_step fl time_of (OvOpen i) s = (s, handleStartInvestigation i)"
| "overview_step fl time_of (OvEscalate i) s = (s, handleEscalate_start i)"
| "overview_step fl time_of (OvEscalated i r) s = handleEscalate_settle i r s"
| "overview_step fl time_of (OvFalse i) s = (s, handleFalsePositive_start i)"
| "overview_step fl time_of (OvFalsed i r) s = (handleFalsePositive_settle i r s, [])"
| "overview_step fl time_of (OvQueue b) s = (s\<lparr>ov_myQueueOnly := b\<rparr>, [])"
| "overview_step fl time_of OvHandoff s = handleGenerateHandoff_start s"
| "overview_step fl time_of (OvHandedOff r) s = handleGenerateHandoff_settle r s"

section \<open>Overview: the page\<close>

definition sla_text :: "overview_alert \<Rightarrow> string" where
  "sla_text a = (let sla = or_else (oa_slaMinutesRemaining a) 30 in
     if sla < 0 then ''SLA BREACHED ('' @ int_str \<bar>sla\<bar> @ ''m ago)'' else ''SLA: '' @ int_str sla @ ''m left'')"

definition severity_badge :: "overview_alert \<Rightarrow> string" where
  "severity_badge a = (if oa_severity a \<le> 1 then ''S1'' else if oa_severity a = 2 then ''S2'' else ''S3'')"

definition overview_row :: "overview_alert \<Rightarrow> overview_event view" where
  "overview_row a = Clickable (OvOpen (oa_id a))
     [Text (oa_id a), Text (js_replace_char (CHR ''_'') (CHR '' '') (oa_type a)), Text (severity_badge a),
      Text (''Assigned: '' @ (if oa_assignedTo a = ''me'' then ''You'' else oa_assignedTo a)), Text (sla_text a),
      Button ''Investigate'' False (OvOpen (oa_id a)), Button ''Escalate'' False (OvEscalate (oa_id a)),
      Button ''False Positive'' False (OvFalse (oa_id a))]"

definition MetricCard :: "string \<Rightarrow> string \<Rightarrow> 'm view" where
  "MetricCard title v = Group title [Text title, Text v]"

text \<open>\<open>loc\<close> and \<open>num\<close> print numbers; the last two arguments are the states of the two streams.\<close>

definition OverviewPage_view ::
  "(nat \<Rightarrow> string) \<Rightarrow> (rat \<Rightarrow> string) \<Rightarrow> bool \<Rightarrow> bool \<Rightarrow> overview_state \<Rightarrow> overview_event view list" where
  "OverviewPage_view loc num alertsWs agentWs s = loader_view 8 (ov_async s) OvLoad
     ([Text ''Global Operations Overview'', Text ''CORE-INGEST'',
       Text (if agentWs then ''SOC-BACKEND success'' else ''SOC-BACKEND warning''),
       Text (if alertsWs then ''THREAT-FEEDS success'' else ''THREAT-FEEDS warning'')]
      @ (case as_data (ov_async s) of
           Some m \<Rightarrow> [MetricCard ''Alerts Scanned (24h)'' (loc (om_alertsScanned m)), MetricCard ''Open Incidents'' (nat_str (om_openIncidents m)),
             MetricCard ''Events Ingested'' (num (om_eventsIngestGB24h m) @ '' GB''), MetricCard ''Threats Prevented'' (loc (om_preventedEvents m))]
         | None \<Rightarrow> [MetricCard ''Alerts Scanned (24h)'' ''0'', MetricCard ''Open Incidents'' ''0'', MetricCard ''Events Ingested'' ''0 GB'',
             MetricCard ''Threats Prevented'' ''0''])
      @ [Button ''My Queue'' False (OvQueue True), Button ''Team Queue'' False (OvQueue False),
         Button (if ov_handoff s then ''Generating...'' else ''Generate Handoff Note'') (ov_handoff s) OvHandoff]
      @ (if length (filteredAlerts s) = 0 then [Text ''No alerts in this queue.''] else map overview_row (filteredAlerts s))
      @ (if length (ov_activities s) = 0 then [Text ''Awaiting live system activity stream...'']
         else map (\<lambda>a. Group (av_kind a) [Text (av_msg a), Text (av_time a)]) (ov_activities s)))"


section \<open>Executive summary\<close>

record enhanced_kpi = kpi_data +
  ek_deltas :: "int \<times> int \<times> int"
  ek_mttdPercentile :: nat
  ek_mttrPercentile :: nat

definition kpi_load :: "kpi_data \<Rightarrow> enhanced_kpi" where
  "kpi_load d = kpi_data.extend d (enhanced_kpi.fields (12, - 18, - 5) 85 72)"

record executive_state =
  ex_async :: "enhanced_kpi async_state"
  ex_isExporting :: bool
  ex_showSchedule :: bool
  ex_email :: string
  ex_freq :: string

definition ExecutiveDashboardPage :: executive_state where
  "ExecutiveDashboardPage = \<lparr>ex_async = useAsyncState, ex_isExporting = False, ex_showSchedule = False, ex_email = '''',
     ex_freq = ''weekly''\<rparr>"

definition executive_execute :: "executive_state \<Rightarrow> executive_state \<times> effect list" where
  "executive_execute s = (s\<lparr>ex_async := execute_start (ex_async s)\<rparr>,
     [Request GET ''/dashboards/executive-summary?compare=previous_period'' JNull])"

definition executive_answer :: "kpi_data response \<Rightarrow> executive_state \<Rightarrow> executive_state" where
  "executive_answer r s = s\<lparr>ex_async := execute_settle (case r of
     Resolved d \<Rightarrow> Resolved (kpi_load d) | Rejected e \<Rightarrow> Rejected e) (ex_async s)\<rparr>"

definition executive_export_start :: "executive_state \<Rightarrow> executive_state \<times> effect list" where
  "executive_export_start s = (s\<lparr>ex_isExporting := True\<rparr>, [Request POST ''/dashboards/executive-summary/export'' (JObj [])])"

text \<open>The answer is the object URL of the downloaded file.\<close>

definition executive_export_settle :: "string response \<Rightarrow> executive_state \<Rightarrow> executive_state \<times> effect list" where
  "executive_export_settle r s = (s\<lparr>ex_isExporting := False\<rparr>, (case r of
       Resolved url \<Rightarrow> [Download ''Executive_Board_Report.pdf'' url]
     | Rejected e \<Rightarrow> [Alert ''Failed to generate board report (mocked).'']))"

definition handleScheduleSubmit_start :: "executive_state \<Rightarrow> effect list" where
  "handleScheduleSubmit_start s = [Request POST ''/dashboards/executive-summary/schedule''
     (JObj [(''email'', JStr (ex_email s)), (''frequency'', JStr (ex_freq s))])]"

definition handleScheduleSubmit_settle :: "unit response \<Rightarrow> executive_state \<Rightarrow> executive_state \<times> effect list" where
  "handleScheduleSubmit_settle r s = (case r of
       Resolved x \<Rightarrow> (s\<lparr>ex_showSchedule := False\<rparr>, [Alert ''Report scheduled successfully!''])
     | Rejected e \<Rightarrow> (s, [Alert ''Failed to schedule report.'']))"

datatype executive_event =
    ExLoad | ExLoaded "kpi_data response" | ExExport | ExExported "string response" | ExShow bool | ExEmail string | ExFreq string
  | ExSubmit | ExSubmitted "unit response" | ExGo string

fun executive_step :: "executive_event \<Rightarrow> executive_state \<Rightarrow> executive_state \<times> effect list" where
  "executive_step ExLoad s = executive_execute s"
| "executive_step (ExLoaded r) s = (executive_answer r s, [])"
| "executive_step ExExport s = executive_export_start s"
| "executive_step (ExExported r) s = executive_export_settle r s"
| "executive_step (ExShow b) s = (s\<lparr>ex_showSchedule := b\<rparr>, [])"
| "executive_step (ExEmail t) s = (s\<lparr>ex_email := t\<rparr>, [])"
| "executive_step (ExFreq t) s = (s\<lparr>ex_freq := t\<rparr>, [])"
| "executive_step ExSubmit s = (s, handleScheduleSubmit_start s)"
| "executive_step (ExSubmitted r) s = handleScheduleSubmit_settle r s"
| "executive_step (ExGo u) s = (s, [Navigate u])"

text \<open>A card: the value with its unit, and the change against the prior period; a change of zero has no text. The
  second component says whether the change is shown as an improvement.\<close>

definition deltaText :: "int option \<Rightarrow> string" where
  "deltaText delta = (case delta of
     None \<Rightarrow> '''' | Some d \<Rightarrow> if d = 0 then '''' else if 0 < d then ''+'' @ int_str d @ ''%'' else int_str d @ ''%'')"

definition delta_isGood :: "bool \<Rightarrow> int option \<Rightarrow> bool" where
  "delta_isGood isNegativeGood delta = (case delta of
     None \<Rightarrow> True | Some d \<Rightarrow> if d = 0 then True else if isNegativeGood then d \<le> 0 else 0 \<le> d)"

definition KpiCard :: "(rat \<Rightarrow> string) \<Rightarrow> string \<Rightarrow> rat \<Rightarrow> string \<Rightarrow> int option \<Rightarrow> 'm view" where
  "KpiCard num title v unit delta = Group title ([Text title, Text (num v @ '' '' @ unit)]
     @ (case delta of None \<Rightarrow> [] | Some d \<Rightarrow> [Text (deltaText delta @ '' vs prior period'')]))"

definition executive_dialog :: "(string \<Rightarrow> bool) \<Rightarrow> executive_state \<Rightarrow> executive_event view list" where
  "executive_dialog valid_email s = (if ex_showSchedule s
     then [Text ''Schedule Report Delivery'', Input (ex_email s) False ExEmail,
           Select (ex_freq s) [''daily'', ''weekly'', ''monthly''] ExFreq, Button ''Cancel'' False (ExShow False),
           Button ''Save Schedule'' (ex_email s = '''' \<or> \<not> valid_email (ex_email s)) ExSubmit]
     else [])"

definition ExecutiveDashboardPage_view ::
  "(rat \<Rightarrow> string) \<Rightarrow> (string \<Rightarrow> bool) \<Rightarrow> executive_state \<Rightarrow> executive_event view list" where
  "ExecutiveDashboardPage_view num valid_email s = loader_view 8 (ex_async s) ExLoad (case as_data (ex_async s) of
       None \<Rightarrow> [EmptyState ''No historical data found for this tenant.'']
     | Some d \<Rightarrow>
         [Text ''Executive Security Summary'', Button ''Schedule Delivery'' False (ExShow True),
          Button (if ex_isExporting s then ''Generating PDF...'' else ''Generate Board Report'') (ex_isExporting s) ExExport,
          Text (''Your MTTD is in the Top '' @ int_str (100 - int (ek_mttdPercentile d)) @ ''% for your industry tier.''),
          KpiCard num ''Total Incidents (Month)'' (kp_totalIncidents d) '''' (Some (fst (ek_deltas d))),
          KpiCard num ''MTTD'' (kp_mttd_minutes d) ''mins'' (Some (fst (snd (ek_deltas d)))),
          KpiCard num ''MTTR'' (kp_mttr_minutes d) ''mins'' (Some (snd (snd (ek_deltas d)))),
          Text (''Critical Open '' @ num (kp_criticalOpenCount d)),
          Clickable (ExGo ''/incidents/closed?timeRange=30d'') [Text ''Enterprise Risk Trend (30 Days)''],
          Clickable (ExGo ''/incidents/active?category=phishing,malware'') [Text ''Top Threat Categories'']]
         @ executive_dialog valid_email s)"

section \<open>Compliance\<close>

record enhanced_control = compliance_control +
  ec_evidenceLink :: "string option"
  ec_sharedWith :: "string list"

record enhanced_framework =
  ew_id :: string
  ew_framework :: string
  ew_score :: rat
  ew_status :: framework_status
  ew_controls :: "enhanced_control list"
  ew_historicalScores :: "rat list"

definition control_load :: "compliance_control \<Rightarrow> enhanced_control" where
  "control_load c = compliance_control.extend c (enhanced_control.fields
     (if cc_status c = CtlFailed then Some (''/assets/vulnerabilities?control='' @ cc_id c) else None)
     (if js_includes (cc_id c) ''AC'' then [''SOC 2''] else []))"

definition compliance_load :: "(rat \<Rightarrow> rat) \<Rightarrow> compliance_framework list \<Rightarrow> enhanced_framework list" where
  "compliance_load fl fws = map (\<lambda>f. \<lparr>ew_id = cf_id f, ew_framework = cf_framework f, ew_score = cf_score f, ew_status = cf_status f,
     ew_controls = map control_load (cf_controls f),
     ew_historicalScores = [fl (cf_score f - 12), fl (cf_score f - 5), cf_score f]\<rparr>) fws"

record compliance_state =
  cp_async :: "enhanced_framework list async_state"
  cp_expanded :: "string \<Rightarrow> bool"
  cp_isExporting :: bool
  cp_isGenerating :: bool
  cp_auditLink :: string
  cp_assignOpen :: bool
  cp_controlId :: string
  cp_assignee :: string
  cp_dueDate :: string

definition CompliancePage :: compliance_state where
  "CompliancePage = \<lparr>cp_async = useAsyncState, cp_expanded = (\<lambda>i. False), cp_isExporting = False, cp_isGenerating = False,
     cp_auditLink = '''', cp_assignOpen = False, cp_controlId = '''', cp_assignee = '''', cp_dueDate = ''''\<rparr>"

definition compliance_execute :: "compliance_state \<Rightarrow> compliance_state \<times> effect list" where
  "compliance_execute s = (s\<lparr>cp_async := execute_start (cp_async s)\<rparr>, [Request GET ''/dashboards/compliance-status'' JNull])"

definition compliance_answer ::
  "(rat \<Rightarrow> rat) \<Rightarrow> compliance_framework list response \<Rightarrow> compliance_state \<Rightarrow> compliance_state" where
  "compliance_answer fl r s = s\<lparr>cp_async := execute_settle (case r of
     Resolved d \<Rightarrow> Resolved (compliance_load fl d) | Rejected e \<Rightarrow> Rejected e) (cp_async s)\<rparr>"

definition toggleFramework :: "string \<Rightarrow> compliance_state \<Rightarrow> compliance_state" where
  "toggleFramework i s = s\<lparr>cp_expanded := (cp_expanded s)(i := \<not> cp_expanded s i)\<rparr>"

definition compliance_export_start :: "compliance_state \<Rightarrow> compliance_state \<times> effect list" where
  "compliance_export_start s = (s\<lparr>cp_isExporting := True\<rparr>, [Request POST ''/dashboards/compliance-status/export'' (JObj [])])"

definition compliance_export_settle :: "string response \<Rightarrow> compliance_state \<Rightarrow> compliance_state \<times> effect list" where
  "compliance_export_settle r s = (s\<lparr>cp_isExporting := False\<rparr>, (case r of
       Resolved url \<Rightarrow> [Download ''compliance_report.pdf'' url]
     | Rejected e \<Rightarrow> [Alert ''Failed to export compliance report.'']))"

definition handleGenerateAuditLink_start :: "compliance_state \<Rightarrow> compliance_state \<times> effect list" where
  "handleGenerateAuditLink_start s = (s\<lparr>cp_isGenerating := True\<rparr>, [StartTimer 800])"

text \<open>\<open>rnd36\<close> is \<^verbatim>\<open>Math.random().toString(36)\<close>.\<close>

definition audit_link :: "string \<Rightarrow> string \<Rightarrow> string" where
  "audit_link origin rnd36 = origin @ ''/audit/read-only?token=tk_'' @ drop 7 rnd36 @ ''&expires=7d''"

definition handleGenerateAuditLink_settle :: "string \<Rightarrow> string \<Rightarrow> compliance_state \<Rightarrow> compliance_state" where
  "handleGenerateAuditLink_settle origin rnd36 s = s\<lparr>cp_auditLink := audit_link origin rnd36, cp_isGenerating := False\<rparr>"

definition handleAssignTask_start :: "compliance_state \<Rightarrow> effect list" where
  "handleAssignTask_start s = [Request POST (''/dashboards/compliance-status/'' @ cp_controlId s @ ''/tasks'')
     (JObj [(''assignee'', JStr (cp_assignee s)), (''dueDate'', JStr (cp_dueDate s))])]"

definition handleAssignTask_settle :: "unit response \<Rightarrow> compliance_state \<Rightarrow> compliance_state \<times> effect list" where
  "handleAssignTask_settle r s = (case r of
       Resolved x \<Rightarrow> (s\<lparr>cp_assignOpen := False\<rparr>, [Alert ''Remediation task assigned successfully!''])
     | Rejected e \<Rightarrow> (s, [Alert ''Failed to assign task.'']))"

datatype compliance_event =
    CpLoad | CpLoaded "compliance_framework list response" | CpToggle string | CpExport | CpExported "string response"
  | CpAudit | CpAudited string string | CpCopy | CpAssign string | CpAssignOpen bool | CpAssignee string | CpDue string
  | CpSubmit | CpSubmitted "unit response" | CpLink string

fun compliance_step :: "(rat \<Rightarrow> rat) \<Rightarrow> compliance_event \<Rightarrow> compliance_state \<Rightarrow> compliance_state \<times> effect list" where
  "compliance_step fl CpLoad s = compliance_execute s"
| "compliance_step fl (CpLoaded r) s = (compliance_answer fl r s, [])"
| "compliance_step fl (CpToggle i) s = (toggleFramework i s, [])"
| "compliance_step fl CpExport s = compliance_export_start s"
| "compliance_step fl (CpExported r) s = compliance_export_settle r s"
| "compliance_step fl CpAudit s = handleGenerateAuditLink_start s"
| "compliance_step fl (CpAudited origin rnd) s = (handleGenerateAuditLink_settle origin rnd s, [])"
| "compliance_step fl CpCopy s = (s, [Clipboard (cp_auditLink s)])"
| "compliance_step fl (CpAssign i) s = (s\<lparr>cp_controlId := i, cp_assignOpen := True\<rparr>, [])"
| "compliance_step fl (CpAssignOpen b) s = (s\<lparr>cp_assignOpen := b\<rparr>, [])"
| "compliance_step fl (CpAssignee t) s = (s\<lparr>cp_assignee := t\<rparr>, [])"
| "compliance_step fl (CpDue t) s = (s\<lparr>cp_dueDate := t\<rparr>, [])"
| "compliance_step fl CpSubmit s = (s, handleAssignTask_start s)"
| "compliance_step fl (CpSubmitted r) s = handleAssignTask_settle r s"
| "compliance_step fl (CpLink u) s = (s, [Navigate u])"

definition control_row :: "(string \<Rightarrow> string) \<Rightarrow> enhanced_control \<Rightarrow> compliance_event view" where
  "control_row fmt c = Group (cc_id c)
     ([Text (cc_id c), Text (cc_name c),
       Text (if 0 < length (ec_sharedWith c) then ''+ '' @ js_join '', '' (ec_sharedWith c) else ''-''), Text (fmt (cc_lastChecked c)),
       Text (case cc_status c of CtlPassed \<Rightarrow> ''Passed'' | CtlFailed \<Rightarrow> ''Failed'' | CtlWarning \<Rightarrow> ''Partial'')]
      @ (case ec_evidenceLink c of Some u \<Rightarrow> [Clickable (CpLink u) [Text ''View Evidence'']] | None \<Rightarrow> [])
      @ render_if (cc_status c = CtlFailed \<or> cc_status c = CtlWarning) (Button ''Assign Remediation'' False (CpAssign (cc_id c))))"

definition framework_card ::
  "(rat \<Rightarrow> string) \<Rightarrow> (string \<Rightarrow> string) \<Rightarrow> compliance_state \<Rightarrow> enhanced_framework \<Rightarrow> compliance_event view" where
  "framework_card num fmt s f = Group (ew_id f)
     (Clickable (CpToggle (ew_id f))
        ([Text (ew_framework f), Text (nat_str (length (ew_controls f)) @ '' controls mapped''),
          Text (case ew_status f of FwCompliant \<Rightarrow> ''Compliant'' | FwWarning \<Rightarrow> ''Needs Attention'' | FwNon_compliant \<Rightarrow> ''Non-Compliant'')]
         @ map (\<lambda>(i, v). Text (''Audit '' @ nat_str (i + 1) @ '': '' @ num v @ ''%'')) (enumerate 0 (ew_historicalScores f))
         @ [Text (num (ew_score f) @ ''%'')])
      # (if cp_expanded s (ew_id f) then map (control_row fmt) (ew_controls f) else []))"

definition compliance_dialog :: "compliance_state \<Rightarrow> compliance_event view list" where
  "compliance_dialog s = (if cp_assignOpen s
     then [Text ''Assign Remediation'', Select (cp_assignee s) ['''', ''alice'', ''bob''] CpAssignee, Input (cp_dueDate s) False CpDue,
           Button ''Cancel'' False (CpAssignOpen False),
           Button ''Assign Task'' (cp_assignee s = '''' \<or> cp_dueDate s = '''') CpSubmit]
     else [])"

definition CompliancePage_view ::
  "(rat \<Rightarrow> string) \<Rightarrow> (string \<Rightarrow> string) \<Rightarrow> compliance_state \<Rightarrow> compliance_event view list" where
  "CompliancePage_view num fmt s = loader_view 8 (cp_async s) CpLoad
     ([Text ''Compliance & Audit Posture'',
       Button (if cp_isGenerating s then ''Generating...'' else ''Audit-Ready Link'') (cp_isGenerating s) CpAudit,
       Button (if cp_isExporting s then ''Generating PDF...'' else ''Export Compliance Report'') (cp_isExporting s) CpExport]
      @ (if cp_auditLink s \<noteq> ''''
         then [Text ''Auditor Read-Only Link Generated (Valid for 7 days)'', Text (cp_auditLink s), Button ''Copy'' False CpCopy] else [])
      @ map (framework_card num fmt s) (or_else (as_data (cp_async s)) [])
      @ compliance_dialog s)"


section \<open>Facts\<close>

lemma response_case_id [simp]: "(case r of Resolved x \<Rightarrow> Resolved x | Rejected e \<Rightarrow> Rejected e) = r"
  by (cases r) simp_all

interpretation overview_loader: loader_page ov_async "\<lambda>s. fst (executeMetrics s)" metrics_answer "\<lambda>x. x"
  by unfold_locales (simp_all add: executeMetrics_def metrics_answer_def)

interpretation executive_loader: loader_page ex_async "\<lambda>s. fst (executive_execute s)" executive_answer kpi_load
  by unfold_locales (simp_all add: executive_execute_def executive_answer_def)

interpretation compliance_loader:
  loader_page cp_async "\<lambda>s. fst (compliance_execute s)" "compliance_answer fl" "compliance_load fl"
  by unfold_locales (simp_all add: compliance_execute_def compliance_answer_def)

interpretation activity_log: bounded_log 20 "\<lambda>xs. xs" push_activity
  by unfold_locales (simp add: push_activity_def)

interpretation overview_queue:
  keyed_queue oa_id "\<lambda>a. True" overview_prepend "\<lambda>i xs. filter (\<lambda>a. oa_id a \<noteq> i) xs"
  by unfold_locales (auto simp: overview_prepend_def list_ex_key distinct_map_filter)

text \<open>The server sends every alert once and with an identifier.\<close>

fun overview_enabled :: "overview_state \<Rightarrow> overview_event \<Rightarrow> bool" where
  "overview_enabled s (OvFetched now nowText draw (Resolved (Some rs))) =
     (distinct (map rw_id rs) \<and> list_all (\<lambda>a. str_or (rw_id a) '''' \<noteq> '''') rs)"
| "overview_enabled s e = True"

definition overview_ok :: "overview_state \<Rightarrow> bool" where
  "overview_ok s = (distinct (map oa_id (ov_alerts s)) \<and> length (ov_activities s) \<le> 20)"

lemma str_or_some: "str_or x '''' \<noteq> '''' \<Longrightarrow> x = Some (str_or x d) \<and> str_or x d \<noteq> ''''"
  by (cases x) (auto simp: str_or_def)

lemma overview_parse_ids:
  assumes "list_all (\<lambda>a. str_or (rw_id a) '''' \<noteq> '''') rs"
  shows "map Some (map oa_id (map (\<lambda>(i, a). overview_parse fl (draw i) time_of now nowText a) (enumerate 0 rs))) = map rw_id rs"
proof (rule nth_equalityI)
  fix i
  assume "i < length (map Some (map oa_id (map (\<lambda>(i, a). overview_parse fl (draw i) time_of now nowText a) (enumerate 0 rs))))"
  then have i: "i < length rs" by simp
  then have "str_or (rw_id (rs ! i)) '''' \<noteq> ''''" using assms by (simp add: list_all_length)
  from str_or_some [OF this]
  show "map Some (map oa_id (map (\<lambda>(i, a). overview_parse fl (draw i) time_of now nowText a) (enumerate 0 rs))) ! i = map rw_id rs ! i"
    using i by (simp add: nth_enumerate_eq overview_parse_def Let_def)
qed simp

lemma overview_ok_fetched:
  assumes "overview_ok s" and "overview_enabled s (OvFetched now nowText draw r)"
  shows "overview_ok (fst (overview_fetchAlerts_settle fl draw time_of now nowText r s))"
proof (cases r)
  case (Resolved x)
  show ?thesis
  proof (cases x)
    case None
    then show ?thesis using assms(1) Resolved by (simp add: overview_fetchAlerts_settle_def)
  next
    case (Some rs)
    let ?as = "map (\<lambda>(i, a). overview_parse fl (draw i) time_of now nowText a) (enumerate 0 rs)"
    have "distinct (map Some (map oa_id ?as))"
      using assms(2) Resolved Some overview_parse_ids [of rs fl draw time_of now nowText] by simp
    then have "distinct (map oa_id ?as)" by (metis distinct_map)
    then show ?thesis using assms(1) Resolved Some by (simp add: overview_fetchAlerts_settle_def overview_ok_def)
  qed
next
  case (Rejected e)
  then show ?thesis using assms(1) by (simp add: overview_fetchAlerts_settle_def)
qed

lemma overview_ok_alert: "overview_ok s \<Longrightarrow> overview_ok (overview_onAlert clock nowText a s)"
  by (auto simp: overview_ok_def overview_onAlert_def Let_def overview_prepend_def list_ex_iff push_activity_def live_alert_def)

lemma overview_ok_remove: "overview_ok s \<Longrightarrow> overview_ok (handleFalsePositive_settle i r s)"
  by (cases r) (simp_all add: overview_ok_def handleFalsePositive_settle_def distinct_map_filter)

lemma overview_ok_step:
  assumes "overview_ok s" and "overview_enabled s e"
  shows "overview_ok (fst (overview_step fl time_of e s))"
proof (cases e)
  case (OvFetched now nowText draw r)
  then show ?thesis using overview_ok_fetched [OF assms(1), of now nowText draw r] assms(2) by simp
next
  case (OvAlert clock nowText a)
  then show ?thesis using overview_ok_alert [OF assms(1)] by simp
next
  case (OvFalsed i r)
  then show ?thesis using overview_ok_remove [OF assms(1)] by simp
next
  case (OvEscalated i r)
  then show ?thesis using assms(1) by (cases r) (simp_all add: handleEscalate_settle_def overview_ok_def)
qed (use assms(1) in \<open>simp_all add: overview_ok_def executeMetrics_def metrics_answer_def overview_onAgent_def push_activity_def
      handleGenerateHandoff_start_def handleGenerateHandoff_settle_def\<close>)

interpretation overview_machine:
  machine_invariant OverviewPage overview_enabled "\<lambda>e s. fst (overview_step fl time_of e s)" overview_ok
  by unfold_locales (simp add: overview_ok_def OverviewPage_def, rule overview_ok_step)

lemma minutes_passed: "(b :: int) < x div 60000 \<longleftrightarrow> (b + 1) * 60000 \<le> x"
proof -
  define q r where "q = x div 60000" and "r = x mod 60000"
  have x: "x = 60000 * q + r" "0 \<le> r" "r < 60000" by (simp_all add: q_def r_def)
  show ?thesis unfolding q_def [symmetric] distrib_right using x by (intro iffI) linarith+
qed

lemma control_row_links: "CpLink u \<in> set (clicks (control_row fmt x)) \<longleftrightarrow> ec_evidenceLink x = Some u"
  by (auto simp: control_row_def split: option.splits)

lemma control_row_assign: "CpAssign i \<in> set (clicks (control_row fmt x)) \<longleftrightarrow> cc_status x \<noteq> CtlPassed \<and> i = cc_id x"
  by (cases "cc_status x") (auto simp: control_row_def split: option.splits)

section \<open>What the dashboards guarantee\<close>

text \<open>C29. The alert queue and the activity feed: as long as the server lists every alert once and with an identifier, no
  alert is listed twice in any state the overview can reach, whatever the streams deliver, and the feed holds at most
  twenty entries.\<close>

theorem overview_queue_invariant:
  assumes "reachable OverviewPage overview_enabled (\<lambda>e s. fst (overview_step fl time_of e s)) s"
  shows "distinct (map oa_id (ov_alerts s)) \<and> length (ov_activities s) \<le> 20"
  using overview_machine.inv_reachable [OF assms] by (simp add: overview_ok_def)

definition example_raw_alert :: raw_alert where
  "example_raw_alert = \<lparr>rw_id = Some ''A-1'', rw_type = None, rw_severity = None, rw_assigned_to = None, rw_assignedTo = None,
     rw_created_at = None, rw_createdAt = None\<rparr>"

theorem overview_queue_invariant_witness:
  "distinct (map oa_id (ov_alerts (fst (overview_step (\<lambda>x. x) (\<lambda>t. 0) (OvAlert '''' '''' example_raw_alert) OverviewPage))))
   \<and> length (ov_alerts (fst (overview_step (\<lambda>x. x) (\<lambda>t. 0) (OvAlert '''' '''' example_raw_alert) OverviewPage))) = 1"
proof -
  let ?s = "fst (overview_step (\<lambda>x. x) (\<lambda>t. 0) (OvAlert '''' '''' example_raw_alert) OverviewPage)"
  have "reachable OverviewPage overview_enabled (\<lambda>e s. fst (overview_step (\<lambda>x. x) (\<lambda>t. 0) e s)) ?s"
    by (rule reach_step [OF reach_init]) simp
  from overview_queue_invariant [OF this] show ?thesis
    by (simp add: overview_onAlert_def overview_prepend_def OverviewPage_def example_raw_alert_def str_or_def Let_def)
qed

text \<open>The service-level clock: a loaded alert is shown as breached exactly when one minute more than its budget has passed
  since it was created.\<close>

theorem sla_breached_iff:
  assumes "str_or (rw_created_at a) '''' \<noteq> ''''"
  shows "js_starts_with (sla_text (overview_parse fl draw time_of now nowText a)) ''SLA BREACHED''
    \<longleftrightarrow> (slaBudget a + 1) * 60000 \<le> now - time_of (str_or (rw_created_at a) '''')"
proof -
  let ?c = "str_or (rw_created_at a) ''''"
  have c: "str_or (rw_created_at a) d = ?c" for d using assms by (cases "rw_created_at a") (auto simp: str_or_def)
  have "slaBudget a < (now - time_of ?c) div 60000 \<longleftrightarrow> (slaBudget a + 1) * 60000 \<le> now - time_of ?c"
    by (rule minutes_passed)
  then show ?thesis using c [of "str_or (rw_createdAt a) nowText"] by (simp add: sla_text_def overview_parse_def Let_def or_else_def)
qed

theorem sla_breached_iff_witness:
  "js_starts_with (sla_text (overview_parse (\<lambda>x. x) (\<lambda>k. 0) (\<lambda>t. 0) 960000 '''' (example_raw_alert\<lparr>rw_created_at := Some ''t'', rw_severity := Some 1\<rparr>)))
     ''SLA BREACHED''"
proof -
  let ?a = "example_raw_alert\<lparr>rw_created_at := Some ''t'', rw_severity := Some 1\<rparr>"
  have "str_or (rw_created_at ?a) '''' \<noteq> ''''" by (simp add: str_or_def)
  from sla_breached_iff [OF this, of "\<lambda>x. x" "\<lambda>k. 0" "\<lambda>t. 0" 960000 "''''"] show ?thesis by (simp add: slaBudget_def)
qed

text \<open>The budget does not follow the severity that is shown: an alert without a numeric severity is listed as S2 but gets the
  budget of S3, and one that arrives by the stream is listed as S1 with the budget of S2, also when its severity is 3.\<close>

theorem sla_budget_mismatch:
  "severity_badge (overview_parse fl draw time_of now nowText (a\<lparr>rw_severity := None\<rparr>)) = ''S2''
   \<and> slaBudget (a\<lparr>rw_severity := None\<rparr>) = 120 \<and> slaBudget (a\<lparr>rw_severity := Some 2\<rparr>) = 45
   \<and> severity_badge (live_alert nowText i (a\<lparr>rw_severity := None\<rparr>)) = ''S1''
   \<and> oa_slaMinutesRemaining (live_alert nowText i (a\<lparr>rw_severity := None\<rparr>)) = Some 45
   \<and> oa_slaMinutesRemaining (live_alert nowText i (a\<lparr>rw_severity := Some 3\<rparr>)) = Some 45
   \<and> slaBudget (a\<lparr>rw_severity := Some 3\<rparr>) = 120"
  by (simp add: severity_badge_def overview_parse_def live_alert_def slaBudget_def or_else_def Let_def)

text \<open>Failures are reported as successes: when the server rejects an escalation the page says the alert was escalated and
  changes nothing, and when it rejects an acknowledgement the alert is removed from the queue all the same.\<close>

theorem overview_failures_hidden:
  "handleEscalate_settle i (Rejected e) s = (s, [Alert (''Alert '' @ i @ '' escalated.'')])
   \<and> handleFalsePositive_settle i (Rejected e) s = handleFalsePositive_settle i (Resolved ()) s
   \<and> i \<notin> oa_id ` set (ov_alerts (handleFalsePositive_settle i (Rejected e) s))"
  by (auto simp: handleEscalate_settle_def handleFalsePositive_settle_def)

text \<open>The compliance table: evidence is linked for exactly the failed controls, remediation is offered for exactly those that
  failed or are partial, and opening or closing a framework leaves the others as they are.\<close>

theorem compliance_controls:
  "(CpLink u \<in> set (clicks (control_row fmt (control_load c))) \<longleftrightarrow>
      cc_status c = CtlFailed \<and> u = ''/assets/vulnerabilities?control='' @ cc_id c)
   \<and> (CpAssign i \<in> set (clicks (control_row fmt (control_load c))) \<longleftrightarrow> cc_status c \<noteq> CtlPassed \<and> i = cc_id c)
   \<and> cp_expanded (toggleFramework k s) = (\<lambda>j. if j = k then \<not> cp_expanded s j else cp_expanded s j)"
proof -
  have f: "cc_id (control_load c) = cc_id c" "cc_status (control_load c) = cc_status c"
    "ec_evidenceLink (control_load c) = (if cc_status c = CtlFailed then Some (''/assets/vulnerabilities?control='' @ cc_id c) else None)"
    by (simp_all add: control_load_def compliance_control.defs enhanced_control.defs)
  show ?thesis by (auto simp: control_row_links control_row_assign f toggleFramework_def fun_eq_iff)
qed

end
