(* ===== verification/Admin.thy ===== *)
theory Admin
  imports SOC_Types Shared_UI Two_Key Api_Auth
begin

text \<open>
  Marketplace, profile and settings: the routed marketplace and profile (\<^verbatim>\<open>pages/utilities\<close>), and the fuller marketplace
  and settings pages of \<^verbatim>\<open>pages/marketplace\<close> and \<^verbatim>\<open>pages/settings\<close>, which the application ships but does not route.
  The answer of \<^verbatim>\<open>window.confirm\<close> is an argument of the event that asks; \<open>fmt\<close> prints dates.
\<close>

section \<open>Routed marketplace\<close>

record market_state =
  mk_async :: "marketplace_listing list async_state"
  mk_pending :: "marketplace_listing option"

definition MarketplacePage :: market_state where
  "MarketplacePage = \<lparr>mk_async = useAsyncState, mk_pending = None\<rparr>"

definition market_execute :: "market_state \<Rightarrow> market_state \<times> effect list" where
  "market_execute s = (s\<lparr>mk_async := execute_start (mk_async s)\<rparr>, [Request GET ''/utilities/marketplace'' JNull])"

definition market_answer :: "marketplace_listing list response \<Rightarrow> market_state \<Rightarrow> market_state" where
  "market_answer r s = s\<lparr>mk_async := execute_settle r (mk_async s)\<rparr>"

definition market_install_start :: "market_state \<Rightarrow> effect list" where
  "market_install_start s = (case mk_pending s of
     None \<Rightarrow> [] | Some l \<Rightarrow> [Request POST (''/utilities/marketplace/'' @ ml_id l @ ''/install'') JNull])"

definition market_install_settle :: "unit response \<Rightarrow> market_state \<Rightarrow> market_state \<times> effect list" where
  "market_install_settle r s =
     (let (s1, es) = (case r of Resolved x \<Rightarrow> market_execute s | Rejected e \<Rightarrow> (s, [Alert ''Install failed.'']))
      in (s1\<lparr>mk_pending := None\<rparr>, es))"

definition market_click :: "marketplace_listing \<Rightarrow> market_state \<Rightarrow> market_state \<times> effect list" where
  "market_click item s =
     (if ml_status item = Not_installed
      then if ml_requiresElevated item then (s\<lparr>mk_pending := Some item\<rparr>, []) else (s, market_install_start s)
      else (s, []))"

datatype market_event =
    MkLoad | MkLoaded "marketplace_listing list response" | MkClick marketplace_listing | MkModal confirm_msg
  | MkInstalled "unit response"

fun market_step :: "market_event \<Rightarrow> market_state \<Rightarrow> market_state \<times> effect list" where
  "market_step MkLoad s = market_execute s"
| "market_step (MkLoaded r) s = (market_answer r s, [])"
| "market_step (MkClick item) s = market_click item s"
| "market_step (MkModal CmConfirm) s = (s, market_install_start s)"
| "market_step (MkModal CmCancel) s = (s\<lparr>mk_pending := None\<rparr>, [])"
| "market_step (MkInstalled r) s = market_install_settle r s"

definition listing_card :: "marketplace_listing \<Rightarrow> market_event view" where
  "listing_card item = Group (ml_id item)
     ([Text (ml_name item), Text (''By '' @ ml_publisher item),
       Text (case ml_status item of Installed \<Rightarrow> ''installed'' | Not_installed \<Rightarrow> ''not installed'' | Update_available \<Rightarrow> ''update available''),
       Text (ml_description item)]
      @ map (\<lambda>t. Text (''#'' @ t)) (ml_tags item)
      @ [Button (case ml_status item of Installed \<Rightarrow> ''Installed'' | Update_available \<Rightarrow> ''Update Available''
           | Not_installed \<Rightarrow> ''Install Integration'') (ml_status item = Installed) (MkClick item)])"

definition MarketplacePage_view :: "market_state \<Rightarrow> market_event view list" where
  "MarketplacePage_view s = loader_view 8 (mk_async s) MkLoad
     (Text ''Integration Marketplace'' # map listing_card (or_else (as_data (mk_async s)) [])
      @ map (map_view MkModal) (ConfirmModal_view (mk_pending s \<noteq> None) ''Elevated Permissions Required''
          (''The integration '' @ [CHR 0x27] @ (case mk_pending s of Some l \<Rightarrow> ml_name l | None \<Rightarrow> ''undefined'') @ [CHR 0x27]
           @ '' requires elevated privileges to access raw tenant data. Do you approve this installation?'')
          ''Approve Installation'' ''Cancel''))"

definition market_enabled :: "market_state \<Rightarrow> market_event \<Rightarrow> bool" where
  "market_enabled s e = (case e of MkLoaded r \<Rightarrow> True | MkInstalled r \<Rightarrow> True
     | _ \<Rightarrow> e \<in> set (concat (map clicks (MarketplacePage_view s))))"

section \<open>Profile\<close>

record profile_user =
  pu_email :: "string option"
  pu_role :: "string option"
  pu_lastLogin :: "string option"

record profile_state =
  pf_user :: "profile_user option"
  pf_loading :: bool

definition ProfilePage :: profile_state where
  "ProfilePage = \<lparr>pf_user = None, pf_loading = True\<rparr>"

definition fetchProfile_start :: "effect list" where
  "fetchProfile_start = [Request GET ''/auth/session'' JNull]"

text \<open>The answer is \<^verbatim>\<open>res.data.user\<close>, if there is one, and \<open>nowText\<close> the time of the answer.\<close>

definition fetchProfile_settle :: "string \<Rightarrow> profile_user option response \<Rightarrow> profile_state \<Rightarrow> profile_state" where
  "fetchProfile_settle nowText r s = (case r of
       Resolved u \<Rightarrow> s\<lparr>pf_user := Some ((or_else u \<lparr>pu_email = None, pu_role = None, pu_lastLogin = None\<rparr>)\<lparr>pu_lastLogin := Some nowText\<rparr>)\<rparr>
     | Rejected e \<Rightarrow> s)\<lparr>pf_loading := False\<rparr>"

definition handleLogout_start :: "effect list" where
  "handleLogout_start = [Request POST ''/auth/logout'' JNull]"

definition handleLogout_settle :: "unit response \<Rightarrow> effect list" where
  "handleLogout_settle r = (case r of Resolved x \<Rightarrow> [] | Rejected e \<Rightarrow> [ConsoleError ''Logout error:''])
     @ [LocalRemove ''token'', Navigate ''/login'']"

datatype profile_event = PfLogout

definition ProfilePage_view :: "profile_state \<Rightarrow> profile_event view list" where
  "ProfilePage_view s = Text ''Analyst Profile'' #
     (if pf_loading s then [Text ''Loading profile...'']
      else let u = or_else (pf_user s) \<lparr>pu_email = None, pu_role = None, pu_lastLogin = None\<rparr> in
        [Button ''Sign Out'' False PfLogout, Text (str_or (pu_email u) ''Unknown Analyst''), Text (str_or (pu_role u) ''ANALYST''),
         Text (str_or (pu_email u) ''N/A''), Text ''Verified'', Text ''Standard (JWT + Cookie)'', Text (str_or (pu_lastLogin u) ''N/A''),
         Text ''Two-Factor Authentication'', Text ''Audit Logs''])"

text \<open>What the effects do to the local storage.\<close>

fun local_effect :: "effect \<Rightarrow> (string \<rightharpoonup> string) \<Rightarrow> (string \<rightharpoonup> string)" where
  "local_effect (LocalSet k v) st = st(k \<mapsto> v)"
| "local_effect (LocalRemove k) st = st(k := None)"
| "local_effect e st = st"

definition SettingsPage_utilities :: "'m view list" where
  "SettingsPage_utilities = [Text ''Platform Settings'', Text ''General Configuration'', Text ''Tenant Name'', Text ''Data Retention (Days)'',
     Text ''Save Changes'']"

section \<open>Marketplace of \<^verbatim>\<open>pages/marketplace\<close>\<close>

datatype install_status = StInstalled | StNotInstalled | StInstalling

record shop_listing =
  sl_id :: string
  sl_name :: string
  sl_description :: string
  sl_publisher :: string
  sl_category :: string
  sl_status :: install_status
  sl_requiresElevated :: bool
  sl_playbookPreview :: "string option"
  sl_tags :: "string list"

definition CATEGORY_META :: "string \<Rightarrow> string" where
  "CATEGORY_META c = (if c = ''threat-intel'' then ''Threat Intel'' else if c = ''soar-playbook'' then ''SOAR Playbook''
     else if c = ''detection-pack'' then ''Detection Pack'' else ''Integration'')"

record shop_state =
  sh_listings :: "shop_listing list"
  sh_loading :: bool
  sh_search :: string
  sh_cat :: string
  sh_preview :: "shop_listing option"
  sh_installing :: "string option"

definition shop_MarketplacePage :: shop_state where
  "shop_MarketplacePage = \<lparr>sh_listings = [], sh_loading = True, sh_search = '''', sh_cat = ''all'', sh_preview = None, sh_installing = None\<rparr>"

definition shop_fetch_start :: "shop_state \<Rightarrow> shop_state \<times> effect list" where
  "shop_fetch_start s = (s\<lparr>sh_loading := True\<rparr>, [Request GET ''/api/marketplace/listings'' JNull])"

definition shop_fetch_settle :: "shop_listing list option response \<Rightarrow> shop_state \<Rightarrow> shop_state \<times> effect list" where
  "shop_fetch_settle r s = (case r of
       Resolved ls \<Rightarrow> (s\<lparr>sh_listings := or_else ls [], sh_loading := False\<rparr>, [])
     | Rejected e \<Rightarrow> (s\<lparr>sh_listings := [], sh_loading := False\<rparr>, [ConsoleError ''Failed to load marketplace listings:'']))"

text \<open>\<open>ok\<close> is the answer of the confirmation, which is only asked for elevated listings.\<close>

definition shop_install_start :: "bool \<Rightarrow> shop_listing \<Rightarrow> shop_state \<Rightarrow> shop_state \<times> effect list" where
  "shop_install_start ok l s =
     (if sl_requiresElevated l \<and> \<not> ok then (s, [])
      else (s\<lparr>sh_installing := Some (sl_id l)\<rparr>, [Request POST (''/api/marketplace/listings/'' @ sl_id l @ ''/install'') JNull]))"

definition shop_install_settle :: "shop_listing \<Rightarrow> unit response \<Rightarrow> shop_state \<Rightarrow> shop_state \<times> effect list" where
  "shop_install_settle l r s = (case r of
       Resolved x \<Rightarrow> (s\<lparr>sh_listings := map_where (\<lambda>k. sl_id k = sl_id l) (\<lambda>k. k\<lparr>sl_status := StInstalled\<rparr>) (sh_listings s),
         sh_installing := None\<rparr>, [])
     | Rejected e \<Rightarrow> (s\<lparr>sh_installing := None\<rparr>, [ConsoleError ''Failed to install listing:'']))"

definition shop_uninstall_start :: "bool \<Rightarrow> shop_listing \<Rightarrow> effect list" where
  "shop_uninstall_start ok l = (if \<not> ok then [] else [Request DELETE (''/api/marketplace/listings/'' @ sl_id l @ ''/install'') JNull])"

definition shop_uninstall_settle :: "shop_listing \<Rightarrow> unit response \<Rightarrow> shop_state \<Rightarrow> shop_state \<times> effect list" where
  "shop_uninstall_settle l r s = (case r of
       Resolved x \<Rightarrow> (s\<lparr>sh_listings := map_where (\<lambda>k. sl_id k = sl_id l) (\<lambda>k. k\<lparr>sl_status := StNotInstalled\<rparr>) (sh_listings s)\<rparr>, [])
     | Rejected e \<Rightarrow> (s, [ConsoleError ''Failed to uninstall listing:'']))"

definition shop_matches :: "string \<Rightarrow> string \<Rightarrow> shop_listing \<Rightarrow> bool" where
  "shop_matches q cat l =
     ((js_includes (js_lower (sl_name l)) (js_lower q) \<or> list_ex (\<lambda>t. js_includes t (js_lower q)) (sl_tags l))
      \<and> (cat = ''all'' \<or> sl_category l = cat))"

definition shop_filtered :: "shop_state \<Rightarrow> shop_listing list" where
  "shop_filtered s = filter (shop_matches (sh_search s) (sh_cat s)) (sh_listings s)"

datatype shop_event =
    ShLoad | ShLoaded "shop_listing list option response" | ShSearch string | ShCat string | ShPreview "shop_listing option"
  | ShInstall shop_listing bool | ShInstalled shop_listing "unit response" | ShPreviewInstall shop_listing bool
  | ShUninstall shop_listing bool | ShUninstalled shop_listing "unit response"

fun shop_step :: "shop_event \<Rightarrow> shop_state \<Rightarrow> shop_state \<times> effect list" where
  "shop_step ShLoad s = shop_fetch_start s"
| "shop_step (ShLoaded r) s = shop_fetch_settle r s"
| "shop_step (ShSearch t) s = (s\<lparr>sh_search := t\<rparr>, [])"
| "shop_step (ShCat t) s = (s\<lparr>sh_cat := t\<rparr>, [])"
| "shop_step (ShPreview l) s = (s\<lparr>sh_preview := l\<rparr>, [])"
| "shop_step (ShInstall l ok) s = shop_install_start ok l s"
| "shop_step (ShInstalled l r) s = shop_install_settle l r s"
| "shop_step (ShPreviewInstall l ok) s = (let (s1, es) = shop_install_start ok l s in (s1\<lparr>sh_preview := None\<rparr>, es))"
| "shop_step (ShUninstall l ok) s = (s, shop_uninstall_start ok l)"
| "shop_step (ShUninstalled l r) s = shop_uninstall_settle l r s"

text \<open>\<open>ok\<close> is what the user will answer when asked.\<close>

definition shop_card :: "bool \<Rightarrow> shop_state \<Rightarrow> shop_listing \<Rightarrow> shop_event view" where
  "shop_card ok s l = Group (sl_id l)
     (Text (CATEGORY_META (sl_category l)) # render_if (sl_requiresElevated l) (Text ''Elevated'')
      @ [Text (sl_name l), Text (''by '' @ sl_publisher l), Text (sl_description l)] @ map (\<lambda>t. Text (''#'' @ t)) (sl_tags l)
      @ render_if (str_or (sl_playbookPreview l) '''' \<noteq> '''') (Button ''Preview'' False (ShPreview (Some l)))
      @ [if sl_status l = StInstalled then Button ''Uninstall'' False (ShUninstall l ok)
         else Button (if sh_installing s = Some (sl_id l) then ''Installing'' else ''Install'') (sh_installing s = Some (sl_id l)) (ShInstall l ok)])"

definition shop_preview :: "bool \<Rightarrow> shop_state \<Rightarrow> shop_event view list" where
  "shop_preview ok s = (case sh_preview s of
       None \<Rightarrow> []
     | Some l \<Rightarrow> if str_or (sl_playbookPreview l) '''' = '''' then []
         else [Text (''Playbook Preview '' @ sl_name l), Button ''x'' False (ShPreview None), Text (str_or (sl_playbookPreview l) ''''),
               Button ''Close'' False (ShPreview None), Button ''Install'' False (ShPreviewInstall l ok)])"

definition shop_MarketplacePage_view :: "bool \<Rightarrow> shop_state \<Rightarrow> shop_event view list" where
  "shop_MarketplacePage_view ok s =
     [Text ''Marketplace'', Input (sh_search s) False ShSearch,
      Select (sh_cat s) [''all'', ''threat-intel'', ''soar-playbook'', ''detection-pack'', ''integration''] ShCat]
     @ (if sh_loading s then [LoadingSkeleton 4]
        else map (shop_card ok s) (shop_filtered s) @ render_if (length (shop_filtered s) = 0) (Text ''No listings match your search.''))
     @ shop_preview ok s"

section \<open>Settings of \<^verbatim>\<open>pages/settings\<close>\<close>

record api_key =
  ak_id :: string
  ak_name :: string
  ak_maskedValue :: string
  ak_createdAt :: string
  ak_lastUsed :: "string option"

record user_profile =
  up_name :: string
  up_email :: string
  up_role :: string
  up_tier :: string
  up_timezone :: string
  up_defaultDashboard :: string
  up_notify_email :: bool
  up_notify_inApp :: bool
  up_notify_critical :: bool
  up_apiKeys :: "api_key list"

definition MOCK_PROFILE :: user_profile where
  "MOCK_PROFILE = \<lparr>up_name = ''Principal Analyst'', up_email = ''analyst@soc.internal'', up_role = ''SOC Analyst'',
     up_tier = ''Tier 3 / System Engineer'', up_timezone = ''Asia/Manila'', up_defaultDashboard = ''overview'',
     up_notify_email = True, up_notify_inApp = True, up_notify_critical = True,
     up_apiKeys = [\<lparr>ak_id = ''k1'', ak_name = ''CI/CD Pipeline Key'', ak_maskedValue = ''sk-soc-****-****-****-abcd'',
        ak_createdAt = ''2026-06-01'', ak_lastUsed = Some ''2026-07-17T08:00:00Z''\<rparr>,
      \<lparr>ak_id = ''k2'', ak_name = ''SIEM Integration Key'', ak_maskedValue = ''sk-soc-****-****-****-ef12'',
        ak_createdAt = ''2026-05-15'', ak_lastUsed = None\<rparr>]\<rparr>"

definition TIMEZONES :: "string list" where
  "TIMEZONES = [''UTC'', ''Asia/Manila'', ''America/New_York'', ''America/Los_Angeles'', ''Europe/London'', ''Europe/Berlin'']"

definition key_json :: "api_key \<Rightarrow> json" where
  "key_json k = JObj [(''id'', JStr (ak_id k)), (''name'', JStr (ak_name k)), (''maskedValue'', JStr (ak_maskedValue k)),
     (''createdAt'', JStr (ak_createdAt k)), (''lastUsed'', case ak_lastUsed k of Some t \<Rightarrow> JStr t | None \<Rightarrow> JNull)]"

definition profile_json :: "user_profile \<Rightarrow> json" where
  "profile_json p = JObj [(''name'', JStr (up_name p)), (''email'', JStr (up_email p)), (''role'', JStr (up_role p)), (''tier'', JStr (up_tier p)),
     (''timezone'', JStr (up_timezone p)), (''defaultDashboard'', JStr (up_defaultDashboard p)),
     (''notifications'', JObj [(''email'', JBool (up_notify_email p)), (''inApp'', JBool (up_notify_inApp p)), (''critical'', JBool (up_notify_critical p))]),
     (''apiKeys'', JArr (map key_json (up_apiKeys p)))]"

text \<open>What the danger dialog will do, and the text typed into it: the dialog is mounted anew when none is open, and keeps its
  text otherwise.\<close>

datatype danger_action = RevokeAll | RevokeKey string string

record danger_modal =
  dm_phrase :: string
  dm_label :: string
  dm_action :: danger_action
  dm_input :: string

record tenant_modal =
  tm_tenantId :: string
  tm_openAI :: string
  tm_loading :: bool

record provision_result =
  pv_tenant_id :: string
  pv_clickhouse_db :: string
  pv_webhook_secret :: string

datatype settings_section = SecProfile | SecNotifications | SecApiKeys | SecPlatform | SecTenants

record settings_state =
  se_profile :: "user_profile option"
  se_loading :: bool
  se_saving :: bool
  se_saved :: bool
  se_section :: settings_section
  se_danger :: "danger_modal option"
  se_tenant :: "tenant_modal option"
  se_provision :: "provision_result option"

definition SettingsPage :: settings_state where
  "SettingsPage = \<lparr>se_profile = None, se_loading = True, se_saving = False, se_saved = False, se_section = SecProfile,
     se_danger = None, se_tenant = None, se_provision = None\<rparr>"

definition settings_fetch_start :: "settings_state \<Rightarrow> settings_state \<times> effect list" where
  "settings_fetch_start s = (s\<lparr>se_loading := True\<rparr>, [Request GET ''/data/settings'' JNull])"

definition settings_fetch_settle :: "user_profile response \<Rightarrow> settings_state \<Rightarrow> settings_state" where
  "settings_fetch_settle r s = s\<lparr>se_profile := Some (case r of Resolved p \<Rightarrow> p | Rejected e \<Rightarrow> MOCK_PROFILE), se_loading := False\<rparr>"

definition settings_save_start :: "settings_state \<Rightarrow> settings_state \<times> effect list" where
  "settings_save_start s = (s\<lparr>se_saving := True\<rparr>,
     [Request PATCH ''/data/settings'' (case se_profile s of Some p \<Rightarrow> profile_json p | None \<Rightarrow> JNull)])"

definition settings_save_settle :: "unit response \<Rightarrow> settings_state \<Rightarrow> settings_state \<times> effect list" where
  "settings_save_settle r s = (case r of
       Resolved x \<Rightarrow> (s\<lparr>se_saved := True, se_saving := False\<rparr>, [StartTimer 3000])
     | Rejected e \<Rightarrow> (s\<lparr>se_saving := False\<rparr>, [Alert ''Settings save failed - backend not yet wired.'']))"

definition danger_input :: "settings_state \<Rightarrow> string" where
  "danger_input s = (case se_danger s of Some d \<Rightarrow> dm_input d | None \<Rightarrow> '''')"

definition revokeAllSessions :: "settings_state \<Rightarrow> settings_state" where
  "revokeAllSessions s = s\<lparr>se_danger := Some \<lparr>dm_phrase = ''REVOKE ALL SESSIONS'',
     dm_label = ''This will immediately sign out all active sessions including your current one.'', dm_action = RevokeAll, dm_input = danger_input s\<rparr>\<rparr>"

definition revokeKey :: "string \<Rightarrow> string \<Rightarrow> settings_state \<Rightarrow> settings_state" where
  "revokeKey keyId keyName s = s\<lparr>se_danger := Some \<lparr>dm_phrase = keyName,
     dm_label = ''Revoking '' @ [CHR 0x22] @ keyName @ [CHR 0x22] @ '' will permanently invalidate it. Any integrations using it will fail.'',
     dm_action = RevokeKey keyId keyName, dm_input = danger_input s\<rparr>\<rparr>"

definition drop_key :: "string \<Rightarrow> user_profile \<Rightarrow> user_profile" where
  "drop_key i p = p\<lparr>up_apiKeys := filter (\<lambda>k. ak_id k \<noteq> i) (up_apiKeys p)\<rparr>"

definition danger_onConfirm :: "settings_state \<Rightarrow> settings_state \<times> effect list" where
  "danger_onConfirm s = (case se_danger s of
       None \<Rightarrow> (s, [])
     | Some d \<Rightarrow> (case dm_action d of
           RevokeAll \<Rightarrow> (s\<lparr>se_danger := None\<rparr>, [Request POST ''/data/auth/revoke-all-sessions'' JNull])
         | RevokeKey i n \<Rightarrow> (s\<lparr>se_danger := None, se_profile := map_option (drop_key i) (se_profile s)\<rparr>, [])))"

definition revokeAll_settle :: "unit response \<Rightarrow> effect list" where
  "revokeAll_settle r = (case r of Resolved x \<Rightarrow> [] | Rejected e \<Rightarrow> [Alert ''Revoke sessions - backend not yet wired.''])"

definition handleProvision_start :: "settings_state \<Rightarrow> settings_state \<times> effect list" where
  "handleProvision_start s = (case se_tenant s of
       None \<Rightarrow> (s, [])
     | Some t \<Rightarrow>
         if tm_tenantId t = '''' then (s, [Alert ''Tenant ID is required.''])
         else (s\<lparr>se_tenant := Some (t\<lparr>tm_loading := True\<rparr>)\<rparr>,
               [Request POST ''/api/admin/tenants'' (JObj [(''tenant_id'', JStr (tm_tenantId t)), (''openai_key'', JStr (tm_openAI t))])]))"

text \<open>The dialog's own state is gone when it was closed meanwhile.\<close>

definition handleProvision_settle :: "provision_result response \<Rightarrow> settings_state \<Rightarrow> settings_state \<times> effect list" where
  "handleProvision_settle r s = (case r of
       Resolved p \<Rightarrow> (s\<lparr>se_provision := Some p, se_tenant := None\<rparr>, [])
     | Rejected e \<Rightarrow> (s\<lparr>se_tenant := map_option (\<lambda>t. t\<lparr>tm_loading := False\<rparr>) (se_tenant s)\<rparr>,
         [Alert (''Failed to provision: '' @ str_or (err_detail e) (err_message e))]))"

datatype settings_event =
    SeLoad | SeLoaded "user_profile response" | SeSection settings_section | SeName string | SeEmail string | SeTimezone string
  | SeNotifyEmail | SeNotifyInApp | SeNotifyCritical | SeSave | SeSaved "unit response" | SeSavedTimer
  | SeRevokeAll | SeRevokeKey string string | SeNewKey | SeDangerInput string | SeDangerCancel | SeDangerConfirm
  | SeRevoked "unit response" | SeTenantOpen | SeTenantClose | SeTenantId string | SeOpenAI string | SeProvision
  | SeProvisioned "provision_result response"

fun settings_step :: "settings_event \<Rightarrow> settings_state \<Rightarrow> settings_state \<times> effect list" where
  "settings_step SeLoad s = settings_fetch_start s"
| "settings_step (SeLoaded r) s = (settings_fetch_settle r s, [])"
| "settings_step (SeSection x) s = (s\<lparr>se_section := x\<rparr>, [])"
| "settings_step (SeName t) s = (s\<lparr>se_profile := map_option (\<lambda>p. p\<lparr>up_name := t\<rparr>) (se_profile s)\<rparr>, [])"
| "settings_step (SeEmail t) s = (s\<lparr>se_profile := map_option (\<lambda>p. p\<lparr>up_email := t\<rparr>) (se_profile s)\<rparr>, [])"
| "settings_step (SeTimezone t) s = (s\<lparr>se_profile := map_option (\<lambda>p. p\<lparr>up_timezone := t\<rparr>) (se_profile s)\<rparr>, [])"
| "settings_step SeNotifyEmail s = (s\<lparr>se_profile := map_option (\<lambda>p. p\<lparr>up_notify_email := \<not> up_notify_email p\<rparr>) (se_profile s)\<rparr>, [])"
| "settings_step SeNotifyInApp s = (s\<lparr>se_profile := map_option (\<lambda>p. p\<lparr>up_notify_inApp := \<not> up_notify_inApp p\<rparr>) (se_profile s)\<rparr>, [])"
| "settings_step SeNotifyCritical s = (s\<lparr>se_profile := map_option (\<lambda>p. p\<lparr>up_notify_critical := \<not> up_notify_critical p\<rparr>) (se_profile s)\<rparr>, [])"
| "settings_step SeSave s = settings_save_start s"
| "settings_step (SeSaved r) s = settings_save_settle r s"
| "settings_step SeSavedTimer s = (s\<lparr>se_saved := False\<rparr>, [])"
| "settings_step SeRevokeAll s = (revokeAllSessions s, [])"
| "settings_step (SeRevokeKey i n) s = (revokeKey i n s, [])"
| "settings_step SeNewKey s = (s, [Alert ''Create Key - backend integration pending''])"
| "settings_step (SeDangerInput t) s = (s\<lparr>se_danger := map_option (\<lambda>d. d\<lparr>dm_input := t\<rparr>) (se_danger s)\<rparr>, [])"
| "settings_step SeDangerCancel s = (s\<lparr>se_danger := None\<rparr>, [])"
| "settings_step SeDangerConfirm s = danger_onConfirm s"
| "settings_step (SeRevoked r) s = (s, revokeAll_settle r)"
| "settings_step SeTenantOpen s = (s\<lparr>se_tenant := (case se_tenant s of Some t \<Rightarrow> Some t
     | None \<Rightarrow> Some \<lparr>tm_tenantId = '''', tm_openAI = '''', tm_loading = False\<rparr>)\<rparr>, [])"
| "settings_step SeTenantClose s = (s\<lparr>se_tenant := None\<rparr>, [])"
| "settings_step (SeTenantId t) s = (s\<lparr>se_tenant := map_option (\<lambda>m. m\<lparr>tm_tenantId := t\<rparr>) (se_tenant s)\<rparr>, [])"
| "settings_step (SeOpenAI t) s = (s\<lparr>se_tenant := map_option (\<lambda>m. m\<lparr>tm_openAI := t\<rparr>) (se_tenant s)\<rparr>, [])"
| "settings_step SeProvision s = handleProvision_start s"
| "settings_step (SeProvisioned r) s = handleProvision_settle r s"

definition DangerConfirmModal_view :: "danger_modal \<Rightarrow> settings_event view list" where
  "DangerConfirmModal_view d =
     [Clickable SeDangerCancel [], Text ''DANGER ZONE'', Text (dm_label d), Text (''Type '' @ dm_phrase d @ '' to confirm:''),
      Input (dm_input d) False SeDangerInput]
     @ render_if (js_trim (dm_input d) = dm_phrase d) (Text ''Confirmed'')
     @ [Button ''Cancel'' False SeDangerCancel, Button ''Proceed'' (js_trim (dm_input d) \<noteq> dm_phrase d) SeDangerConfirm]"

definition TenantModal_view :: "tenant_modal \<Rightarrow> settings_event view list" where
  "TenantModal_view t = [Clickable SeTenantClose [], Text ''Provision New Tenant'', Input (tm_tenantId t) False SeTenantId,
     Input (tm_openAI t) False SeOpenAI, Button ''Cancel'' (tm_loading t) SeTenantClose,
     Button (if tm_loading t then ''Provisioning...'' else ''Provision Tenant'') (tm_loading t) SeProvision]"

definition settings_sections :: "(string \<Rightarrow> string) \<Rightarrow> settings_state \<Rightarrow> user_profile \<Rightarrow> settings_event view list" where
  "settings_sections fmt s p = (case se_section s of
       SecProfile \<Rightarrow> [Text ''User Profile'', Input (up_name p) False SeName, Input (up_email p) False SeEmail,
         Text (up_role p @ '' - '' @ up_tier p), Button (if se_saving s then ''Saving'' else ''Save Changes'') (se_saving s) SeSave]
     | SecNotifications \<Rightarrow> [Text ''Notification Preferences'', Checkbox (up_notify_email p) SeNotifyEmail,
         Checkbox (up_notify_inApp p) SeNotifyInApp, Checkbox (up_notify_critical p) SeNotifyCritical,
         Button (if se_saving s then ''Saving'' else ''Save Preferences'') (se_saving s) SeSave]
     | SecApiKeys \<Rightarrow> [Text ''API Keys'', Button ''+ New Key'' False SeNewKey]
         @ map (\<lambda>k. Group (ak_id k) [Text (ak_name k), Text (ak_maskedValue k),
             Text (''Created: '' @ ak_createdAt k @ '' Last used: '' @ (case ak_lastUsed k of
               Some t \<Rightarrow> if t = '''' then ''Never'' else fmt t | None \<Rightarrow> ''Never'')),
             Button ''Revoke'' False (SeRevokeKey (ak_id k) (ak_name k))]) (up_apiKeys p)
     | SecTenants \<Rightarrow> [Text ''Tenant Administration'', Button ''+ Onboard Tenant'' False SeTenantOpen]
         @ (case se_provision s of None \<Rightarrow> []
            | Some r \<Rightarrow> [Text ''Tenant Provisioned Successfully'', Text (pv_tenant_id r), Text (pv_clickhouse_db r), Text (pv_webhook_secret r)])
     | SecPlatform \<Rightarrow> [Text ''Platform Preferences'', Select (up_timezone p) TIMEZONES SeTimezone,
         Button (if se_saving s then ''Saving'' else ''Save Platform Settings'') (se_saving s) SeSave,
         Text ''Danger Zone'', Text ''Revoke All Active Sessions'', Button ''Revoke All'' False SeRevokeAll])"

definition SettingsPage_view :: "(string \<Rightarrow> string) \<Rightarrow> settings_state \<Rightarrow> settings_event view list" where
  "SettingsPage_view fmt s = (case se_profile s of
       None \<Rightarrow> [LoadingSkeleton 3]
     | Some p \<Rightarrow> if se_loading s then [LoadingSkeleton 3]
         else Text ''Settings''
           # map (\<lambda>(x, l). Clickable (SeSection x) [Text l]) [(SecProfile, ''Profile''), (SecNotifications, ''Notifications''),
               (SecApiKeys, ''API Keys''), (SecTenants, ''Tenant Management''), (SecPlatform, ''Platform'')]
           @ render_if (se_saved s) (Text ''Settings saved successfully'')
           @ settings_sections fmt s p
           @ (case se_danger s of None \<Rightarrow> [] | Some d \<Rightarrow> DangerConfirmModal_view d)
           @ (case se_tenant s of None \<Rightarrow> [] | Some t \<Rightarrow> TenantModal_view t))"

section \<open>Facts\<close>

interpretation market_loader: loader_page mk_async "\<lambda>s. fst (market_execute s)" market_answer "\<lambda>x. x"
proof
  show "mk_async (market_answer r s) = execute_settle (case r of Resolved x \<Rightarrow> Resolved x | Rejected e \<Rightarrow> Rejected e) (mk_async s)"
    for r s by (cases r) (simp_all add: market_answer_def)
qed (simp add: market_execute_def)

definition market_ok :: "market_state \<Rightarrow> bool" where
  "market_ok s = (case mk_pending s of None \<Rightarrow> True | Some l \<Rightarrow> ml_requiresElevated l \<and> ml_status l = Not_installed)"

interpretation market_machine: machine_invariant MarketplacePage market_enabled "\<lambda>e s. fst (market_step e s)" market_ok
proof
  show "market_ok MarketplacePage" by (simp add: market_ok_def MarketplacePage_def)
  fix s e
  assume "market_ok s"
  then show "market_ok (fst (market_step e s))"
  proof (cases e)
    case (MkClick item)
    then show ?thesis using \<open>market_ok s\<close> by (simp add: market_click_def market_ok_def)
  next
    case (MkModal m)
    then show ?thesis using \<open>market_ok s\<close> by (cases m) (simp_all add: market_ok_def)
  next
    case (MkInstalled r)
    then show ?thesis by (cases r) (simp_all add: market_install_settle_def market_execute_def market_ok_def)
  qed (simp_all add: market_ok_def market_execute_def market_answer_def)
qed

lemma danger_confirm_click:
  assumes "SeDangerConfirm \<in> set (concat (map clicks (SettingsPage_view fmt s)))"
  shows "\<exists>d. se_danger s = Some d \<and> js_trim (dm_input d) = dm_phrase d"
proof -
  obtain p where p: "se_profile s = Some p" using assms by (cases "se_profile s") (simp_all add: SettingsPage_view_def)
  have "SeDangerConfirm \<notin> set (concat (map clicks (settings_sections fmt s p)))"
    by (cases "se_section s") (auto simp: settings_sections_def TIMEZONES_def split: option.splits)
  moreover have "SeDangerConfirm \<notin> set (concat (map clicks (TenantModal_view t)))" for t
    by (simp add: TenantModal_view_def)
  ultimately show ?thesis using assms p
    by (cases "se_danger s") (auto simp: SettingsPage_view_def DangerConfirmModal_view_def split: if_splits option.splits)
qed

definition revoke_all_request :: "http_method \<times> string \<times> json" where
  "revoke_all_request = (POST, ''/data/auth/revoke-all-sessions'', JNull)"

lemma provision_requests: "revoke_all_request \<notin> set (requests (snd (handleProvision_start s)))"
  by (simp add: handleProvision_start_def revoke_all_request_def split: option.split)

lemma settings_other_requests:
  assumes "e \<noteq> SeDangerConfirm"
  shows "revoke_all_request \<notin> set (requests (snd (settings_step e s)))"
proof (cases e)
  case SeProvision
  then show ?thesis using provision_requests by simp
next
  case (SeSaved r)
  then show ?thesis by (cases r) (simp_all add: settings_save_settle_def)
next
  case (SeRevoked r)
  then show ?thesis by (cases r) (simp_all add: revokeAll_settle_def)
next
  case (SeProvisioned r)
  then show ?thesis by (cases r) (simp_all add: handleProvision_settle_def)
qed (use assms in \<open>simp_all add: settings_fetch_start_def settings_save_start_def revoke_all_request_def\<close>)

lemma settings_other_keys:
  assumes "e \<noteq> SeDangerConfirm" and "\<And>r. e \<noteq> SeLoaded r"
  shows "map_option up_apiKeys (se_profile (fst (settings_step e s))) = map_option up_apiKeys (se_profile s)"
proof (cases e)
  case SeProvision
  then show ?thesis by (simp add: handleProvision_start_def split: option.split)
next
  case (SeSaved r)
  then show ?thesis by (cases r) (simp_all add: settings_save_settle_def)
next
  case (SeProvisioned r)
  then show ?thesis by (cases r) (simp_all add: handleProvision_settle_def)
qed (use assms in \<open>simp_all add: settings_fetch_start_def settings_save_start_def revokeAllSessions_def revokeKey_def
      option.map_comp comp_def\<close>)

lemma settings_no_answer_click: "SeLoaded r \<notin> set (concat (map clicks (SettingsPage_view fmt s)))"
proof (cases "se_profile s")
  case None
  then show ?thesis by (simp add: SettingsPage_view_def)
next
  case (Some p)
  have "SeLoaded r \<notin> set (concat (map clicks (settings_sections fmt s p)))"
    by (cases "se_section s") (auto simp: settings_sections_def TIMEZONES_def split: option.splits)
  moreover have "SeLoaded r \<notin> set (concat (map clicks (TenantModal_view t)))" for t
    by (simp add: TenantModal_view_def)
  moreover have "SeLoaded r \<notin> set (concat (map clicks (DangerConfirmModal_view d)))" for d
    by (simp add: DangerConfirmModal_view_def)
  ultimately show ?thesis using Some
    by (cases "se_danger s"; cases "se_tenant s") (auto simp: SettingsPage_view_def split: if_splits)
qed

section \<open>What the pages guarantee\<close>

definition example_listing :: "bool \<Rightarrow> marketplace_listing" where
  "example_listing e = \<lparr>ml_id = ''m1'', ml_name = ''Slack'', ml_publisher = '''', ml_category = '''', ml_status = Not_installed,
     ml_requiresElevated = e, ml_tags = [], ml_description = ''''\<rparr>"

text \<open>C31. The routed marketplace installs only what was approved: in every state it can reach, a request to install is for a
  listing that needs elevated rights, is not installed and is shown in the open approval dialog.\<close>

theorem market_install_approved:
  assumes "reachable MarketplacePage market_enabled (\<lambda>e s. fst (market_step e s)) s"
    and "(POST, u, b) \<in> set (requests (snd (market_step e s)))"
  shows "\<exists>l. mk_pending s = Some l \<and> ml_requiresElevated l \<and> ml_status l = Not_installed
    \<and> u = ''/utilities/marketplace/'' @ ml_id l @ ''/install''"
proof -
  have ok: "market_ok s" using market_machine.inv_reachable [OF assms(1)] .
  have "(POST, u, b) \<in> set (requests (market_install_start s))"
  proof (cases e)
    case (MkModal m)
    then show ?thesis using assms(2) by (cases m) simp_all
  next
    case (MkInstalled r)
    then show ?thesis using assms(2) by (cases r) (simp_all add: market_install_settle_def market_execute_def)
  qed (use assms(2) in \<open>auto simp: market_execute_def market_click_def split: if_splits\<close>)
  then show ?thesis using ok by (auto simp: market_install_start_def market_ok_def split: option.splits)
qed

theorem market_install_approved_witness:
  "\<exists>l. mk_pending (fst (market_step (MkClick (example_listing True)) (market_answer (Resolved [example_listing True]) MarketplacePage))) = Some l
     \<and> ml_requiresElevated l"
proof -
  let ?step = "\<lambda>e s. fst (market_step e s)" and ?l = "example_listing True"
  let ?s1 = "?step (MkLoaded (Resolved [?l])) MarketplacePage"
  let ?s2 = "?step (MkClick ?l) ?s1"
  have "reachable MarketplacePage market_enabled ?step ?s1" by (rule reach_step [OF reach_init]) (simp add: market_enabled_def)
  moreover have "market_enabled ?s1 (MkClick ?l)"
    by (simp add: market_enabled_def MarketplacePage_view_def loader_view_def error_shown_def market_answer_def execute_settle_def
        or_else_def listing_card_def example_listing_def)
  ultimately have r: "reachable MarketplacePage market_enabled ?step ?s2" by (rule reach_step)
  have "(POST, ''/utilities/marketplace/'' @ ''m1'' @ ''/install'', JNull) \<in> set (requests (snd (market_step (MkModal CmConfirm) ?s2)))"
    by (simp add: market_click_def example_listing_def market_install_start_def)
  from market_install_approved [OF r this] show ?thesis by auto
qed

text \<open>The install button of an ordinary listing does nothing: with no dialog open, clicking Install on a listing that is
  not installed and needs no elevated rights sends nothing and changes nothing, although the button is offered.\<close>

theorem market_plain_install_dead:
  assumes "mk_pending s = None" and "\<not> ml_requiresElevated l" and "ml_status l = Not_installed"
  shows "MkClick l \<in> set (clicks (listing_card l)) \<and> market_step (MkClick l) s = (s, [])"
  using assms by (simp add: listing_card_def market_click_def market_install_start_def)

theorem market_plain_install_dead_witness:
  "market_step (MkClick (example_listing False)) MarketplacePage = (MarketplacePage, [])"
  using market_plain_install_dead [of MarketplacePage "example_listing False"] by (simp add: example_listing_def MarketplacePage_def)

text \<open>C30. The danger zone of the settings page: whatever a click of the page asks the server to revoke, or drops from the key list,
  was confirmed by typing the phrase of the open dialog.\<close>

theorem danger_zone_confirmed:
  assumes "e \<in> set (concat (map clicks (SettingsPage_view fmt s)))"
    and "revoke_all_request \<in> set (requests (snd (settings_step e s)))
      \<or> map_option up_apiKeys (se_profile (fst (settings_step e s))) \<noteq> map_option up_apiKeys (se_profile s)"
  shows "\<exists>d. se_danger s = Some d \<and> js_trim (dm_input d) = dm_phrase d"
proof (cases "e = SeDangerConfirm")
  case True
  then show ?thesis using danger_confirm_click assms(1) by blast
next
  case False
  have "revoke_all_request \<notin> set (requests (snd (settings_step e s)))" using settings_other_requests [OF False] .
  moreover have "map_option up_apiKeys (se_profile (fst (settings_step e s))) = map_option up_apiKeys (se_profile s)"
  proof (rule settings_other_keys [OF False])
    show "e \<noteq> SeLoaded r" for r using settings_no_answer_click [of r fmt s] assms(1) by metis
  qed
  ultimately show ?thesis using assms(2) by blast
qed

theorem danger_zone_confirmed_witness:
  "\<exists>s d. SeDangerConfirm \<in> set (concat (map clicks (SettingsPage_view (\<lambda>t. t) s))) \<and> se_danger s = Some d
     \<and> js_trim (dm_input d) = dm_phrase d"
proof -
  let ?p = "''REVOKE ALL SESSIONS''"
  let ?s = "fst (settings_step (SeDangerInput ?p) (revokeAllSessions (settings_fetch_settle (Resolved MOCK_PROFILE) SettingsPage)))"
  have t: "js_trim ?p = ?p" by (simp add: js_trim_def is_js_space_def)
  have c: "SeDangerConfirm \<in> set (concat (map clicks (SettingsPage_view (\<lambda>t. t) ?s)))"
    by (simp add: SettingsPage_view_def settings_fetch_settle_def revokeAllSessions_def DangerConfirmModal_view_def t)
  have r: "revoke_all_request \<in> set (requests (snd (settings_step SeDangerConfirm ?s)))"
    by (simp add: danger_onConfirm_def revokeAllSessions_def revoke_all_request_def)
  from danger_zone_confirmed [OF c disjI1 [OF r]] c show ?thesis by blast
qed

text \<open>Revoking a key stays on the page: confirming it sends no request, although the dialog says the key is invalidated for
  good.\<close>

theorem revoke_key_is_local:
  "snd (danger_onConfirm (revokeKey i n s)) = []
   \<and> se_profile (fst (danger_onConfirm (revokeKey i n s))) = map_option (drop_key i) (se_profile s)"
  by (simp add: danger_onConfirm_def revokeKey_def)

text \<open>A failed load is answered by a made-up profile, and saving sends it: after a load that was rejected, Save patches the
  settings with the built-in example profile.\<close>

theorem failed_load_saves_mock:
  "snd (settings_step SeSave (fst (settings_step (SeLoaded (Rejected e)) s)))
     = [Request PATCH ''/data/settings'' (profile_json MOCK_PROFILE)]"
  by (simp add: settings_fetch_settle_def settings_save_start_def)

text \<open>C36. Logging out keeps the bearer token: whatever the server answers, what the log-out does to the local storage leaves the
  token that the API client attaches to its requests where it was.\<close>

theorem logout_keeps_bearer:
  "getValidToken atob json_parse now_ms (fold local_effect (handleLogout_settle r) storage)
     = (let (t, st, es) = getValidToken atob json_parse now_ms storage in (t, st(''token'' := None), es))
   \<and> Navigate ''/login'' \<in> set (handleLogout_settle r)"
proof -
  let ?t = "''token''" and ?i = "''internal_access_token''"
  have ne: "?t \<noteq> ?i" by simp
  have f: "fold local_effect (handleLogout_settle r) storage = storage(?t := None)"
    by (cases r) (simp_all add: handleLogout_settle_def)
  have k: "(storage(?t := None)) ?i = storage ?i" by simp
  have n: "Navigate ''/login'' \<in> set (handleLogout_settle r)" by (simp add: handleLogout_settle_def)
  show ?thesis
  proof (cases "storage ?i")
    case None
    then show ?thesis unfolding f getValidToken_def k using n by simp
  next
    case (Some tok)
    then show ?thesis unfolding f getValidToken_def k using n fun_upd_twist [OF ne, of storage None None] by simp
  qed
qed

end
