(* ===== verification/Agent_Panels.thy ===== *)
theory Agent_Panels
  imports Agent_Streams
begin

text \<open>
  Two panels next to the agent streams: the node resilience card of the overview
  (\<^verbatim>\<open>features/agent-ops/AgentResilienceStatus.tsx\<close>) with its reconnecting socket, and the threat intelligence panel of an
  investigation (\<^verbatim>\<open>features/investigations/ui/ThreatIntelPanel.tsx\<close>) with its timers. Sockets are numbered as in
  \<open>Agent_Streams\<close>; \<open>loc\<close>, \<open>toFixed1\<close> and \<open>fmt\<close> print numbers and times.
\<close>

section \<open>Node resilience\<close>

record resilience_state =
  rs_data :: resilience_data
  rs_connected :: bool
  rs_sockets :: sockets
  rs_timers :: nat
  rs_mounted :: bool

text \<open>The first render and the effect, which connects.\<close>

definition ops_AgentResilienceStatus :: "string \<Rightarrow> resilience_state" where
  "ops_AgentResilienceStatus now = \<lparr>rs_data = MOCK_INITIAL now, rs_connected = False, rs_sockets = so_new no_sockets, rs_timers = 0,
     rs_mounted = True\<rparr>"

definition resilience_onclose :: "nat \<Rightarrow> resilience_state \<Rightarrow> resilience_state" where
  "resilience_onclose i s = s\<lparr>rs_connected := False, rs_sockets := so_gone i (rs_sockets s), rs_timers := Suc (rs_timers s)\<rparr>"

definition resilience_connect :: "resilience_state \<Rightarrow> resilience_state" where
  "resilience_connect s = s\<lparr>rs_timers := rs_timers s - 1, rs_sockets := so_new (rs_sockets s)\<rparr>"

definition resilience_cleanup :: "resilience_state \<Rightarrow> resilience_state" where
  "resilience_cleanup s = s\<lparr>rs_mounted := False, rs_sockets := so_close_ref (rs_sockets s)\<rparr>"

datatype resilience_event = RsOpen nat | RsClose nat | RsError | RsMessage resilience_message | RsTimer | RsUnmount

primrec resilience_step :: "resilience_event \<Rightarrow> resilience_state \<Rightarrow> resilience_state" where
  "resilience_step (RsOpen i) s = s\<lparr>rs_connected := True\<rparr>"
| "resilience_step (RsClose i) s = resilience_onclose i s"
| "resilience_step RsError s = s\<lparr>rs_connected := False\<rparr>"
| "resilience_step (RsMessage d) s = s\<lparr>rs_data := resilience_onmessage d (rs_data s)\<rparr>"
| "resilience_step RsTimer s = resilience_connect s"
| "resilience_step RsUnmount s = resilience_cleanup s"

primrec resilience_enabled :: "resilience_state \<Rightarrow> resilience_event \<Rightarrow> bool" where
  "resilience_enabled s (RsOpen i) = (i \<in> set (so_open (rs_sockets s)))"
| "resilience_enabled s (RsClose i) = (i \<in> set (so_open (rs_sockets s)) \<union> set (so_closing (rs_sockets s)))"
| "resilience_enabled s RsError = (so_open (rs_sockets s) \<noteq> [])"
| "resilience_enabled s (RsMessage d) = (so_open (rs_sockets s) \<noteq> [])"
| "resilience_enabled s RsTimer = (0 < rs_timers s)"
| "resilience_enabled s RsUnmount = rs_mounted s"

definition node_status_text :: "node_health \<Rightarrow> string" where
  "node_status_text h = (case h of NodeHealthy \<Rightarrow> ''healthy'' | NodeDegraded \<Rightarrow> ''degraded'' | NodeFailed \<Rightarrow> ''failed'' | NodeIdle \<Rightarrow> ''idle'')"

text \<open>The width of the latency bar in per cent.\<close>

definition latency_width :: "(rat \<Rightarrow> rat) \<Rightarrow> nat \<Rightarrow> rat" where
  "latency_width fl ms = min (js_percent fl ms 2000) 100"

definition node_card :: "(string \<Rightarrow> string) \<Rightarrow> agent_node \<Rightarrow> unit view" where
  "node_card fmt n = Group (an_node n)
     ([Text (an_node n), Text (node_status_text (an_status n)), Text (nat_str (an_latencyMs n) @ ''ms'')]
      @ render_if (0 < an_fallbackRate n) (Text (nat_str (an_fallbackRate n) @ ''% fallback''))
      @ (let t = str_or (an_lastEventAt n) '''' in render_if (t \<noteq> '''') (Text (''Last: '' @ fmt t))))"

definition ops_AgentResilienceStatus_view ::
  "(rat \<Rightarrow> rat) \<Rightarrow> (nat \<Rightarrow> string) \<Rightarrow> (rat \<Rightarrow> string) \<Rightarrow> (string \<Rightarrow> string) \<Rightarrow> resilience_state \<Rightarrow> unit view list" where
  "ops_AgentResilienceStatus_view fl loc toFixed1 fmt s =
     [Text ''LangGraph Node Resilience'', Text (if rs_connected s then ''LIVE'' else ''MOCK''),
      Text (''Provider: '' @ rd_provider (rs_data s)), Text (''Processed: '' @ loc (rd_totalProcessed (rs_data s))),
      Text (''Fallback Rate: '' @ (if 0 < rd_totalProcessed (rs_data s) then toFixed1 (resilience_rate fl (rs_data s)) else ''0.0'') @ ''%'')]
     @ map (node_card fmt) (rd_nodes (rs_data s))
     @ map (\<lambda>n. Text (an_node n)) (rd_nodes (rs_data s))"

section \<open>Threat intelligence panel\<close>

text \<open>\<open>tp_timers\<close> are the addresses captured by the pending timers, oldest first: they all wait 1500 milliseconds, so they fire in
  the order in which they were started, and no effect clears them.\<close>

record intel_state =
  tp_ip :: string
  tp_data :: "intel option"
  tp_loading :: bool
  tp_timers :: "string list"

definition ThreatIntelPanel :: "string \<Rightarrow> intel_state" where
  "ThreatIntelPanel ip = \<lparr>tp_ip = ip, tp_data = None, tp_loading = True, tp_timers = [ip]\<rparr>"

definition intel_setIp :: "string \<Rightarrow> intel_state \<Rightarrow> intel_state" where
  "intel_setIp ip s = (if ip = tp_ip s then s else s\<lparr>tp_ip := ip, tp_loading := True, tp_timers := tp_timers s @ [ip]\<rparr>)"

definition intel_timer :: "intel_state \<Rightarrow> intel_state" where
  "intel_timer s = (case tp_timers s of
     [] \<Rightarrow> s | ip # ips \<Rightarrow> s\<lparr>tp_data := Some (ThreatIntelPanel_timeout ip), tp_loading := False, tp_timers := ips\<rparr>)"

datatype intel_event = TpIp string | TpTimer

primrec intel_step :: "intel_event \<Rightarrow> intel_state \<Rightarrow> intel_state" where
  "intel_step (TpIp ip) s = intel_setIp ip s"
| "intel_step TpTimer s = intel_timer s"

definition ThreatIntelPanel_view :: "(rat \<Rightarrow> string) \<Rightarrow> intel_state \<Rightarrow> unit view list" where
  "ThreatIntelPanel_view num s =
     (if tp_loading s then [Text ''loading'']
      else case tp_data s of None \<Rightarrow> []
        | Some d \<Rightarrow>
            [Text ''SOAR Threat Intel'', Text (''Target Entity: '' @ it_source_ip d), Text (num (it_overall_risk_score d) @ ''/10''),
             Text (''Reputation Score '' @ nat_str (it_reputation d)), Text (''Correlated Pulses '' @ nat_str (it_pulse_count d))]
            @ map (\<lambda>t. Text (''#'' @ t)) (it_tags d)
            @ [Text (if it_listed d then ''BLACKLISTED'' else ''CLEAN'')]
            @ (let f = str_or (it_malware_family d) '''' in render_if (f \<noteq> '''') (Text (''Malware Signature '' @ f)))
            @ [Text (if it_misp_correlation d then ''KNOWN THREAT'' else ''NO MATCH'')])"

section \<open>Facts\<close>

interpretation resilience_machine:
  machine_invariant "ops_AgentResilienceStatus now" resilience_enabled resilience_step
    "\<lambda>s. so_wf (rs_sockets s) \<and> so_count (rs_sockets s) + rs_timers s = 1"
proof (unfold_locales, goal_cases)
  case 1
  have "so_wf no_sockets" "so_count no_sockets = 0" by (simp_all add: so_wf_def so_count_def no_sockets_def)
  then show ?case by (simp add: ops_AgentResilienceStatus_def so_new_count)
next
  case (2 s e)
  then show ?case
  proof (cases e)
    case (RsClose i)
    then have "Suc (so_count (so_gone i (rs_sockets s))) = so_count (rs_sockets s)" "so_wf (so_gone i (rs_sockets s))"
      using 2 so_gone_count [of "rs_sockets s" i] by simp_all
    then show ?thesis using 2 RsClose by (simp add: resilience_onclose_def)
  next
    case RsTimer
    then show ?thesis using 2 so_new_count [of "rs_sockets s"] by (simp add: resilience_connect_def)
  next
    case RsUnmount
    then show ?thesis using 2 so_close_ref_count [of "rs_sockets s"] by (simp add: resilience_cleanup_def)
  qed simp_all
qed

definition intel_ok :: "intel_state \<Rightarrow> bool" where
  "intel_ok s = (if tp_timers s = [] then tp_data s = Some (ThreatIntelPanel_timeout (tp_ip s)) \<and> \<not> tp_loading s
     else last (tp_timers s) = tp_ip s)"

interpretation intel_machine: machine_invariant "ThreatIntelPanel ip" "\<lambda>s e. True" intel_step intel_ok
proof (unfold_locales, goal_cases)
  case 1
  show ?case by (simp add: intel_ok_def ThreatIntelPanel_def)
next
  case (2 s e)
  then show ?case by (cases e; cases "tp_timers s") (auto simp: intel_ok_def intel_setIp_def intel_timer_def split: if_splits)
qed

section \<open>What the panels guarantee\<close>

text \<open>The resilience card never gives up and never stops: in every state it can reach there is exactly one socket that is open
  or closing or one pending reconnection, also after it was unmounted.\<close>

theorem resilience_one_connection:
  assumes "reachable (ops_AgentResilienceStatus now) resilience_enabled resilience_step s"
  shows "so_count (rs_sockets s) + rs_timers s = 1"
  using resilience_machine.inv_reachable [OF assms] by simp

theorem resilience_one_connection_witness:
  "so_count (rs_sockets (resilience_step RsTimer (resilience_step (RsClose 0) (resilience_step RsUnmount (ops_AgentResilienceStatus ''''))))) = 1"
proof -
  let ?s0 = "ops_AgentResilienceStatus ''''" and ?R = "reachable (ops_AgentResilienceStatus '''') resilience_enabled resilience_step"
  let ?s1 = "resilience_step RsUnmount ?s0"
  let ?s2 = "resilience_step (RsClose 0) ?s1"
  let ?s3 = "resilience_step RsTimer ?s2"
  note d = ops_AgentResilienceStatus_def resilience_cleanup_def resilience_onclose_def resilience_connect_def so_new_def no_sockets_def
    so_close_ref_def so_close_def so_gone_def
  have 1: "?R ?s1" by (rule reach_step [OF reach_init]) (simp add: d)
  have 2: "?R ?s2" by (rule reach_step [OF 1]) (simp add: d)
  have 3: "?R ?s3" by (rule reach_step [OF 2]) (simp add: d)
  have "rs_timers ?s3 = 0" by (simp add: d)
  then show ?thesis using resilience_one_connection [OF 3] by simp
qed

text \<open>The latency bar and the fallback rate are percentages, the latter as long as no more events fell back than were
  processed.\<close>

theorem resilience_bars_bounded:
  assumes "ieee fl" and "rd_fallbackTotal d \<le> rd_totalProcessed d"
  shows "0 \<le> latency_width fl ms \<and> latency_width fl ms \<le> 100 \<and> 0 \<le> resilience_rate fl d \<and> resilience_rate fl d \<le> 100"
proof -
  have "0 \<le> js_percent fl ms 2000"
  proof -
    have "fl 0 = 0" using assms(1) unfolding ieee_def by (metis abs_zero of_int_0 zero_le_numeral zero_le_power)
    moreover have "fl 0 \<le> fl (of_nat ms / 2000)" using assms(1) unfolding ieee_def by simp
    ultimately have "0 \<le> fl (of_nat ms / 2000) * 100" by simp
    then have "fl 0 \<le> fl (fl (of_nat ms / 2000) * 100)" using assms(1) unfolding ieee_def by blast
    then show ?thesis using \<open>fl 0 = 0\<close> by (simp add: js_percent_def)
  qed
  then show ?thesis using js_percent_bounds [OF assms] by (simp add: latency_width_def resilience_rate_def)
qed

theorem resilience_bars_bounded_witness: "latency_width (\<lambda>x. x) 5000 \<le> 100 \<and> resilience_rate (\<lambda>x. x) (MOCK_INITIAL '''') \<le> 100"
  using resilience_bars_bounded [OF ieee_exact, of "MOCK_INITIAL ''''" 5000] by (simp add: MOCK_INITIAL_def)

text \<open>C34. The intelligence panel ends on the current address: whatever sequence of address changes and timers happens, once no timer
  is pending the panel shows the data of the address it was given last, and is not loading.\<close>

theorem intel_ends_current:
  assumes "reachable (ThreatIntelPanel ip) (\<lambda>s e. True) intel_step s" and "tp_timers s = []"
  shows "tp_data s = Some (ThreatIntelPanel_timeout (tp_ip s)) \<and> \<not> tp_loading s"
  using intel_machine.inv_reachable [OF assms(1)] assms(2) by (simp add: intel_ok_def)

theorem intel_ends_current_witness:
  "tp_data (intel_step TpTimer (ThreatIntelPanel ''10.0.0.1'')) = Some (ThreatIntelPanel_timeout ''10.0.0.1'')"
proof -
  have "reachable (ThreatIntelPanel ''10.0.0.1'') (\<lambda>s e. True) intel_step (intel_step TpTimer (ThreatIntelPanel ''10.0.0.1''))"
    by (rule reach_step [OF reach_init]) simp
  from intel_ends_current [OF this] show ?thesis by (simp add: intel_timer_def ThreatIntelPanel_def)
qed

lemma intel_shows_previous:
  "ip \<noteq> ip' \<Longrightarrow> tp_ip (intel_step TpTimer (intel_step (TpIp ip') (ThreatIntelPanel ip))) = ip'
     \<and> map_option it_source_ip (tp_data (intel_step TpTimer (intel_step (TpIp ip') (ThreatIntelPanel ip)))) = Some ip
     \<and> \<not> tp_loading (intel_step TpTimer (intel_step (TpIp ip') (ThreatIntelPanel ip)))"
  by (simp add: intel_setIp_def intel_timer_def ThreatIntelPanel_def ThreatIntelPanel_timeout_def)

end
