(* ===== verification/Spec2Isabelle.thy ===== *)
theory Spec2Isabelle
  imports Command_Center Investigation_Graph Playbooks Network_Map Alert_Rules Isolation Hosts Incidents Assets Detection EDR
    Dashboards Admin Agent_Panels
begin

text \<open>
  Verification of the SOC console, the React application under \<^verbatim>\<open>src/soc-frontend/src\<close>. File names below are relative
  to that directory.

  \<^bold>\<open>The program.\<close> A single-page application. \<^verbatim>\<open>App.tsx\<close> maps addresses to pages inside a session guard; the shell (side bar,
  command palette, notifications) navigates between them. Every page loads its data through \<^verbatim>\<open>useAsyncState\<close> and the HTTP client
  \<^verbatim>\<open>apiClient\<close>, which attaches the session and reacts to 401 and 403; live data arrives over sockets. Actions on the
  infrastructure (isolating a host, disabling a response rule, approving what the agent proposes, wiping data) are meant to pass
  a dialog in which the analyst types the name of the target. The backends are reached over HTTP and sockets only.

  \<^bold>\<open>How it is modelled.\<close> The state hooks of a component are the fields of a \<open>record\<close>; each handler is a function from the state
  to the new state and a list of effects (requests, navigation, storage, alerts). A handler that awaits is two functions,
  \<open>_start\<close> up to the await and \<open>_settle\<close> from it on, where \<open>_settle\<close> takes the closure of the call and the state at the time of the
  answer, so that a stale closure overwrites what the code overwrites. A failed request is \<open>Rejected e\<close>. A component's markup is a
  list of views (texts, inputs, buttons with their disabled flag and their handler's event), and \<open>clicks\<close> lists the events a user can
  trigger: runs are sequences of offered events, answers, timers and socket messages in any order. Strings are lists of
  Latin-1 characters, counts are integers, scores and times are rationals or integers of milliseconds. What the
  browser or a package computes is an argument: \<open>pick\<close> (react-router's choice of a route, with its documented behaviour as hypothesis
  \<open>documented_router\<close>), \<open>atob\<close>, \<open>json_parse\<close> and \<open>stringify\<close>, the date and number formats \<open>fmt\<close>, \<open>loc\<close>, \<open>toFixed1\<close>, \<open>fl\<close> and \<open>num\<close>,
  the clock, the random \<open>draw\<close> and \<open>epss\<close>, \<open>valid_url\<close>, the answer of \<^verbatim>\<open>window.confirm\<close>. No definition uses fuel: the
  breadth-first search \<open>bfs_loop\<close> is a terminating \<open>function\<close> (identifiers not yet visited, then queue length), everything else is
  structural.

  \<^bold>\<open>Theories.\<close>
  \<^item> \<open>SOC_Prelude\<close>: JavaScript strings, numbers, sets and sorting as the code uses them, effects, views, the \<open>reachable\<close>
    states of a machine; locales \<open>js_set_spec\<close> (interpreted on the ordered sets the pages keep) and \<open>machine_invariant\<close>.
    \<open>SOC_Types\<close>: \<^verbatim>\<open>types/index.ts\<close> and \<^verbatim>\<open>shared/types/index.ts\<close>.
  \<^item> \<open>Shared_Hooks\<close>: \<^verbatim>\<open>shared/hooks\<close> and \<^verbatim>\<open>hooks\<close>. Locales \<open>async_loader\<close>, \<open>keyed_queue\<close>, \<open>bounded_log\<close>, \<open>bounded_batch_log\<close>. The loader's
    answer is characterised, polling keeps exactly one timer or request alive until unmount, the socket reconnects with a bounded
    delay, the log keeps the last 1000 lines.
  \<^item> \<open>Shared_UI\<close>: the table, skeleton, error and empty states of \<^verbatim>\<open>shared/ui\<close>; locale \<open>loader_page\<close>, interpreted by the pages
    that load, show or offer a retry.
  \<^item> \<open>Api_Auth\<close>: \<^verbatim>\<open>shared/api\<close>, \<^verbatim>\<open>shared/auth\<close>, \<^verbatim>\<open>shared/hooks/useAuthApi.ts\<close>, \<^verbatim>\<open>features/auth\<close>: when a page is shown, when a token is sent, what
    401 and 403 do, and that logging in again returns to the page the session ended on.
  \<^item> \<open>Two_Key\<close>: \<^verbatim>\<open>shared/ui/TwoKeyModal\<close> and the store \<^verbatim>\<open>InvestigationContext.tsx\<close>; locale \<open>two_key_gate\<close>, interpreted on the dialog with its
    store, on the rules page (\<open>Alert_Rules\<close>) and on the isolation page (\<open>Isolation\<close>, which has a dialog of its own): along every
    run a guarded request is sent only in a state in which the confirmation was typed.
  \<^item> \<open>App_Routes\<close>: \<^verbatim>\<open>App.tsx\<close>, \<^verbatim>\<open>shared/config\<close>, \<^verbatim>\<open>layouts\<close>: no page without a session, every address of the shell resolves.
  \<^item> \<open>Command_Center\<close>, \<open>Investigation_Graph\<close>, \<open>Agent_Streams\<close>, \<open>Agent_Panels\<close>: \<^verbatim>\<open>features/investigations\<close> and \<^verbatim>\<open>features/agent-ops\<close>. The alert
    list refines a map from identifiers to alerts (interpretation of \<open>keyed_queue\<close>), node updates that arrive before the snapshot are not
    lost, an answer streamed in pieces is assembled, the panels end on the data of the current address.
  \<^item> \<open>Playbooks\<close>: \<^verbatim>\<open>features/playbooks\<close>, the store and the sandbox run over its sockets.
  \<^item> \<open>Network_Map\<close>, \<open>Assets\<close>: \<^verbatim>\<open>pages/assets\<close>. The blast radius equals the set of nodes connected to the selected one; the inventory's
    ownership invariant; the vulnerabilities are in order of a bounded risk.
  \<^item> \<open>Alert_Rules\<close>, \<open>Detection\<close>: \<^verbatim>\<open>pages/detection\<close>. Optimistic switching with rollback; recent searches refine the history of
    queries, indicator classification agrees with a reference grammar, the CSV export reads back.
  \<^item> \<open>Isolation\<close>, \<open>Hosts\<close>, \<open>EDR\<close>: \<^verbatim>\<open>pages/endpoints\<close>. \<open>Incidents\<close>: \<^verbatim>\<open>pages/incidents\<close>. \<open>Dashboards\<close>: \<^verbatim>\<open>pages/dashboards\<close>.
    \<open>Admin\<close>: \<^verbatim>\<open>pages/marketplace\<close>, \<^verbatim>\<open>pages/settings\<close> and \<^verbatim>\<open>pages/utilities\<close>, both the routed and the unrouted versions.
  \<^item> This theory: what needs several of them, the links of one page that the route table of another opens, and the approval on the
    investigation dashboard, which does not use the two-key store.

  Several theorems state behaviour that the code has and that its comments or its own design contradict:
  \<open>dashboard_skips_two_key\<close>, \<open>audit_link_not_found\<close>, \<open>isolation_double_post\<close>, \<open>bulk_update_keeps_only_last\<close>, \<open>edr_type_filter_empty\<close>,
  \<open>logout_keeps_bearer\<close>.

  \<^bold>\<open>Not modelled.\<close> Style classes, colours and icons outside the painters, animation, charts, keyboard focus, the drawing library
  react-force-graph and resize observers (they do not change the state the properties are about); \<^verbatim>\<open>shared/ui/Badge.tsx\<close>,
  \<^verbatim>\<open>shared/ui/StatusDot.tsx\<close>, \<^verbatim>\<open>shared/theme\<close> and \<^verbatim>\<open>shared/config/eventMeta.ts\<close> (style tables), the placeholder
  \<^verbatim>\<open>pages/profile/ProfilePage.tsx\<close>, \<^verbatim>\<open>pages/documentation/DocumentationPage.tsx\<close> and the SDK help texts of the fleet page (static text),
  \<^verbatim>\<open>data/mockData.ts\<close> and \<^verbatim>\<open>main.tsx\<close>; the Go and Python services, deployment files and tests. Characters outside Latin-1 are out of scope.
\<close>

section \<open>Across the components\<close>

lemma host_links:
  assumes "HmGo u \<in> set (concat (map clicks (HostManagementPage_view fl fmt hub s)))"
  shows "\<exists>i. u = ''/incidents/active?entity='' @ i \<or> u = ''/endpoints/isolation?entity='' @ i
    \<or> u = ''/endpoints/isolation?host='' @ i"
proof -
  have "HmGo u \<notin> set (concat (map clicks (hosts_header fl s)))" "HmGo u \<notin> set (concat (map clicks (hosts_toolbar s)))"
    "HmGo u \<notin> set (concat (map clicks (hosts_bulk_bar s)))" "HmGo u \<notin> set (concat (map clicks (hosts_enroll_dialog s)))"
    "HmGo u \<notin> set (concat (map clicks (hosts_rotate_dialog s)))"
    by (auto simp: hosts_header_def hosts_toolbar_def hosts_bulk_bar_def hosts_enroll_dialog_def hosts_rotate_dialog_def
        Let_def split: option.splits if_splits)
  then obtain h where "HmGo u \<in> set (clicks (host_row fmt hub s h))"
    using assms by (auto simp: HostManagementPage_view_def split: if_splits)
  then show ?thesis by (auto simp: host_row_def split: option.splits if_splits)
qed

lemma alert_links:
  assumes "CcOpen u \<in> set (concat (map clicks (CommandCenter_view ac lc now c)))"
  shows "\<exists>a \<in> set (cc_alerts c). u = ''/investigations/'' @ al_id a"
  using assms by (auto simp: CommandCenter_view_def SystemHealthBar_view_def alert_row_def split: if_splits)

lemma investigation_route:
  assumes "documented_router pick" and "CHR ''/'' \<notin> set i" and "i \<noteq> ''''"
  shows "app_route pick (''/investigations/'' @ i) = Some (rt ProtectedLayout ''/investigations/:id'' (Page ''InvestigationDashboard''))"
proof -
  let ?u = "''/investigations/'' @ i"
  have "js_split (CHR ''/'') i = [i]" using assms(2) by (induction i) auto
  then have seg: "js_split (CHR ''/'') ?u = ['''', ''investigations'', i]" by simp
  have "pattern_matches ''/investigations/:id'' ?u"
    unfolding pattern_matches_def seg using assms(3) by (simp add: dynamic_segment_def)
  moreover have "''/investigations/:id'' \<in> set (map rt_path App)" by (simp add: App_def rt_def)
  moreover have "''/investigations/:id'' \<noteq> ''*''" by simp
  ultimately obtain p where p: "pick (map rt_path App) ?u = Some p" and n: "p \<noteq> ''*''"
    and m: "p \<in> set (map rt_path App)" "pattern_matches p ?u"
    using picked_specific [OF assms(1)] by blast
  have only: "list_all (\<lambda>r. segments_match (js_split (CHR ''/'') (rt_path r)) ['''', ''investigations'', i]
      \<longrightarrow> rt_path r = ''/investigations/:id'') App"
    by (simp add: App_def rt_def dynamic_segment_def)
  have "segments_match (js_split (CHR ''/'') p) ['''', ''investigations'', i]"
    using m(2) n unfolding pattern_matches_def seg by blast
  moreover obtain r where "r \<in> set App" and "p = rt_path r" using m(1) unfolding set_map by blast
  ultimately have "p = ''/investigations/:id''" using only unfolding list_all_iff by blast
  then show ?thesis using p by (simp add: app_route_def App_def rt_def)
qed

text \<open>The static pages that other pages link to.\<close>

definition linked_pages :: "(string \<times> string) list" where
  "linked_pages = [(''/incidents/active'', ''ActiveIncidentsPage''), (''/incidents/closed'', ''ClosedIncidentsPage''),
     (''/endpoints/isolation'', ''IsolationControlsPage''), (''/assets/vulnerabilities'', ''VulnerabilitiesPage'')]"

lemma linked_page_facts:
  "list_all (\<lambda>(p, e). static_pattern p \<and> p \<in> set (map rt_path App)
     \<and> (case find (\<lambda>r. rt_path r = p) App of None \<Rightarrow> False
        | Some r \<Rightarrow> rt_layout r = ProtectedLayout \<and> rt_element r = Page e)) linked_pages"
  by (simp add: linked_pages_def static_pattern_def dynamic_segment_def App_def rt_def)

lemma linked_page_route:
  assumes "documented_router pick" and "(p, e) \<in> set linked_pages"
  shows "\<exists>r. app_route pick p = Some r \<and> rt_layout r = ProtectedLayout \<and> rt_element r = Page e"
proof -
  have f: "static_pattern p" "p \<in> set (map rt_path App)"
    "case find (\<lambda>r. rt_path r = p) App of None \<Rightarrow> False | Some r \<Rightarrow> rt_layout r = ProtectedLayout \<and> rt_element r = Page e"
    using linked_page_facts assms(2) unfolding list_all_iff by blast+
  then show ?thesis using picked_route [OF assms(1) f(2,1)] by (cases "find (\<lambda>r. rt_path r = p) App") auto
qed






section \<open>Links of the dashboards\<close>

lemma executive_links:
  "ExGo u \<in> set (concat (map clicks (ExecutiveDashboardPage_view num ok s))) \<Longrightarrow>
     u = ''/incidents/closed?timeRange=30d'' \<or> u = ''/incidents/active?category=phishing,malware''"
proof -
  assume a: "ExGo u \<in> set (concat (map clicks (ExecutiveDashboardPage_view num ok s)))"
  have d: "ExGo u \<notin> set (concat (map clicks (executive_dialog ok s)))" by (auto simp: executive_dialog_def split: if_splits)
  obtain k where "as_data (ex_async s) = Some k"
    using loader_view_clicks [OF a [unfolded ExecutiveDashboardPage_view_def]] by (cases "as_data (ex_async s)") (auto simp: EmptyState_def)
  then show ?thesis
    using loader_view_clicks [OF a [unfolded ExecutiveDashboardPage_view_def]] d by (auto simp: KpiCard_def split: option.splits if_splits)
qed

lemma compliance_links:
  assumes "as_data (cp_async s) = Some (compliance_load fl fws)"
    and "CpLink u \<in> set (concat (map clicks (CompliancePage_view num fmt s)))"
  shows "\<exists>i. u = ''/assets/vulnerabilities?control='' @ i"
proof -
  have d: "CpLink u \<notin> set (concat (map clicks (compliance_dialog s)))" by (auto simp: compliance_dialog_def split: if_splits)
  have "\<exists>f \<in> set (compliance_load fl fws). CpLink u \<in> set (clicks (framework_card num fmt s f))"
    using loader_view_clicks [OF assms(2) [unfolded CompliancePage_view_def]] d assms(1) by (auto simp: or_else_def split: if_splits)
  then obtain c where "CpLink u \<in> set (clicks (control_row fmt (control_load c)))"
    by (auto simp: framework_card_def compliance_load_def split: if_splits)
  then have "ec_evidenceLink (control_load c) = Some u" by (simp only: control_row_links)
  then show ?thesis by (auto simp: control_load_def compliance_control.defs enhanced_control.defs split: if_splits)
qed

lemma edr_links: "EdGo u \<in> set (concat (map clicks (EdrLogsPage_view fmt s))) \<Longrightarrow> \<exists>h. u = isolation_link h"
  by (auto simp: EdrLogsPage_view_def edr_filters_def edr_row_def edr_tree_dialog_def split: if_splits option.splits)



text \<open>The auditor's link leads nowhere: the path of the link that the compliance page generates has no route, so an auditor
  who opens it gets the not-found page of the signed-in layout.\<close>

theorem audit_link_not_found:
  assumes "documented_router pick"
  shows "app_route pick (takeWhile (\<lambda>x. x \<noteq> CHR ''?'') (drop (length origin) (audit_link origin rnd36)))
    = Some (rt ProtectedLayout ''*'' (Page ''NotFoundPage''))"
proof -
  have path: "takeWhile (\<lambda>x. x \<noteq> CHR ''?'') (drop (length origin) (audit_link origin rnd36)) = ''/audit/read-only''"
    by (simp add: audit_link_def)
  have "\<not> pattern_matches p ''/audit/read-only''" if "p \<in> set (map rt_path App)" and "p \<noteq> ''*''" for p
  proof
    assume "pattern_matches p ''/audit/read-only''"
    from App_pattern_cases [OF that this, unfolded App_segments] show False by (simp add: dynamic_segment_def)
  qed
  then show ?thesis unfolding path by (rule picked_fallback [OF assms])
qed

theorem audit_link_not_found_witness:
  "app_route pick_route (takeWhile (\<lambda>x. x \<noteq> CHR ''?'') (drop (length ''https://'') (audit_link ''https://'' ''0.abcdefghij'')))
     = Some (rt ProtectedLayout ''*'' (Page ''NotFoundPage''))"
  by (rule audit_link_not_found [OF pick_route_documented])

end
